(* ===== verification/Fat_Prelude.thy ===== *)
theory Fat_Prelude
  imports Main "HOL-Library.Word"
begin

unbundle bit_operations_syntax

section \<open>Shared vocabulary of the FAT file system development\<close>

text \<open>
  This theory holds what every component of the model shares: the machine types of the C code
  (\<open>uint8\<close> to \<open>ino_t\<close>) as words, the kernel's status codes, the little-endian
  accessors of \<open>util.h\<close>, and the generic lemmas on words, lists and function updates that the
  component proofs use through the collections \<open>status\<close> and \<open>wordnat\<close>.

  Conventions. An unsigned C integer is a word of its width, so that C's wrap-around is the
  word's. A signed value that the code only compares and returns (\<open>status_t\<close>, \<open>int32\<close>,
  \<open>off_t\<close>, \<open>time_t\<close>) is an \<open>int\<close>; where the code converts between the two, the conversion is
  written out (\<open>sint\<close>, \<open>word_of_int\<close>).
\<close>

named_theorems status \<open>the numeric values of the kernel's status codes\<close>
named_theorems wordnat \<open>reading word operations as operations on natural numbers\<close>

type_synonym uint8 = "8 word"
type_synonym uint16 = "16 word"
type_synonym uint32 = "32 word"
type_synonym ino_t = "64 word"
type_synonym status_t = int
type_synonym bytes = "uint8 list"

subsection \<open>Status codes (headers/os/support/Errors.h)\<close>

definition B_OK :: status_t where [status]: "B_OK = 0"
definition B_ERROR :: status_t where [status]: "B_ERROR = -1"
definition ENOMEM :: status_t where [status]: "ENOMEM = -0x80000000"
definition B_IO_ERROR :: status_t where [status]: "B_IO_ERROR = -0x80000000 + 1"
definition B_BAD_VALUE :: status_t where [status]: "B_BAD_VALUE = -0x80000000 + 5"
definition B_BAD_ADDRESS :: status_t where [status]: "B_BAD_ADDRESS = -0x80000000 + 0x1301"
definition EPERM :: status_t where [status]: "EPERM = -0x80000000 + 15"
definition EEXIST :: status_t where [status]: "EEXIST = -0x80000000 + 0x6002"
definition ENOENT :: status_t where [status]: "ENOENT = -0x80000000 + 0x6003"
definition ENAMETOOLONG :: status_t where [status]: "ENAMETOOLONG = -0x80000000 + 0x6004"
definition ENOTDIR :: status_t where [status]: "ENOTDIR = -0x80000000 + 0x6005"
definition ENOTEMPTY :: status_t where [status]: "ENOTEMPTY = -0x80000000 + 0x6006"
definition B_DEVICE_FULL :: status_t where [status]: "B_DEVICE_FULL = -0x80000000 + 0x6007"
definition EROFS :: status_t where [status]: "EROFS = -0x80000000 + 0x6008"
definition EISDIR :: status_t where [status]: "EISDIR = -0x80000000 + 0x6009"
definition E2BIG :: status_t where [status]: "E2BIG = -0x80000000 + 0x7001"
definition ENOSYS :: status_t where [status]: "ENOSYS = -0x80000000 + 0x7009"
definition B_BUFFER_OVERFLOW :: status_t where [status]: "B_BUFFER_OVERFLOW = -0x80000000 + 0x7029"

abbreviation EINVAL :: status_t where "EINVAL \<equiv> B_BAD_VALUE"
abbreviation EIO :: status_t where "EIO \<equiv> B_IO_ERROR"
abbreviation ENOSPC :: status_t where "ENOSPC \<equiv> B_DEVICE_FULL"

subsection \<open>Little-endian accessors (util.h)\<close>

definition read16 :: "bytes \<Rightarrow> nat \<Rightarrow> uint32" where
  "read16 buffer off = ucast (buffer ! off) + 0x100 * ucast (buffer ! (off + 1))"

definition read32 :: "bytes \<Rightarrow> nat \<Rightarrow> uint32" where
  "read32 buffer off = ucast (buffer ! off) + 0x100 * ucast (buffer ! (off + 1))
     + 0x10000 * ucast (buffer ! (off + 2)) + 0x1000000 * ucast (buffer ! (off + 3))"

text \<open>The byte \<open>k\<close> of a value stored little-endian, and the stores of two and four bytes.\<close>

definition byte_of :: "uint32 \<Rightarrow> nat \<Rightarrow> uint8" where
  "byte_of v k = ucast (drop_bit (8 * k) v)"

definition write16 :: "bytes \<Rightarrow> nat \<Rightarrow> uint32 \<Rightarrow> bytes" where
  "write16 buffer off v = buffer[off := byte_of v 0, off + 1 := byte_of v 1]"

definition write32 :: "bytes \<Rightarrow> nat \<Rightarrow> uint32 \<Rightarrow> bytes" where
  "write32 buffer off v =
     buffer[off := byte_of v 0, off + 1 := byte_of v 1, off + 2 := byte_of v 2,
            off + 3 := byte_of v 3]"

subsection \<open>Generic lemmas\<close>

lemma length_write16 [simp]: "length (write16 b i v) = length b"
  by (simp add: write16_def)

lemma length_write32 [simp]: "length (write32 b i v) = length b"
  by (simp add: write32_def)

lemma unat_add_no_wrap [wordnat]:
  "unat (a::'a::len word) + unat b < 2 ^ LENGTH('a) \<Longrightarrow> unat (a + b) = unat a + unat b"
  by (simp add: unat_add_lem)

lemma unat_mult_no_wrap [wordnat]:
  "unat (a::'a::len word) * unat b < 2 ^ LENGTH('a) \<Longrightarrow> unat (a * b) = unat a * unat b"
  by (simp add: unat_mult_lem)

lemma unat_ucast_8_32 [simp]: "unat (ucast (x::uint8) :: uint32) = unat x"
proof -
  have "unat x < 2 ^ LENGTH(8)" by (rule unsigned_less)
  then have "unat x < 2 ^ 32" by simp
  then show ?thesis by (simp add: unsigned_ucast_eq take_bit_nat_eq_self)
qed

lemma odd_unat: "(c :: uint32) AND 1 \<noteq> 0 \<longleftrightarrow> odd (unat c)"
proof -
  have "c AND 1 = 0 \<longleftrightarrow> unat (c mod 2) = 0" by (simp only: and_one_eq unat_eq_zero)
  then show ?thesis by (simp add: unat_mod even_iff_mod_2_eq_zero)
qed

lemma unat_of_nat_32: "n < 2 ^ 32 \<Longrightarrow> unat (of_nat n :: uint32) = n"
  by (simp add: unat_of_nat)

lemma bit_uint8_beyond: "8 \<le> n \<Longrightarrow> \<not> bit (x :: uint8) n"
  using bit_imp_le_length by fastforce

lemma bit_uint8_less: "bit (x :: uint8) n \<Longrightarrow> n < 8"
  using bit_imp_le_length by fastforce

text \<open>Bytes of a word: reading little-endian is assembling bits, and inverts \<open>byte_of\<close>.\<close>

lemma le16_or: "(ucast (lo::uint8) + 0x100 * ucast hi :: uint32) = ucast lo OR push_bit 8 (ucast (hi::uint8))"
proof -
  have "(0x100 * ucast hi :: uint32) = push_bit 8 (ucast hi)"
    by (simp add: push_bit_eq_mult mult.commute)
  moreover have "(ucast lo :: uint32) AND push_bit 8 (ucast hi) = 0"
    by (rule bit_word_eqI) (auto simp: bit_simps bit_uint8_beyond)
  ultimately show ?thesis by (simp add: disjunctive_add_eq_or)
qed

lemma le32_or:
  "(ucast (a::uint8) + 0x100 * ucast (b::uint8) + 0x10000 * ucast (c::uint8) + 0x1000000 * ucast (d::uint8) :: uint32)
     = ucast a OR push_bit 8 (ucast b) OR push_bit 16 (ucast c) OR push_bit 24 (ucast d)"
proof -
  have c: "(0x10000 * ucast c :: uint32) = push_bit 16 (ucast c)"
    and d: "(0x1000000 * ucast d :: uint32) = push_bit 24 (ucast d)"
    by (simp_all add: push_bit_eq_mult mult.commute)
  have "(ucast a OR push_bit 8 (ucast b)) AND push_bit 16 (ucast c :: uint32) = 0"
    by (rule bit_word_eqI) (auto simp: bit_simps bit_uint8_beyond)
  moreover have "(ucast a OR push_bit 8 (ucast b) OR push_bit 16 (ucast c)) AND push_bit 24 (ucast d :: uint32) = 0"
    by (rule bit_word_eqI) (auto simp: bit_simps bit_uint8_beyond)
  ultimately show ?thesis by (simp add: le16_or c d disjunctive_add_eq_or or.assoc)
qed

lemma mask_numerals:
  "(0xf :: uint32) = mask 4" "(0xff :: uint32) = mask 8" "(0xfff :: uint32) = mask 12"
  "(0xffff :: uint32) = mask 16" "(0x0fffffff :: uint32) = mask 28" "(0xf000 :: uint32) = push_bit 12 (mask 4)"
  by (simp_all add: mask_eq_exp_minus_1 push_bit_eq_mult)

lemma le16_byte_of:
  "(ucast (byte_of v 0) + 0x100 * ucast (byte_of v 1) :: uint32) = v AND 0xffff"
  unfolding le16_or mask_numerals byte_of_def
  by (rule bit_word_eqI) (auto simp: bit_simps)

lemma le32_byte_of:
  "(ucast (byte_of v 0) + 0x100 * ucast (byte_of v 1) + 0x10000 * ucast (byte_of v 2)
     + 0x1000000 * ucast (byte_of v 3) :: uint32) = v"
  unfolding le32_or byte_of_def
proof (rule bit_word_eqI)
  fix n :: nat
  assume n: "n < LENGTH(32)"
  consider "n < 8" | "8 \<le> n" "n < 16" | "16 \<le> n" "n < 24" | "24 \<le> n" "n < 32"
    using n by fastforce
  then show "bit (ucast (ucast (drop_bit (8 * 0) v) :: uint8) OR push_bit 8 (ucast (ucast (drop_bit (8 * 1) v) :: uint8))
      OR push_bit 16 (ucast (ucast (drop_bit (8 * 2) v) :: uint8))
      OR push_bit 24 (ucast (ucast (drop_bit (8 * 3) v) :: uint8)) :: uint32) n = bit v n"
    by cases (auto simp: bit_simps)
qed

end
