(* ===== verification/Volume.thy ===== *)
theory Volume
  imports Fat_Prelude
begin

section \<open>The volume: data structures of dosfs.h and the kernel services they rest on\<close>

text \<open>
  The records of \<open>dosfs.h\<close> (the fields of a \<open>vnode\<close> carry the prefix \<open>vn_\<close>): \<open>vnode\<close>, \<open>nspace\<close> (the mounted volume) with its two embedded
  tables \<open>vcache\<close> and \<open>dlist\<close>, and the macros that encode vnode ids. The kernel's block cache,
  which every component reaches through \<open>vol->fBlockCache\<close>, is represented by its contract:
  \<open>blocks\<close> gives the current contents of each block (\<open>None\<close> for a block whose read fails, so that
  the get functions return \<open>NULL\<close>) and \<open>refs\<close> counts the references that are held, which
  \<open>block_cache_get\<close> takes and \<open>block_cache_put\<close> returns; \<open>discards\<close> logs the block ranges that
  \<open>block_cache_discard\<close> was told to forget, latest first. \<open>nodes\<close> is the kernel's table of the vnodes that are in memory, other than the
  root, and \<open>removed\<close> lists those that are marked for removal. Two further fields stand for the C
  machine: \<open>fault\<close> records that the code dereferenced \<open>NULL\<close>, ran into a loop that does not
  end or wrote outside an array, and \<open>mem\<close> holds the outcomes of the next calls of \<open>malloc\<close> (all later calls succeed).
  Locks are not represented: every entry point holds the volume lock for its whole duration.
\<close>

subsection \<open>Vnode ids (dosfs.h)\<close>

definition ARTIFICIAL_VNID_BITS :: ino_t where "ARTIFICIAL_VNID_BITS = push_bit 60 6"
definition DIR_CLUSTER_VNID_BITS :: ino_t where "DIR_CLUSTER_VNID_BITS = push_bit 60 4"
definition DIR_INDEX_VNID_BITS :: ino_t where "DIR_INDEX_VNID_BITS = 0"
definition INVALID_VNID_BITS_MASK :: ino_t where "INVALID_VNID_BITS_MASK = push_bit 60 9"

definition IS_DIR_CLUSTER_VNID :: "ino_t \<Rightarrow> bool" where
  "IS_DIR_CLUSTER_VNID vnid \<longleftrightarrow> vnid AND ARTIFICIAL_VNID_BITS = DIR_CLUSTER_VNID_BITS"

definition IS_DIR_INDEX_VNID :: "ino_t \<Rightarrow> bool" where
  "IS_DIR_INDEX_VNID vnid \<longleftrightarrow> vnid AND ARTIFICIAL_VNID_BITS = DIR_INDEX_VNID_BITS"

definition IS_ARTIFICIAL_VNID :: "ino_t \<Rightarrow> bool" where
  "IS_ARTIFICIAL_VNID vnid \<longleftrightarrow> vnid AND ARTIFICIAL_VNID_BITS = ARTIFICIAL_VNID_BITS"

definition IS_INVALID_VNID :: "ino_t \<Rightarrow> bool" where
  "IS_INVALID_VNID vnid \<longleftrightarrow>
     (\<not> IS_DIR_CLUSTER_VNID vnid \<and> \<not> IS_DIR_INDEX_VNID vnid \<and> \<not> IS_ARTIFICIAL_VNID vnid)
     \<or> vnid AND INVALID_VNID_BITS_MASK \<noteq> 0"

definition GENERATE_DIR_INDEX_VNID :: "ino_t \<Rightarrow> uint32 \<Rightarrow> ino_t" where
  "GENERATE_DIR_INDEX_VNID dircluster index =
     DIR_INDEX_VNID_BITS OR push_bit 32 dircluster OR ucast index"

definition GENERATE_DIR_CLUSTER_VNID :: "ino_t \<Rightarrow> uint32 \<Rightarrow> ino_t" where
  "GENERATE_DIR_CLUSTER_VNID dircluster filecluster =
     DIR_CLUSTER_VNID_BITS OR push_bit 32 dircluster OR ucast filecluster"

definition CLUSTER_OF_DIR_CLUSTER_VNID :: "ino_t \<Rightarrow> uint32" where
  "CLUSTER_OF_DIR_CLUSTER_VNID vnid = ucast (vnid AND 0xffffffff)"

definition INDEX_OF_DIR_INDEX_VNID :: "ino_t \<Rightarrow> uint32" where
  "INDEX_OF_DIR_INDEX_VNID vnid = ucast (vnid AND 0xffffffff)"

definition DIR_OF_VNID :: "ino_t \<Rightarrow> uint32" where
  "DIR_OF_VNID vnid = ucast (signed_drop_bit 32 vnid AND ucast (NOT (0xf0000000 :: uint32)))"

subsection \<open>Structures\<close>

record vnode =
  vn_vnid :: ino_t
  vn_dir_vnid :: ino_t
  vn_disk_image :: uint32
  vn_iteration :: uint32
  vn_sindex :: uint32
  vn_eindex :: uint32
  vn_cluster :: uint32
  vn_mode :: uint32
  vn_st_size :: int
  vn_st_time :: int
  vn_st_crtim :: int
  vn_end_cluster :: uint32
  vn_mime :: "bytes option"
  vn_dirty :: bool
  vn_filename :: "bytes option"

definition FAT_READ_ONLY :: uint32 where "FAT_READ_ONLY = 1"
definition FAT_HIDDEN :: uint32 where "FAT_HIDDEN = 2"
definition FAT_SYSTEM :: uint32 where "FAT_SYSTEM = 4"
definition FAT_VOLUME :: uint32 where "FAT_VOLUME = 8"
definition FAT_SUBDIR :: uint32 where "FAT_SUBDIR = 16"
definition FAT_ARCHIVE :: uint32 where "FAT_ARCHIVE = 32"

record vcache_entry =
  ve_vnid :: ino_t
  ve_loc :: ino_t

text \<open>
  The two hash tables of the vnode id cache: a bucket is the chain of entries linked through
  \<open>next_vnid\<close> (\<open>by_vnid\<close>) or \<open>next_loc\<close> (\<open>by_loc\<close>), read as a list from its head. An entry is
  never modified after it is linked, so the two chains may hold it by value.
\<close>

record vcache =
  cur_vnid :: ino_t
  cache_size :: uint32
  by_vnid :: "vcache_entry list list"
  by_loc :: "vcache_entry list list"

text \<open>The directory list: \<open>vnid_list\<close> is the array, of \<open>allocated\<close> cells (\<open>None\<close> for \<open>NULL\<close>).\<close>

record dlist =
  entries :: uint32
  allocated :: uint32
  vnid_list :: "ino_t list option"

record bcache =
  blocks :: "int \<Rightarrow> bytes option"
  refs :: "int \<Rightarrow> nat"
  discards :: "(int \<times> nat) list"

datatype fault = Null_dereference | Endless_loop | Out_of_bounds

record nspace =
  flags :: uint32
  fBlockCache :: bcache
  bytes_per_sector :: uint32
  sectors_per_cluster :: uint32
  reserved_sectors :: uint32
  fat_count :: uint32
  root_entries_count :: uint32
  total_sectors :: uint32
  sectors_per_fat :: uint32
  media_descriptor :: uint8
  fsinfo_sector :: uint16
  total_clusters :: uint32
  free_clusters :: uint32
  fat_bits :: uint8
  fat_mirrored :: bool
  active_fat :: uint8
  root_start :: uint32
  root_sectors :: uint32
  root_vnode :: vnode
  vol_entry :: int
  vol_label :: bytes
  data_start :: uint32
  last_allocated :: uint32
  beos_vnid :: ino_t
  respect_disk_image :: bool
  fs_flags :: uint32
  vcache :: vcache
  dlist :: dlist
  nodes :: "ino_t \<Rightarrow> vnode option"
  removed :: "ino_t list"
  fault :: "fault option"
  mem :: "bool list"

subsection \<open>The C machine: faults and allocation\<close>

definition raise_fault :: "fault \<Rightarrow> nspace \<Rightarrow> nspace" where
  "raise_fault f vol = (case fault vol of None \<Rightarrow> vol\<lparr>fault := Some f\<rparr> | Some _ \<Rightarrow> vol)"

text \<open>\<open>malloc\<close>: whether the allocation succeeds, and the volume with that outcome used up.\<close>

definition malloc :: "nspace \<Rightarrow> bool \<times> nspace" where
  "malloc vol = (case mem vol of [] \<Rightarrow> (True, vol) | ok # rest \<Rightarrow> (ok, vol\<lparr>mem := rest\<rparr>))"

subsection \<open>The block cache contract\<close>

text \<open>
  \<open>block_cache_get\<close> and \<open>block_cache_get_writable\<close> return a pointer to the cached block, here its
  block number, or \<open>NULL\<close>. All pointers to one block are the same memory.
\<close>

definition block_cache_get :: "nspace \<Rightarrow> int \<Rightarrow> int option \<times> nspace" where
  "block_cache_get vol b =
     (let bc = fBlockCache vol in
      case blocks bc b of
        None \<Rightarrow> (None, vol)
      | Some _ \<Rightarrow> (Some b, vol\<lparr>fBlockCache := bc\<lparr>refs := (refs bc)(b := refs bc b + 1)\<rparr>\<rparr>))"

definition block_cache_put :: "nspace \<Rightarrow> int \<Rightarrow> nspace" where
  "block_cache_put vol b =
     (let bc = fBlockCache vol in
      vol\<lparr>fBlockCache := bc\<lparr>refs := (refs bc)(b := refs bc b - 1)\<rparr>\<rparr>)"

definition block_data :: "nspace \<Rightarrow> int \<Rightarrow> bytes" where
  "block_data vol b = (case blocks (fBlockCache vol) b of None \<Rightarrow> [] | Some bs \<Rightarrow> bs)"

definition store_block :: "nspace \<Rightarrow> int \<Rightarrow> bytes \<Rightarrow> nspace" where
  "store_block vol b bs =
     (let bc = fBlockCache vol in vol\<lparr>fBlockCache := bc\<lparr>blocks := (blocks bc)(b \<mapsto> bs)\<rparr>\<rparr>)"

text \<open>
  \<open>block_cache_discard\<close> makes the cache forget blocks that the file system no longer uses; no
  block in use changes.
\<close>

definition block_cache_discard :: "nspace \<Rightarrow> int \<Rightarrow> nat \<Rightarrow> nspace" where
  "block_cache_discard vol b n =
     (let bc = fBlockCache vol in vol\<lparr>fBlockCache := bc\<lparr>discards := (b, n) # discards bc\<rparr>\<rparr>)"

text \<open>
  The idiom \<open>block_cache_get_writable_etc\<close>, \<open>memcpy\<close>, \<open>block_cache_put\<close>, which the code uses
  without checking for \<open>NULL\<close>.
\<close>

definition overwrite_block :: "nspace \<Rightarrow> int \<Rightarrow> bytes \<Rightarrow> nspace" where
  "overwrite_block vol b bs =
     (let (p, vol) = block_cache_get vol b in
      case p of
        None \<Rightarrow> raise_fault Null_dereference vol
      | Some b' \<Rightarrow>
          block_cache_put (store_block vol b' (take (unat (bytes_per_sector vol)) bs)) b)"

end
