(* ===== verification/Fat_Table.thy ===== *)
theory Fat_Table
  imports Volume
begin

section \<open>The file allocation table: fat.c\<close>

text \<open>
  The functions of \<open>fat.c\<close> that read and write the table itself, in the order of the source:
  \<open>mirror_fats\<close>, the FAT32 free-cluster counter, the multiplexed \<open>_fat_ioctl_\<close> with its cluster
  loop, and the accessors built on it. The C function \<open>_fat_ioctl_\<close> calls itself (to link an
  allocated cluster) and \<open>clear_fat_chain\<close> (to undo a failed allocation), which calls it back. Its
  body is therefore a definition over those two callees; \<open>fat_ioctl_rw\<close> closes it for the actions
  that reach neither, and \<open>fat_ioctl\<close> ties the knot.
\<close>

definition END_FAT_ENTRY :: int where "END_FAT_ENTRY = 0x0fffffff"
definition BAD_FAT_ENTRY :: int where "BAD_FAT_ENTRY = 0x0ffffff1"

text \<open>
  The macro \<open>IS_DATA_CLUSTER\<close>, used on a \<open>uint32\<close> and (compared with 2 as a signed number, with
  the upper bound as an unsigned one) on an \<open>int32\<close>.
\<close>

definition IS_DATA_CLUSTER :: "nspace \<Rightarrow> uint32 \<Rightarrow> bool" where
  "IS_DATA_CLUSTER vol c \<longleftrightarrow> 2 \<le> c \<and> c < total_clusters vol + 2"

definition IS_DATA_CLUSTER_int32 :: "nspace \<Rightarrow> int \<Rightarrow> bool" where
  "IS_DATA_CLUSTER_int32 vol c \<longleftrightarrow> 2 \<le> c \<and> word_of_int c < total_clusters vol + 2"

definition IS_FIXED_ROOT :: "uint32 \<Rightarrow> bool" where
  "IS_FIXED_ROOT c \<longleftrightarrow> c = 1"

definition mirror_fats :: "nspace \<Rightarrow> uint32 \<Rightarrow> bytes \<Rightarrow> nspace" where
  "mirror_fats vol sector buffer =
     (if \<not> fat_mirrored vol then vol
      else
        let sector = sector - ucast (active_fat vol) * sectors_per_fat vol in
        fold (\<lambda>i v.
            if i = unat (active_fat vol) then v
            else overwrite_block v (uint (sector + of_nat i * sectors_per_fat vol)) buffer)
          [0..<unat (fat_count vol)] vol)"

subsection \<open>Counting free clusters on FAT32\<close>

function count_block_fat32 :: "bytes \<Rightarrow> nat \<Rightarrow> nat \<Rightarrow> int \<Rightarrow> int" where
  "count_block_fat32 block bps i count =
     (if i < bps
      then count_block_fat32 block bps (i + 4)
             (if read32 block i AND 0x0fffffff = 0 then count + 1 else count)
      else count)"
  by pat_completeness auto
termination
  by (relation "measure (\<lambda>(block, bps, i, count). bps - i)") auto

declare count_block_fat32.simps [simp del]

fun count_free_loop_fat32 :: "nat \<Rightarrow> nspace \<Rightarrow> uint32 \<Rightarrow> int \<Rightarrow> int \<times> nspace" where
  "count_free_loop_fat32 0 vol cur_sector count = (count, vol)"
| "count_free_loop_fat32 (Suc k) vol cur_sector count =
     (let (p, vol) = block_cache_get vol (uint cur_sector) in
      case p of
        None \<Rightarrow> (B_IO_ERROR, vol)
      | Some b \<Rightarrow>
          let count =
            count_block_fat32 (block_data vol b) (unat (bytes_per_sector vol)) 0 count
          in count_free_loop_fat32 k (block_cache_put vol (uint cur_sector)) (cur_sector + 1) count)"

definition count_free_clusters_fat32 :: "nspace \<Rightarrow> int \<times> nspace" where
  "count_free_clusters_fat32 vol =
     count_free_loop_fat32 (unat (sectors_per_fat vol)) vol
       (reserved_sectors vol + ucast (active_fat vol) * sectors_per_fat vol) 0"

subsection \<open>The multiplexer\<close>

datatype fat_action =
  IOCTL_COUNT_FREE | IOCTL_GET_ENTRY | IOCTL_SET_ENTRY | IOCTL_ALLOCATE_N_ENTRIES

text \<open>
  The local variables of \<open>_fat_ioctl_\<close>; \<open>block1\<close> is the pointer to the block that is held.
\<close>

record ioctl_state =
  io_vol :: nspace
  io_result :: int
  io_n :: uint32
  io_first :: uint32
  io_last :: uint32
  io_cluster :: uint32
  io_sector :: uint32
  io_offset :: uint32
  io_value :: uint32
  io_block1 :: "int option"

definition ioctl_fat12_value :: "uint32 \<Rightarrow> uint8 \<Rightarrow> uint8 \<Rightarrow> uint32" where
  "ioctl_fat12_value cluster lo hi =
     (let value = ucast lo + 0x100 * ucast hi;
          value = (if cluster AND 1 \<noteq> 0 then drop_bit 4 value else value AND 0xfff)
      in if value > 0xff0 then value OR 0x0ffff000 else value)"

definition ioctl_fat12_masks :: "uint32 \<Rightarrow> uint32 \<Rightarrow> uint32 \<times> uint32" where
  "ioctl_fat12_masks cluster endOfChainMarker =
     (if cluster AND 1 \<noteq> 0 then (push_bit 4 (endOfChainMarker AND 0xfff), 0xf)
      else (endOfChainMarker AND 0xfff, 0xf000))"

definition ioctl_writes :: "fat_action \<Rightarrow> uint32 \<Rightarrow> bool" where
  "ioctl_writes action value \<longleftrightarrow>
     (action = IOCTL_ALLOCATE_N_ENTRIES \<and> value = 0) \<or> action = IOCTL_SET_ENTRY"

definition update_byte :: "nspace \<Rightarrow> int \<Rightarrow> nat \<Rightarrow> uint8 \<Rightarrow> nspace" where
  "update_byte vol b i v = store_block vol b ((block_data vol b)[i := v])"

text \<open>One iteration on a 12-bit table: the flag tells that the code jumped to \<open>bi\<close>.\<close>

definition ioctl_fat12 ::
  "fat_action \<Rightarrow> uint32 \<Rightarrow> int \<Rightarrow> ioctl_state \<Rightarrow> ioctl_state \<times> bool" where
  "ioctl_fat12 action endOfChainMarker b1 s =
     (let vol = io_vol s; offset = io_offset s; cluster = io_cluster s;
          cross = (offset = bytes_per_sector vol - 1);
          (p2, vol) = (if cross then block_cache_get vol (uint (io_sector s + 1)) else (Some b1, vol))
      in case p2 of
        None \<Rightarrow> (s\<lparr>io_vol := vol, io_result := B_IO_ERROR\<rparr>, True)
      | Some b2 \<Rightarrow>
        let sector = (if cross then io_sector s + 1 else io_sector s);
            i1 = unat offset; i2 = (if cross then 0 else unat (offset + 1));
            value = (if action \<noteq> IOCTL_SET_ENTRY
                     then ioctl_fat12_value cluster (block_data vol b1 ! i1) (block_data vol b2 ! i2)
                     else io_value s);
            (ormask, andmask) = ioctl_fat12_masks cluster endOfChainMarker;
            vol = (if ioctl_writes action value
                   then
                     let vol = update_byte vol b1 i1
                           ((block_data vol b1 ! i1 AND ucast (andmask AND 0xff)) OR ucast (ormask AND 0xff));
                         vol = (if cross then mirror_fats vol (sector - 1) (block_data vol b1) else vol)
                     in update_byte vol b2 i2
                          ((block_data vol b2 ! i2 AND ucast (drop_bit 8 andmask)) OR ucast (drop_bit 8 ormask))
                   else vol)
        in if cross
           then (s\<lparr>io_vol := block_cache_put vol (uint (sector - 1)), io_value := value,
                   io_sector := sector, io_offset := (if cluster AND 1 \<noteq> 0 then 1 else 0),
                   io_block1 := Some b2\<rparr>, False)
           else (s\<lparr>io_vol := vol, io_value := value,
                   io_offset := offset + (if cluster AND 1 \<noteq> 0 then 2 else 1)\<rparr>, False))"

definition ioctl_fat16 :: "fat_action \<Rightarrow> uint32 \<Rightarrow> int \<Rightarrow> ioctl_state \<Rightarrow> ioctl_state" where
  "ioctl_fat16 action endOfChainMarker b1 s =
     (let vol = io_vol s; offset = io_offset s;
          value = (if action \<noteq> IOCTL_SET_ENTRY
                   then let value = read16 (block_data vol b1) (unat offset)
                        in if value > 0xfff0 then value OR 0x0fff0000 else value
                   else io_value s);
          vol = (if ioctl_writes action value
                 then store_block vol b1 (write16 (block_data vol b1) (unat offset) endOfChainMarker)
                 else vol)
      in s\<lparr>io_vol := vol, io_value := value, io_offset := offset + 2\<rparr>)"

definition ioctl_fat32 :: "fat_action \<Rightarrow> uint32 \<Rightarrow> int \<Rightarrow> ioctl_state \<Rightarrow> ioctl_state" where
  "ioctl_fat32 action endOfChainMarker b1 s =
     (let vol = io_vol s; offset = io_offset s;
          value = (if action \<noteq> IOCTL_SET_ENTRY
                   then read32 (block_data vol b1) (unat offset) AND 0x0fffffff
                   else io_value s);
          vol = (if ioctl_writes action value
                 then store_block vol b1 (write32 (block_data vol b1) (unat offset) endOfChainMarker)
                 else vol)
      in s\<lparr>io_vol := vol, io_value := value, io_offset := offset + 4\<rparr>)"

definition ioctl_entry ::
  "fat_action \<Rightarrow> uint32 \<Rightarrow> int \<Rightarrow> ioctl_state \<Rightarrow> ioctl_state \<times> bool" where
  "ioctl_entry action endOfChainMarker b1 s =
     (if fat_bits (io_vol s) = 12 then ioctl_fat12 action endOfChainMarker b1 s
      else if fat_bits (io_vol s) = 16 then (ioctl_fat16 action endOfChainMarker b1 s, False)
      else if fat_bits (io_vol s) = 32 then (ioctl_fat32 action endOfChainMarker b1 s, False)
      else (s, False))"

text \<open>What the action does with the entry; \<open>set_rec\<close> is the recursive call that sets an entry.\<close>

definition ioctl_dispatch ::
  "(nspace \<Rightarrow> uint32 \<Rightarrow> int \<Rightarrow> int \<times> nspace) \<Rightarrow> fat_action \<Rightarrow> int \<Rightarrow> ioctl_state \<Rightarrow>
   ioctl_state \<times> bool" where
  "ioctl_dispatch set_rec action N s =
     (let mirror = (\<lambda>vol. case io_block1 s of
                       None \<Rightarrow> raise_fault Null_dereference vol
                     | Some b1 \<Rightarrow> mirror_fats vol (io_sector s) (block_data vol b1))
      in case action of
        IOCTL_COUNT_FREE \<Rightarrow>
          (if io_value s = 0 then s\<lparr>io_result := io_result s + 1\<rparr> else s, False)
      | IOCTL_GET_ENTRY \<Rightarrow> (s\<lparr>io_result := sint (io_value s)\<rparr>, True)
      | IOCTL_SET_ENTRY \<Rightarrow> (s\<lparr>io_vol := mirror (io_vol s)\<rparr>, True)
      | IOCTL_ALLOCATE_N_ENTRIES \<Rightarrow>
          if io_value s \<noteq> 0 then (s, False)
          else
            let vol = io_vol s;
                vol = mirror (vol\<lparr>free_clusters := free_clusters vol - 1\<rparr>);
                s = s\<lparr>io_vol := vol\<rparr>;
                (s, stop) =
                  (if io_n s = 0
                   then (s\<lparr>io_first := io_cluster s, io_last := io_cluster s\<rparr>, False)
                   else let (r, vol) = set_rec vol (io_last s) (sint (io_cluster s));
                            s = s\<lparr>io_vol := vol, io_result := r\<rparr>
                        in if r < 0 then (s, True) else (s\<lparr>io_last := io_cluster s\<rparr>, False))
            in if stop then (s, True)
               else let s = s\<lparr>io_n := io_n s + 1\<rparr> in (s, io_n s = word_of_int N))"

definition fat_start_sector :: "nspace \<Rightarrow> uint32" where
  "fat_start_sector vol = reserved_sectors vol + ucast (active_fat vol) * sectors_per_fat vol"

text \<open>Moving on to the next cluster, wrapping around after the last one.\<close>

definition ioctl_advance :: "ioctl_state \<Rightarrow> ioctl_state \<times> bool" where
  "ioctl_advance s =
     (let s = s\<lparr>io_cluster := io_cluster s + 1\<rparr>;
          s = (if io_cluster s = total_clusters (io_vol s) + 2
               then let vol = block_cache_put (io_vol s) (uint (io_sector s));
                        cluster = 2;
                        sector = fat_start_sector vol;
                        (p, vol) = block_cache_get vol (uint sector)
                    in s\<lparr>io_vol := vol, io_cluster := cluster,
                         io_offset := cluster * ucast (fat_bits vol) div 8,
                         io_sector := sector, io_block1 := p\<rparr>
               else s);
          s = (if io_offset s \<ge> bytes_per_sector (io_vol s)
               then let vol = block_cache_put (io_vol s) (uint (io_sector s));
                        sector = io_sector s + 1;
                        (p, vol) = block_cache_get vol (uint sector)
                    in s\<lparr>io_vol := vol, io_sector := sector,
                         io_offset := io_offset s - bytes_per_sector vol, io_block1 := p\<rparr>
               else s)
      in if io_block1 s = None then (s\<lparr>io_result := B_IO_ERROR\<rparr>, True) else (s, False))"

definition ioctl_iteration ::
  "(nspace \<Rightarrow> uint32 \<Rightarrow> int \<Rightarrow> int \<times> nspace) \<Rightarrow> fat_action \<Rightarrow> int \<Rightarrow> uint32 \<Rightarrow> ioctl_state \<Rightarrow>
   ioctl_state \<times> bool" where
  "ioctl_iteration set_rec action N endOfChainMarker s =
     (case io_block1 s of
        None \<Rightarrow> (s\<lparr>io_vol := raise_fault Null_dereference (io_vol s)\<rparr>, True)
      | Some b1 \<Rightarrow>
          let (s, stop) = ioctl_entry action endOfChainMarker b1 s
          in if stop then (s, True)
             else let (s, stop) = ioctl_dispatch set_rec action N s
                  in if stop then (s, True) else ioctl_advance s)"

text \<open>\<open>for (i = 0; i < vol->total_clusters; i++)\<close>\<close>

fun ioctl_loop ::
  "(nspace \<Rightarrow> uint32 \<Rightarrow> int \<Rightarrow> int \<times> nspace) \<Rightarrow> fat_action \<Rightarrow> int \<Rightarrow> uint32 \<Rightarrow> nat \<Rightarrow> ioctl_state \<Rightarrow>
   ioctl_state" where
  "ioctl_loop set_rec action N endOfChainMarker 0 s = s"
| "ioctl_loop set_rec action N endOfChainMarker (Suc k) s =
     (let (s, stop) = ioctl_iteration set_rec action N endOfChainMarker s
      in if stop then s else ioctl_loop set_rec action N endOfChainMarker k s)"

text \<open>From the label \<open>bi\<close> on; \<open>clear\<close> is \<open>clear_fat_chain(vol, first, false)\<close>.\<close>

definition ioctl_finish ::
  "(nspace \<Rightarrow> uint32 \<Rightarrow> nspace) \<Rightarrow> fat_action \<Rightarrow> int \<Rightarrow> ioctl_state \<Rightarrow> int \<times> nspace" where
  "ioctl_finish clear action N s =
     (let vol = (if io_block1 s \<noteq> None then block_cache_put (io_vol s) (uint (io_sector s))
                 else io_vol s)
      in if action = IOCTL_ALLOCATE_N_ENTRIES then
           if io_result s < 0 then
             (io_result s, if io_first s \<noteq> 0 then clear vol (io_first s) else vol)
           else if io_n s \<noteq> word_of_int N then
             (B_DEVICE_FULL, if io_first s \<noteq> 0 then clear vol (io_first s) else vol)
           else if io_result s = 0 then
             (sint (io_first s), vol\<lparr>last_allocated := io_cluster s\<rparr>)
           else (io_result s, vol)
         else (io_result s, vol))"

definition fat_ioctl_body ::
  "(nspace \<Rightarrow> uint32 \<Rightarrow> int \<Rightarrow> int \<times> nspace) \<Rightarrow> (nspace \<Rightarrow> uint32 \<Rightarrow> nspace) \<Rightarrow>
   nspace \<Rightarrow> fat_action \<Rightarrow> uint32 \<Rightarrow> int \<Rightarrow> int \<times> nspace" where
  "fat_ioctl_body set_rec clear vol action cluster N =
     (let endOfChainMarker = (if action = IOCTL_SET_ENTRY then word_of_int N else 0x0fffffff)
      in if action = IOCTL_COUNT_FREE \<and> fat_bits vol = 32 then count_free_clusters_fat32 vol
         else
           let cluster = (if action = IOCTL_COUNT_FREE then 2 else cluster);
               cluster = (if action = IOCTL_ALLOCATE_N_ENTRIES then last_allocated vol else cluster)
           in if action \<noteq> IOCTL_COUNT_FREE \<and> \<not> IS_DATA_CLUSTER vol cluster then (B_BAD_VALUE, vol)
              else
                let offset = cluster * ucast (fat_bits vol) div 8;
                    sector = fat_start_sector vol + offset div bytes_per_sector vol;
                    offset = offset mod bytes_per_sector vol;
                    (p, vol) = block_cache_get vol (uint sector)
                in if p = None then (B_IO_ERROR, vol)
                   else ioctl_finish clear action N
                          (ioctl_loop set_rec action N endOfChainMarker (unat (total_clusters vol))
                            \<lparr>io_vol = vol, io_result = 0, io_n = 0, io_first = 0, io_last = 0,
                             io_cluster = cluster, io_sector = sector, io_offset = offset,
                             io_value = 0, io_block1 = p\<rparr>))"

subsection \<open>Entry access and chain operations\<close>

definition fat_ioctl_rw :: "nspace \<Rightarrow> fat_action \<Rightarrow> uint32 \<Rightarrow> int \<Rightarrow> int \<times> nspace" where
  "fat_ioctl_rw = fat_ioctl_body (\<lambda>vol _ _. (B_OK, vol)) (\<lambda>vol _. vol)"

definition count_free_clusters :: "nspace \<Rightarrow> int \<times> nspace" where
  "count_free_clusters vol = fat_ioctl_rw vol IOCTL_COUNT_FREE 0 0"

definition get_fat_entry :: "nspace \<Rightarrow> uint32 \<Rightarrow> int \<times> nspace" where
  "get_fat_entry vol cluster =
     (let (value, vol) = fat_ioctl_rw vol IOCTL_GET_ENTRY cluster 0
      in if value < 0 then (value, vol)
         else if value = 0 \<or> IS_DATA_CLUSTER_int32 vol value then (value, vol)
         else if value > 0x0ffffff7 then (END_FAT_ENTRY, vol)
         else if value > 0x0ffffff0 then (BAD_FAT_ENTRY, vol)
         else (BAD_FAT_ENTRY, vol))"

definition set_fat_entry :: "nspace \<Rightarrow> uint32 \<Rightarrow> int \<Rightarrow> int \<times> nspace" where
  "set_fat_entry vol cluster value = fat_ioctl_rw vol IOCTL_SET_ENTRY cluster value"

fun get_nth_fat_entry :: "nspace \<Rightarrow> int \<Rightarrow> nat \<Rightarrow> int \<times> nspace" where
  "get_nth_fat_entry vol cluster 0 = (cluster, vol)"
| "get_nth_fat_entry vol cluster (Suc n) =
     (let (cluster, vol) = get_fat_entry vol (word_of_int cluster)
      in if \<not> IS_DATA_CLUSTER_int32 vol cluster then (cluster, vol)
         else get_nth_fat_entry vol cluster n)"

text \<open>
  The loop of \<open>count_clusters\<close>. It ends after at most \<open>total_clusters\<close> rounds, because \<open>count\<close>
  reaches that number; the first argument bounds the rounds.
\<close>

fun count_clusters_loop :: "nat \<Rightarrow> nspace \<Rightarrow> int \<Rightarrow> uint32 \<Rightarrow> uint32 \<times> nspace" where
  "count_clusters_loop 0 vol cluster count = (0, raise_fault Endless_loop vol)"
| "count_clusters_loop (Suc k) vol cluster count =
     (if IS_DATA_CLUSTER_int32 vol cluster then
        let count = count + 1 in
        if count = total_clusters vol then (0, vol)
        else let (cluster, vol) = get_fat_entry vol (word_of_int cluster)
             in count_clusters_loop k vol cluster count
      else if cluster = END_FAT_ENTRY then (count, vol)
      else (0, vol))"

definition count_clusters :: "nspace \<Rightarrow> int \<Rightarrow> uint32 \<times> nspace" where
  "count_clusters vol cluster =
     (if \<not> IS_DATA_CLUSTER_int32 vol cluster then (0, vol) 
      else count_clusters_loop (unat (total_clusters vol)) vol cluster 0)"

text \<open>
  \<open>clear_fat_chain\<close>. Every round sets the entry of a data cluster to 0, and a cluster whose entry
  is 0 already is followed by no other, so the loop ends after at most \<open>total_clusters + 1\<close>
  rounds and one more test; the first argument bounds the rounds.
\<close>

fun clear_fat_chain_loop :: "nat \<Rightarrow> nspace \<Rightarrow> uint32 \<Rightarrow> bool \<Rightarrow> int \<times> nspace" where
  "clear_fat_chain_loop 0 vol cluster discardBlockCache = (B_OK, raise_fault Endless_loop vol)"
| "clear_fat_chain_loop (Suc k) vol cluster discardBlockCache =
     (if IS_DATA_CLUSTER vol cluster then
        let (c, vol) = get_fat_entry vol cluster in
        if c < 0 then (c, vol)
        else
          let (result, vol) = set_fat_entry vol cluster 0 in
          if result \<noteq> B_OK then (result, vol)
          else
            let vol =
                  (if discardBlockCache
                   then block_cache_discard vol
                          (uint (data_start vol + (cluster - 2) * sectors_per_cluster vol))
                          (unat (sectors_per_cluster vol))
                   else vol)
            in clear_fat_chain_loop k (vol\<lparr>free_clusters := free_clusters vol + 1\<rparr>)
                 (word_of_int c) discardBlockCache
      else (B_OK, vol))"

definition clear_fat_chain :: "nspace \<Rightarrow> uint32 \<Rightarrow> bool \<Rightarrow> int \<times> nspace" where
  "clear_fat_chain vol cluster discardBlockCache =
     (if \<not> IS_DATA_CLUSTER vol cluster then (B_BAD_VALUE, vol)
      else clear_fat_chain_loop (unat (total_clusters vol) + 2) vol cluster discardBlockCache)"

definition fat_ioctl :: "nspace \<Rightarrow> fat_action \<Rightarrow> uint32 \<Rightarrow> int \<Rightarrow> int \<times> nspace" where
  "fat_ioctl =
     fat_ioctl_body set_fat_entry (\<lambda>vol first. snd (clear_fat_chain vol first False))"

definition allocate_n_fat_entries :: "nspace \<Rightarrow> int \<Rightarrow> int \<times> int option \<times> nspace" where
  "allocate_n_fat_entries vol n =
     (let (c, vol) = fat_ioctl vol IOCTL_ALLOCATE_N_ENTRIES 0 n
      in if c < 0 then (c, None, vol) else (B_OK, Some c, vol))"

end
