(* ===== verification/Fat_Spec.thy ===== *)
theory Fat_Spec
  imports Fat_Table
begin

section \<open>The table as a function from clusters to entries\<close>

text \<open>
  The specification level of \<open>fat.c\<close>: when the geometry of a volume is consistent (\<open>wf_fat\<close>) and
  its table can be read (\<open>fat_readable\<close>), the bytes of the active table are the function
  \<open>fat_byte\<close>, its entries are the function \<open>fat_entry\<close>, and storing an entry is \<open>fat_store\<close>. The
  lemmas show that one turn of the cluster loop of \<open>_fat_ioctl_\<close> reads exactly \<open>fat_entry\<close> and
  writes exactly \<open>fat_store\<close>, for all three widths, including the 12-bit entries that straddle two
  sectors.
\<close>

subsection \<open>Specification definitions\<close>

abbreviation blk :: "nspace \<Rightarrow> int \<Rightarrow> bytes option" where
  "blk vol \<equiv> blocks (fBlockCache vol)"

definition bps :: "nspace \<Rightarrow> nat" where "bps vol = unat (bytes_per_sector vol)"
definition spf :: "nspace \<Rightarrow> nat" where "spf vol = unat (sectors_per_fat vol)"
definition bits :: "nspace \<Rightarrow> nat" where "bits vol = unat (fat_bits vol)"

definition fat_pos :: "nspace \<Rightarrow> uint32 \<Rightarrow> nat" where
  "fat_pos vol c = unat c * bits vol div 8"

text \<open>The block of copy \<open>i\<close> of the table that holds its sector \<open>s\<close>.\<close>

definition fat_copy :: "nspace \<Rightarrow> nat \<Rightarrow> nat \<Rightarrow> int" where
  "fat_copy vol i s = int (unat (reserved_sectors vol) + i * spf vol + s)"

definition fat_block :: "nspace \<Rightarrow> nat \<Rightarrow> int" where
  "fat_block vol k = fat_copy vol (unat (active_fat vol)) (k div bps vol)"

definition fat_byte :: "nspace \<Rightarrow> nat \<Rightarrow> uint8" where
  "fat_byte vol k = block_data vol (fat_block vol k) ! (k mod bps vol)"

definition fat_entry :: "nspace \<Rightarrow> uint32 \<Rightarrow> uint32" where
  "fat_entry vol c =
     (let p = fat_pos vol c in
      if bits vol = 12 then ioctl_fat12_value c (fat_byte vol p) (fat_byte vol (p + 1))
      else if bits vol = 16 then
        let v = ucast (fat_byte vol p) + 0x100 * ucast (fat_byte vol (p + 1))
        in if v > 0xfff0 then v OR 0x0fff0000 else v
      else (ucast (fat_byte vol p) + 0x100 * ucast (fat_byte vol (p + 1))
            + 0x10000 * ucast (fat_byte vol (p + 2)) + 0x1000000 * ucast (fat_byte vol (p + 3)))
           AND 0x0fffffff)"

definition wf_fat :: "nspace \<Rightarrow> bool" where
  "wf_fat vol \<longleftrightarrow>
     bps vol \<in> {512, 1024, 2048, 4096} \<and>
     (bits vol = 12 \<and> unat (total_clusters vol) \<le> 0xfef \<or>
      bits vol = 16 \<and> unat (total_clusters vol) \<le> 0xffef \<or>
      bits vol = 32 \<and> unat (total_clusters vol) \<le> 0x7fffffe) \<and>
     (unat (total_clusters vol) + 2) * bits vol \<le> spf vol * bps vol * 8 \<and>
     unat (active_fat vol) < unat (fat_count vol) \<and>
     unat (reserved_sectors vol) + unat (fat_count vol) * spf vol < 2 ^ 32 \<and>
     (\<forall>b bs. blk vol b = Some bs \<longrightarrow> length bs = bps vol)"

definition fat_readable :: "nspace \<Rightarrow> bool" where
  "fat_readable vol \<longleftrightarrow>
     (\<forall>i < unat (fat_count vol). \<forall>s < spf vol. blk vol (fat_copy vol i s) \<noteq> None)"

text \<open>A reference held on block \<open>b\<close>.\<close>

definition hold :: "nspace \<Rightarrow> int \<Rightarrow> nspace" where
  "hold vol b =
     vol\<lparr>fBlockCache := (fBlockCache vol)\<lparr>refs := (refs (fBlockCache vol))(b := refs (fBlockCache vol) b + 1)\<rparr>\<rparr>"

text \<open>The volume with other block contents.\<close>

definition set_blocks :: "nspace \<Rightarrow> (int \<Rightarrow> bytes option) \<Rightarrow> nspace" where
  "set_blocks vol f = vol\<lparr>fBlockCache := (fBlockCache vol)\<lparr>blocks := f\<rparr>\<rparr>"

subsection \<open>Held references commute with everything the code does to a block\<close>

lemma hold_sel [simp]:
  "blocks (fBlockCache (hold v b)) = blocks (fBlockCache v)"
  "discards (fBlockCache (hold v b)) = discards (fBlockCache v)"
  "bytes_per_sector (hold v b) = bytes_per_sector v"
  "sectors_per_cluster (hold v b) = sectors_per_cluster v"
  "reserved_sectors (hold v b) = reserved_sectors v"
  "fat_count (hold v b) = fat_count v"
  "sectors_per_fat (hold v b) = sectors_per_fat v"
  "total_clusters (hold v b) = total_clusters v"
  "free_clusters (hold v b) = free_clusters v"
  "fat_bits (hold v b) = fat_bits v"
  "fat_mirrored (hold v b) = fat_mirrored v"
  "active_fat (hold v b) = active_fat v"
  "last_allocated (hold v b) = last_allocated v"
  "data_start (hold v b) = data_start v"
  "fault (hold v b) = fault v"
  by (simp_all add: hold_def)

lemma block_data_hold [simp]: "block_data (hold v b) b' = block_data v b'"
  by (simp add: block_data_def)

lemma hold_geometry [simp]:
  "bps (hold v b) = bps v" "spf (hold v b) = spf v" "bits (hold v b) = bits v"
  "fat_pos (hold v b) = fat_pos v" "fat_block (hold v b) = fat_block v"
  "fat_copy (hold v b) = fat_copy v" "fat_byte (hold v b) = fat_byte v"
  "fat_start_sector (hold v b) = fat_start_sector v"
  "IS_DATA_CLUSTER (hold v b) = IS_DATA_CLUSTER v"
  by (auto simp: bps_def spf_def bits_def fun_eq_iff fat_pos_def fat_block_def fat_copy_def
      fat_byte_def fat_start_sector_def IS_DATA_CLUSTER_def)

lemma hold_spec [simp]:
  "fat_entry (hold v b) = fat_entry v" "wf_fat (hold v b) = wf_fat v"
  "fat_readable (hold v b) = fat_readable v"
  by (simp_all add: fat_entry_def Let_def wf_fat_def fat_readable_def fun_eq_iff)

lemma block_cache_get_eq:
  "block_cache_get v b = (if blk v b = None then (None, v) else (Some b, hold v b))"
  by (auto simp: block_cache_get_def hold_def Let_def split: option.splits)

lemma put_hold [simp]: "block_cache_put (hold v b) b = v"
  by (simp add: block_cache_put_def hold_def Let_def)

lemma hold_commute: "hold (hold v a) b = hold (hold v b) a"
  by (simp add: hold_def fun_upd_twist fun_eq_iff)

lemma put_hold_other: "a \<noteq> b \<Longrightarrow> block_cache_put (hold v a) b = hold (block_cache_put v b) a"
  by (simp add: block_cache_put_def hold_def Let_def fun_upd_twist)

lemma put_hold2 [simp]: "block_cache_put (hold (hold v a) b) a = hold v b"
  by (subst hold_commute) simp

lemma store_block_eq [simp]: "store_block v b bs = set_blocks v ((blk v)(b \<mapsto> bs))"
  by (simp add: store_block_def set_blocks_def Let_def)

lemma set_blocks_hold [simp]: "set_blocks (hold v a) f = hold (set_blocks v f) a"
  by (simp add: set_blocks_def hold_def)

lemma update_byte_hold [simp]: "update_byte (hold v a) b i x = hold (update_byte v b i x) a"
  by (simp add: update_byte_def)

lemma raise_fault_hold [simp]: "raise_fault f (hold v a) = hold (raise_fault f v) a"
  by (simp add: raise_fault_def hold_def split: option.splits)

lemma overwrite_block_eq:
  "overwrite_block v b bs =
     (if blk v b = None then raise_fault Null_dereference v
      else store_block v b (take (bps v) bs))"
  by (simp add: overwrite_block_def block_cache_get_eq bps_def)

lemma overwrite_block_hold [simp]: "overwrite_block (hold v a) b bs = hold (overwrite_block v b bs) a"
  by (simp add: overwrite_block_eq)

lemma fold_hold:
  assumes "\<And>i v. f i (hold v a) = hold (f i v) a"
  shows "fold f xs (hold v a) = hold (fold f xs v) a"
  by (induction xs arbitrary: v) (simp_all add: assms)

lemma mirror_fats_hold [simp]: "mirror_fats (hold v a) s bs = hold (mirror_fats v s bs) a"
  by (simp add: mirror_fats_def Let_def fold_hold cong: if_cong)

lemma free_clusters_hold [simp]:
  "(hold v a)\<lparr>free_clusters := x\<rparr> = hold (v\<lparr>free_clusters := x\<rparr>) a"
  by (simp add: hold_def)

lemma last_allocated_hold [simp]:
  "(hold v a)\<lparr>last_allocated := x\<rparr> = hold (v\<lparr>last_allocated := x\<rparr>) a"
  by (simp add: hold_def)

subsection \<open>Geometry and block contents\<close>

text \<open>
  Storing a block changes no field but the contents; the specification functions only look at the
  geometry and at the contents.
\<close>

lemma set_blocks_sel [simp]:
  "blk (set_blocks v f) = f"
  "refs (fBlockCache (set_blocks v f)) = refs (fBlockCache v)"
  "discards (fBlockCache (set_blocks v f)) = discards (fBlockCache v)"
  "bytes_per_sector (set_blocks v f) = bytes_per_sector v"
  "sectors_per_cluster (set_blocks v f) = sectors_per_cluster v"
  "reserved_sectors (set_blocks v f) = reserved_sectors v"
  "fat_count (set_blocks v f) = fat_count v"
  "sectors_per_fat (set_blocks v f) = sectors_per_fat v"
  "total_clusters (set_blocks v f) = total_clusters v"
  "free_clusters (set_blocks v f) = free_clusters v"
  "fat_bits (set_blocks v f) = fat_bits v"
  "fat_mirrored (set_blocks v f) = fat_mirrored v"
  "active_fat (set_blocks v f) = active_fat v"
  "last_allocated (set_blocks v f) = last_allocated v"
  "data_start (set_blocks v f) = data_start v"
  "fault (set_blocks v f) = fault v"
  by (simp_all add: set_blocks_def)

lemma set_blocks_geometry [simp]:
  "bps (set_blocks v f) = bps v" "spf (set_blocks v f) = spf v"
  "bits (set_blocks v f) = bits v"
  "fat_pos (set_blocks v f) = fat_pos v" "fat_block (set_blocks v f) = fat_block v"
  "fat_copy (set_blocks v f) = fat_copy v"
  "fat_start_sector (set_blocks v f) = fat_start_sector v"
  "IS_DATA_CLUSTER (set_blocks v f) = IS_DATA_CLUSTER v"
  by (auto simp: bps_def spf_def bits_def fun_eq_iff fat_pos_def fat_block_def fat_copy_def
      fat_start_sector_def IS_DATA_CLUSTER_def)

lemma set_blocks_set_blocks [simp]: "set_blocks (set_blocks v f) g = set_blocks v g"
  by (simp add: set_blocks_def)

lemma set_blocks_self [simp]: "set_blocks v (blk v) = v"
  by (simp add: set_blocks_def)

lemma block_data_set_blocks:
  "block_data (set_blocks v f) b = (case f b of None \<Rightarrow> [] | Some bs \<Rightarrow> bs)"
  by (simp add: block_data_def)

lemma wf_fat_set_blocks:
  "wf_fat v \<Longrightarrow> (\<And>b bs. f b = Some bs \<Longrightarrow> length bs = bps v) \<Longrightarrow> wf_fat (set_blocks v f)"
  by (auto simp: wf_fat_def)

lemma block_data_length:
  "wf_fat v \<Longrightarrow> blk v b \<noteq> None \<Longrightarrow> length (block_data v b) = bps v"
  by (auto simp: wf_fat_def block_data_def)

lemma wf_fat_bps: "wf_fat v \<Longrightarrow> 512 \<le> bps v" "wf_fat v \<Longrightarrow> 0 < bps v"
  and wf_fat_bps_dvd: "wf_fat v \<Longrightarrow> 4 dvd bps v"
  by (auto simp: wf_fat_def)

lemma wf_fat_bits: "wf_fat v \<Longrightarrow> bits v = 12 \<or> bits v = 16 \<or> bits v = 32"
  by (auto simp: wf_fat_def)

lemma IS_DATA_CLUSTER_unat:
  "wf_fat v \<Longrightarrow> IS_DATA_CLUSTER v c \<longleftrightarrow> 2 \<le> unat c \<and> unat c < unat (total_clusters v) + 2"
  by (auto simp: wf_fat_def IS_DATA_CLUSTER_def word_le_nat_alt word_less_nat_alt unat_word_ariths)

lemma total_clusters_bound: "wf_fat v \<Longrightarrow> unat (total_clusters v) \<le> 0x7fffffe"
  by (auto simp: wf_fat_def)

text \<open>The bytes of the entry of a data cluster lie in the table.\<close>

lemma fat_pos_bound:
  assumes "wf_fat v" "IS_DATA_CLUSTER v c"
  shows "fat_pos v c + (if bits v = 32 then 3 else 1) < spf v * bps v"
proof -
  have c: "unat c < unat (total_clusters v) + 2"
    using assms by (simp add: IS_DATA_CLUSTER_unat)
  have "(unat c + 1) * bits v \<le> (unat (total_clusters v) + 2) * bits v"
    using c by (intro mult_le_mono1) simp
  also have "\<dots> \<le> spf v * bps v * 8" using assms(1) by (simp add: wf_fat_def)
  finally have *: "unat c * bits v + bits v \<le> spf v * bps v * 8" by (simp add: algebra_simps)
  show ?thesis
    using wf_fat_bits [OF assms(1)] * by (auto simp: fat_pos_def)
qed

lemma fat_sector_bound:
  assumes "wf_fat v" "k < spf v * bps v"
  shows "k div bps v < spf v"
  using assms by (simp add: less_mult_imp_div_less)

lemma fat_block_readable:
  assumes "wf_fat v" "fat_readable v" "k < spf v * bps v"
  shows "blk v (fat_block v k) \<noteq> None"
  using assms fat_sector_bound [OF assms(1,3)]
  by (auto simp: fat_readable_def fat_block_def wf_fat_def)

text \<open>The word arithmetic of the code computes these positions without wrapping.\<close>

lemma unat_fat_offset:
  assumes "wf_fat v" "IS_DATA_CLUSTER v c"
  shows "unat (c * ucast (fat_bits v) div 8) = fat_pos v c"
proof -
  have "unat c < unat (total_clusters v) + 2"
    using assms by (simp add: IS_DATA_CLUSTER_unat)
  then have "unat c * bits v < 2 ^ 32"
    using assms(1) by (auto simp: wf_fat_def)
  then show ?thesis
    by (simp add: unat_div fat_pos_def bits_def unat_word_ariths(2))
qed

lemma unat_fat_copy_sector:
  assumes "wf_fat v" "i < unat (fat_count v)" "s < spf v"
  shows "unat (reserved_sectors v + of_nat i * sectors_per_fat v + of_nat s)
           = unat (reserved_sectors v) + i * spf v + s"
proof -
  have "i * spf v + s < unat (fat_count v) * spf v"
  proof -
    have "i * spf v + s < (i + 1) * spf v" using assms(3) by simp
    also have "\<dots> \<le> unat (fat_count v) * spf v" using assms(2) by (intro mult_le_mono1) simp
    finally show ?thesis .
  qed
  then have lt: "unat (reserved_sectors v) + i * spf v + s < 2 ^ 32"
    using assms(1) by (simp add: wf_fat_def)
  have eq: "reserved_sectors v + of_nat i * sectors_per_fat v + of_nat s
      = (of_nat (unat (reserved_sectors v) + i * spf v + s) :: uint32)"
    by (simp add: spf_def)
  show ?thesis unfolding eq using lt by (rule unat_of_nat_32)
qed

lemma uint_fat_copy_sector:
  assumes "wf_fat v" "i < unat (fat_count v)" "s < spf v"
  shows "uint (reserved_sectors v + of_nat i * sectors_per_fat v + of_nat s) = fat_copy v i s"
  using unat_fat_copy_sector [OF assms] by (metis fat_copy_def int_nat_eq uint_nat unsigned_less nat_int)

subsection \<open>Bytes of the table\<close>

lemma fat_copy_inject:
  assumes "s < spf v" "s' < spf v"
  shows "fat_copy v i s = fat_copy v i' s' \<longleftrightarrow> i = i' \<and> s = s'"
proof
  assume "fat_copy v i s = fat_copy v i' s'"
  then have eq: "i * spf v + s = i' * spf v + s'"
    unfolding fat_copy_def of_nat_eq_iff by simp
  have "(i * spf v + s) div spf v = i" "(i' * spf v + s') div spf v = i'"
    using assms by auto
  with eq have "i = i'" by simp
  with eq show "i = i' \<and> s = s'" by simp
qed simp

lemma fat_block_eq_iff:
  assumes "wf_fat v" "k < spf v * bps v" "j < spf v * bps v"
  shows "fat_block v k = fat_block v j \<longleftrightarrow> k div bps v = j div bps v"
  using fat_copy_inject [OF fat_sector_bound [OF assms(1,2)] fat_sector_bound [OF assms(1,3)]]
  by (simp add: fat_block_def)

lemma update_byte_eq:
  "update_byte v b i x = set_blocks v ((blk v)(b \<mapsto> (block_data v b)[i := x]))"
  by (simp add: update_byte_def)

lemma fat_byte_update:
  assumes "wf_fat v" "fat_readable v" "k < spf v * bps v" "j < spf v * bps v"
  shows "fat_byte (update_byte v (fat_block v k) (k mod bps v) x) j
           = (if j = k then x else fat_byte v j)"
proof -
  have len: "length (block_data v (fat_block v k)) = bps v"
    using assms by (intro block_data_length fat_block_readable)
  have div_mod: "j div bps v = k div bps v \<Longrightarrow> j mod bps v = k mod bps v \<Longrightarrow> j = k"
    by (metis div_mult_mod_eq)
  show ?thesis
  proof (cases "j div bps v = k div bps v")
    case True
    then have "fat_block v j = fat_block v k" by (simp add: fat_block_def)
    with True show ?thesis
      using len wf_fat_bps(2) [OF assms(1)] div_mod
      by (auto simp: fat_byte_def update_byte_eq block_data_set_blocks nth_list_update)
  next
    case False
    then have "fat_block v j \<noteq> fat_block v k" "j \<noteq> k"
      by (auto simp: fat_block_eq_iff [OF assms(1,4,3)])
    then show ?thesis
      by (simp add: fat_byte_def update_byte_eq block_data_set_blocks block_data_def)
  qed
qed

text \<open>What the specification predicates require of a volume after its contents changed.\<close>

lemma wf_fat_update_byte:
  assumes "wf_fat v" "blk v b \<noteq> None"
  shows "wf_fat (update_byte v b i x)"
  unfolding update_byte_eq using assms
  by (intro wf_fat_set_blocks) (auto split: if_splits simp: block_data_length, simp add: wf_fat_def)

lemma fat_readable_update_byte: "fat_readable v \<Longrightarrow> fat_readable (update_byte v b i x)"
  by (auto simp: fat_readable_def update_byte_eq)

subsection \<open>Mirroring\<close>

text \<open>The contents after sector \<open>s\<close> of every copy but the active one is overwritten with \<open>bs\<close>.\<close>

definition mirrored_blocks :: "nspace \<Rightarrow> nat \<Rightarrow> bytes \<Rightarrow> int \<Rightarrow> bytes option" where
  "mirrored_blocks v s bs b =
     (if fat_mirrored v \<and> (\<exists>i < unat (fat_count v). i \<noteq> unat (active_fat v) \<and> b = fat_copy v i s)
      then Some (take (bps v) bs) else blk v b)"

definition fat_sector :: "nspace \<Rightarrow> nat \<Rightarrow> uint32" where
  "fat_sector v s = fat_start_sector v + of_nat s"

lemma fold_overwrite:
  assumes "\<And>i. i \<in> set is \<Longrightarrow> i \<noteq> a \<Longrightarrow> blk v (h i) \<noteq> None"
  shows "fold (\<lambda>i v. if i = a then v else overwrite_block v (h i) bs) is v
    = set_blocks v (\<lambda>b. if \<exists>i \<in> set is. i \<noteq> a \<and> b = h i then Some (take (bps v) bs) else blk v b)"
  using assms
proof (induction "is" arbitrary: v)
  case Nil
  then show ?case by simp
next
  case (Cons i "is")
  show ?case
  proof (cases "i = a")
    case True
    with Cons show ?thesis by simp
  next
    case False
    let ?v = "set_blocks v ((blk v)(h i \<mapsto> take (bps v) bs))"
    have "fold (\<lambda>i v. if i = a then v else overwrite_block v (h i) bs) is ?v
        = set_blocks ?v (\<lambda>b. if \<exists>i \<in> set is. i \<noteq> a \<and> b = h i then Some (take (bps ?v) bs) else blk ?v b)"
      by (rule Cons.IH) (use Cons.prems in auto)
    with False Cons.prems [of i] show ?thesis
      by (auto simp: overwrite_block_eq fun_eq_iff intro!: arg_cong [where f = "set_blocks v"])
  qed
qed

lemma mirror_fats_eq:
  assumes "wf_fat v" "fat_readable v" "s < spf v"
  shows "mirror_fats v (fat_sector v s) bs = set_blocks v (mirrored_blocks v s bs)"
proof (cases "fat_mirrored v")
  case False
  then show ?thesis by (simp add: mirror_fats_def mirrored_blocks_def [abs_def])
next
  case True
  have sec: "uint (fat_sector v s - ucast (active_fat v) * sectors_per_fat v + of_nat i * sectors_per_fat v)
      = fat_copy v i s" if "i < unat (fat_count v)" for i
    using uint_fat_copy_sector [OF assms(1) that assms(3)]
    by (simp add: fat_sector_def fat_start_sector_def algebra_simps)
  have "mirror_fats v (fat_sector v s) bs
      = fold (\<lambda>i v'. if i = unat (active_fat v) then v' else overwrite_block v' (fat_copy v i s) bs)
          [0..<unat (fat_count v)] v"
    using True by (auto simp: mirror_fats_def Let_def sec intro!: fold_cong)
  also have "\<dots> = set_blocks v (mirrored_blocks v s bs)"
    using assms True
    by (subst fold_overwrite) (auto simp: fat_readable_def mirrored_blocks_def [abs_def] Bex_def)
  finally show ?thesis .
qed

lemma mirrored_blocks_active:
  assumes "s < spf v" "s' < spf v"
  shows "mirrored_blocks v s bs (fat_copy v (unat (active_fat v)) s')
           = blk v (fat_copy v (unat (active_fat v)) s')"
  using fat_copy_inject [OF assms(2,1)] by (auto simp: mirrored_blocks_def)

lemma fat_byte_mirror:
  assumes "wf_fat v" "fat_readable v" "s < spf v" "k < spf v * bps v"
  shows "fat_byte (mirror_fats v (fat_sector v s) bs) k = fat_byte v k"
  using mirrored_blocks_active [OF assms(3) fat_sector_bound [OF assms(1,4)]] assms
  by (simp add: mirror_fats_eq fat_byte_def block_data_def fat_block_def)

lemma wf_fat_mirror:
  assumes "wf_fat v" "fat_readable v" "s < spf v" "length bs = bps v"
  shows "wf_fat (mirror_fats v (fat_sector v s) bs)"
  unfolding mirror_fats_eq [OF assms(1-3)] using assms(1,4)
  by (intro wf_fat_set_blocks) (auto simp: mirrored_blocks_def wf_fat_def split: if_splits)

lemma fat_readable_mirror:
  assumes "wf_fat v" "fat_readable v" "s < spf v"
  shows "fat_readable (mirror_fats v (fat_sector v s) bs)"
  using assms unfolding mirror_fats_eq [OF assms] by (auto simp: fat_readable_def mirrored_blocks_def)

end
