(* ===== verification/Fat_Entry.thy ===== *)
theory Fat_Entry
  imports Fat_Spec
begin

section \<open>Storing and reading back one entry\<close>

text \<open>
  \<open>fat_store\<close> is the effect of writing one entry: the bytes of the entry change, the rest of the
  table does not, and the touched sectors are copied to the mirrors. The central law,
  \<open>fat_entry_store\<close>, says that the table behaves as an array of entries although 12-bit entries
  share bytes and straddle sectors.
\<close>

definition fat_norm :: "nspace \<Rightarrow> uint32 \<Rightarrow> uint32" where
  "fat_norm v m =
     (if bits v = 12 then (let w = m AND 0xfff in if w > 0xff0 then w OR 0x0ffff000 else w)
      else if bits v = 16 then (let w = m AND 0xffff in if w > 0xfff0 then w OR 0x0fff0000 else w)
      else m AND 0x0fffffff)"

definition fat_put :: "nspace \<Rightarrow> nat \<Rightarrow> uint8 \<Rightarrow> nspace" where
  "fat_put v k x = update_byte v (fat_block v k) (k mod bps v) x"

definition fat_flush :: "nspace \<Rightarrow> nat \<Rightarrow> nspace" where
  "fat_flush v k = mirror_fats v (fat_sector v (k div bps v)) (block_data v (fat_block v k))"

definition fat_store :: "nspace \<Rightarrow> uint32 \<Rightarrow> uint32 \<Rightarrow> nspace" where
  "fat_store v c m =
     (let p = fat_pos v c in
      if bits v = 12 then
        let (ormask, andmask) = ioctl_fat12_masks c m;
            v = fat_put v p ((fat_byte v p AND ucast (andmask AND 0xff)) OR ucast (ormask AND 0xff));
            v = (if p mod bps v = bps v - 1 then fat_flush v p else v);
            v = fat_put v (p + 1) ((fat_byte v (p + 1) AND ucast (drop_bit 8 andmask)) OR ucast (drop_bit 8 ormask))
        in fat_flush v (p + 1)
      else if bits v = 16 then fat_flush (fat_put (fat_put v p (byte_of m 0)) (p + 1) (byte_of m 1)) p
      else fat_flush (fat_put (fat_put (fat_put (fat_put v p (byte_of m 0)) (p + 1) (byte_of m 1))
             (p + 2) (byte_of m 2)) (p + 3) (byte_of m 3)) p)"

text \<open>The volumes on which the laws hold, and the positions of the table.\<close>

definition fat_ok :: "nspace \<Rightarrow> bool" where
  "fat_ok v \<longleftrightarrow> wf_fat v \<and> fat_readable v"

definition fat_range :: "nspace \<Rightarrow> nat \<Rightarrow> bool" where
  "fat_range v k \<longleftrightarrow> k < spf v * bps v"

named_theorems fat_laws \<open>how bytes and predicates react to writes into the table\<close>

lemma fat_ok_hold [simp]: "fat_ok (hold v b) = fat_ok v"
  by (simp add: fat_ok_def)

lemma fat_range_hold [simp]: "fat_range (hold v b) = fat_range v"
  by (simp add: fat_range_def fun_eq_iff)

lemma fat_range_set_blocks [simp]: "fat_range (set_blocks v f) = fat_range v"
  by (simp add: fat_range_def fun_eq_iff)

lemma fat_put_eq:
  "fat_put v k x = set_blocks v ((blk v)(fat_block v k \<mapsto> (block_data v (fat_block v k))[k mod bps v := x]))"
  by (simp add: fat_put_def update_byte_eq)

lemma fat_flush_eq:
  assumes "fat_ok v" "fat_range v k"
  shows "fat_flush v k = set_blocks v (mirrored_blocks v (k div bps v) (block_data v (fat_block v k)))"
  using assms unfolding fat_flush_def fat_ok_def fat_range_def
  by (intro mirror_fats_eq fat_sector_bound) auto

lemma fat_put_simps [simp]:
  "fat_range (fat_put v k x) = fat_range v" "bps (fat_put v k x) = bps v"
  "bits (fat_put v k x) = bits v" "fat_block (fat_put v k x) = fat_block v"
  "fat_sector (fat_put v k x) = fat_sector v" "spf (fat_put v k x) = spf v"
  "fat_count (fat_put v k x) = fat_count v" "active_fat (fat_put v k x) = active_fat v"
  "fat_copy (fat_put v k x) = fat_copy v" "fat_mirrored (fat_put v k x) = fat_mirrored v"
  by (simp_all add: fat_put_eq fat_sector_def fun_eq_iff)

lemma fat_put_ok [fat_laws]: "fat_ok v \<Longrightarrow> fat_range v k \<Longrightarrow> fat_ok (fat_put v k x)"
  by (simp add: fat_ok_def fat_range_def fat_put_def wf_fat_update_byte fat_readable_update_byte
      fat_block_readable)

lemma fat_byte_put [fat_laws]:
  "fat_ok v \<Longrightarrow> fat_range v k \<Longrightarrow> fat_range v j \<Longrightarrow>
     fat_byte (fat_put v k x) j = (if j = k then x else fat_byte v j)"
  by (simp add: fat_ok_def fat_range_def fat_put_def fat_byte_update)

lemma fat_flush_ok [fat_laws]:
  assumes "fat_ok v" "fat_range v k"
  shows "fat_ok (fat_flush v k)"
proof -
  have s: "k div bps v < spf v" and b: "length (block_data v (fat_block v k)) = bps v"
    using assms by (auto simp: fat_ok_def fat_range_def fat_sector_bound block_data_length fat_block_readable)
  show ?thesis
    using assms s b unfolding fat_ok_def fat_flush_def
    by (auto intro: wf_fat_mirror fat_readable_mirror)
qed

lemma fat_byte_flush [fat_laws]:
  "fat_ok v \<Longrightarrow> fat_range v k \<Longrightarrow> fat_range v j \<Longrightarrow> fat_byte (fat_flush v k) j = fat_byte v j"
  by (simp add: fat_ok_def fat_range_def fat_flush_def fat_byte_mirror fat_sector_bound)

lemma fat_flush_simps [fat_laws]:
  assumes "fat_ok v" "fat_range v k"
  shows "fat_range (fat_flush v k) = fat_range v" "bps (fat_flush v k) = bps v"
    "bits (fat_flush v k) = bits v" "fat_block (fat_flush v k) = fat_block v"
    "fat_sector (fat_flush v k) = fat_sector v"
  by (simp_all add: fat_flush_eq [OF assms] fat_sector_def fun_eq_iff)

lemma fat_pos_range:
  assumes "fat_ok v" "IS_DATA_CLUSTER v c"
  shows "fat_range v (fat_pos v c)" "fat_range v (fat_pos v c + 1)"
    "bits v = 32 \<Longrightarrow> fat_range v (fat_pos v c + 2)" "bits v = 32 \<Longrightarrow> fat_range v (fat_pos v c + 3)"
  using fat_pos_bound [of v c] assms by (auto simp: fat_ok_def fat_range_def split: if_splits)

lemma fat_ok_bits: "fat_ok v \<Longrightarrow> bits v = 12 \<or> bits v = 16 \<or> bits v = 32"
  by (auto simp: fat_ok_def wf_fat_def)

lemma fat_store_ok:
  assumes "fat_ok v" "IS_DATA_CLUSTER v c"
  shows "fat_ok (fat_store v c m)"
  using fat_ok_bits [OF assms(1)] fat_pos_range [OF assms] assms(1)
  by (auto simp: fat_store_def Let_def fat_laws split: prod.splits)

text \<open>A store changes the contents of blocks of the table and nothing else.\<close>

definition table_block :: "nspace \<Rightarrow> int \<Rightarrow> bool" where
  "table_block v b \<longleftrightarrow> (\<exists>i < unat (fat_count v). \<exists>s < spf v. b = fat_copy v i s)"

definition contents_only :: "nspace \<Rightarrow> nspace \<Rightarrow> bool" where
  "contents_only v w \<longleftrightarrow>
     w = set_blocks v (blk w) \<and> (\<forall>b. \<not> table_block v b \<longrightarrow> blk w b = blk v b)"

lemma contents_only_refl: "contents_only v v"
  by (simp add: contents_only_def)

lemma contents_only_set_blocks:
  assumes "contents_only v w" "\<And>b. \<not> table_block w b \<Longrightarrow> f b = blk w b"
  shows "contents_only v (set_blocks w f)"
proof -
  have w: "w = set_blocks v (blk w)" "\<And>b. \<not> table_block v b \<Longrightarrow> blk w b = blk v b"
    using assms(1) by (auto simp: contents_only_def)
  have "table_block w = table_block v"
    by (subst w(1)) (simp add: table_block_def fun_eq_iff)
  then show ?thesis
    using assms(2) w(2) by (subst w(1)) (simp add: contents_only_def)
qed

lemma table_block_fat_copy: "i < unat (fat_count v) \<Longrightarrow> s < spf v \<Longrightarrow> table_block v (fat_copy v i s)"
  by (auto simp: table_block_def)

lemma table_block_fat_block: "fat_ok v \<Longrightarrow> fat_range v k \<Longrightarrow> table_block v (fat_block v k)"
  unfolding fat_block_def
  by (rule table_block_fat_copy) (auto simp: fat_ok_def wf_fat_def fat_range_def fat_sector_bound)

lemma contents_only_put:
  "contents_only v w \<Longrightarrow> fat_ok w \<Longrightarrow> fat_range w k \<Longrightarrow> contents_only v (fat_put w k x)"
  unfolding fat_put_eq by (rule contents_only_set_blocks) (auto simp: table_block_fat_block)

lemma contents_only_flush:
  assumes "contents_only v w" "fat_ok w" "fat_range w k"
  shows "contents_only v (fat_flush w k)"
  unfolding fat_flush_eq [OF assms(2,3)]
proof (rule contents_only_set_blocks [OF assms(1)])
  have "k div bps w < spf w" using assms(2,3) by (simp add: fat_ok_def fat_range_def fat_sector_bound)
  then show "mirrored_blocks w (k div bps w) bs b = blk w b" if "\<not> table_block w b" for b bs
    using that by (auto simp: mirrored_blocks_def table_block_def)
qed

lemmas contents_only_intros =
  contents_only_refl contents_only_put contents_only_flush

lemma fat_store_contents_only:
  assumes "fat_ok v" "IS_DATA_CLUSTER v c"
  shows "contents_only v (fat_store v c m)"
  using fat_ok_bits [OF assms(1)] fat_pos_range [OF assms] assms(1)
  by (auto simp: fat_store_def Let_def fat_laws intro!: contents_only_intros split: prod.splits)

lemma contents_only_sel:
  assumes "contents_only v w"
  shows "refs (fBlockCache w) = refs (fBlockCache v)"
    "discards (fBlockCache w) = discards (fBlockCache v)"
    "bytes_per_sector w = bytes_per_sector v" "sectors_per_cluster w = sectors_per_cluster v"
    "reserved_sectors w = reserved_sectors v" "fat_count w = fat_count v"
    "sectors_per_fat w = sectors_per_fat v" "total_clusters w = total_clusters v"
    "free_clusters w = free_clusters v" "fat_bits w = fat_bits v"
    "fat_mirrored w = fat_mirrored v" "active_fat w = active_fat v"
    "last_allocated w = last_allocated v" "data_start w = data_start v" "fault w = fault v"
    "bps w = bps v" "spf w = spf v" "bits w = bits v" "fat_pos w = fat_pos v"
    "fat_block w = fat_block v" "fat_copy w = fat_copy v" "fat_start_sector w = fat_start_sector v"
    "IS_DATA_CLUSTER w = IS_DATA_CLUSTER v" "fat_range w = fat_range v"
  by (subst assms [unfolded contents_only_def, THEN conjunct1], simp)+

subsection \<open>Twelve bits\<close>

lemma fat12_value_even:
  assumes "c AND 1 = 0" "hi AND 0xf = hi' AND 0xf"
  shows "ioctl_fat12_value c lo hi = ioctl_fat12_value c lo hi'"
proof -
  have "(ucast lo OR push_bit 8 (ucast h)) AND mask 12
      = (ucast lo OR push_bit 8 (ucast (h AND 0xf)) :: uint32)" for h :: uint8
  proof -
    have m: "(0xf :: uint8) = mask 4" by (simp add: mask_eq_exp_minus_1)
    show ?thesis unfolding m
      by (rule bit_word_eqI) (auto simp: bit_simps bit_uint8_beyond, use bit_uint8_less in fastforce)
  qed
  then show ?thesis
    using assms by (simp add: ioctl_fat12_value_def le16_or mask_numerals)
qed

lemma fat12_value_odd:
  assumes "c AND 1 \<noteq> 0" "drop_bit 4 lo = drop_bit 4 lo'"
  shows "ioctl_fat12_value c lo hi = ioctl_fat12_value c lo' hi"
proof -
  have "drop_bit 4 (ucast l OR push_bit 8 (ucast hi))
      = (ucast (drop_bit 4 l) OR push_bit 4 (ucast hi) :: uint32)" for l :: uint8
    by (rule bit_word_eqI) (auto simp: bit_simps bit_uint8_beyond, use bit_uint8_less in fastforce)
  then show ?thesis
    using assms by (simp add: ioctl_fat12_value_def le16_or)
qed

text \<open>The bytes after a store, and what they read as.\<close>

lemma fat12_value_stored:
  fixes m :: uint32 and lo hi :: uint8
  assumes "(om, am) = ioctl_fat12_masks c m"
  shows "ioctl_fat12_value c ((lo AND ucast (am AND 0xff)) OR ucast (om AND 0xff))
           ((hi AND ucast (drop_bit 8 am)) OR ucast (drop_bit 8 om))
         = (let w = m AND 0xfff in if w > 0xff0 then w OR 0x0ffff000 else w)"
proof (cases "c AND 1 = 0")
  case True
  then have om: "om = m AND mask 12" and am: "am = push_bit 12 (mask 4)"
    using assms by (simp_all add: ioctl_fat12_masks_def mask_numerals)
  have "(ucast ((lo AND ucast (am AND mask 8)) OR ucast (om AND mask 8))
      OR push_bit 8 (ucast ((hi AND ucast (drop_bit 8 am)) OR ucast (drop_bit 8 om)))) AND mask 12 = m AND mask 12"
    unfolding om am by (rule bit_word_eqI) (auto simp: bit_simps bit_uint8_beyond)
  then show ?thesis using True by (simp add: ioctl_fat12_value_def le16_or mask_numerals Let_def)
next
  case False
  then have om: "om = push_bit 4 (m AND mask 12)" and am: "am = mask 4"
    using assms by (simp_all add: ioctl_fat12_masks_def mask_numerals)
  have "drop_bit 4 (ucast ((lo AND ucast (am AND mask 8)) OR ucast (om AND mask 8))
      OR push_bit 8 (ucast ((hi AND ucast (drop_bit 8 am)) OR ucast (drop_bit 8 om)))) = m AND mask 12"
    unfolding om am
    by (rule bit_word_eqI)
      (auto simp: bit_simps bit_uint8_beyond, metis le_add_diff_inverse not_less)
  then show ?thesis using False by (simp add: ioctl_fat12_value_def le16_or mask_numerals Let_def)
qed

lemma fat12_keeps_high:
  fixes m :: uint32 and hi :: uint8
  assumes "(om, am) = ioctl_fat12_masks c m" "c AND 1 = 0"
  shows "drop_bit 4 ((hi AND ucast (drop_bit 8 am)) OR ucast (drop_bit 8 om)) = drop_bit 4 hi"
proof -
  have om: "om = m AND mask 12" and am: "am = push_bit 12 (mask 4)"
    using assms by (simp_all add: ioctl_fat12_masks_def mask_numerals)
  show ?thesis unfolding om am
    by (rule bit_word_eqI) (auto simp: bit_simps bit_uint8_beyond, use bit_uint8_less in fastforce)
qed

lemma fat12_keeps_low:
  fixes m :: uint32 and lo :: uint8
  assumes "(om, am) = ioctl_fat12_masks c m" "c AND 1 \<noteq> 0"
  shows "((lo AND ucast (am AND 0xff)) OR ucast (om AND 0xff)) AND 0xf = lo AND 0xf"
proof -
  have om: "om = push_bit 4 (m AND mask 12)" and am: "am = mask 4"
    using assms by (simp_all add: ioctl_fat12_masks_def mask_numerals)
  have m: "(0xf :: uint8) = mask 4" by (simp add: mask_eq_exp_minus_1)
  show ?thesis unfolding om am m mask_numerals
    by (rule bit_word_eqI) (auto simp: bit_simps bit_uint8_beyond)
qed

lemma fat12_positions:
  fixes a a' :: nat
  assumes "a \<noteq> a'"
  shows "a * 12 div 8 \<noteq> a' * 12 div 8"
    "a' * 12 div 8 = a * 12 div 8 + 1 \<Longrightarrow> even a \<and> odd a'"
    "a' * 12 div 8 + 1 = a * 12 div 8 \<Longrightarrow> odd a \<and> even a'"
proof -
  have pos: "n * 12 div 8 = n + n div 2" for n :: nat by presburger
  have rep: "\<exists>k r. n = 2 * k + r \<and> r < 2" for n :: nat
    by (rule exI [of _ "n div 2"], rule exI [of _ "n mod 2"]) simp
  obtain k r k' r' where a: "a = 2 * k + r" "r < 2" and a': "a' = 2 * k' + r'" "r' < 2"
    using rep [of a] rep [of a'] by blast
  show "a * 12 div 8 \<noteq> a' * 12 div 8"
    unfolding pos using assms a a' by auto
  show "a' * 12 div 8 = a * 12 div 8 + 1 \<Longrightarrow> even a \<and> odd a'"
    "a' * 12 div 8 + 1 = a * 12 div 8 \<Longrightarrow> odd a \<and> even a'"
    unfolding pos using assms a a' by (auto simp: less_2_cases_iff)
qed

subsection \<open>The table is an array of entries\<close>

definition fat12_bytes :: "uint32 \<Rightarrow> uint32 \<Rightarrow> uint8 \<Rightarrow> uint8 \<Rightarrow> uint8 \<times> uint8" where
  "fat12_bytes c m lo hi =
     (let (ormask, andmask) = ioctl_fat12_masks c m
      in ((lo AND ucast (andmask AND 0xff)) OR ucast (ormask AND 0xff),
          (hi AND ucast (drop_bit 8 andmask)) OR ucast (drop_bit 8 ormask)))"

lemma fat_byte_store12:
  assumes "fat_ok v" "IS_DATA_CLUSTER v c" "bits v = 12" "fat_range v j"
  shows "fat_byte (fat_store v c m) j =
     (let p = fat_pos v c; (lo, hi) = fat12_bytes c m (fat_byte v p) (fat_byte v (p + 1))
      in if j = p then lo else if j = p + 1 then hi else fat_byte v j)"
  using fat_pos_range [OF assms(1,2)] assms
  by (auto simp: fat_store_def fat12_bytes_def Let_def fat_laws split: prod.splits)

lemma fat_byte_store16:
  assumes "fat_ok v" "IS_DATA_CLUSTER v c" "bits v = 16" "fat_range v j"
  shows "fat_byte (fat_store v c m) j =
     (let p = fat_pos v c in if j = p then byte_of m 0 else if j = p + 1 then byte_of m 1 else fat_byte v j)"
  using fat_pos_range [OF assms(1,2)] assms
  by (auto simp: fat_store_def Let_def fat_laws)

lemma fat_byte_store32:
  assumes "fat_ok v" "IS_DATA_CLUSTER v c" "bits v = 32" "fat_range v j"
  shows "fat_byte (fat_store v c m) j =
     (let p = fat_pos v c in if j = p then byte_of m 0 else if j = p + 1 then byte_of m 1
      else if j = p + 2 then byte_of m 2 else if j = p + 3 then byte_of m 3 else fat_byte v j)"
  using fat_pos_range [OF assms(1,2)] assms
  by (auto simp: fat_store_def Let_def fat_laws)

theorem fat_entry_store:
  assumes ok: "fat_ok v" and c: "IS_DATA_CLUSTER v c" and c': "IS_DATA_CLUSTER v c'"
  shows "fat_entry (fat_store v c m) c' = (if c' = c then fat_norm v m else fat_entry v c')"
proof -
  note sel = contents_only_sel [OF fat_store_contents_only [OF ok c, of m]]
  note range = fat_pos_range [OF ok c'] fat_pos_range [OF ok c]
  have ne: "c' \<noteq> c \<Longrightarrow> unat c' \<noteq> unat c" by (simp add: word_unat_eq_iff)
  consider "bits v = 12" | "bits v = 16" | "bits v = 32" using fat_ok_bits [OF ok] by blast
  then show ?thesis
  proof cases
    case 1
    obtain lo hi where b: "fat12_bytes c m (fat_byte v (fat_pos v c)) (fat_byte v (fat_pos v c + 1)) = (lo, hi)"
      by fastforce
    obtain om am where oa: "(om, am) = ioctl_fat12_masks c m" by (metis surj_pair)
    have lo: "lo = (fat_byte v (fat_pos v c) AND ucast (am AND 0xff)) OR ucast (om AND 0xff)"
      and hi: "hi = (fat_byte v (fat_pos v c + 1) AND ucast (drop_bit 8 am)) OR ucast (drop_bit 8 om)"
      using b by (simp_all add: fat12_bytes_def flip: oa)
    note byte = fat_byte_store12 [OF ok c 1, of _ m]
    show ?thesis
    proof (cases "c' = c")
      case True
      then show ?thesis
        using fat12_value_stored [OF oa] range
        by (simp add: fat_entry_def sel 1 byte b [simplified] lo hi fat_norm_def Let_def)
    next
      case False
      then have "unat c \<noteq> unat c'" by (simp add: word_unat_eq_iff)
      note pos = fat12_positions [OF this]
      have pos_eq: "fat_pos v c = unat c * 12 div 8" "fat_pos v c' = unat c' * 12 div 8"
        by (simp_all add: fat_pos_def 1)
      consider "fat_pos v c' = fat_pos v c + 1" | "fat_pos v c' + 1 = fat_pos v c"
        | "fat_pos v c' \<noteq> fat_pos v c + 1" "fat_pos v c' + 1 \<noteq> fat_pos v c" by blast
      then show ?thesis
      proof cases
        case p: 1
        then have "c AND 1 = 0" "c' AND 1 \<noteq> 0" using pos(2) odd_unat pos_eq by metis+
        then show ?thesis
          using False p range fat12_keeps_high [OF oa] fat12_value_odd [of c' hi]
          by (simp add: fat_entry_def sel 1 byte b [simplified] hi Let_def)
      next
        case p: 2
        then have par: "c AND 1 \<noteq> 0" "c' AND 1 = 0" using pos(3) odd_unat pos_eq by metis+
        have "fat_byte (fat_store v c m) (fat_pos v c' + 1) = lo"
          unfolding p using range b by (simp add: byte Let_def)
        moreover have "fat_byte (fat_store v c m) (fat_pos v c') = fat_byte v (fat_pos v c')"
          using range p b by (simp add: byte Let_def)
        moreover have "lo AND 0xf = fat_byte v (fat_pos v c' + 1) AND 0xf"
          unfolding p lo by (rule fat12_keeps_low [OF oa par(1)])
        note fat12_value_even [OF par(2) this, of "fat_byte v (fat_pos v c')"]
        ultimately show ?thesis
          using False by (simp add: fat_entry_def sel 1 Let_def)
      next
        case 3
        then show ?thesis
          using False pos(1) range by (simp add: fat_entry_def sel 1 byte b [simplified] pos_eq Let_def)
      qed
    qed
  next
    case 2
    have "fat_pos v x = 2 * unat x" for x by (simp add: fat_pos_def 2)
    then show ?thesis
      using range le16_byte_of [of m] ne
      by (cases "c' = c") (auto simp: fat_entry_def sel 2 fat_byte_store16 [OF ok c 2] fat_norm_def Let_def, (arith+)?)
  next
    case 3
    have "fat_pos v x = 4 * unat x" for x by (simp add: fat_pos_def 3)
    then show ?thesis
      using range le32_byte_of [of m] ne
      by (cases "c' = c") (auto simp: fat_entry_def sel 3 fat_byte_store32 [OF ok c 3] fat_norm_def Let_def, (arith+)?)
  qed
qed

end
