(* ===== verification/Fat_Ioctl.thy ===== *)
theory Fat_Ioctl
  imports Fat_Entry
begin

section \<open>The cluster loop of \<open>_fat_ioctl_\<close>\<close>

text \<open>
  One turn of the cluster loop, on a consistent volume. Between turns the loop stands on a cluster
  with the block of its entry held (\<open>io_move\<close>); after the entry is read or written it stands on the
  last byte of the entry (\<open>io_park\<close>), which for 12 bits may be in the next sector. The lemmas
  compute one turn for every action; from them follow the functional correctness of reading,
  writing and counting entries.
\<close>

subsection \<open>Positions\<close>

definition fat_last :: "nspace \<Rightarrow> uint32 \<Rightarrow> nat" where
  "fat_last v c = fat_pos v c + (if bits v = 12 then 1 else 0)"

definition fat_next :: "nspace \<Rightarrow> uint32 \<Rightarrow> nat" where
  "fat_next v c = (unat c + 1) * bits v div 8"

definition next_cluster :: "nspace \<Rightarrow> uint32 \<Rightarrow> uint32" where
  "next_cluster v c = (if c + 1 = total_clusters v + 2 then 2 else c + 1)"

definition io_move :: "nspace \<Rightarrow> uint32 \<Rightarrow> ioctl_state \<Rightarrow> ioctl_state" where
  "io_move v c s =
     s\<lparr>io_vol := hold v (fat_block v (fat_pos v c)), io_cluster := c,
       io_sector := fat_sector v (fat_pos v c div bps v),
       io_offset := of_nat (fat_pos v c mod bps v), io_block1 := Some (fat_block v (fat_pos v c))\<rparr>"

definition io_park :: "nspace \<Rightarrow> uint32 \<Rightarrow> ioctl_state \<Rightarrow> ioctl_state" where
  "io_park v c s =
     s\<lparr>io_vol := hold v (fat_block v (fat_last v c)), io_cluster := c,
       io_sector := fat_sector v (fat_last v c div bps v),
       io_offset := of_nat (fat_next v c - fat_last v c div bps v * bps v),
       io_block1 := Some (fat_block v (fat_last v c))\<rparr>"

text \<open>The store of an entry before its last sector is mirrored.\<close>

definition fat_write :: "nspace \<Rightarrow> uint32 \<Rightarrow> uint32 \<Rightarrow> nspace" where
  "fat_write v c m =
     (let p = fat_pos v c in
      if bits v = 12 then
        let (ormask, andmask) = ioctl_fat12_masks c m;
            v = fat_put v p ((fat_byte v p AND ucast (andmask AND 0xff)) OR ucast (ormask AND 0xff));
            v = (if p mod bps v = bps v - 1 then fat_flush v p else v)
        in fat_put v (p + 1) ((fat_byte v (p + 1) AND ucast (drop_bit 8 andmask)) OR ucast (drop_bit 8 ormask))
      else if bits v = 16 then fat_put (fat_put v p (byte_of m 0)) (p + 1) (byte_of m 1)
      else fat_put (fat_put (fat_put (fat_put v p (byte_of m 0)) (p + 1) (byte_of m 1))
             (p + 2) (byte_of m 2)) (p + 3) (byte_of m 3))"

lemma fat_store_write: "fat_store v c m = fat_flush (fat_write v c m) (fat_last v c)"
  by (simp add: fat_store_def fat_write_def fat_last_def Let_def split: prod.splits)

lemma fat_write_ok:
  assumes "fat_ok v" "IS_DATA_CLUSTER v c"
  shows "fat_ok (fat_write v c m)" "contents_only v (fat_write v c m)"
  using fat_ok_bits [OF assms(1)] fat_pos_range [OF assms] assms(1)
  by (auto simp: fat_write_def Let_def fat_laws intro!: contents_only_intros split: prod.splits)

lemma fat_last_range: "fat_ok v \<Longrightarrow> IS_DATA_CLUSTER v c \<Longrightarrow> fat_range v (fat_last v c)"
  using fat_pos_range [of v c] by (simp add: fat_last_def)

lemma uint_fat_sector:
  assumes "fat_ok v" "fat_range v k"
  shows "uint (fat_sector v (k div bps v)) = fat_block v k"
proof -
  have "k div bps v < spf v" "unat (active_fat v) < unat (fat_count v)"
    using assms by (auto simp: fat_ok_def fat_range_def fat_sector_bound wf_fat_def)
  then show ?thesis
    using uint_fat_copy_sector [of v "unat (active_fat v)" "k div bps v"] assms(1)
    by (simp add: fat_ok_def fat_sector_def fat_start_sector_def fat_block_def)
qed

lemma fat_ok_bps: "fat_ok v \<Longrightarrow> 512 \<le> bps v" "fat_ok v \<Longrightarrow> bps v \<le> 4096" "fat_ok v \<Longrightarrow> 4 dvd bps v"
  by (auto simp: fat_ok_def wf_fat_def)

lemma unat_offset:
  assumes "fat_ok v"
  shows "unat (of_nat (k mod bps v) :: uint32) = k mod bps v"
proof -
  have "k mod bps v < bps v" using fat_ok_bps(1) [OF assms] by (intro mod_less_divisor) simp
  also have "bps v \<le> 4096" using fat_ok_bps(2) [OF assms] .
  finally show ?thesis by (simp add: unat_of_nat_32)
qed

lemma same_sector:
  assumes "k mod bps v + j < bps v"
  shows "(k + j) div bps v = k div bps v" "(k + j) mod bps v = k mod bps v + j"
    "fat_block v (k + j) = fat_block v k"
proof -
  have "k + j = k mod bps v + j + k div bps v * bps v" by simp
  then show eq: "(k + j) div bps v = k div bps v" "(k + j) mod bps v = k mod bps v + j"
    using assms by (metis add.right_neutral div_less div_mult_self1 gr_implies_not_zero, metis mod_less mod_mult_self1)
  from eq(1) show "fat_block v (k + j) = fat_block v k" by (simp add: fat_block_def)
qed

lemma next_sector:
  assumes "k mod bps v = bps v - 1" "0 < bps v"
  shows "(k + 1) div bps v = k div bps v + 1" "(k + 1) mod bps v = 0"
  using assms by (simp_all add: div_Suc mod_Suc)

subsection \<open>Reading and writing the entry\<close>

lemma io_vol_sel [simp]:
  "bytes_per_sector (io_vol (io_move v c s)) = bytes_per_sector v"
  "fat_bits (io_vol (io_move v c s)) = fat_bits v"
  by (simp_all add: io_move_def)

definition entry_value :: "fat_action \<Rightarrow> nspace \<Rightarrow> uint32 \<Rightarrow> ioctl_state \<Rightarrow> uint32" where
  "entry_value action v c s = (if action \<noteq> IOCTL_SET_ENTRY then fat_entry v c else io_value s)"

lemma fat_sector_simps [simp]:
  "fat_sector (set_blocks v f) = fat_sector v" "fat_sector (hold v b) = fat_sector v"
  by (simp_all add: fat_sector_def fun_eq_iff)

lemma fat_next_simps [simp]:
  "fat_next (set_blocks v f) = fat_next v" "fat_next (hold v b) = fat_next v"
  "fat_last (set_blocks v f) = fat_last v" "fat_last (hold v b) = fat_last v"
  "next_cluster (set_blocks v f) = next_cluster v" "next_cluster (hold v b) = next_cluster v"
  by (simp_all add: fat_next_def fat_last_def next_cluster_def fun_eq_iff)

lemma byte_at:
  assumes "contents_only v w"
  shows "block_data w (fat_block v k) ! (k mod bps v) = fat_byte w k"
    "update_byte w (fat_block v k) (k mod bps v) x = fat_put w k x"
  by (simp_all add: fat_byte_def fat_put_def contents_only_sel [OF assms])

lemma io_park_contents:
  assumes "contents_only v w"
  shows "io_park w c s = (io_park v c s)\<lparr>io_vol := hold w (fat_block v (fat_last v c))\<rparr>"
  using contents_only_sel [OF assms]
  by (simp add: io_park_def fat_last_def fat_next_def fat_sector_def)

lemma fat_put2:
  assumes "k mod bps v + 1 < bps v"
  shows "fat_put (fat_put v k x) (k + 1) y
    = set_blocks v ((blk v)(fat_block v k \<mapsto> (block_data v (fat_block v k))[k mod bps v := x, k mod bps v + 1 := y]))"
  using same_sector [of k v 1] assms by (simp add: fat_put_eq block_data_set_blocks)

lemma fat_put4:
  assumes "k mod bps v + 3 < bps v"
  shows "fat_put (fat_put (fat_put (fat_put v k x) (k + 1) y) (k + 2) z) (k + 3) w
    = set_blocks v ((blk v)(fat_block v k \<mapsto>
        (block_data v (fat_block v k))[k mod bps v := x, k mod bps v + 1 := y, k mod bps v + 2 := z, k mod bps v + 3 := w]))"
  using same_sector [of k v 1] same_sector [of k v 2] same_sector [of k v 3] assms
  by (simp add: fat_put_eq block_data_set_blocks)

lemma fat_bits_eq: "bits v = n \<Longrightarrow> fat_bits v = of_nat n"
  by (auto simp: bits_def)

lemma aligned_mod:
  assumes "4 dvd (n::nat)" "0 < n"
  shows "4 * k mod n + 3 < n" "2 * k mod n + 1 < n"
proof -
  obtain j where n: "n = 4 * j" using assms(1) by blast
  then have "k mod j < j" "k mod (2 * j) < 2 * j" using assms(2) by simp_all
  moreover have "4 * k mod n = 4 * (k mod j)" "2 * k mod n = 2 * (k mod (2 * j))"
    using mult_mod_right [of 4 k j] mult_mod_right [of 2 k "2 * j"] n by simp_all
  ultimately show "4 * k mod n + 3 < n" "2 * k mod n + 1 < n" using n by linarith+
qed

lemma sector_rest: "(k::nat) + d - k div n * n = k mod n + d"
  using div_mult_mod_eq [of k n] by linarith

lemma ioctl_entry16:
  assumes ok: "fat_ok v" and c: "IS_DATA_CLUSTER v c" and b: "bits v = 16"
  shows "ioctl_entry action m (fat_block v (fat_pos v c)) (io_move v c s)
    = (io_park (if ioctl_writes action (entry_value action v c s) then fat_write v c m else v) c (s\<lparr>io_value := entry_value action v c s\<rparr>), False)"
proof -
  let ?p = "fat_pos v c"
  have p: "?p = 2 * unat c" by (simp add: fat_pos_def b)
  have lt: "?p mod bps v + 1 < bps v"
    using fat_ok_bps [OF ok] aligned_mod(2) [of "bps v" "unat c"] by (simp add: p)
  note same = same_sector [OF lt]
  have rd: "read16 (block_data v (fat_block v ?p)) (?p mod bps v)
      = ucast (fat_byte v ?p) + 0x100 * ucast (fat_byte v (?p + 1))"
    by (simp only: read16_def fat_byte_def same)
  have "fat_next v c = ?p + 2" by (simp add: fat_next_def b p)
  then have nxt: "fat_next v c - ?p div bps v * bps v = ?p mod bps v + 2"
    by (simp only: sector_rest)
  have "fat_write v c m = set_blocks v ((blk v)(fat_block v ?p \<mapsto> write16 (block_data v (fat_block v ?p)) (?p mod bps v) m))"
    using fat_put2 [OF lt] by (simp add: fat_write_def b Let_def write16_def)
  then show ?thesis
    unfolding entry_value_def io_move_def io_park_def ioctl_entry_def ioctl_fat16_def
    by (simp add: fat_bits_eq [OF b] b nxt fat_last_def unat_offset [OF ok] rd Let_def fat_entry_def)
qed

lemma ioctl_entry32:
  assumes ok: "fat_ok v" and c: "IS_DATA_CLUSTER v c" and b: "bits v = 32"
  shows "ioctl_entry action m (fat_block v (fat_pos v c)) (io_move v c s)
    = (io_park (if ioctl_writes action (entry_value action v c s) then fat_write v c m else v) c
         (s\<lparr>io_value := entry_value action v c s\<rparr>), False)"
proof -
  let ?p = "fat_pos v c"
  have p: "?p = 4 * unat c" by (simp add: fat_pos_def b)
  have lt: "?p mod bps v + 3 < bps v"
    using fat_ok_bps [OF ok] aligned_mod(1) [of "bps v" "unat c"] by (simp add: p)
  then have lt': "?p mod bps v + 1 < bps v" "?p mod bps v + 2 < bps v" by simp_all
  note same = same_sector [OF lt] same_sector [OF lt'(1)] same_sector [OF lt'(2)]
  have rd: "read32 (block_data v (fat_block v ?p)) (?p mod bps v)
      = ucast (fat_byte v ?p) + 0x100 * ucast (fat_byte v (?p + 1))
        + 0x10000 * ucast (fat_byte v (?p + 2)) + 0x1000000 * ucast (fat_byte v (?p + 3))"
    by (simp only: read32_def fat_byte_def same)
  have "fat_next v c = ?p + 4" by (simp add: fat_next_def b p)
  then have nxt: "fat_next v c - ?p div bps v * bps v = ?p mod bps v + 4"
    by (simp only: sector_rest)
  have "fat_write v c m = set_blocks v ((blk v)(fat_block v ?p \<mapsto> write32 (block_data v (fat_block v ?p)) (?p mod bps v) m))"
    using fat_put4 [OF lt] by (simp add: fat_write_def b Let_def write32_def)
  then show ?thesis
    unfolding entry_value_def io_move_def io_park_def ioctl_entry_def ioctl_fat32_def
    by (cases "action = IOCTL_SET_ENTRY")
      (simp_all add: fat_bits_eq [OF b] b nxt fat_last_def unat_offset [OF ok] rd Let_def fat_entry_def)
qed

lemma offset_is_last:
  assumes "fat_ok v"
  shows "(of_nat (k mod bps v) :: uint32) = bytes_per_sector v - 1 \<longleftrightarrow> k mod bps v = bps v - 1"
proof -
  obtain n where n: "bps v = Suc n" "n < 4096" using fat_ok_bps [OF assms] by (cases "bps v") auto
  have "bytes_per_sector v = of_nat (bps v)" by (simp add: bps_def)
  then have "bytes_per_sector v - 1 = of_nat n" by (simp add: n)
  then have "unat (bytes_per_sector v - 1) = bps v - 1" using n by (simp add: unat_of_nat_32)
  then show ?thesis by (simp add: word_unat_eq_iff unat_offset [OF assms])
qed

lemma ioctl_entry12_inside:
  assumes ok: "fat_ok v" and c: "IS_DATA_CLUSTER v c" and b: "bits v = 12"
    and inside: "fat_pos v c mod bps v \<noteq> bps v - 1"
  shows "ioctl_entry action m (fat_block v (fat_pos v c)) (io_move v c s)
    = (io_park (if ioctl_writes action (entry_value action v c s) then fat_write v c m else v) c
         (s\<lparr>io_value := entry_value action v c s\<rparr>), False)"
proof -
  let ?p = "fat_pos v c"
  have "?p mod bps v < bps v" using fat_ok_bps(1) [OF ok] by (intro mod_less_divisor) simp
  with inside have lt: "?p mod bps v + 1 < bps v" by simp
  note same = same_sector [OF lt]
  have "fat_next v c = ?p + (if c AND 1 \<noteq> 0 then 2 else 1)"
    unfolding odd_unat fat_next_def fat_pos_def b by (auto elim!: evenE oddE)
  then have "fat_next v c - fat_last v c div bps v * bps v = ?p mod bps v + (if c AND 1 \<noteq> 0 then 2 else 1)"
    using sector_rest [of ?p] by (simp only: fat_last_def b same if_True refl)
  then have nxt: "of_nat (fat_next v c - fat_last v c div bps v * bps v)
      = (of_nat (?p mod bps v) + (if c AND 1 \<noteq> 0 then 2 else 1) :: uint32)"
    by (simp split: if_splits)
  obtain om am where oa: "ioctl_fat12_masks c m = (om, am)" by (metis surj_pair)
  have bytes: "block_data w (fat_block v ?p) ! Suc (?p mod bps v) = fat_byte w (Suc ?p)"
    "update_byte w (fat_block v ?p) (Suc (?p mod bps v)) x = fat_put w (Suc ?p) x"
    if "contents_only v w" for w x
    using byte_at [OF that, of "?p + 1"] same by simp_all
  have off: "unat (of_nat (?p mod bps v) + 1 :: uint32) = Suc (?p mod bps v)"
    using unat_offset [OF ok, of "?p + 1"] by (simp add: same [simplified] add.commute)
  have park: "io_park v c s = s\<lparr>io_vol := hold v (fat_block v ?p), io_cluster := c,
      io_sector := fat_sector v (?p div bps v),
      io_offset := of_nat (?p mod bps v) + (if c AND 1 \<noteq> 0 then 2 else 1),
      io_block1 := Some (fat_block v ?p)\<rparr>" "fat_block v (fat_last v c) = fat_block v ?p" for s
    using same nxt by (simp_all add: io_park_def fat_last_def b)
  have cross: "(of_nat (?p mod bps v) = bytes_per_sector v - 1) = False"
    using offset_is_last [OF ok] inside by simp
  have entry: "fat_entry v c = ioctl_fat12_value c (fat_byte v ?p) (fat_byte v (Suc ?p))"
    by (simp add: fat_entry_def b Let_def)
  have wr: "fat_write v c m =
      (let w = fat_put v ?p ((fat_byte v ?p AND ucast (am AND 0xff)) OR ucast (om AND 0xff))
       in fat_put w (Suc ?p) ((fat_byte w (Suc ?p) AND ucast (drop_bit 8 am)) OR ucast (drop_bit 8 om)))"
    using inside by (simp add: fat_write_def b oa Let_def)
  note pk = io_park_contents [OF fat_write_ok(2) [OF ok c, of m], unfolded wr Let_def]
  have put: "contents_only v (fat_put v ?p x)" for x
    by (intro contents_only_put contents_only_refl ok fat_pos_range(1) [OF ok c])
  show ?thesis
    unfolding ioctl_entry_def ioctl_fat12_def io_move_def
    by (simp add: fat_bits_eq [OF b] cross unat_offset [OF ok] off oa byte_at bytes put contents_only_refl
        entry entry_value_def park pk wr Let_def)
qed

lemma ioctl_entry12_cross:
  assumes ok: "fat_ok v" and c: "IS_DATA_CLUSTER v c" and b: "bits v = 12"
    and at_end: "fat_pos v c mod bps v = bps v - 1"
  shows "ioctl_entry action m (fat_block v (fat_pos v c)) (io_move v c s)
    = (io_park (if ioctl_writes action (entry_value action v c s) then fat_write v c m else v) c
         (s\<lparr>io_value := entry_value action v c s\<rparr>), False)"
proof -
  let ?p = "fat_pos v c"
  have pos: "0 < bps v" using fat_ok_bps(1) [OF ok] by simp
  note nxt_sec = next_sector [OF at_end pos]
  have sec: "fat_sector v (?p div bps v) + 1 = fat_sector v (Suc ?p div bps v)"
    using nxt_sec by (simp add: fat_sector_def add_ac)
  have uint_sec: "uint (fat_sector v (?p div bps v)) = fat_block v ?p"
    "uint (fat_sector v (Suc ?p div bps v)) = fat_block v (Suc ?p)"
    using uint_fat_sector [OF ok] fat_pos_range [OF ok c] by simp_all
  have sec_minus: "fat_sector v (Suc ?p div bps v) - 1 = fat_sector v (?p div bps v)"
    by (simp flip: sec)
  have read: "blk v (fat_block v (Suc ?p)) \<noteq> None"
    using fat_pos_range(2) [OF ok c] ok by (simp add: fat_ok_def fat_range_def fat_block_readable)
  have next_eq: "fat_next v c = ?p + (if c AND 1 \<noteq> 0 then 2 else 1)"
    unfolding odd_unat fat_next_def fat_pos_def b by (auto elim!: evenE oddE)
  have "?p + 1 = Suc ?p div bps v * bps v"
    using nxt_sec(2) div_mult_mod_eq [of "?p + 1" "bps v"] by simp
  then have nxt: "of_nat (fat_next v c - Suc ?p div bps v * bps v) = (if c AND 1 \<noteq> 0 then 1 else 0 :: uint32)"
    using next_eq by (simp split: if_splits)
  obtain om am where oa: "ioctl_fat12_masks c m = (om, am)" by (metis surj_pair)
  have bytes: "block_data w (fat_block v (Suc ?p)) ! 0 = fat_byte w (Suc ?p)"
    "update_byte w (fat_block v (Suc ?p)) 0 x = fat_put w (Suc ?p) x"
    if "contents_only v w" for w x
    using byte_at [OF that, of "?p + 1"] nxt_sec by simp_all
  have park: "io_park v c s = s\<lparr>io_vol := hold v (fat_block v (Suc ?p)), io_cluster := c,
      io_sector := fat_sector v (Suc ?p div bps v),
      io_offset := (if c AND 1 \<noteq> 0 then 1 else 0),
      io_block1 := Some (fat_block v (Suc ?p))\<rparr>" "fat_block v (fat_last v c) = fat_block v (Suc ?p)" for s
    using nxt by (simp_all add: io_park_def fat_last_def b)
  have cross: "(of_nat (?p mod bps v) = bytes_per_sector v - 1) = True"
    using offset_is_last [OF ok, of ?p] at_end by blast
  have entry: "fat_entry v c = ioctl_fat12_value c (fat_byte v ?p) (fat_byte v (Suc ?p))"
    by (simp add: fat_entry_def b Let_def)
  let ?w = "fat_put v ?p ((fat_byte v ?p AND ucast (am AND 0xff)) OR ucast (om AND 0xff))"
  have w: "contents_only v ?w" "contents_only v (fat_flush ?w ?p)"
    using ok fat_pos_range [OF ok c] by (auto intro!: contents_only_intros simp: fat_laws)
  have flush: "mirror_fats ?w (fat_sector v (?p div bps v)) (block_data ?w (fat_block v ?p)) = fat_flush ?w ?p"
    by (simp add: fat_flush_def)
  have wr: "fat_write v c m =
      (let w = fat_flush ?w ?p
       in fat_put w (Suc ?p) ((fat_byte w (Suc ?p) AND ucast (drop_bit 8 am)) OR ucast (drop_bit 8 om)))"
    using at_end by (simp add: fat_write_def b oa Let_def)
  note pk = io_park_contents [OF fat_write_ok(2) [OF ok c, of m], unfolded wr Let_def]
  show ?thesis
    unfolding ioctl_entry_def ioctl_fat12_def io_move_def
    by (simp add: fat_bits_eq [OF b] cross unat_offset [OF ok] sec uint_sec sec_minus read block_cache_get_eq oa byte_at bytes w
        flush contents_only_intros entry entry_value_def park pk wr Let_def)
qed

lemma ioctl_entry_eq:
  assumes "fat_ok v" "IS_DATA_CLUSTER v c"
  shows "ioctl_entry action m (fat_block v (fat_pos v c)) (io_move v c s)
    = (io_park (if ioctl_writes action (entry_value action v c s) then fat_write v c m else v) c
         (s\<lparr>io_value := entry_value action v c s\<rparr>), False)"
  using fat_ok_bits [OF assms(1)] ioctl_entry12_inside [OF assms] ioctl_entry12_cross [OF assms]
    ioctl_entry16 [OF assms] ioctl_entry32 [OF assms] by blast

subsection \<open>Moving on\<close>

lemma fat_next_bounds:
  assumes "fat_ok v"
  shows "fat_last v c \<le> fat_next v c" "fat_next v c \<le> fat_last v c + 4"
  using fat_ok_bits [OF assms] by (auto simp: fat_last_def fat_next_def fat_pos_def)

lemma next_cluster_data:
  assumes "fat_ok v" "IS_DATA_CLUSTER v c"
  shows "IS_DATA_CLUSTER v (next_cluster v c)"
    "next_cluster v c \<noteq> 2 \<Longrightarrow> unat (next_cluster v c) = unat c + 1"
proof -
  have wf: "wf_fat v" using assms(1) by (simp add: fat_ok_def)
  note c = assms(2) [unfolded IS_DATA_CLUSTER_unat [OF wf]]
  have u: "unat (c + 1) = unat c + 1"
    using c total_clusters_bound [OF wf] by (simp add: unat_word_ariths)
  have t: "unat (total_clusters v + 2) = unat (total_clusters v) + 2"
    using total_clusters_bound [OF wf] by (simp add: unat_word_ariths)
  have "c + 1 \<noteq> total_clusters v + 2 \<Longrightarrow> unat c + 1 \<noteq> unat (total_clusters v) + 2"
    using u t by (metis word_unat_eq_iff)
  then show "IS_DATA_CLUSTER v (next_cluster v c)"
    using c u by (auto simp: IS_DATA_CLUSTER_unat [OF wf] next_cluster_def)
  show "next_cluster v c \<noteq> 2 \<Longrightarrow> unat (next_cluster v c) = unat c + 1"
    using u by (simp add: next_cluster_def split: if_splits)
qed

lemma first_sector:
  assumes "fat_ok v"
  shows "fat_pos v 2 < bps v"
  using fat_ok_bits [OF assms] fat_ok_bps(1) [OF assms] by (auto simp: fat_pos_def)

lemma fat_block_get:
  assumes "fat_ok v" "fat_range v k"
  shows "block_cache_get v (fat_block v k) = (Some (fat_block v k), hold v (fat_block v k))"
  using assms fat_block_readable [of v k] by (simp add: block_cache_get_eq fat_ok_def fat_range_def)

lemma bps_le_offset:
  assumes "fat_ok v" "x < 2 ^ 32"
  shows "bytes_per_sector v \<le> (of_nat x :: uint32) \<longleftrightarrow> bps v \<le> x"
  using unat_of_nat_32 [OF assms(2)] by (simp add: word_le_nat_alt bps_def)

lemma div_mod_split:
  assumes "(n::nat) = a * b + r" "r < b"
  shows "n div b = a" "n mod b = r"
  using assms by auto

lemma ioctl_advance_wrap:
  assumes ok: "fat_ok v" and c: "IS_DATA_CLUSTER v c" and last: "c + 1 = total_clusters v + 2"
  shows "ioctl_advance (io_park v c s) = (io_move v (next_cluster v c) s, False)"
proof -
  have two: "IS_DATA_CLUSTER v 2"
    using next_cluster_data(1) [OF ok c] last by (simp add: next_cluster_def)
  have off: "(2 * ucast (fat_bits v) div 8 :: uint32) = of_nat (fat_pos v 2)"
    using unat_fat_offset [OF _ two] ok by (simp add: fat_ok_def flip: unat_fat_offset [OF _ two])
  have sec: "uint (fat_start_sector v) = fat_block v (fat_pos v 2)"
    using uint_fat_sector [OF ok fat_pos_range(1) [OF ok two]] first_sector [OF ok] by (simp add: fat_sector_def)
  have put: "uint (fat_sector v (fat_last v c div bps v)) = fat_block v (fat_last v c)"
    by (rule uint_fat_sector [OF ok fat_last_range [OF ok c]])
  have start: "fat_sector v 0 = fat_start_sector v" by (simp add: fat_sector_def)
  have "fat_pos v 2 < 2 ^ 32"
    using first_sector [OF ok] fat_ok_bps(2) [OF ok] by simp
  then show ?thesis
    unfolding ioctl_advance_def io_park_def io_move_def next_cluster_def
    using fat_block_get [OF ok fat_pos_range(1) [OF ok two]] first_sector [OF ok]
    by (simp add: last Let_def off sec put bps_le_offset [OF ok] start)
qed

lemma ioctl_advance_next:
  assumes ok: "fat_ok v" and c: "IS_DATA_CLUSTER v c" and not_last: "c + 1 \<noteq> total_clusters v + 2"
  shows "ioctl_advance (io_park v c s) = (io_move v (next_cluster v c) s, False)"
proof -
  let ?q = "fat_last v c" and ?n = "fat_next v c"
  have nc: "next_cluster v c = c + 1" using not_last by (simp add: next_cluster_def)
  have data: "IS_DATA_CLUSTER v (c + 1)" using next_cluster_data(1) [OF ok c] nc by simp
  have "c + 1 \<noteq> 2" using c by (auto simp: IS_DATA_CLUSTER_def word_le_nat_alt)
  then have "unat (c + 1) = unat c + 1" using next_cluster_data(2) [OF ok c] nc by simp
  then have pos: "fat_pos v (c + 1) = ?n" by (simp add: fat_pos_def fat_next_def)
  have range: "fat_range v ?n" using fat_pos_range(1) [OF ok data] pos by simp
  let ?o = "?n - ?q div bps v * bps v"
  have bps: "512 \<le> bps v" "bps v \<le> 4096" by (rule fat_ok_bps [OF ok])+
  have le: "?q div bps v * bps v \<le> ?n" using fat_next_bounds(1) [OF ok] by (meson div_times_less_eq_dividend le_trans)
  have "?q - ?q div bps v * bps v < bps v"
    using bps by (simp add: minus_div_mult_eq_mod)
  then have o: "?o < bps v + 4" using fat_next_bounds(2) [OF ok, of c] by linarith
  have put: "uint (fat_sector v (?q div bps v)) = fat_block v ?q"
    by (rule uint_fat_sector [OF ok fat_last_range [OF ok c]])
  have n: "?n = ?q div bps v * bps v + ?o" using le by simp
  show ?thesis
  proof (cases "?o < bps v")
    case True
    have "?n div bps v = ?q div bps v" "?n mod bps v = ?o"
      by (rule div_mod_split [OF n True])+
    moreover from this have "fat_block v ?n = fat_block v ?q" by (simp add: fat_block_def)
    ultimately show ?thesis
      unfolding ioctl_advance_def io_park_def io_move_def nc
      using not_last True o bps by (simp add: Let_def pos bps_le_offset [OF ok])
  next
    case False
    then obtain r where r: "?o = bps v + r" using nat_le_iff_add not_less by blast
    then have "r < bps v" using o bps by linarith
    moreover have "?n = (?q div bps v + 1) * bps v + r" using n r by simp
    ultimately have "?n div bps v = ?q div bps v + 1" "?n mod bps v = r"
      by (metis div_mod_split)+
    moreover have "(of_nat ?o :: uint32) - bytes_per_sector v = of_nat r"
      unfolding r by (simp add: bps_def)
    moreover have "bytes_per_sector v \<le> (of_nat ?o :: uint32)"
      using False o bps by (subst bps_le_offset [OF ok]) simp_all
    moreover have "fat_sector v (?q div bps v) + 1 = fat_sector v (?q div bps v + 1)"
      by (simp add: fat_sector_def)
    ultimately show ?thesis
      unfolding ioctl_advance_def io_park_def io_move_def nc
      using not_last False o bps fat_block_get [OF ok range] uint_fat_sector [OF ok range]
      by (simp add: Let_def pos put)
  qed
qed

lemma ioctl_advance_eq:
  "fat_ok v \<Longrightarrow> IS_DATA_CLUSTER v c \<Longrightarrow> ioctl_advance (io_park v c s) = (io_move v (next_cluster v c) s, False)"
  using ioctl_advance_wrap ioctl_advance_next by blast

subsection \<open>One turn for each action\<close>

lemma io_block1_move [simp]: "io_block1 (io_move v c s) = Some (fat_block v (fat_pos v c))"
  by (simp add: io_move_def)

lemma io_park_sel [simp]:
  "io_vol (io_park v c s) = hold v (fat_block v (fat_last v c))"
  "io_block1 (io_park v c s) = Some (fat_block v (fat_last v c))"
  "io_sector (io_park v c s) = fat_sector v (fat_last v c div bps v)"
  "io_cluster (io_park v c s) = c" "io_value (io_park v c s) = io_value s"
  "io_result (io_park v c s) = io_result s" "io_n (io_park v c s) = io_n s"
  "io_first (io_park v c s) = io_first s" "io_last (io_park v c s) = io_last s"
  by (simp_all add: io_park_def)

lemma io_move_sel [simp]:
  "io_vol (io_move v c s) = hold v (fat_block v (fat_pos v c))"
  "io_sector (io_move v c s) = fat_sector v (fat_pos v c div bps v)"
  "io_cluster (io_move v c s) = c" "io_value (io_move v c s) = io_value s"
  "io_result (io_move v c s) = io_result s" "io_n (io_move v c s) = io_n s"
  "io_first (io_move v c s) = io_first s" "io_last (io_move v c s) = io_last s"
  by (simp_all add: io_move_def)

lemma io_park_update:
  "(io_park v c s)\<lparr>io_result := r\<rparr> = io_park v c (s\<lparr>io_result := r\<rparr>)"
  "(io_park v c s)\<lparr>io_n := n\<rparr> = io_park v c (s\<lparr>io_n := n\<rparr>)"
  "(io_park v c s)\<lparr>io_first := f\<rparr> = io_park v c (s\<lparr>io_first := f\<rparr>)"
  "(io_park v c s)\<lparr>io_last := l\<rparr> = io_park v c (s\<lparr>io_last := l\<rparr>)"
  by (simp_all add: io_park_def)

lemma mirror_last:
  assumes "fat_ok v" "IS_DATA_CLUSTER v c"
  shows "mirror_fats (fat_write v c m) (fat_sector v (fat_last v c div bps v))
      (block_data (fat_write v c m) (fat_block v (fat_last v c))) = fat_store v c m"
  using contents_only_sel [OF fat_write_ok(2) [OF assms]]
  by (simp add: fat_store_write fat_flush_def fat_sector_def)

lemma iteration_get:
  assumes "fat_ok v" "IS_DATA_CLUSTER v c"
  shows "ioctl_iteration rec IOCTL_GET_ENTRY N m (io_move v c s)
    = (io_park v c (s\<lparr>io_value := fat_entry v c, io_result := sint (fat_entry v c)\<rparr>), True)"
  using ioctl_entry_eq [OF assms]
  by (simp add: ioctl_iteration_def ioctl_dispatch_def ioctl_writes_def entry_value_def io_park_update)

lemma iteration_count:
  assumes "fat_ok v" "IS_DATA_CLUSTER v c"
  shows "ioctl_iteration rec IOCTL_COUNT_FREE N m (io_move v c s)
    = (io_move v (next_cluster v c) (s\<lparr>io_value := fat_entry v c,
         io_result := (if fat_entry v c = 0 then io_result s + 1 else io_result s)\<rparr>), False)"
  using ioctl_entry_eq [OF assms] ioctl_advance_eq [OF assms]
  by (simp add: ioctl_iteration_def ioctl_dispatch_def ioctl_writes_def entry_value_def io_park_update)

lemma iteration_set:
  assumes "fat_ok v" "IS_DATA_CLUSTER v c"
  shows "ioctl_iteration rec IOCTL_SET_ENTRY N m (io_move v c s) = (io_park (fat_store v c m) c s, True)"
  using ioctl_entry_eq [OF assms] mirror_last [OF assms]
    io_park_contents [OF fat_store_contents_only [OF assms]] contents_only_sel [OF fat_write_ok(2) [OF assms]]
    io_park_contents [OF fat_write_ok(2) [OF assms]]
  by (simp add: ioctl_iteration_def ioctl_dispatch_def ioctl_writes_def entry_value_def fat_sector_def)

lemma iteration_alloc_used:
  assumes "fat_ok v" "IS_DATA_CLUSTER v c" "fat_entry v c \<noteq> 0"
  shows "ioctl_iteration rec IOCTL_ALLOCATE_N_ENTRIES N m (io_move v c s)
    = (io_move v (next_cluster v c) (s\<lparr>io_value := fat_entry v c\<rparr>), False)"
  using ioctl_entry_eq [OF assms(1,2)] ioctl_advance_eq [OF assms(1,2)] assms(3)
  by (simp add: ioctl_iteration_def ioctl_dispatch_def ioctl_writes_def entry_value_def)

subsection \<open>Reading and writing an entry\<close>

lemma of_nat_unat: "unat (w :: uint32) = n \<Longrightarrow> w = of_nat n"
  by auto

lemma body_start:
  assumes ok: "fat_ok v" and c: "IS_DATA_CLUSTER v c"
  shows "block_cache_get v (uint (fat_start_sector v + c * ucast (fat_bits v) div 8 div bytes_per_sector v))
      = (Some (fat_block v (fat_pos v c)), hold v (fat_block v (fat_pos v c)))"
    "\<lparr>io_vol = hold v (fat_block v (fat_pos v c)), io_result = r, io_n = n, io_first = f, io_last = l,
       io_cluster = c, io_sector = fat_start_sector v + c * ucast (fat_bits v) div 8 div bytes_per_sector v,
       io_offset = c * ucast (fat_bits v) div 8 mod bytes_per_sector v, io_value = x,
       io_block1 = Some (fat_block v (fat_pos v c))\<rparr>
     = io_move v c \<lparr>io_vol = v, io_result = r, io_n = n, io_first = f, io_last = l, io_cluster = c,
         io_sector = 0, io_offset = 0, io_value = x, io_block1 = None\<rparr>"
proof -
  let ?o = "c * ucast (fat_bits v) div 8"
  have o: "unat ?o = fat_pos v c" using unat_fat_offset ok c by (simp add: fat_ok_def)
  have "unat (?o div bytes_per_sector v) = fat_pos v c div bps v"
    "unat (?o mod bytes_per_sector v) = fat_pos v c mod bps v"
    using unat_div [of ?o "bytes_per_sector v"] unat_mod [of ?o "bytes_per_sector v"]
    by (simp_all only: o bps_def)
  then have eq: "?o div bytes_per_sector v = of_nat (fat_pos v c div bps v)"
    "?o mod bytes_per_sector v = of_nat (fat_pos v c mod bps v)"
    by (simp_all only: of_nat_unat)
  have sec: "fat_start_sector v + ?o div bytes_per_sector v = fat_sector v (fat_pos v c div bps v)"
    by (simp add: fat_sector_def eq)
  note range = fat_pos_range(1) [OF ok c]
  show "block_cache_get v (uint (fat_start_sector v + ?o div bytes_per_sector v))
      = (Some (fat_block v (fat_pos v c)), hold v (fat_block v (fat_pos v c)))"
    unfolding sec uint_fat_sector [OF ok range] by (rule fat_block_get [OF ok range])
  show "\<lparr>io_vol = hold v (fat_block v (fat_pos v c)), io_result = r, io_n = n, io_first = f, io_last = l,
       io_cluster = c, io_sector = fat_start_sector v + ?o div bytes_per_sector v,
       io_offset = ?o mod bytes_per_sector v, io_value = x, io_block1 = Some (fat_block v (fat_pos v c))\<rparr>
     = io_move v c \<lparr>io_vol = v, io_result = r, io_n = n, io_first = f, io_last = l, io_cluster = c,
         io_sector = 0, io_offset = 0, io_value = x, io_block1 = None\<rparr>"
    unfolding eq by (simp add: io_move_def fat_sector_def)
qed

lemma total_clusters_Suc:
  assumes "fat_ok v" "IS_DATA_CLUSTER v c"
  obtains k where "unat (total_clusters v) = Suc k"
  using assms by (cases "unat (total_clusters v)") (auto simp: fat_ok_def IS_DATA_CLUSTER_unat)

lemma finish_park:
  assumes "fat_ok v" "IS_DATA_CLUSTER v c" "action \<noteq> IOCTL_ALLOCATE_N_ENTRIES"
  shows "ioctl_finish clr action N (io_park v c s) = (io_result s, v)"
  using uint_fat_sector [OF assms(1) fat_last_range [OF assms(1,2)]] assms(3)
  by (simp add: ioctl_finish_def)

lemma fat_ioctl_body_get:
  assumes "fat_ok v" "IS_DATA_CLUSTER v c"
  shows "fat_ioctl_body rec clr v IOCTL_GET_ENTRY c N = (sint (fat_entry v c), v)"
proof -
  obtain k where k: "unat (total_clusters v) = Suc k" using total_clusters_Suc [OF assms] .
  show ?thesis
    using assms body_start [OF assms] iteration_get [OF assms] finish_park [OF assms]
    by (simp add: fat_ioctl_body_def Let_def k)
qed

lemma fat_ioctl_body_set:
  assumes "fat_ok v" "IS_DATA_CLUSTER v c"
  shows "fat_ioctl_body rec clr v IOCTL_SET_ENTRY c N = (B_OK, fat_store v c (word_of_int N))"
proof -
  obtain k where k: "unat (total_clusters v) = Suc k" using total_clusters_Suc [OF assms] .
  have "IS_DATA_CLUSTER (fat_store v c m) c" for m
    using contents_only_sel [OF fat_store_contents_only [OF assms, of m]] assms(2) by simp
  then have "ioctl_finish clr IOCTL_SET_ENTRY N (io_park (fat_store v c m) c s) = (io_result s, fat_store v c m)" for m s
    using finish_park [OF fat_store_ok [OF assms]] by simp
  then show ?thesis
    using assms body_start [OF assms] iteration_set [OF assms]
    by (simp add: fat_ioctl_body_def Let_def k B_OK_def)
qed

lemma set_fat_entry_eq:
  "fat_ok v \<Longrightarrow> IS_DATA_CLUSTER v c \<Longrightarrow> set_fat_entry v c n = (B_OK, fat_store v c (word_of_int n))"
  by (simp add: set_fat_entry_def fat_ioctl_rw_def fat_ioctl_body_set)

subsection \<open>Counting\<close>

text \<open>The clusters that \<open>k\<close> turns of the loop visit, from \<open>c\<close> on.\<close>

fun scan :: "nspace \<Rightarrow> uint32 \<Rightarrow> nat \<Rightarrow> uint32 list" where
  "scan v c 0 = []"
| "scan v c (Suc k) = c # scan v (next_cluster v c) k"

lemma length_scan [simp]: "length (scan v c k) = k"
  by (induction k arbitrary: c) auto

lemma next_cluster_index:
  assumes "fat_ok v" "IS_DATA_CLUSTER v c"
  shows "unat (next_cluster v c) = (unat c - 2 + 1) mod unat (total_clusters v) + 2"
proof -
  have wf: "wf_fat v" using assms(1) by (simp add: fat_ok_def)
  note c = assms(2) [unfolded IS_DATA_CLUSTER_unat [OF wf]]
  have t: "unat (total_clusters v + 2) = unat (total_clusters v) + 2" "unat (c + 1) = unat c + 1"
    using c total_clusters_bound [OF wf] by (simp_all add: unat_word_ariths)
  show ?thesis
  proof (cases "c + 1 = total_clusters v + 2")
    case True
    then have "unat c + 1 = unat (total_clusters v) + 2" using t by metis
    then have "unat c - 2 + 1 = unat (total_clusters v)" using c by simp
    then show ?thesis using True by (simp add: next_cluster_def)
  next
    case False
    then have "unat c + 1 \<noteq> unat (total_clusters v) + 2" using t by (metis word_unat_eq_iff)
    then have "unat c - 2 + 1 < unat (total_clusters v)" using c by linarith
    then have "(unat c - 2 + 1) mod unat (total_clusters v) + 2 = unat c + 1" using c by (subst mod_less) auto
    then show ?thesis using False t by (simp add: next_cluster_def)
  qed
qed

lemma scan_nth:
  assumes "fat_ok v"
  shows "IS_DATA_CLUSTER v c \<Longrightarrow> i < k \<Longrightarrow>
    unat (scan v c k ! i) = (unat c - 2 + i) mod unat (total_clusters v) + 2"
proof (induction k arbitrary: c i)
  case (Suc k)
  have c: "2 \<le> unat c" "unat c - 2 < unat (total_clusters v)"
    using Suc.prems(1) assms by (auto simp: fat_ok_def IS_DATA_CLUSTER_unat)
  show ?case
  proof (cases i)
    case 0
    then show ?thesis using c by simp
  next
    case (Suc j)
    then show ?thesis
      using Suc.IH [OF next_cluster_data(1) [OF assms Suc.prems(1)], of j] Suc.prems(2)
        next_cluster_index [OF assms Suc.prems(1)] by (simp add: mod_add_left_eq mod_Suc_eq)
  qed
qed simp

lemma mod_shift_inj:
  fixes t :: nat
  assumes "(a + i) mod t = (a + j) mod t" "i < t" "j < t"
  shows "i = j"
proof -
  have "i = j" if "(a + i) mod t = (a + j) mod t" "i \<le> j" "j < t" for i j
    using that mod_eq_dvd_iff_nat [of "a + i" "a + j" t] by (auto simp: dvd_imp_le dest!: dvd_imp_le)
  then show ?thesis using assms by (metis nat_le_linear)
qed

lemma scan_data: "fat_ok v \<Longrightarrow> IS_DATA_CLUSTER v c \<Longrightarrow> x \<in> set (scan v c k) \<Longrightarrow> IS_DATA_CLUSTER v x"
  by (induction k arbitrary: c) (auto dest: next_cluster_data)

lemma scan_all:
  assumes ok: "fat_ok v" and c: "IS_DATA_CLUSTER v c"
  shows "distinct (scan v c (unat (total_clusters v)))"
    "set (scan v c (unat (total_clusters v))) = {x. IS_DATA_CLUSTER v x}"
proof -
  let ?t = "unat (total_clusters v)"
  show dist: "distinct (scan v c ?t)"
    unfolding distinct_conv_nth length_scan
  proof (intro allI impI notI)
    fix i j
    assume ij: "i < ?t" "j < ?t" "i \<noteq> j" and "scan v c ?t ! i = scan v c ?t ! j"
    then have "(unat c - 2 + i) mod ?t = (unat c - 2 + j) mod ?t"
      using scan_nth [OF ok c ij(1)] scan_nth [OF ok c ij(2)] by simp
    then show False using mod_shift_inj ij by blast
  qed
  have "card {x. IS_DATA_CLUSTER v x} \<le> card {2..<?t + 2}"
    using ok by (intro card_inj_on_le [of unat]) (auto simp: inj_on_def fat_ok_def IS_DATA_CLUSTER_unat word_unat_eq_iff)
  also have "\<dots> = card (set (scan v c ?t))" using distinct_card [OF dist] by simp
  finally show "set (scan v c ?t) = {x. IS_DATA_CLUSTER v x}"
    using scan_data [OF ok c] by (intro card_seteq) auto
qed

lemma loop_count:
  assumes "fat_ok v"
  shows "IS_DATA_CLUSTER v c \<Longrightarrow>
    \<exists>x d. ioctl_loop rec IOCTL_COUNT_FREE N m k (io_move v c s)
      = io_move v d (s\<lparr>io_value := x,
          io_result := io_result s + int (length (filter (\<lambda>c. fat_entry v c = 0) (scan v c k)))\<rparr>)
      \<and> IS_DATA_CLUSTER v d"
proof (induction k arbitrary: c s)
  case 0
  then show ?case by (rule_tac x = "io_value s" in exI, rule_tac x = c in exI) simp
next
  case (Suc k)
  let ?s = "s\<lparr>io_value := fat_entry v c,
      io_result := (if fat_entry v c = 0 then io_result s + 1 else io_result s)\<rparr>"
  obtain x d where "ioctl_loop rec IOCTL_COUNT_FREE N m k (io_move v (next_cluster v c) ?s)
      = io_move v d (?s\<lparr>io_value := x, io_result := io_result ?s
          + int (length (filter (\<lambda>c. fat_entry v c = 0) (scan v (next_cluster v c) k)))\<rparr>)"
    "IS_DATA_CLUSTER v d"
    using Suc.IH [OF next_cluster_data(1) [OF assms Suc.prems]] by blast
  then show ?case
    by (rule_tac x = x in exI, rule_tac x = d in exI) (simp add: iteration_count [OF assms Suc.prems] add_ac)
qed

definition free_set :: "nspace \<Rightarrow> uint32 set" where
  "free_set v = {c. IS_DATA_CLUSTER v c \<and> fat_entry v c = 0}"

lemma free_set_scan:
  assumes "fat_ok v" "IS_DATA_CLUSTER v c"
  shows "length (filter (\<lambda>c. fat_entry v c = 0) (scan v c (unat (total_clusters v)))) = card (free_set v)"
proof -
  note all = scan_all [OF assms]
  have "free_set v = set (filter (\<lambda>c. fat_entry v c = 0) (scan v c (unat (total_clusters v))))"
    using all(2) by (auto simp: free_set_def)
  then show ?thesis using distinct_card [OF distinct_filter [OF all(1)]] by simp
qed

lemma finish_move:
  assumes "fat_ok v" "IS_DATA_CLUSTER v c" "action \<noteq> IOCTL_ALLOCATE_N_ENTRIES"
  shows "ioctl_finish clr action N (io_move v c s) = (io_result s, v)"
  using uint_fat_sector [OF assms(1) fat_pos_range(1) [OF assms(1,2)]] assms(3)
  by (simp add: ioctl_finish_def)

lemma count_free_clusters_eq:
  assumes "fat_ok v" "IS_DATA_CLUSTER v 2" "bits v \<noteq> 32"
  shows "count_free_clusters v = (int (card (free_set v)), v)"
proof -
  have "fat_bits v \<noteq> 32" using assms(3) by (auto simp: bits_def)
  moreover have "ioctl_finish (\<lambda>vol _. vol) IOCTL_COUNT_FREE 0
      (ioctl_loop (\<lambda>vol _ _. (B_OK, vol)) IOCTL_COUNT_FREE 0 0x0fffffff (unat (total_clusters v)) (io_move v 2 s))
      = (io_result s + int (card (free_set v)), v)" for s
  proof -
    obtain x d where "ioctl_loop (\<lambda>vol _ _. (B_OK, vol)) IOCTL_COUNT_FREE 0 0x0fffffff (unat (total_clusters v)) (io_move v 2 s)
        = io_move v d (s\<lparr>io_value := x, io_result := io_result s + int (card (free_set v))\<rparr>)"
      "IS_DATA_CLUSTER v d"
      using loop_count [OF assms(1,2)] free_set_scan [OF assms(1,2)] by metis
    then show ?thesis by (simp add: finish_move [OF assms(1)])
  qed
  ultimately show ?thesis
    using body_start [OF assms(1,2)]
    by (simp add: count_free_clusters_def fat_ioctl_rw_def fat_ioctl_body_def Let_def)
qed

end
