(* ===== verification/Link_Table.thy ===== *)
theory Link_Table
  imports Main
begin

section \<open>The interface of a table of links\<close>

text \<open>
  What the chain operations of the file system rely on: a table that maps each data cluster to its
  successor, to an end marker or to the mark of a free cluster, together with a counter of free
  clusters that does not influence the links. The locale states the laws; the lemmas about
  chains, about linking a list of clusters and about releasing one are proved once inside it, and
  the file allocation table interprets it.
\<close>

text \<open>A chain: data clusters, each linked to the next, the last one to an end marker.\<close>

fun chain :: "('c \<Rightarrow> bool) \<Rightarrow> ('c \<Rightarrow> 'c) \<Rightarrow> ('c \<Rightarrow> bool) \<Rightarrow> 'c list \<Rightarrow> bool" where
  "chain data link is_end [] \<longleftrightarrow> False"
| "chain data link is_end [c] \<longleftrightarrow> data c \<and> is_end (link c)"
| "chain data link is_end (c # d # cs) \<longleftrightarrow> data c \<and> link c = d \<and> chain data link is_end (d # cs)"

text \<open>Allocating clusters one after the other: each is marked as the end, counted, and linked to
  by its predecessor.\<close>

definition alloc_step :: "('v \<Rightarrow> 'c \<Rightarrow> 'c \<Rightarrow> 'v) \<Rightarrow> ('v \<Rightarrow> 'v) \<Rightarrow> 'c \<Rightarrow> 'v \<Rightarrow> 'c option \<Rightarrow> 'c \<Rightarrow> 'v" where
  "alloc_step store take_one eoc v prev c =
     (let w = take_one (store v c eoc) in case prev of None \<Rightarrow> w | Some p \<Rightarrow> store w p c)"

fun alloc_links :: "('v \<Rightarrow> 'c \<Rightarrow> 'c \<Rightarrow> 'v) \<Rightarrow> ('v \<Rightarrow> 'v) \<Rightarrow> 'c \<Rightarrow> 'v \<Rightarrow> 'c option \<Rightarrow> 'c list \<Rightarrow> 'v" where
  "alloc_links store take_one eoc v prev [] = v"
| "alloc_links store take_one eoc v prev (c # cs) =
     alloc_links store take_one eoc (alloc_step store take_one eoc v prev c) (Some c) cs"

fun free_links :: "('v \<Rightarrow> 'c \<Rightarrow> 'c \<Rightarrow> 'v) \<Rightarrow> ('v \<Rightarrow> 'c \<Rightarrow> 'v) \<Rightarrow> 'c \<Rightarrow> 'v \<Rightarrow> 'c list \<Rightarrow> 'v" where
  "free_links store give free v [] = v"
| "free_links store give free v (c # cs) = free_links store give free (give (store v c free) c) cs"

lemma chain_data: "chain data link is_end cs \<Longrightarrow> c \<in> set cs \<Longrightarrow> data c"
  by (induction data link is_end cs rule: chain.induct) auto

lemma chain_Cons: "chain data link is_end (c # cs) \<longleftrightarrow>
    data c \<and> (if cs = [] then is_end (link c) else link c = hd cs \<and> chain data link is_end cs)"
  by (cases cs) auto

lemma chain_cong:
  "chain data link is_end cs \<Longrightarrow> (\<And>c. c \<in> set cs \<Longrightarrow> link' c = link c) \<Longrightarrow> chain data link' is_end cs"
  by (induction data link is_end cs rule: chain.induct) auto

lemma chain_hd_data: "chain data link is_end cs \<Longrightarrow> data (hd cs)"
  by (cases cs) (auto simp: chain_Cons)

text \<open>The clusters that follow a cluster are determined by the links.\<close>

lemma chain_hd_unique:
  assumes "\<And>x. is_end x \<Longrightarrow> \<not> data x"
  shows "chain data link is_end cs \<Longrightarrow> chain data link is_end ds \<Longrightarrow> hd cs = hd ds \<Longrightarrow> cs = ds"
proof (induction cs arbitrary: ds)
  case (Cons c cs)
  obtain d es where ds: "ds = d # es" using Cons.prems(2) by (cases ds) auto
  have "cs = es"
  proof (cases "cs = [] \<or> es = []")
    case True
    then show ?thesis
      using Cons.prems assms chain_hd_data [of data link is_end cs] chain_hd_data [of data link is_end es] ds
      by (auto simp: chain_Cons split: if_splits)
  next
    case False
    then show ?thesis using Cons ds by (auto simp: chain_Cons)
  qed
  then show ?case using Cons.prems(3) ds by simp
qed simp

lemma chain_suffix: "chain data link is_end (xs @ ys) \<Longrightarrow> ys \<noteq> [] \<Longrightarrow> chain data link is_end ys"
  by (induction xs) (auto simp: chain_Cons split: if_splits)

lemma chain_distinct:
  assumes "\<And>x. is_end x \<Longrightarrow> \<not> data x" "chain data link is_end cs"
  shows "distinct cs"
proof (rule ccontr)
  assume "\<not> distinct cs"
  then obtain xs ys zs c where cs: "cs = xs @ [c] @ ys @ [c] @ zs"
    using not_distinct_decomp by blast
  have "chain data link is_end (c # ys @ [c] @ zs)" "chain data link is_end (c # zs)"
    using chain_suffix [of data link is_end xs "c # ys @ [c] @ zs"]
      chain_suffix [of data link is_end "xs @ c # ys" "c # zs"] assms(2) by (simp_all add: cs)
  then have "c # ys @ [c] @ zs = c # zs"
    using chain_hd_unique [of is_end data link "c # ys @ [c] @ zs" "c # zs"] assms(1) by simp
  then have "length (c # ys @ [c] @ zs) = length (c # zs)" by (rule arg_cong)
  then show False by simp
qed

subsection \<open>The laws\<close>

locale link_table =
  fixes ok :: "'v \<Rightarrow> bool" and data :: "'v \<Rightarrow> 'c \<Rightarrow> bool" and link :: "'v \<Rightarrow> 'c \<Rightarrow> 'c"
    and store :: "'v \<Rightarrow> 'c \<Rightarrow> 'c \<Rightarrow> 'v" and take_one :: "'v \<Rightarrow> 'v" and give :: "'v \<Rightarrow> 'c \<Rightarrow> 'v"
    and is_end :: "'c \<Rightarrow> bool" and eoc :: 'c and free :: 'c
  assumes store_ok: "ok v \<Longrightarrow> data v c \<Longrightarrow> ok (store v c x)"
    and store_data: "ok v \<Longrightarrow> data v c \<Longrightarrow> data (store v c x) = data v"
    and link_store: "ok v \<Longrightarrow> data v c \<Longrightarrow> data v d \<Longrightarrow> data v x \<or> x = eoc \<or> x = free \<Longrightarrow>
          link (store v c x) d = (if d = c then x else link v d)"
    and count_ok: "ok (take_one v) = ok v" "ok (give v c) = ok v"
    and count_data: "data (take_one v) = data v" "data (give v c) = data v"
    and count_link: "link (take_one v) = link v" "link (give v c) = link v"
    and end_not_data: "ok v \<Longrightarrow> is_end x \<Longrightarrow> \<not> data v x"
    and eoc_end: "is_end eoc"
    and free_not_data: "ok v \<Longrightarrow> \<not> data v free"
    and eoc_not_free: "eoc \<noteq> free"
begin

abbreviation chain_at :: "'v \<Rightarrow> 'c list \<Rightarrow> bool" where
  "chain_at v \<equiv> chain (data v) (link v) is_end"

abbreviation alloc :: "'v \<Rightarrow> 'c option \<Rightarrow> 'c list \<Rightarrow> 'v" where
  "alloc \<equiv> alloc_links store take_one eoc"

abbreviation release :: "'v \<Rightarrow> 'c list \<Rightarrow> 'v" where
  "release \<equiv> free_links store give free"

lemmas counts = count_ok count_data count_link

lemma chain_at_distinct: "ok v \<Longrightarrow> chain_at v cs \<Longrightarrow> distinct cs"
  using chain_distinct [of is_end "data v" "link v" cs] end_not_data by blast

lemma step_laws:
  assumes "ok v" "data v c" "case prev of None \<Rightarrow> True | Some p \<Rightarrow> data v p"
  shows "ok (alloc_step store take_one eoc v prev c)"
    "data (alloc_step store take_one eoc v prev c) = data v"
    "data v d \<Longrightarrow> link (alloc_step store take_one eoc v prev c) d =
       (if prev = Some d then c else if d = c then eoc else link v d)"
  using assms
  by (auto simp: alloc_step_def Let_def counts store_ok store_data link_store split: option.splits)

lemma alloc_laws:
  "ok v \<Longrightarrow> (\<And>c. c \<in> set cs \<Longrightarrow> data v c) \<Longrightarrow> (case prev of None \<Rightarrow> True | Some p \<Rightarrow> data v p) \<Longrightarrow>
     ok (alloc v prev cs) \<and> data (alloc v prev cs) = data v"
proof (induction cs arbitrary: v prev)
  case (Cons c cs)
  then have "data v c" by simp
  from Cons.IH [of "alloc_step store take_one eoc v prev c" "Some c"]
  show ?case using Cons.prems \<open>data v c\<close> step_laws [OF Cons.prems(1) \<open>data v c\<close> Cons.prems(3)]
    by (simp del: split_paired_All)
qed simp

lemma alloc_other:
  "ok v \<Longrightarrow> (\<And>c. c \<in> set cs \<Longrightarrow> data v c) \<Longrightarrow> (case prev of None \<Rightarrow> True | Some p \<Rightarrow> data v p) \<Longrightarrow>
     data v d \<Longrightarrow> d \<notin> set cs \<Longrightarrow> prev \<noteq> Some d \<Longrightarrow> link (alloc v prev cs) d = link v d"
proof (induction cs arbitrary: v prev)
  case (Cons c cs)
  then have c: "data v c" by simp
  have "link (alloc (alloc_step store take_one eoc v prev c) (Some c) cs) d
      = link (alloc_step store take_one eoc v prev c) d"
    using Cons.prems step_laws [OF Cons.prems(1) c Cons.prems(3)] by (intro Cons.IH) auto
  then show ?case using Cons.prems step_laws(3) [OF Cons.prems(1) c Cons.prems(3)] by auto
qed simp

text \<open>Linking distinct clusters makes them a chain, behind the cluster they were linked to.\<close>

lemma alloc_chain:
  assumes "ok v" "\<And>c. c \<in> set cs \<Longrightarrow> data v c" "distinct cs" "cs \<noteq> []"
  shows "chain_at (alloc v None cs) cs"
proof -
  have "chain_at (alloc v (Some p) cs) (p # cs)"
    if "ok v" "\<And>c. c \<in> set cs \<Longrightarrow> data v c" "distinct (p # cs)" "data v p" "link v p = eoc" for v p cs
    using that
  proof (induction cs arbitrary: v p)
    case Nil
    then show ?case by (simp add: eoc_end)
  next
    case (Cons c cs)
    then have c: "data v c" by simp
    let ?w = "alloc_step store take_one eoc v (Some p) c"
    have s: "ok ?w" "data ?w = data v" "\<And>d. data v d \<Longrightarrow> link ?w d = (if Some p = Some d then c else if d = c then eoc else link v d)"
      using step_laws [OF Cons.prems(1) c, of "Some p"] Cons.prems(4) by auto
    have "chain_at (alloc ?w (Some c) cs) (c # cs)"
      using Cons.prems s c by (intro Cons.IH) auto
    moreover have "link (alloc ?w (Some c) cs) p = c"
      using Cons.prems s c by (subst alloc_other) auto
    moreover have "data (alloc ?w (Some c) cs) = data v"
      using Cons.prems s c alloc_laws [of ?w cs "Some c"] by auto
    ultimately show ?case using Cons.prems by simp
  qed
  note key = this
  obtain c ds where cs: "cs = c # ds" using assms(4) by (cases cs) auto
  then have c: "data v c" using assms(2) by simp
  let ?w = "alloc_step store take_one eoc v None c"
  have "ok ?w" "data ?w = data v" "link ?w c = eoc"
    using step_laws [OF assms(1) c, of None] c by auto
  then show ?thesis using key [of ?w ds c] assms cs by auto
qed

lemma release_laws:
  "ok v \<Longrightarrow> (\<And>c. c \<in> set cs \<Longrightarrow> data v c) \<Longrightarrow>
     ok (release v cs) \<and> data (release v cs) = data v \<and>
     (\<forall>d. data v d \<longrightarrow> link (release v cs) d = (if d \<in> set cs then free else link v d))"
proof (induction cs arbitrary: v)
  case (Cons c cs)
  let ?w = "give (store v c free) c"
  have c: "data v c" using Cons.prems by simp
  have w: "ok ?w" "data ?w = data v" "\<And>d. data v d \<Longrightarrow> link ?w d = (if d = c then free else link v d)"
    using Cons.prems(1) c by (simp_all add: counts store_ok store_data link_store)
  show ?case using Cons.IH [of ?w] w Cons.prems by auto
qed simp

text \<open>Releasing what was allocated from free clusters restores every link.\<close>

lemma release_alloc:
  assumes "ok v" "\<And>c. c \<in> set cs \<Longrightarrow> data v c \<and> link v c = free" "data v d"
  shows "link (release (alloc v None cs) cs) d = link v d"
proof -
  have a: "ok (alloc v None cs)" "data (alloc v None cs) = data v"
    using alloc_laws [of v cs None] assms by auto
  have "link (release (alloc v None cs) cs) d = (if d \<in> set cs then free else link (alloc v None cs) d)"
    using release_laws [of "alloc v None cs" cs] a assms by auto
  then show ?thesis using assms alloc_other [of v cs None d] by auto
qed

end

end
