(* ===== verification/Fat_Chain.thy ===== *)
theory Fat_Chain
  imports Fat_Ioctl Link_Table
begin

section \<open>Cluster chains\<close>

text \<open>
  The file allocation table as a table of links: \<open>link_table\<close> interpreted on the model, and the
  chain operations of \<open>fat.c\<close> (\<open>get_fat_entry\<close>, \<open>get_nth_fat_entry\<close>, \<open>count_clusters\<close>,
  \<open>clear_fat_chain\<close>) shown to compute what their chain is.
\<close>

subsection \<open>The counter of free clusters does not touch the table\<close>

definition take_cluster :: "nspace \<Rightarrow> nspace" where
  "take_cluster v = v\<lparr>free_clusters := free_clusters v - 1\<rparr>"

definition give_cluster :: "bool \<Rightarrow> nspace \<Rightarrow> uint32 \<Rightarrow> nspace" where
  "give_cluster discard v c =
     (let v = (if discard
               then block_cache_discard v (uint (data_start v + (c - 2) * sectors_per_cluster v))
                      (unat (sectors_per_cluster v))
               else v)
      in v\<lparr>free_clusters := free_clusters v + 1\<rparr>)"

text \<open>Two volumes with the same table.\<close>

definition same_fat :: "nspace \<Rightarrow> nspace \<Rightarrow> bool" where
  "same_fat v w \<longleftrightarrow> blk w = blk v \<and> bytes_per_sector w = bytes_per_sector v \<and> fat_bits w = fat_bits v \<and>
     sectors_per_fat w = sectors_per_fat v \<and> reserved_sectors w = reserved_sectors v \<and>
     fat_count w = fat_count v \<and> active_fat w = active_fat v \<and> total_clusters w = total_clusters v \<and>
     fat_mirrored w = fat_mirrored v"

lemma same_fat_laws:
  assumes "same_fat v w"
  shows "fat_ok w = fat_ok v" "IS_DATA_CLUSTER w = IS_DATA_CLUSTER v" "fat_entry w = fat_entry v"
    "bits w = bits v" "total_clusters w = total_clusters v" "next_cluster w = next_cluster v"
proof -
  have geo: "bps w = bps v" "spf w = spf v" "bits w = bits v" "fat_pos w = fat_pos v" "fat_copy w = fat_copy v"
    using assms by (simp_all add: same_fat_def bps_def spf_def bits_def fat_pos_def fat_copy_def fun_eq_iff)
  then have "fat_block w = fat_block v" "fat_byte w = fat_byte v"
    using assms by (simp_all add: same_fat_def fat_block_def fat_byte_def block_data_def fun_eq_iff)
  with geo assms show "fat_ok w = fat_ok v" "IS_DATA_CLUSTER w = IS_DATA_CLUSTER v" "fat_entry w = fat_entry v"
    "bits w = bits v" "total_clusters w = total_clusters v" "next_cluster w = next_cluster v"
    by (auto simp: same_fat_def fat_ok_def wf_fat_def fat_readable_def IS_DATA_CLUSTER_def fat_entry_def
        next_cluster_def Let_def)
qed

lemma same_fat_count: "same_fat v (take_cluster v)" "same_fat v (give_cluster d v c)"
    "same_fat v (v\<lparr>last_allocated := a\<rparr>)"
  by (simp_all add: same_fat_def take_cluster_def give_cluster_def block_cache_discard_def Let_def)

subsection \<open>Interpretation\<close>

definition is_eoc :: "uint32 \<Rightarrow> bool" where
  "is_eoc x \<longleftrightarrow> 0x0ffffff7 < x"

lemma data_cluster_bound:
  assumes "fat_ok v" "IS_DATA_CLUSTER v c"
  shows "unat c \<le> (if bits v = 12 then 0xff0 else if bits v = 16 then 0xfff0 else 0x7ffffff)"
  using assms by (auto simp: fat_ok_def IS_DATA_CLUSTER_unat wf_fat_def)

lemma and_mask_small: "unat (x :: uint32) < 2 ^ n \<Longrightarrow> n < 32 \<Longrightarrow> x AND mask n = x"
  by (simp add: word_unat_eq_iff unsigned_take_bit_eq take_bit_nat_eq_self flip: take_bit_eq_mask)

lemma fat_norm_data:
  assumes "fat_ok v" "IS_DATA_CLUSTER v c"
  shows "fat_norm v c = c"
proof -
  note b = data_cluster_bound [OF assms]
  consider "bits v = 12" | "bits v = 16" | "bits v = 32" using fat_ok_bits [OF assms(1)] by blast
  then show ?thesis
  proof cases
    case 1
    then have "c AND 0xfff = c" "\<not> 0xff0 < c"
      using b and_mask_small [of c 12] by (simp_all add: mask_numerals word_less_nat_alt)
    then show ?thesis using 1 by (simp add: fat_norm_def)
  next
    case 2
    then have "c AND 0xffff = c" "\<not> 0xfff0 < c"
      using b and_mask_small [of c 16] by (simp_all add: mask_numerals word_less_nat_alt)
    then show ?thesis using 2 by (simp add: fat_norm_def)
  next
    case 3
    then have "c AND 0x0fffffff = c"
      using b and_mask_small [of c 28] by (simp add: mask_numerals)
    then show ?thesis using 3 by (simp add: fat_norm_def)
  qed
qed

lemma fat_norm_const: "fat_norm v 0x0fffffff = 0x0fffffff" "fat_norm v 0 = 0"
  by (simp_all add: fat_norm_def)

lemma is_eoc_not_data: "fat_ok v \<Longrightarrow> is_eoc x \<Longrightarrow> \<not> IS_DATA_CLUSTER v x"
  using data_cluster_bound [of v x] by (auto simp: is_eoc_def word_less_nat_alt split: if_splits)

interpretation fat: link_table fat_ok IS_DATA_CLUSTER fat_entry fat_store take_cluster "give_cluster d"
  is_eoc "0x0fffffff" 0
  for d
proof unfold_locales
  fix v :: nspace and c x e :: uint32
  show "fat_ok v \<Longrightarrow> IS_DATA_CLUSTER v c \<Longrightarrow> fat_ok (fat_store v c x)" by (rule fat_store_ok)
  show "fat_ok v \<Longrightarrow> IS_DATA_CLUSTER v c \<Longrightarrow> IS_DATA_CLUSTER (fat_store v c x) = IS_DATA_CLUSTER v"
    by (rule contents_only_sel) (rule fat_store_contents_only)
  show "fat_entry (fat_store v c x) e = (if e = c then x else fat_entry v e)"
    if "fat_ok v" "IS_DATA_CLUSTER v c" "IS_DATA_CLUSTER v e" "IS_DATA_CLUSTER v x \<or> x = 0x0fffffff \<or> x = 0"
    using fat_entry_store [OF that(1-3)] fat_norm_data [OF that(1)] fat_norm_const that(4) by auto
  show "is_eoc 0x0fffffff" by (simp add: is_eoc_def)
  show "fat_ok v \<Longrightarrow> is_eoc x \<Longrightarrow> \<not> IS_DATA_CLUSTER v x" by (rule is_eoc_not_data)
  show "\<not> IS_DATA_CLUSTER v 0" by (simp add: IS_DATA_CLUSTER_def)
qed (simp_all add: same_fat_laws [OF same_fat_count(1)] same_fat_laws [OF same_fat_count(2)])

subsection \<open>Reading links\<close>

lemma below_28_bits:
  assumes "\<And>n. bit (x :: uint32) n \<Longrightarrow> n < 28"
  shows "unat x \<le> 0x0fffffff"
proof -
  have "take_bit 28 x = x" using assms by (intro bit_word_eqI) (auto simp: bit_simps)
  then have "unat x = take_bit 28 (unat x)" by (metis unsigned_take_bit_eq)
  then have "unat x < 2 ^ 28" by (metis take_bit_nat_less_exp)
  then show ?thesis by simp
qed

lemma le16_bits: "bit (ucast (lo::uint8) OR push_bit 8 (ucast (hi::uint8)) :: uint32) n \<Longrightarrow> n < 16"
  using bit_uint8_less [of lo n] bit_uint8_less [of hi "n - 8"] by (auto simp: bit_simps)

lemma fat_entry_bound: "unat (fat_entry v c) \<le> 0x0fffffff"
proof (rule below_28_bits)
  fix n
  assume b: "bit (fat_entry v c) n"
  have m: "(0x0ffff000 :: uint32) = push_bit 12 (mask 16)" "(0x0fff0000 :: uint32) = push_bit 16 (mask 12)"
    by (simp_all add: mask_eq_exp_minus_1 push_bit_eq_mult)
  show "n < 28"
    using b le16_bits [of "fat_byte v (fat_pos v c)" "fat_byte v (fat_pos v c + 1)" n]
      le16_bits [of "fat_byte v (fat_pos v c)" "fat_byte v (fat_pos v c + 1)" "n + 4"]
    unfolding fat_entry_def ioctl_fat12_value_def le16_or m mask_numerals Let_def
    by (auto simp: bit_simps bit_or_iff bit_and_iff bit_mask_iff split: if_splits)
qed

lemma uint_fat_entry: "uint (fat_entry v c) \<le> 0x0fffffff"
proof -
  have "int (unat (fat_entry v c)) \<le> int 0x0fffffff" using fat_entry_bound by (simp only: of_nat_le_iff)
  then show ?thesis by simp
qed

lemma sint_fat_entry: "sint (fat_entry v c) = uint (fat_entry v c)"
proof -
  have "- (2 ^ 31) \<le> uint (fat_entry v c)" "uint (fat_entry v c) < 2 ^ 31"
    using uint_fat_entry [of v c] order_trans [OF _ uint_ge_0, of "- (2 ^ 31)" "fat_entry v c"] by simp_all
  then show ?thesis by (simp add: sint_uint signed_take_bit_int_eq_self)
qed

text \<open>The link of a cluster as \<open>get_fat_entry\<close> reports it.\<close>

definition link_of :: "nspace \<Rightarrow> uint32 \<Rightarrow> int" where
  "link_of v c =
     (let x = fat_entry v c in
      if x = 0 \<or> IS_DATA_CLUSTER v x then uint x
      else if is_eoc x then END_FAT_ENTRY else BAD_FAT_ENTRY)"

lemma IS_DATA_CLUSTER_int32_uint: "IS_DATA_CLUSTER_int32 v (uint x) = IS_DATA_CLUSTER v x"
  by (simp add: IS_DATA_CLUSTER_int32_def IS_DATA_CLUSTER_def word_le_def)

lemma get_fat_entry_eq:
  assumes "fat_ok v" "IS_DATA_CLUSTER v c"
  shows "get_fat_entry v c = (link_of v c, v)"
proof -
  let ?x = "fat_entry v c"
  have "get_fat_entry v c = (if ?x = 0 \<or> IS_DATA_CLUSTER v ?x then (uint ?x, v)
      else if uint ?x > 0x0ffffff7 then (END_FAT_ENTRY, v) else (BAD_FAT_ENTRY, v))"
    unfolding get_fat_entry_def fat_ioctl_rw_def fat_ioctl_body_get [OF assms]
    by (auto simp: sint_fat_entry IS_DATA_CLUSTER_int32_uint uint_0_iff)
  moreover have "uint ?x > 0x0ffffff7 \<longleftrightarrow> is_eoc ?x"
    by (simp add: is_eoc_def word_less_def)
  ultimately show ?thesis by (auto simp: link_of_def Let_def)
qed

subsection \<open>Chains\<close>

abbreviation fat_chain :: "nspace \<Rightarrow> uint32 list \<Rightarrow> bool" where
  "fat_chain v \<equiv> chain (IS_DATA_CLUSTER v) (fat_entry v) is_eoc"

lemma fat_chain_distinct: "fat_ok v \<Longrightarrow> fat_chain v cs \<Longrightarrow> distinct cs"
  by (rule fat.chain_at_distinct)

lemma fat_chain_length:
  assumes "fat_ok v" "fat_chain v cs"
  shows "length cs \<le> unat (total_clusters v)"
proof -
  have data: "set cs \<subseteq> {x. IS_DATA_CLUSTER v x}" using chain_data [OF assms(2)] by blast
  obtain c where "c \<in> set cs" using assms(2) by (cases cs) auto
  then have c: "IS_DATA_CLUSTER v c" using data by blast
  have "length cs = card (set cs)" using distinct_card [OF fat_chain_distinct [OF assms]] by simp
  also have "\<dots> \<le> card {x. IS_DATA_CLUSTER v x}" using data by (intro card_mono) auto
  also have "\<dots> = unat (total_clusters v)"
    using scan_all [OF assms(1) c] distinct_card [OF scan_all(1) [OF assms(1) c]] by simp
  finally show ?thesis .
qed

lemma link_of_chain:
  assumes "fat_ok v" "fat_chain v (c # cs)"
  shows "link_of v c = (if cs = [] then END_FAT_ENTRY else uint (hd cs))"
proof -
  have "is_eoc x \<Longrightarrow> \<not> IS_DATA_CLUSTER v x \<and> x \<noteq> 0" for x
    using is_eoc_not_data [OF assms(1)] by (auto simp: is_eoc_def)
  moreover have "cs \<noteq> [] \<Longrightarrow> IS_DATA_CLUSTER v (hd cs)"
    using assms(2) chain_hd_data [of "IS_DATA_CLUSTER v" "fat_entry v" is_eoc cs] by (simp add: chain_Cons)
  ultimately show ?thesis
    using assms(2) by (auto simp: chain_Cons link_of_def Let_def split: if_splits)
qed

lemma END_not_data: "fat_ok v \<Longrightarrow> \<not> IS_DATA_CLUSTER_int32 v END_FAT_ENTRY"
  using is_eoc_not_data [of v "0x0fffffff"] IS_DATA_CLUSTER_int32_uint [of v "0x0fffffff"]
  by (simp add: END_FAT_ENTRY_def is_eoc_def)

lemma get_nth_fat_entry_chain:
  "fat_ok v \<Longrightarrow> fat_chain v cs \<Longrightarrow>
     get_nth_fat_entry v (uint (hd cs)) n = ((if n < length cs then uint (cs ! n) else END_FAT_ENTRY), v)"
proof (induction n arbitrary: cs)
  case 0
  then show ?case by (cases cs) auto
next
  case (Suc n)
  obtain c ds where cs: "cs = c # ds" using Suc.prems(2) by (cases cs) auto
  have "IS_DATA_CLUSTER v c" using Suc.prems(2) cs by (simp add: chain_Cons)
  then have get: "get_fat_entry v c = ((if ds = [] then END_FAT_ENTRY else uint (hd ds)), v)"
    using get_fat_entry_eq [OF Suc.prems(1)] link_of_chain [OF Suc.prems(1)] Suc.prems(2) cs by simp
  show ?case
  proof (cases "ds = []")
    case True
    then show ?thesis using get cs END_not_data [OF Suc.prems(1)] by simp
  next
    case False
    then have "fat_chain v ds" using Suc.prems(2) cs by (simp add: chain_Cons)
    then show ?thesis
      using get cs False Suc.IH [OF Suc.prems(1), of ds] chain_hd_data [of "IS_DATA_CLUSTER v" "fat_entry v" is_eoc ds]
      by (simp add: IS_DATA_CLUSTER_int32_uint)
  qed
qed

lemma count_clusters_loop_chain:
  assumes "fat_ok v"
  shows "fat_chain v cs \<Longrightarrow> unat count + length cs \<le> unat (total_clusters v) \<Longrightarrow> unat count + k = unat (total_clusters v) \<Longrightarrow>
    count_clusters_loop k v (uint (hd cs)) count
      = ((if unat count + length cs < unat (total_clusters v) then count + of_nat (length cs) else 0), v)"
proof (induction cs arbitrary: count k)
  case (Cons c ds)
  obtain k' where k: "k = Suc k'" using Cons.prems(2,3) by (cases k) auto
  have data: "IS_DATA_CLUSTER v c" using Cons.prems(1) by (simp add: chain_Cons)
  have get: "get_fat_entry v c = ((if ds = [] then END_FAT_ENTRY else uint (hd ds)), v)"
    using get_fat_entry_eq [OF assms data] link_of_chain [OF assms Cons.prems(1)] by simp
  have u: "unat (count + 1) = unat count + 1"
    using Cons.prems(2) total_clusters_bound [of v] assms by (simp add: fat_ok_def unat_word_ariths)
  have eq: "count + 1 = total_clusters v \<longleftrightarrow> unat count + 1 = unat (total_clusters v)"
    using u by (metis word_unat_eq_iff)
  show ?case
  proof (cases "ds = []")
    case True
    then show ?thesis
      using get data eq Cons.prems(2,3) k END_not_data [OF assms]
      by (cases k') (auto simp: IS_DATA_CLUSTER_int32_uint)
  next
    case False
    then have ds: "fat_chain v ds" using Cons.prems(1) by (simp add: chain_Cons)
    have "unat count + 1 \<noteq> unat (total_clusters v)" using Cons.prems(2) False by (cases ds) auto
    then show ?thesis
      using Cons.IH [OF ds, of "count + 1" k'] False get data eq u Cons.prems(2,3) k
      by (simp add: IS_DATA_CLUSTER_int32_uint add_ac)
  qed
qed simp

lemma count_clusters_chain:
  assumes "fat_ok v" "fat_chain v cs"
  shows "count_clusters v (uint (hd cs))
    = ((if length cs < unat (total_clusters v) then of_nat (length cs) else 0), v)"
  using count_clusters_loop_chain [OF assms, of 0 "unat (total_clusters v)"] fat_chain_length [OF assms]
    chain_hd_data [OF assms(2)]
  by (simp add: count_clusters_def IS_DATA_CLUSTER_int32_uint)

subsection \<open>Frame\<close>

text \<open>What the operations on the table may change: the contents of the blocks of the table (every
  other block of the volume is as before), the discard log and the two allocation counters.\<close>

definition only_table :: "nspace \<Rightarrow> nspace \<Rightarrow> bool" where
  "only_table v w \<longleftrightarrow>
     w = v\<lparr>fBlockCache := (fBlockCache v)\<lparr>blocks := blk w, discards := discards (fBlockCache w)\<rparr>,
           free_clusters := free_clusters w, last_allocated := last_allocated w\<rparr> \<and>
     (\<forall>b. \<not> table_block v b \<longrightarrow> blk w b = blk v b)"

lemma only_table_iff:
  "only_table v w \<longleftrightarrow> (\<exists>f d n a. w = v\<lparr>fBlockCache := (fBlockCache v)\<lparr>blocks := f, discards := d\<rparr>,
           free_clusters := n, last_allocated := a\<rparr> \<and> (\<forall>b. \<not> table_block v b \<longrightarrow> f b = blk v b))"
  by (auto simp: only_table_def)

lemma only_table_refl [simp]: "only_table v v"
  by (simp add: only_table_def)

lemma only_table_blocks: "only_table v w \<Longrightarrow> table_block w = table_block v"
  by (auto simp: only_table_iff table_block_def fat_copy_def spf_def fun_eq_iff)

lemma only_table_trans: "only_table u v \<Longrightarrow> only_table v w \<Longrightarrow> only_table u w"
proof -
  assume "only_table u v" "only_table v w"
  moreover from this have "\<forall>b. \<not> table_block u b \<longrightarrow> blk w b = blk u b"
    using only_table_blocks [of u v] by (auto simp: only_table_def)
  ultimately show ?thesis
    unfolding only_table_def [of u w] by (auto simp: only_table_iff)
qed

lemma only_table_contents: "contents_only v w \<Longrightarrow> only_table v w"
proof -
  assume w: "contents_only v w"
  then obtain f where "w = set_blocks v f" unfolding contents_only_def by blast
  with w show ?thesis by (simp add: only_table_def contents_only_def) (simp add: set_blocks_def)
qed

lemma only_table_count:
  "only_table v (take_cluster v)" "only_table v (give_cluster d v c)" "only_table v (v\<lparr>last_allocated := a\<rparr>)"
  by (simp_all add: only_table_def take_cluster_def give_cluster_def block_cache_discard_def Let_def)

lemma only_table_sel:
  assumes "only_table v w"
  shows "refs (fBlockCache w) = refs (fBlockCache v)" "fault w = fault v" "mem w = mem v"
    "total_clusters w = total_clusters v" "bits w = bits v" "vcache w = vcache v" "dlist w = dlist v"
  using assms by (auto simp: only_table_iff bits_def)

lemma only_table_store: "fat_ok v \<Longrightarrow> IS_DATA_CLUSTER v c \<Longrightarrow> only_table v (fat_store v c x)"
  by (intro only_table_contents fat_store_contents_only)

lemma give_store:
  assumes "fat_ok v" "IS_DATA_CLUSTER v c"
  shows "fat_ok (give_cluster d (fat_store v c 0) c)"
    "IS_DATA_CLUSTER (give_cluster d (fat_store v c 0) c) = IS_DATA_CLUSTER v"
    "only_table v (give_cluster d (fat_store v c 0) c)"
    "IS_DATA_CLUSTER v x \<Longrightarrow>
       fat_entry (give_cluster d (fat_store v c 0) c) x = (if x = c then 0 else fat_entry v x)"
  using fat.store_ok [OF assms] fat.store_data [OF assms] fat.link_store [OF assms, of x 0]
  by (auto simp: fat.counts intro: only_table_trans [OF only_table_store [OF assms] only_table_count(2)])

lemma only_table_free_links:
  "fat_ok v \<Longrightarrow> (\<And>c. c \<in> set cs \<Longrightarrow> IS_DATA_CLUSTER v c) \<Longrightarrow>
     only_table v (free_links fat_store (give_cluster d) 0 v cs) \<and>
     free_clusters (free_links fat_store (give_cluster d) 0 v cs) = free_clusters v + of_nat (length cs) \<and>
     last_allocated (free_links fat_store (give_cluster d) 0 v cs) = last_allocated v \<and>
     (d \<or> discards (fBlockCache (free_links fat_store (give_cluster d) 0 v cs)) = discards (fBlockCache v))"
proof (induction cs arbitrary: v)
  case (Cons c cs)
  let ?v = "fat_store v c 0"
  let ?w = "give_cluster d ?v c"
  have c: "IS_DATA_CLUSTER v c" using Cons.prems by simp
  have sel: "free_clusters ?v = free_clusters v" "last_allocated ?v = last_allocated v"
    "discards (fBlockCache ?v) = discards (fBlockCache v)"
    using contents_only_sel [OF fat_store_contents_only [OF Cons.prems(1) c, of 0]] by simp_all
  note w = give_store [OF Cons.prems(1) c, where d = d]
  have "free_clusters ?w = free_clusters v + 1" "last_allocated ?w = last_allocated v"
    "d \<or> discards (fBlockCache ?w) = discards (fBlockCache v)"
    using sel by (simp_all add: give_cluster_def block_cache_discard_def Let_def)
  with Cons.IH [of ?w] w Cons.prems(2) show ?case
    by (auto intro: only_table_trans)
qed simp

subsection \<open>Releasing a chain\<close>

lemma clear_step:
  assumes "fat_ok v" "IS_DATA_CLUSTER v c"
  shows "clear_fat_chain_loop (Suc k) v c d
    = clear_fat_chain_loop k (give_cluster d (fat_store v c 0) c) (word_of_int (link_of v c)) d"
proof -
  have "\<not> link_of v c < 0"
    by (simp add: link_of_def Let_def END_FAT_ENTRY_def BAD_FAT_ENTRY_def not_less)
  then show ?thesis
    using assms by (simp add: get_fat_entry_eq set_fat_entry_eq give_cluster_def Let_def)
qed

lemma clear_loop_chain:
  "fat_ok v \<Longrightarrow> fat_chain v cs \<Longrightarrow> length cs < k \<Longrightarrow>
     clear_fat_chain_loop k v (hd cs) d = (B_OK, free_links fat_store (give_cluster d) 0 v cs)"
proof (induction cs arbitrary: v k)
  case (Cons c ds)
  obtain k' where k: "k = Suc k'" "length ds < k'" using Cons.prems(3) by (cases k) auto
  have c: "IS_DATA_CLUSTER v c" using Cons.prems(2) by (simp add: chain_Cons)
  let ?w = "give_cluster d (fat_store v c 0) c"
  note w = give_store [OF Cons.prems(1) c, where d = d]
  have step: "clear_fat_chain_loop k v c d = clear_fat_chain_loop k' ?w (word_of_int (link_of v c)) d"
    using clear_step [OF Cons.prems(1) c] k by simp
  show ?case
  proof (cases "ds = []")
    case True
    then have "word_of_int (link_of v c) = (0x0fffffff :: uint32)"
      using link_of_chain [OF Cons.prems(1,2)] by (simp add: END_FAT_ENTRY_def)
    moreover have "\<not> IS_DATA_CLUSTER ?w 0x0fffffff"
      using is_eoc_not_data [OF w(1)] by (simp add: is_eoc_def)
    ultimately show ?thesis using True step k by (cases k') auto
  next
    case False
    then have ds: "fat_chain v ds" "link_of v c = uint (hd ds)"
      using Cons.prems(2) link_of_chain [OF Cons.prems(1,2)] by (simp_all add: chain_Cons)
    have "c \<notin> set ds" using fat_chain_distinct [OF Cons.prems(1,2)] by simp
    then have "fat_entry ?w x = fat_entry v x" if "x \<in> set ds" for x
      using that chain_data [OF ds(1) that] w(4) by auto
    then have "fat_chain ?w ds" unfolding w(2) by (rule chain_cong [OF ds(1)])
    from Cons.IH [OF w(1) this k(2)] show ?thesis using step ds(2) by simp
  qed
qed simp

lemma clear_fat_chain_chain:
  assumes "fat_ok v" "fat_chain v cs"
  shows "clear_fat_chain v (hd cs) d = (B_OK, free_links fat_store (give_cluster d) 0 v cs)"
  using clear_loop_chain [OF assms, of "unat (total_clusters v) + 2" d] fat_chain_length [OF assms]
    chain_hd_data [OF assms(2)] by (simp add: clear_fat_chain_def)

text \<open>The loop ends on every consistent volume, even when the clusters form a cycle.\<close>

lemma clear_loop_ends:
  "fat_ok v \<Longrightarrow> card {x. IS_DATA_CLUSTER v x \<and> fat_entry v x \<noteq> 0} + 2 \<le> k \<Longrightarrow>
     \<exists>w. clear_fat_chain_loop k v c d = (B_OK, w) \<and> fat_ok w \<and> only_table v w"
proof (induction k arbitrary: v c)
  case (Suc k)
  show ?case
  proof (cases "IS_DATA_CLUSTER v c")
    case False
    then show ?thesis using Suc.prems by simp
  next
    case c: True
    let ?w = "give_cluster d (fat_store v c 0) c" and ?U = "\<lambda>v. {x. IS_DATA_CLUSTER v x \<and> fat_entry v x \<noteq> 0}"
    note w = give_store [OF Suc.prems(1) c, where d = d]
    note step = clear_step [OF Suc.prems(1) c, of k d]
    show ?thesis
    proof (cases "fat_entry v c = 0")
      case True
      then have "link_of v c = 0" by (simp add: link_of_def)
      moreover have "\<not> IS_DATA_CLUSTER ?w 0" by (simp add: IS_DATA_CLUSTER_def)
      moreover obtain k' where "k = Suc k'" using Suc.prems(2) by (cases k) auto
      ultimately show ?thesis using step w by simp
    next
      case False
      have "?U ?w = ?U v - {c}" using w(2,4) by (auto split: if_splits)
      moreover have "c \<in> ?U v" using False c by simp
      ultimately have "card (?U ?w) < card (?U v)" using card_Diff1_less [of "?U v" c] by simp
      then obtain u where "clear_fat_chain_loop k ?w (word_of_int (link_of v c)) d = (B_OK, u)"
        "fat_ok u" "only_table ?w u"
        using Suc.IH [OF w(1)] Suc.prems(2) by fastforce
      then show ?thesis using step w(3) only_table_trans by auto
    qed
  qed
qed simp

end
