(* ===== verification/Fat_Alloc.thy ===== *)
theory Fat_Alloc
  imports Fat_Chain
begin

section \<open>Allocating clusters\<close>

text \<open>
  The allocation loop of \<open>_fat_ioctl_\<close> walks once around the table from \<open>last_allocated\<close> and links
  the free clusters it meets until it has enough of them. The lemmas show that it links exactly the
  first \<open>N\<close> free clusters of that walk, and that it gives everything back when there are fewer.
\<close>

lemma only_table_geometry:
  assumes "only_table v w"
  shows "bps w = bps v" "fat_block w = fat_block v" "fat_last w = fat_last v" "fat_next w = fat_next v"
    "fat_sector w = fat_sector v" "fat_pos w = fat_pos v" "next_cluster w = next_cluster v"
    "IS_DATA_CLUSTER w = IS_DATA_CLUSTER v"
  using assms
  by (auto simp: only_table_iff bps_def fat_block_def fat_copy_def spf_def fat_last_def fat_next_def fat_sector_def
      fat_start_sector_def fat_pos_def bits_def next_cluster_def IS_DATA_CLUSTER_def fun_eq_iff)

lemma io_park_only_table:
  "only_table v w \<Longrightarrow> io_park w c s = (io_park v c s)\<lparr>io_vol := hold w (fat_block v (fat_last v c))\<rparr>"
  by (simp add: io_park_def only_table_geometry)

lemma scan_only_table: "only_table v w \<Longrightarrow> scan w c k = scan v c k"
  by (induction k arbitrary: c) (simp_all add: only_table_geometry)

lemma mirror_fats_free:
  "mirror_fats (v\<lparr>free_clusters := x\<rparr>) s bs = (mirror_fats v s bs)\<lparr>free_clusters := x\<rparr>"
proof -
  have o: "overwrite_block (v\<lparr>free_clusters := x\<rparr>) b bs = (overwrite_block v b bs)\<lparr>free_clusters := x\<rparr>" for v b
    by (simp add: overwrite_block_eq raise_fault_def set_blocks_def bps_def split: option.splits)
  have f: "fold (\<lambda>i v. if i = a then v else overwrite_block v (h i) bs) is (v\<lparr>free_clusters := x\<rparr>)
      = (fold (\<lambda>i v. if i = a then v else overwrite_block v (h i) bs) is v)\<lparr>free_clusters := x\<rparr>" for a h v and "is" :: "nat list"
    by (induction "is" arbitrary: v) (simp_all add: o)
  show ?thesis by (simp add: mirror_fats_def Let_def f cong: if_cong)
qed

lemma fat_store_hold [simp]: "fat_store (hold v b) c m = hold (fat_store v c m) b"
proof -
  have p: "fat_put (hold v b) k x = hold (fat_put v k x) b" for v k x by (simp add: fat_put_def)
  have f: "fat_flush (hold v b) k = hold (fat_flush v k) b" for v k by (simp add: fat_flush_def)
  show ?thesis by (simp add: fat_store_def p f Let_def split: prod.splits)
qed

abbreviation fat_step :: "nspace \<Rightarrow> uint32 option \<Rightarrow> uint32 \<Rightarrow> nspace" where
  "fat_step \<equiv> alloc_step fat_store take_cluster 0x0fffffff"

abbreviation fat_link :: "nspace \<Rightarrow> uint32 option \<Rightarrow> uint32 list \<Rightarrow> nspace" where
  "fat_link \<equiv> alloc_links fat_store take_cluster 0x0fffffff"

definition prev_of :: "ioctl_state \<Rightarrow> uint32 option" where
  "prev_of s = (if io_n s = 0 then None else Some (io_last s))"

definition linked :: "uint32 \<Rightarrow> ioctl_state \<Rightarrow> ioctl_state" where
  "linked c s = s\<lparr>io_value := 0, io_first := (if io_n s = 0 then c else io_first s), io_last := c,
     io_n := io_n s + 1\<rparr>"

lemma step_only_table:
  assumes "fat_ok v" "IS_DATA_CLUSTER v c" "case p of None \<Rightarrow> True | Some l \<Rightarrow> IS_DATA_CLUSTER v l"
  shows "only_table v (fat_step v p c)" "free_clusters (fat_step v p c) = free_clusters v - 1"
    "last_allocated (fat_step v p c) = last_allocated v"
    "discards (fBlockCache (fat_step v p c)) = discards (fBlockCache v)"
proof -
  let ?u = "take_cluster (fat_store v c 0x0fffffff)"
  have u: "only_table v ?u" "fat_ok ?u" "IS_DATA_CLUSTER ?u = IS_DATA_CLUSTER v"
    using only_table_trans [OF only_table_store [OF assms(1,2)] only_table_count(1)]
      fat.store_ok [OF assms(1,2)] fat.store_data [OF assms(1,2)] by (simp_all add: fat.counts)
  have s: "free_clusters ?u = free_clusters v - 1" "last_allocated ?u = last_allocated v"
    "discards (fBlockCache ?u) = discards (fBlockCache v)"
    using contents_only_sel [OF fat_store_contents_only [OF assms(1,2)]] by (simp_all add: take_cluster_def)
  have "only_table v (fat_step v p c) \<and> free_clusters (fat_step v p c) = free_clusters v - 1 \<and>
      last_allocated (fat_step v p c) = last_allocated v \<and>
      discards (fBlockCache (fat_step v p c)) = discards (fBlockCache v)"
  proof (cases p)
    case None
    then show ?thesis using u s by (simp add: alloc_step_def)
  next
    case (Some l)
    then have l: "IS_DATA_CLUSTER ?u l" using assms(3) u by simp
    show ?thesis
      using Some s only_table_trans [OF u(1) only_table_store [OF u(2) l]]
        contents_only_sel [OF fat_store_contents_only [OF u(2) l]] by (simp add: alloc_step_def)
  qed
  then show "only_table v (fat_step v p c)" "free_clusters (fat_step v p c) = free_clusters v - 1"
    "last_allocated (fat_step v p c) = last_allocated v"
    "discards (fBlockCache (fat_step v p c)) = discards (fBlockCache v)" by blast+
qed

lemma iteration_alloc_free:
  assumes ok: "fat_ok v" and c: "IS_DATA_CLUSTER v c" and free: "fat_entry v c = 0"
    and last: "io_n s \<noteq> 0 \<Longrightarrow> IS_DATA_CLUSTER v (io_last s)" and res: "io_result s = 0"
  shows "ioctl_iteration set_fat_entry IOCTL_ALLOCATE_N_ENTRIES N 0x0fffffff (io_move v c s)
    = (if io_n s + 1 = word_of_int N then (io_park (fat_step v (prev_of s) c) c (linked c s), True)
       else (io_move (fat_step v (prev_of s) c) (next_cluster v c) (linked c s), False))"
proof -
  let ?m = "0x0fffffff :: uint32" and ?b = "fat_block v (fat_last v c)"
  let ?u = "take_cluster (fat_store v c ?m)" and ?w = "fat_step v (prev_of s) c"
  have u: "fat_ok ?u" "IS_DATA_CLUSTER ?u = IS_DATA_CLUSTER v"
    using fat.store_ok [OF ok c] fat.store_data [OF ok c] by (simp_all add: fat.counts)
  have prev: "case prev_of s of None \<Rightarrow> True | Some l \<Rightarrow> IS_DATA_CLUSTER v l"
    using last by (simp add: prev_of_def)
  note w = step_only_table(1) [OF ok c prev]
  have wok: "fat_ok ?w" "IS_DATA_CLUSTER ?w = IS_DATA_CLUSTER v"
    using fat.step_laws [OF ok c prev] by simp_all
  have sel: "free_clusters (fat_write v c ?m) = free_clusters v" "free_clusters (fat_store v c ?m) = free_clusters v"
    "fat_sector (fat_write v c ?m) = fat_sector v" "fat_last (fat_write v c ?m) = fat_last v"
    "bps (fat_write v c ?m) = bps v" "fat_block (fat_write v c ?m) = fat_block v"
    using only_table_geometry [OF only_table_contents [OF fat_write_ok(2) [OF ok c]]]
      contents_only_sel(9) [OF fat_write_ok(2) [OF ok c]] contents_only_sel(9) [OF fat_store_contents_only [OF ok c]]
    by simp_all
  have mir: "mirror_fats ((fat_write v c ?m)\<lparr>free_clusters := free_clusters v - 1\<rparr>)
      (fat_sector v (fat_last v c div bps v)) (block_data (fat_write v c ?m) ?b) = ?u"
    using mirror_last [OF ok c] sel by (simp add: mirror_fats_free take_cluster_def)
  have data: "block_data ((fat_write v c ?m)\<lparr>free_clusters := x\<rparr>) b = block_data (fat_write v c ?m) b" for x b
    by (simp add: block_data_def)
  have set: "set_fat_entry (hold ?u ?b) (io_last s) (sint c) = (B_OK, hold (fat_store ?u (io_last s) c) ?b)"
    if "io_n s \<noteq> 0"
    using set_fat_entry_eq [of "hold ?u ?b" "io_last s" "sint c"] u last [OF that] by simp
  have step: "?w = (if io_n s = 0 then ?u else fat_store ?u (io_last s) c)"
    by (simp add: alloc_step_def prev_of_def Let_def)
  have park: "io_park ?w c t = (io_park v c t)\<lparr>io_vol := hold ?w ?b\<rparr>"
    "io_park (fat_write v c ?m) c t = (io_park v c t)\<lparr>io_vol := hold (fat_write v c ?m) ?b\<rparr>" for t
    using io_park_only_table [OF w] io_park_contents [OF fat_write_ok(2) [OF ok c]] by simp_all
  have "ioctl_dispatch set_fat_entry IOCTL_ALLOCATE_N_ENTRIES N (io_park (fat_write v c ?m) c (s\<lparr>io_value := 0\<rparr>))
      = (io_park ?w c (linked c s), io_n s + 1 = word_of_int N)"
    unfolding park unfolding linked_def step using res set
    by (cases s) (auto simp: ioctl_dispatch_def Let_def sel mir data B_OK_def io_park_def)
  moreover have "ioctl_advance (io_park ?w c (linked c s)) = (io_move ?w (next_cluster v c) (linked c s), False)"
    using ioctl_advance_eq [OF wok(1)] wok(2) c only_table_geometry(7) [OF w] by simp
  ultimately show ?thesis
    using ioctl_entry_eq [OF ok c] free
    by (simp add: ioctl_iteration_def ioctl_writes_def entry_value_def)
qed

subsection \<open>The walk\<close>

text \<open>The free clusters among the next \<open>k\<close> the walk meets.\<close>

abbreviation free_ahead :: "nspace \<Rightarrow> uint32 \<Rightarrow> nat \<Rightarrow> uint32 list" where
  "free_ahead v c k \<equiv> filter (\<lambda>x. fat_entry v x = 0) (scan v c k)"

definition linked_all :: "uint32 list \<Rightarrow> ioctl_state \<Rightarrow> ioctl_state \<Rightarrow> bool" where
  "linked_all cs s t \<longleftrightarrow> io_n t = io_n s + of_nat (length cs) \<and> io_result t = 0 \<and>
     io_first t = (if io_n s = 0 \<and> cs \<noteq> [] then hd cs else io_first s)"

lemma loop_alloc:
  assumes N: "N = int n" "n < 2 ^ 31"
  shows "fat_ok v \<Longrightarrow> IS_DATA_CLUSTER v c \<Longrightarrow> distinct (scan v c k) \<Longrightarrow> io_result s = 0 \<Longrightarrow>
     unat (io_n s) < n \<Longrightarrow> (io_n s \<noteq> 0 \<Longrightarrow> IS_DATA_CLUSTER v (io_last s) \<and> io_last s \<notin> set (scan v c k)) \<Longrightarrow>
     (let fs = free_ahead v c k; r = n - unat (io_n s);
          t = ioctl_loop set_fat_entry IOCTL_ALLOCATE_N_ENTRIES N 0x0fffffff k (io_move v c s)
      in \<exists>d u. IS_DATA_CLUSTER v d \<and> linked_all (take r fs) s u \<and>
           (r \<le> length fs \<longrightarrow> d = last (take r fs)) \<and>
           t = (if r \<le> length fs then io_park else io_move) (fat_link v (prev_of s) (take r fs)) d u)"
proof (induction k arbitrary: v c s)
  case 0
  then show ?case
    by (simp add: linked_all_def) (metis)
next
  case (Suc k)
  let ?c = "next_cluster v c"
  have c': "IS_DATA_CLUSTER v ?c" using next_cluster_data(1) Suc.prems(1,2) by blast
  show ?case
  proof (cases "fat_entry v c = 0")
    case False
    let ?s = "s\<lparr>io_value := fat_entry v c\<rparr>"
    have eq: "free_ahead v c (Suc k) = free_ahead v ?c k" "prev_of ?s = prev_of s"
      using False by (simp_all add: prev_of_def)
    have lk: "linked_all cs ?s u = linked_all cs s u" for cs u by (simp add: linked_all_def)
    have "let fs = free_ahead v ?c k; r = n - unat (io_n ?s);
          t = ioctl_loop set_fat_entry IOCTL_ALLOCATE_N_ENTRIES N 0x0fffffff k (io_move v ?c ?s)
      in \<exists>d u. IS_DATA_CLUSTER v d \<and> linked_all (take r fs) ?s u \<and>
           (r \<le> length fs \<longrightarrow> d = last (take r fs)) \<and>
           t = (if r \<le> length fs then io_park else io_move) (fat_link v (prev_of ?s) (take r fs)) d u"
      using Suc.prems by (intro Suc.IH c') auto
    then show ?thesis
      using iteration_alloc_used [OF Suc.prems(1,2) False] unfolding eq lk by (simp add: Let_def)
  next
    case True
    let ?w = "fat_step v (prev_of s) c" and ?s = "linked c s"
    have prev: "case prev_of s of None \<Rightarrow> True | Some l \<Rightarrow> IS_DATA_CLUSTER v l"
      using Suc.prems(6) by (auto simp: prev_of_def)
    note w = fat.step_laws [OF Suc.prems(1,2) prev] and frame = step_only_table(1) [OF Suc.prems(1,2) prev]
    note it = iteration_alloc_free [OF Suc.prems(1,2) True _ Suc.prems(4), of N]
    have n1: "unat (io_n s + 1) = unat (io_n s) + 1"
      using Suc.prems(5) N(2) by (simp add: unat_word_ariths)
    have nN: "io_n s + 1 = word_of_int N \<longleftrightarrow> unat (io_n s) + 1 = n"
    proof -
      have "unat (word_of_int N :: uint32) = n" using N by (simp add: unat_of_nat)
      then show ?thesis using n1 by (metis word_unat_eq_iff)
    qed
    show ?thesis
    proof (cases "unat (io_n s) + 1 = n")
      case stop: True
      then have r: "n - unat (io_n s) = Suc 0" by simp
      have "linked_all [c] s ?s" using Suc.prems(4) by (simp add: linked_all_def linked_def)
      then show ?thesis
        using it Suc.prems(2,6) True nN stop r by (auto simp: Let_def)
    next
      case go: False
      have r: "n - unat (io_n s) = Suc (n - unat (io_n ?s))"
        using go Suc.prems(5) n1 by (simp add: linked_def)
      have scan: "scan ?w ?c k = scan v ?c k" by (rule scan_only_table [OF frame])
      have same: "fat_entry ?w x = fat_entry v x" if "x \<in> set (scan v ?c k)" for x
        using that w(3) [of x] scan_data [OF Suc.prems(1) c' that] Suc.prems(3,6)
        by (auto simp: prev_of_def split: if_splits)
      then have fs: "free_ahead ?w ?c k = free_ahead v ?c k" unfolding scan by (auto intro!: filter_cong)
      have p: "prev_of ?s = Some c"
        using n1 by (auto simp: prev_of_def linked_def word_unat_eq_iff)
      have "let fs = free_ahead ?w ?c k; r = n - unat (io_n ?s);
            t = ioctl_loop set_fat_entry IOCTL_ALLOCATE_N_ENTRIES N 0x0fffffff k (io_move ?w ?c ?s)
        in \<exists>d u. IS_DATA_CLUSTER ?w d \<and> linked_all (take r fs) ?s u \<and>
             (r \<le> length fs \<longrightarrow> d = last (take r fs)) \<and>
             t = (if r \<le> length fs then io_park else io_move) (fat_link ?w (prev_of ?s) (take r fs)) d u"
        using Suc.prems w c' go n1 by (intro Suc.IH) (auto simp: scan linked_def)
      then obtain d u where du: "IS_DATA_CLUSTER v d" "linked_all (take (n - unat (io_n ?s)) (free_ahead v ?c k)) ?s u"
        "n - unat (io_n ?s) \<le> length (free_ahead v ?c k) \<Longrightarrow> d = last (take (n - unat (io_n ?s)) (free_ahead v ?c k))"
        "ioctl_loop set_fat_entry IOCTL_ALLOCATE_N_ENTRIES N 0x0fffffff k (io_move ?w ?c ?s)
          = (if n - unat (io_n ?s) \<le> length (free_ahead v ?c k) then io_park else io_move)
              (fat_link ?w (Some c) (take (n - unat (io_n ?s)) (free_ahead v ?c k))) d u"
        unfolding fs p w(2) Let_def by blast
      have "linked_all (c # take (n - unat (io_n ?s)) (free_ahead v ?c k)) s u"
        using du(2) n1 by (auto simp: linked_all_def linked_def word_unat_eq_iff [of _ 0])
      moreover have "ioctl_loop set_fat_entry IOCTL_ALLOCATE_N_ENTRIES N 0x0fffffff (Suc k) (io_move v c s)
          = ioctl_loop set_fat_entry IOCTL_ALLOCATE_N_ENTRIES N 0x0fffffff k (io_move ?w ?c ?s)"
        using it Suc.prems(6) nN go by simp
      moreover have "0 < n - unat (io_n ?s)" using go Suc.prems(5) n1 by (simp add: linked_def)
      ultimately show ?thesis
        using du(1,3,4) True r unfolding Let_def
        by (rule_tac x = d in exI, rule_tac x = u in exI) (auto simp: neq_Nil_conv split: if_splits)
    qed
  qed
qed

subsection \<open>Allocation\<close>

lemma fat_link_frame:
  "fat_ok v \<Longrightarrow> (\<And>c. c \<in> set cs \<Longrightarrow> IS_DATA_CLUSTER v c) \<Longrightarrow>
     (case p of None \<Rightarrow> True | Some l \<Rightarrow> IS_DATA_CLUSTER v l) \<Longrightarrow>
     only_table v (fat_link v p cs) \<and> free_clusters (fat_link v p cs) = free_clusters v - of_nat (length cs) \<and>
     discards (fBlockCache (fat_link v p cs)) = discards (fBlockCache v)"
proof (induction cs arbitrary: v p)
  case (Cons c cs)
  then have c: "IS_DATA_CLUSTER v c" by simp
  note w = fat.step_laws [OF Cons.prems(1) c Cons.prems(3)] and frame = step_only_table [OF Cons.prems(1) c Cons.prems(3)]
  show ?case
    using Cons.IH [of "fat_step v p c" "Some c"] w c Cons.prems(2) frame only_table_trans by auto
qed simp

lemma uint_data_cluster:
  assumes "fat_ok v" "IS_DATA_CLUSTER v c"
  shows "sint c = uint c" "0 \<le> sint c" "c \<noteq> 0"
proof -
  have "unat c \<le> 0x7ffffff" using data_cluster_bound [OF assms] by (simp split: if_splits)
  then have "int (unat c) \<le> int 0x7ffffff" by (simp only: of_nat_le_iff)
  then have "uint c < 2 ^ 31" "- (2 ^ 31) \<le> uint c"
    using order_trans [OF _ uint_ge_0, of "- (2 ^ 31)" c] by simp_all
  then show "sint c = uint c" by (simp add: sint_uint signed_take_bit_int_eq_self)
  then show "0 \<le> sint c" by simp
  show "c \<noteq> 0" using assms(2) by (auto simp: IS_DATA_CLUSTER_def)
qed

text \<open>The clusters that an allocation of \<open>n\<close> takes.\<close>

definition alloc_choice :: "nspace \<Rightarrow> nat \<Rightarrow> uint32 list" where
  "alloc_choice v n = take n (free_ahead v (last_allocated v) (unat (total_clusters v)))"

lemma alloc_choice_laws:
  assumes "fat_ok v" "IS_DATA_CLUSTER v (last_allocated v)"
  shows "length (alloc_choice v n) = min n (card (free_set v))" "distinct (alloc_choice v n)"
    "set (alloc_choice v n) \<subseteq> free_set v"
proof -
  note all = scan_all [OF assms]
  show "length (alloc_choice v n) = min n (card (free_set v))"
    using free_set_scan [OF assms] by (simp add: alloc_choice_def min.commute)
  show "distinct (alloc_choice v n)" unfolding alloc_choice_def by (intro distinct_take distinct_filter all)
  show "set (alloc_choice v n) \<subseteq> free_set v"
    using all(2) by (auto simp: alloc_choice_def free_set_def dest!: in_set_takeD)
qed

lemma alloc_run:
  assumes ok: "fat_ok v" and la: "IS_DATA_CLUSTER v (last_allocated v)" and n: "0 < n" "n < 2 ^ 31"
  defines "fs \<equiv> alloc_choice v n"
  obtains d u where "IS_DATA_CLUSTER v d" "io_n u = of_nat (length fs)" "io_result u = 0"
    "io_first u = (if fs = [] then 0 else hd fs)" "n \<le> card (free_set v) \<Longrightarrow> d = last fs"
    "fat_ioctl v IOCTL_ALLOCATE_N_ENTRIES 0 (int n)
      = ioctl_finish (\<lambda>vol first. snd (clear_fat_chain vol first False)) IOCTL_ALLOCATE_N_ENTRIES (int n)
          ((if n \<le> card (free_set v) then io_park else io_move) (fat_link v None fs) d u)"
proof -
  let ?c = "last_allocated v" and ?k = "unat (total_clusters v)"
  define s where "s = \<lparr>io_vol = v, io_result = 0, io_n = 0, io_first = 0, io_last = 0, io_cluster = ?c,
         io_sector = 0, io_offset = 0, io_value = 0, io_block1 = None\<rparr>"
  have len: "length (free_ahead v ?c ?k) = card (free_set v)" by (rule free_set_scan [OF ok la])
  have "\<exists>d u. IS_DATA_CLUSTER v d \<and> linked_all fs s u \<and> (n \<le> card (free_set v) \<longrightarrow> d = last fs) \<and>
      ioctl_loop set_fat_entry IOCTL_ALLOCATE_N_ENTRIES (int n) 0x0fffffff ?k (io_move v ?c s)
        = (if n \<le> card (free_set v) then io_park else io_move) (fat_link v None fs) d u"
    using loop_alloc [OF refl n(2) ok la scan_all(1) [OF ok la], of s] n(1)
    unfolding len Let_def fs_def alloc_choice_def by (simp add: s_def prev_of_def)
  then obtain d u where du: "IS_DATA_CLUSTER v d" "linked_all fs s u" "n \<le> card (free_set v) \<Longrightarrow> d = last fs"
      "ioctl_loop set_fat_entry IOCTL_ALLOCATE_N_ENTRIES (int n) 0x0fffffff ?k (io_move v ?c s)
        = (if n \<le> card (free_set v) then io_park else io_move) (fat_link v None fs) d u" by blast
  show thesis
  proof (rule that [OF du(1) _ _ _ du(3)])
    show "fat_ioctl v IOCTL_ALLOCATE_N_ENTRIES 0 (int n)
      = ioctl_finish (\<lambda>vol first. snd (clear_fat_chain vol first False)) IOCTL_ALLOCATE_N_ENTRIES (int n)
          ((if n \<le> card (free_set v) then io_park else io_move) (fat_link v None fs) d u)"
      using la body_start [OF ok la] du(4)
      by (simp add: fat_ioctl_def fat_ioctl_body_def Let_def s_def)
  qed (use du(2) in \<open>auto simp: linked_all_def s_def\<close>)
qed

subsection \<open>Allocation succeeds or is undone\<close>

lemma allocate_free:
  assumes "fat_ok v" "IS_DATA_CLUSTER v (last_allocated v)" "0 < n" "n < 2 ^ 31" "n \<le> card (free_set v)"
  shows "\<exists>cs w. allocate_n_fat_entries v (int n) = (B_OK, Some (uint (hd cs)), w) \<and>
    length cs = n \<and> set cs \<subseteq> free_set v \<and> fat_chain w cs \<and>
    (\<forall>d. IS_DATA_CLUSTER v d \<longrightarrow> d \<notin> set cs \<longrightarrow> fat_entry w d = fat_entry v d) \<and>
    free_clusters w = free_clusters v - of_nat n \<and> last_allocated w = last cs \<and>
    only_table v w \<and> discards (fBlockCache w) = discards (fBlockCache v) \<and> fat_ok w"
proof -
  let ?cs = "alloc_choice v n"
  note choice = alloc_choice_laws [OF assms(1,2), of n]
  have len: "length ?cs = n" using choice(1) assms(5) by simp
  then have ne: "?cs \<noteq> []" using assms(3) by auto
  have data: "c \<in> set ?cs \<Longrightarrow> IS_DATA_CLUSTER v c" for c using choice(3) by (auto simp: free_set_def)
  let ?w = "fat_link v None ?cs"
  let ?u = "?w\<lparr>last_allocated := last ?cs\<rparr>"
  have w: "fat_ok ?w" "IS_DATA_CLUSTER ?w = IS_DATA_CLUSTER v" "only_table v ?w"
    "free_clusters ?w = free_clusters v - of_nat n" "discards (fBlockCache ?w) = discards (fBlockCache v)"
    using fat.alloc_laws [OF assms(1), of ?cs None] fat_link_frame [OF assms(1), of ?cs None] data len by auto
  have u: "fat_ok ?u" "IS_DATA_CLUSTER ?u = IS_DATA_CLUSTER v" "fat_entry ?u = fat_entry ?w" "only_table v ?u"
    using same_fat_laws [OF same_fat_count(3)] w only_table_trans [OF w(3) only_table_count(3)] by auto
  obtain d t where run: "IS_DATA_CLUSTER v d" "io_n t = of_nat (length ?cs)" "io_result t = 0"
    "io_first t = hd ?cs" "d = last ?cs"
    "fat_ioctl v IOCTL_ALLOCATE_N_ENTRIES 0 (int n)
      = ioctl_finish (\<lambda>vol first. snd (clear_fat_chain vol first False)) IOCTL_ALLOCATE_N_ENTRIES (int n)
          (io_park ?w d t)"
    by (rule alloc_run [OF assms(1-4)]) (use assms(5) ne in auto)
  have "uint (fat_sector ?w (fat_last ?w d div bps ?w)) = fat_block ?w (fat_last ?w d)"
    using w run(1) by (intro uint_fat_sector fat_last_range) auto
  then have "fat_ioctl v IOCTL_ALLOCATE_N_ENTRIES 0 (int n) = (sint (hd ?cs), ?u)"
    using run len assms(4) by (simp add: ioctl_finish_def)
  moreover have "sint (hd ?cs) = uint (hd ?cs)" "0 \<le> sint (hd ?cs)"
    using uint_data_cluster [OF assms(1) data] ne by auto
  ultimately have "allocate_n_fat_entries v (int n) = (B_OK, Some (uint (hd ?cs)), ?u)"
    by (simp add: allocate_n_fat_entries_def)
  moreover have "fat_chain ?u ?cs"
    using fat.alloc_chain [OF assms(1) _ choice(2) ne] data w(2) u(2,3) by simp
  moreover have "fat_entry ?u d = fat_entry v d" if "IS_DATA_CLUSTER v d" "d \<notin> set ?cs" for d
    using fat.alloc_other [OF assms(1), of ?cs None d] data that u(3) by simp
  ultimately show ?thesis
    using len choice(3) u w(4,5) by (intro exI [of _ ?cs] exI [of _ ?u]) simp
qed

lemma allocate_full:
  assumes "fat_ok v" "IS_DATA_CLUSTER v (last_allocated v)" "card (free_set v) < n" "n < 2 ^ 31"
  shows "\<exists>w. allocate_n_fat_entries v (int n) = (B_DEVICE_FULL, None, w) \<and>
    (\<forall>d. IS_DATA_CLUSTER v d \<longrightarrow> fat_entry w d = fat_entry v d) \<and>
    free_clusters w = free_clusters v \<and> only_table v w \<and>
    discards (fBlockCache w) = discards (fBlockCache v) \<and> fat_ok w"
proof -
  let ?cs = "alloc_choice v n"
  note choice = alloc_choice_laws [OF assms(1,2), of n]
  have len: "length ?cs < n" using choice(1) assms(3) by simp
  have data: "c \<in> set ?cs \<Longrightarrow> IS_DATA_CLUSTER v c \<and> fat_entry v c = 0" for c
    using choice(3) by (auto simp: free_set_def)
  let ?w = "fat_link v None ?cs"
  let ?u = "free_links fat_store (give_cluster False) 0 ?w ?cs"
  have w: "fat_ok ?w" "IS_DATA_CLUSTER ?w = IS_DATA_CLUSTER v" "only_table v ?w"
    "free_clusters ?w = free_clusters v - of_nat (length ?cs)" "discards (fBlockCache ?w) = discards (fBlockCache v)"
    using fat.alloc_laws [OF assms(1), of ?cs None] fat_link_frame [OF assms(1), of ?cs None] data by auto
  have u: "fat_ok ?u" "only_table v ?u" "free_clusters ?u = free_clusters v"
    "discards (fBlockCache ?u) = discards (fBlockCache v)"
    using fat.release_laws [OF w(1), of ?cs False] only_table_free_links [OF w(1), of ?cs False] data w
      only_table_trans [OF w(3)] by auto
  have entry: "IS_DATA_CLUSTER v d \<Longrightarrow> fat_entry ?u d = fat_entry v d" for d
    using fat.release_alloc [OF assms(1), of ?cs d False] data by blast
  obtain d t where run: "IS_DATA_CLUSTER v d" "io_n t = of_nat (length ?cs)" "io_result t = 0"
    "io_first t = (if ?cs = [] then 0 else hd ?cs)"
    "fat_ioctl v IOCTL_ALLOCATE_N_ENTRIES 0 (int n)
      = ioctl_finish (\<lambda>vol first. snd (clear_fat_chain vol first False)) IOCTL_ALLOCATE_N_ENTRIES (int n)
          (io_move ?w d t)"
    by (rule alloc_run [OF assms(1,2) _ assms(4)]) (use assms(3) in auto)
  have put: "uint (fat_sector ?w (fat_pos ?w d div bps ?w)) = fat_block ?w (fat_pos ?w d)"
    using w run(1) by (intro uint_fat_sector fat_pos_range) auto
  have "(of_nat (length ?cs) :: uint32) \<noteq> of_nat n"
    using len assms(4) by (simp add: word_unat_eq_iff unat_of_nat)
  then have fin: "fat_ioctl v IOCTL_ALLOCATE_N_ENTRIES 0 (int n)
      = (B_DEVICE_FULL, if io_first t \<noteq> 0 then snd (clear_fat_chain ?w (io_first t) False) else ?w)"
    using run put by (simp add: ioctl_finish_def)
  have "(if io_first t \<noteq> 0 then snd (clear_fat_chain ?w (io_first t) False) else ?w) = ?u"
  proof (cases "?cs = []")
    case False
    then have "fat_chain ?w ?cs" using fat.alloc_chain [OF assms(1) _ choice(2)] data by auto
    moreover have "hd ?cs \<noteq> 0" using False data uint_data_cluster(3) [OF assms(1)] by (metis list.set_sel(1))
    ultimately show ?thesis using clear_fat_chain_chain [OF w(1)] run(4) False by simp
  qed (use run in simp)
  then have "allocate_n_fat_entries v (int n) = (B_DEVICE_FULL, None, ?u)"
    using fin by (simp add: allocate_n_fat_entries_def B_DEVICE_FULL_def)
  then show ?thesis using u entry by blast
qed

lemma clear_chain:
  assumes "fat_ok v" "fat_chain v cs"
  shows "\<exists>w. clear_fat_chain v (hd cs) discard = (B_OK, w) \<and>
    (\<forall>d. IS_DATA_CLUSTER v d \<longrightarrow> fat_entry w d = (if d \<in> set cs then 0 else fat_entry v d)) \<and>
    free_clusters w = free_clusters v + of_nat (length cs) \<and> only_table v w \<and> fat_ok w"
proof -
  have data: "c \<in> set cs \<Longrightarrow> IS_DATA_CLUSTER v c" for c by (rule chain_data [OF assms(2)])
  show ?thesis
    using clear_fat_chain_chain [OF assms, of discard] fat.release_laws [OF assms(1) data, of cs discard]
      only_table_free_links [OF assms(1) data, of cs discard] by auto
qed

end
