(* ===== verification/Fat_Mirror.thy ===== *)
theory Fat_Mirror
  imports Fat_Alloc
begin

section \<open>The copies of the table\<close>

text \<open>
  A mirrored volume keeps \<open>fat_count\<close> copies of the table. The lemmas show that every write of an
  entry leaves all copies equal to the active one.
\<close>

definition mirrors_agree :: "nspace \<Rightarrow> bool" where
  "mirrors_agree v \<longleftrightarrow> (fat_mirrored v \<longrightarrow>
     (\<forall>i < unat (fat_count v). \<forall>s < spf v.
        blk v (fat_copy v i s) = blk v (fat_copy v (unat (active_fat v)) s)))"

text \<open>The copies agree everywhere but, perhaps, in the sectors \<open>S\<close>.\<close>

definition agree_but :: "nat set \<Rightarrow> nspace \<Rightarrow> bool" where
  "agree_but S v \<longleftrightarrow> (fat_mirrored v \<longrightarrow>
     (\<forall>i < unat (fat_count v). \<forall>s < spf v. s \<notin> S \<longrightarrow>
        blk v (fat_copy v i s) = blk v (fat_copy v (unat (active_fat v)) s)))"

lemma agree_but_empty: "agree_but {} v = mirrors_agree v"
  by (simp add: agree_but_def mirrors_agree_def)

lemma agree_but_put:
  assumes "fat_ok v" "fat_range v k" "agree_but S v"
  shows "agree_but (insert (k div bps v) S) (fat_put v k x)"
  using assms fat_copy_inject [of _ v "k div bps v"] fat_sector_bound [of v k]
  by (simp add: agree_but_def fat_put_eq fat_block_def fat_ok_def fat_range_def)

lemma agree_but_flush:
  assumes ok: "fat_ok v" "fat_range v k" and a: "agree_but S v"
  shows "agree_but (S - {k div bps v}) (fat_flush v k)"
proof -
  let ?s = "k div bps v" and ?a = "unat (active_fat v)"
  have s: "?s < spf v" using ok by (simp add: fat_ok_def fat_range_def fat_sector_bound)
  obtain bs where bs: "blk v (fat_copy v ?a ?s) = Some bs"
    using fat_block_readable [of v k] ok by (auto simp: fat_ok_def fat_range_def fat_block_def)
  moreover have "length bs = bps v" using bs ok(1) by (auto simp: fat_ok_def wf_fat_def)
  ultimately have blk: "blk v (fat_copy v ?a ?s) = Some (take (bps v) (block_data v (fat_copy v ?a ?s)))"
    by (simp add: block_data_def)
  have m: "mirrored_blocks v ?s (block_data v (fat_copy v ?a ?s)) (fat_copy v i t)
      = (if fat_mirrored v \<and> t = ?s then blk v (fat_copy v ?a ?s) else blk v (fat_copy v i t))"
    if "i < unat (fat_count v)" "t < spf v" for i t
  proof (cases "fat_mirrored v \<and> i \<noteq> ?a \<and> t = ?s")
    case True
    then have "fat_mirrored v \<and> (\<exists>j < unat (fat_count v). j \<noteq> ?a \<and> fat_copy v i t = fat_copy v j ?s)"
      using that by blast
    then have "mirrored_blocks v ?s (block_data v (fat_copy v ?a ?s)) (fat_copy v i t)
        = Some (take (bps v) (block_data v (fat_copy v ?a ?s)))"
      unfolding mirrored_blocks_def by (rule if_P)
    moreover have cond: "fat_mirrored v \<and> t = ?s" using True by blast
    ultimately show ?thesis unfolding if_P [OF cond] blk by blast
  next
    case False
    then have "\<not> (fat_mirrored v \<and> (\<exists>j < unat (fat_count v). j \<noteq> ?a \<and> fat_copy v i t = fat_copy v j ?s))"
      unfolding fat_copy_inject [OF that(2) s] by blast
    then have "mirrored_blocks v ?s (block_data v (fat_copy v ?a ?s)) (fat_copy v i t) = blk v (fat_copy v i t)"
      unfolding mirrored_blocks_def by (rule if_not_P)
    moreover have "fat_mirrored v \<and> t = ?s \<Longrightarrow> i = ?a" using False by blast
    ultimately show ?thesis by (cases "fat_mirrored v \<and> t = ?s") auto
  qed
  have "?a < unat (fat_count v)" using ok by (simp add: fat_ok_def wf_fat_def)
  then have "agree_but (S - {?s}) (set_blocks v (mirrored_blocks v ?s (block_data v (fat_copy v ?a ?s))))"
    using a unfolding agree_but_def set_blocks_sel set_blocks_geometry by (metis Diff_iff m singletonD)
  then show ?thesis unfolding fat_flush_eq [OF ok] fat_block_def .
qed

lemma agree_but_mono: "agree_but S v \<Longrightarrow> S \<subseteq> T \<Longrightarrow> agree_but T v"
  by (auto simp: agree_but_def)

text \<open>Putting bytes into one sector and flushing it.\<close>

lemma agree_put_same:
  assumes "fat_ok v" "fat_range v k" "k div bps v = s" "agree_but {s} v"
  shows "agree_but {s} (fat_put v k x)"
  using agree_but_put [OF assms(1,2,4)] assms(3) by simp

lemma mirrors_agree_flush:
  assumes "fat_ok v" "fat_range v k" "agree_but {k div bps v} v"
  shows "mirrors_agree (fat_flush v k)"
  using agree_but_flush [OF assms] by (simp add: agree_but_empty)

lemma mirrors_agree_any: "mirrors_agree v \<Longrightarrow> agree_but S v"
  by (auto simp: mirrors_agree_def agree_but_def)

lemma fat_store_mirrors:
  assumes ok: "fat_ok v" and c: "IS_DATA_CLUSTER v c" and a: "mirrors_agree v"
  shows "mirrors_agree (fat_store v c m)"
proof -
  let ?p = "fat_pos v c"
  note range = fat_pos_range [OF ok c]
  consider (b12) "bits v = 12" | (b16) "bits v = 16" | (b32) "bits v = 32" using fat_ok_bits [OF ok] by blast
  then show ?thesis
  proof cases
    case b12
    obtain om am where oa: "ioctl_fat12_masks c m = (om, am)" by (metis surj_pair)
    define v1 where "v1 = fat_put v ?p ((fat_byte v ?p AND ucast (am AND 0xff)) OR ucast (om AND 0xff))"
    define v2 where "v2 = (if ?p mod bps v = bps v - 1 then fat_flush v1 ?p else v1)"
    define v3 where "v3 = fat_put v2 (?p + 1) ((fat_byte v2 (?p + 1) AND ucast (drop_bit 8 am)) OR ucast (drop_bit 8 om))"
    have st: "fat_store v c m = fat_flush v3 (?p + 1)"
      by (simp add: fat_store_def b12 oa Let_def v1_def v2_def v3_def)
    have v1: "fat_ok v1" "fat_range v1 = fat_range v" "bps v1 = bps v" "agree_but {?p div bps v} v1"
      using ok range fat_put_ok agree_put_same [OF ok range(1) refl mirrors_agree_any [OF a]] by (simp_all add: v1_def)
    have v2: "fat_ok v2" "fat_range v2 = fat_range v" "bps v2 = bps v" "agree_but {(?p + 1) div bps v} v2"
    proof -
      have "bps v > 0" using fat_ok_bps(1) [OF ok] by simp
      then have lt: "?p mod bps v < bps v" by simp
      have "mirrors_agree (fat_flush v1 ?p)"
        using v1 range by (intro mirrors_agree_flush) simp_all
      moreover have "(?p + 1) div bps v = ?p div bps v" if "?p mod bps v \<noteq> bps v - 1"
        using same_sector(1) [of ?p v 1] that lt by simp
      ultimately show "agree_but {(?p + 1) div bps v} v2"
        using v1(4) by (simp add: v2_def mirrors_agree_any)
    qed (use v1 range in \<open>simp_all add: v2_def fat_laws\<close>)
    have "fat_ok v3" "fat_range v3 = fat_range v" "bps v3 = bps v" "agree_but {(?p + 1) div bps v} v3"
      using v2 range agree_put_same [of v2 "?p + 1"] by (simp_all add: v3_def fat_laws)
    then show ?thesis unfolding st using range by (intro mirrors_agree_flush) simp_all
  next
    case b16
    have p: "?p = 2 * unat c" by (simp add: fat_pos_def b16)
    have lt: "?p mod bps v + 1 < bps v"
      using fat_ok_bps [OF ok] aligned_mod(2) [of "bps v" "unat c"] by (simp add: p)
    show ?thesis
      using b16 ok range same_sector(1) [OF lt] mirrors_agree_any [OF a]
      by (auto simp: fat_store_def Let_def fat_laws intro!: mirrors_agree_flush agree_put_same)
  next
    case b32
    have p: "?p = 4 * unat c" by (simp add: fat_pos_def b32)
    have lt: "?p mod bps v + 3 < bps v" "?p mod bps v + 2 < bps v" "?p mod bps v + 1 < bps v"
      using fat_ok_bps [OF ok] aligned_mod(1) [of "bps v" "unat c"] by (simp_all add: p)
    show ?thesis
      using b32 ok range lt [THEN same_sector(1)] mirrors_agree_any [OF a]
      by (auto simp: fat_store_def Let_def fat_laws intro!: mirrors_agree_flush agree_put_same)
  qed
qed

end
