(* ===== verification/Sample_Volume.thy ===== *)
theory Sample_Volume
  imports Fat_Mirror
begin

section \<open>A small volume\<close>

text \<open>
  A concrete FAT16 volume of five clusters with two copies of a one-sector table, on which the
  hypotheses of the properties are discharged: cluster 2 is linked to 3 and 3 to 4, which ends the
  chain; clusters 5 and 6 are free.
\<close>

definition sample_fat :: bytes where
  "sample_fat = [0xf8, 0xff, 0xff, 0xff, 3, 0, 4, 0, 0xff, 0xff, 0, 0, 0, 0] @ replicate 498 0"

definition sample_vnode :: vnode where
  "sample_vnode = \<lparr>vn_vnid = 1, vn_dir_vnid = 1, vn_disk_image = 0, vn_iteration = 0, vn_sindex = 0, vn_eindex = 0,
     vn_cluster = 1, vn_mode = FAT_SUBDIR, vn_st_size = 1024, vn_st_time = 0, vn_st_crtim = 0,
     vn_end_cluster = 1, vn_mime = None, vn_dirty = False, vn_filename = None\<rparr>"

definition sample_cache :: bcache where
  "sample_cache = \<lparr>blocks = (\<lambda>b. if b < 0 \<or> 20 \<le> b then None
       else if b = 1 \<or> b = 2 then Some sample_fat else Some (replicate 512 0)),
     refs = (\<lambda>_. 0), discards = []\<rparr>"

definition sample_volume :: nspace where
  "sample_volume = \<lparr>flags = 0, fBlockCache = sample_cache, bytes_per_sector = 512,
     sectors_per_cluster = 2, reserved_sectors = 1, fat_count = 2, root_entries_count = 32,
     total_sectors = 20, sectors_per_fat = 1, media_descriptor = 0xf8, fsinfo_sector = 0xffff,
     total_clusters = 5, free_clusters = 2, fat_bits = 16, fat_mirrored = True, active_fat = 0,
     root_start = 3, root_sectors = 2, root_vnode = sample_vnode, vol_entry = -1, vol_label = [],
     data_start = 5, last_allocated = 2, beos_vnid = 0, respect_disk_image = False, fs_flags = 0,
     vcache = \<lparr>cur_vnid = ARTIFICIAL_VNID_BITS, cache_size = 2, by_vnid = [[], []], by_loc = [[], []]\<rparr>,
     dlist = \<lparr>entries = 0, allocated = 10, vnid_list = Some (replicate 10 0)\<rparr>,
     nodes = (\<lambda>_. None), removed = [], fault = None, mem = []\<rparr>"

lemma sample_sel [simp]:
  "blk sample_volume b = (if b < 0 \<or> 20 \<le> b then None
     else if b = 1 \<or> b = 2 then Some sample_fat else Some (replicate 512 0))"
  "bytes_per_sector sample_volume = 512" "reserved_sectors sample_volume = 1" "fat_count sample_volume = 2"
  "sectors_per_fat sample_volume = 1" "total_clusters sample_volume = 5" "fat_bits sample_volume = 16"
  "fat_mirrored sample_volume" "active_fat sample_volume = 0" "last_allocated sample_volume = 2"
  "free_clusters sample_volume = 2"
  by (simp_all add: sample_volume_def sample_cache_def)

lemma sample_geometry [simp]:
  "bps sample_volume = 512" "spf sample_volume = 1" "bits sample_volume = 16"
  "IS_DATA_CLUSTER sample_volume c \<longleftrightarrow> 2 \<le> c \<and> c < 7"
  by (simp_all add: bps_def spf_def bits_def IS_DATA_CLUSTER_def)

lemma sample_ok [simp]: "fat_ok sample_volume"
proof -
  have "wf_fat sample_volume" by (auto simp: wf_fat_def sample_fat_def split: if_splits)
  moreover have "fat_readable sample_volume" by (auto simp: fat_readable_def fat_copy_def)
  ultimately show ?thesis by (simp add: fat_ok_def)
qed

lemma sample_mirrors [simp]: "mirrors_agree sample_volume"
proof -
  have "i < 2 \<Longrightarrow> i = 0 \<or> i = 1" for i :: nat by auto
  then show ?thesis by (auto simp: mirrors_agree_def fat_copy_def)
qed

lemma sample_entries [simp]:
  "fat_entry sample_volume 2 = 3" "fat_entry sample_volume 3 = 4" "fat_entry sample_volume 4 = 0x0fffffff"
  "fat_entry sample_volume 5 = 0" "fat_entry sample_volume 6 = 0"
  by (simp_all add: fat_entry_def fat_pos_def fat_byte_def fat_block_def fat_copy_def block_data_def
      sample_fat_def Let_def)

lemma sample_chain [simp]: "fat_chain sample_volume [2, 3, 4]"
  by (simp add: is_eoc_def)

lemma sample_clusters: "IS_DATA_CLUSTER sample_volume c \<longleftrightarrow> c \<in> {2, 3, 4, 5, 6}"
proof -
  have "unat c = 2 \<or> unat c = 3 \<or> unat c = 4 \<or> unat c = 5 \<or> unat c = 6" if "2 \<le> c" "c < 7"
    using that by (auto simp: word_le_nat_alt word_less_nat_alt)
  then show ?thesis by (auto simp: word_unat_eq_iff word_le_nat_alt word_less_nat_alt)
qed

lemma sample_free [simp]: "free_set sample_volume = {5, 6}"
  using sample_clusters by (auto simp: free_set_def simp del: sample_geometry(4))

end
