(* ===== verification/Fat_Properties.thy ===== *)
theory Fat_Properties
  imports Sample_Volume
begin

section \<open>Properties of the file allocation table\<close>

text \<open>
  The theorems about \<open>fat.c\<close>. They hold on every volume whose geometry is consistent and whose
  table can be read (\<open>fat_ok\<close>), for 12-, 16- and 32-bit tables alike.
\<close>

text \<open>
  C1. When the search start \<open>last_allocated\<close> is a data cluster and \<open>n\<close> clusters are free,
  0 < \<open>n\<close> < 2^31, allocating \<open>n\<close> clusters succeeds: the result is the start of a chain of \<open>n\<close>
  clusters that were free before, properly ended; every other entry of the table is unchanged, the
  counter of free clusters drops by \<open>n\<close>, the next search starts at the last cluster taken, and
  everything else of the volume is as before: every block outside the copies of the table, every
  other field, the block references and the discards. (Without the condition on the search start
  allocation can fail on an empty volume, C19.)
\<close>

theorem allocate_n_fat_entries_success:
  assumes "fat_ok v" "IS_DATA_CLUSTER v (last_allocated v)" "0 < n" "n < 2 ^ 31" "n \<le> card (free_set v)"
  shows "\<exists>cs w. allocate_n_fat_entries v (int n) = (B_OK, Some (uint (hd cs)), w) \<and>
    length cs = n \<and> set cs \<subseteq> free_set v \<and> fat_chain w cs \<and>
    (\<forall>d. IS_DATA_CLUSTER v d \<longrightarrow> d \<notin> set cs \<longrightarrow> fat_entry w d = fat_entry v d) \<and>
    free_clusters w = free_clusters v - of_nat n \<and> last_allocated w = last cs \<and>
    only_table v w \<and> discards (fBlockCache w) = discards (fBlockCache v) \<and> fat_ok w"
  by (rule allocate_free [OF assms])

theorem allocate_n_fat_entries_success_witness:
  "\<exists>cs w. allocate_n_fat_entries sample_volume 2 = (B_OK, Some (uint (hd cs)), w) \<and>
    length cs = 2 \<and> set cs \<subseteq> {5, 6} \<and> fat_chain w cs \<and>
    free_clusters w = 0 \<and> last_allocated w = last cs \<and> only_table sample_volume w \<and>
    discards (fBlockCache w) = discards (fBlockCache sample_volume) \<and> fat_ok w"
  using allocate_n_fat_entries_success [of sample_volume 2] by auto

text \<open>
  C2. When fewer clusters are free than asked for (and the search start \<open>last_allocated\<close> is a data
  cluster), allocation reports \<open>B_DEVICE_FULL\<close> and gives back what it had taken: every entry of the
  table, the counter of free clusters, every block outside the table and the discards are as before.
\<close>

theorem allocate_n_fat_entries_full:
  assumes "fat_ok v" "IS_DATA_CLUSTER v (last_allocated v)" "card (free_set v) < n" "n < 2 ^ 31"
  shows "\<exists>w. allocate_n_fat_entries v (int n) = (B_DEVICE_FULL, None, w) \<and>
    (\<forall>d. IS_DATA_CLUSTER v d \<longrightarrow> fat_entry w d = fat_entry v d) \<and>
    free_clusters w = free_clusters v \<and> only_table v w \<and>
    discards (fBlockCache w) = discards (fBlockCache v) \<and> fat_ok w"
  by (rule allocate_full [OF assms])

theorem allocate_n_fat_entries_full_witness:
  "\<exists>w. allocate_n_fat_entries sample_volume 3 = (B_DEVICE_FULL, None, w) \<and>
    fat_entry w 5 = 0 \<and> fat_entry w 6 = 0 \<and> free_clusters w = 2"
proof -
  obtain w where "allocate_n_fat_entries sample_volume 3 = (B_DEVICE_FULL, None, w)" "free_clusters w = 2"
    and e: "\<And>d. IS_DATA_CLUSTER sample_volume d \<Longrightarrow> fat_entry w d = fat_entry sample_volume d"
    using allocate_n_fat_entries_full [of sample_volume 3] by auto
  then show ?thesis using e [of 5] e [of 6] by auto
qed

text \<open>
  C3. Releasing a chain sets the entry of each of its clusters to free, leaves every other entry
  and every block outside the table alone and adds their number to the counter of free clusters.
\<close>

theorem clear_fat_chain_correct:
  assumes "fat_ok v" "fat_chain v cs"
  shows "\<exists>w. clear_fat_chain v (hd cs) discard = (B_OK, w) \<and>
    (\<forall>d. IS_DATA_CLUSTER v d \<longrightarrow> fat_entry w d = (if d \<in> set cs then 0 else fat_entry v d)) \<and>
    free_clusters w = free_clusters v + of_nat (length cs) \<and> only_table v w \<and> fat_ok w"
  by (rule clear_chain [OF assms])

theorem clear_fat_chain_correct_witness:
  "\<exists>w. clear_fat_chain sample_volume 2 True = (B_OK, w) \<and>
    fat_entry w 2 = 0 \<and> fat_entry w 3 = 0 \<and> fat_entry w 4 = 0 \<and> fat_entry w 5 = 0 \<and> free_clusters w = 5"
proof -
  obtain w where "clear_fat_chain sample_volume 2 True = (B_OK, w)" "free_clusters w = 5"
    and e: "\<And>d. IS_DATA_CLUSTER sample_volume d \<Longrightarrow>
      fat_entry w d = (if d \<in> set [2, 3, 4] then 0 else fat_entry sample_volume d)"
    using clear_fat_chain_correct [OF sample_ok sample_chain, of True] by auto
  then show ?thesis using e [of 2] e [of 3] e [of 4] e [of 5] by auto
qed

text \<open>
  C4. Releasing from any data cluster ends, whatever the table holds, even when the clusters form a
  cycle: no run of \<open>clear_fat_chain\<close> on a consistent volume loops forever or fails.
\<close>

theorem clear_fat_chain_terminates:
  assumes "fat_ok v" "IS_DATA_CLUSTER v c"
  shows "\<exists>w. clear_fat_chain v c discard = (B_OK, w) \<and> fat_ok w \<and> only_table v w \<and> fault w = fault v"
proof -
  have "card {x. IS_DATA_CLUSTER v x \<and> fat_entry v x \<noteq> 0} \<le> card {x. IS_DATA_CLUSTER v x}"
    by (intro card_mono) auto
  also have "\<dots> = unat (total_clusters v)"
    using scan_all [OF assms] distinct_card [OF scan_all(1) [OF assms]] by simp
  finally have "card {x. IS_DATA_CLUSTER v x \<and> fat_entry v x \<noteq> 0} + 2 \<le> unat (total_clusters v) + 2" by simp
  from clear_loop_ends [OF assms(1) this, of c discard] show ?thesis
    using assms(2) only_table_sel(2) by (auto simp: clear_fat_chain_def)
qed

theorem clear_fat_chain_terminates_witness:
  "\<exists>w. clear_fat_chain sample_volume 3 False = (B_OK, w) \<and> fat_ok w \<and> only_table sample_volume w \<and>
     fault w = fault sample_volume"
  using clear_fat_chain_terminates [of sample_volume 3 False] by simp

text \<open>
  C5. Writing an entry and the table behaves as an array: the written cluster reads back what was
  stored (cut to the width of the table), every other cluster reads as before, although 12-bit
  entries share bytes and straddle sectors; nothing but the contents of the table's blocks changes.
\<close>

theorem set_fat_entry_array:
  assumes "fat_ok v" "IS_DATA_CLUSTER v c"
  shows "\<exists>w. set_fat_entry v c x = (B_OK, w) \<and>
    (\<forall>d. IS_DATA_CLUSTER v d \<longrightarrow>
       fat_entry w d = (if d = c then fat_norm v (word_of_int x) else fat_entry v d)) \<and>
    contents_only v w \<and> fat_ok w"
  using set_fat_entry_eq [OF assms] fat_entry_store [OF assms] fat_store_contents_only [OF assms]
    fat_store_ok [OF assms] by auto

theorem set_fat_entry_array_witness:
  "\<exists>w. set_fat_entry sample_volume 5 6 = (B_OK, w) \<and> fat_entry w 5 = 6 \<and> fat_entry w 4 = 0x0fffffff \<and>
     contents_only sample_volume w \<and> fat_ok w"
proof -
  obtain w where "set_fat_entry sample_volume 5 6 = (B_OK, w)" "contents_only sample_volume w" "fat_ok w"
    and e: "\<And>d. IS_DATA_CLUSTER sample_volume d \<Longrightarrow>
      fat_entry w d = (if d = 5 then fat_norm sample_volume (word_of_int 6) else fat_entry sample_volume d)"
    using set_fat_entry_array [of sample_volume 5 6] by auto
  moreover have "fat_norm sample_volume 6 = 6" by (simp add: fat_norm_def)
  ultimately show ?thesis using e [of 5] e [of 4] by auto
qed

text \<open>
  C6. Writing a link to a data cluster and reading it back with \<open>get_fat_entry\<close> gives the same
  cluster number.
\<close>

theorem get_set_fat_entry:
  assumes "fat_ok v" "IS_DATA_CLUSTER v c" "IS_DATA_CLUSTER v d"
  shows "\<exists>w. set_fat_entry v c (uint d) = (B_OK, w) \<and> get_fat_entry w c = (uint d, w)"
proof -
  let ?w = "fat_store v c d"
  have w: "fat_ok ?w" "IS_DATA_CLUSTER ?w = IS_DATA_CLUSTER v"
    by (rule fat.store_ok [OF assms(1,2)], rule fat.store_data [OF assms(1,2)])
  have "fat_entry ?w c = d" using fat.link_store [OF assms(1,2,2), of d] assms(3) by simp
  then show ?thesis
    using set_fat_entry_eq [OF assms(1,2), of "uint d"] get_fat_entry_eq [OF w(1), of c] w assms
    by (simp add: link_of_def)
qed

theorem get_set_fat_entry_witness:
  "\<exists>w. set_fat_entry sample_volume 5 6 = (B_OK, w) \<and> get_fat_entry w 5 = (6, w)"
  using get_set_fat_entry [of sample_volume 5 6] by simp

text \<open>
  C7. When the copies of the table agree, they agree after an entry is written.
\<close>

theorem set_fat_entry_mirrors:
  assumes "fat_ok v" "IS_DATA_CLUSTER v c" "mirrors_agree v"
  shows "mirrors_agree (snd (set_fat_entry v c x))"
  using set_fat_entry_eq [OF assms(1,2)] fat_store_mirrors [OF assms] by simp

theorem set_fat_entry_mirrors_witness: "mirrors_agree (snd (set_fat_entry sample_volume 5 6))"
  using set_fat_entry_mirrors [of sample_volume 5 6] by simp

text \<open>
  C8. \<open>get_nth_fat_entry\<close> follows a chain: it returns the cluster \<open>n\<close> links on, or the end marker
  when the chain is shorter, and changes nothing.
\<close>

theorem get_nth_fat_entry_correct:
  assumes "fat_ok v" "fat_chain v cs"
  shows "get_nth_fat_entry v (uint (hd cs)) n = ((if n < length cs then uint (cs ! n) else END_FAT_ENTRY), v)"
  by (rule get_nth_fat_entry_chain [OF assms])

theorem get_nth_fat_entry_correct_witness:
  "get_nth_fat_entry sample_volume 2 2 = (4, sample_volume)"
  using get_nth_fat_entry_correct [OF sample_ok sample_chain, of 2] by simp

text \<open>
  C9. \<open>count_clusters\<close> returns the length of a chain, except that it takes a chain of all the
  clusters of the volume for a broken one and returns 0.
\<close>

theorem count_clusters_correct:
  assumes "fat_ok v" "fat_chain v cs"
  shows "count_clusters v (uint (hd cs))
    = ((if length cs < unat (total_clusters v) then of_nat (length cs) else 0), v)"
  by (rule count_clusters_chain [OF assms])

theorem count_clusters_correct_witness: "count_clusters sample_volume 2 = (3, sample_volume)"
  using count_clusters_correct [OF sample_ok sample_chain] by simp

text \<open>
  C10. On a 12- or 16-bit table \<open>count_free_clusters\<close> returns the number of data clusters whose
  entry is free.
\<close>

theorem count_free_clusters_correct:
  assumes "fat_ok v" "IS_DATA_CLUSTER v 2" "bits v \<noteq> 32"
  shows "count_free_clusters v = (int (card (free_set v)), v)"
  by (rule count_free_clusters_eq [OF assms])

theorem count_free_clusters_correct_witness: "count_free_clusters sample_volume = (2, sample_volume)"
  using count_free_clusters_correct [of sample_volume] by simp

end
