(* ===== verification/Vcache.thy ===== *)
theory Vcache
  imports Volume
begin

section \<open>The vnode id cache: vcache.c\<close>

text \<open>
  A file's vnode id encodes where its directory entry was when the id was first reported; when the
  file moves, the cache remembers the new location. It keeps each pair in two hash tables of
  chains, one sorted by vnode id and one by location. The theory models every function of
  \<open>vcache.c\<close>, states the invariant that ties the two tables together, shows that the tables
  represent a one-to-one map, and interprets the interface \<open>relocation_map\<close> on them. The locks,
  the \<open>ASSERT\<close>s and the debugger commands are left out. Vnode ids are compared as the signed 64-bit
  numbers they are in the source.
\<close>

subsection \<open>Chains\<close>

text \<open>Linking an entry into a chain before the first greater key (\<open>while (c) ...\<close>).\<close>

fun chain_insert :: "(vcache_entry \<Rightarrow> ino_t) \<Rightarrow> vcache_entry \<Rightarrow> vcache_entry list \<Rightarrow> vcache_entry list" where
  "chain_insert key e [] = [e]"
| "chain_insert key e (c # cs) = (if sint (key e) < sint (key c) then e # c # cs else c # chain_insert key e cs)"

text \<open>The first entry of a chain with a vnode id, and the chain without it.\<close>

fun chain_remove :: "ino_t \<Rightarrow> vcache_entry list \<Rightarrow> (vcache_entry \<times> vcache_entry list) option" where
  "chain_remove vnid [] = None"
| "chain_remove vnid (c # cs) =
     (if vnid = ve_vnid c then Some (c, cs)
      else case chain_remove vnid cs of None \<Rightarrow> None | Some (e, ds) \<Rightarrow> Some (e, c # ds))"

fun chain_find :: "(vcache_entry \<Rightarrow> ino_t) \<Rightarrow> ino_t \<Rightarrow> vcache_entry list \<Rightarrow> vcache_entry option" where
  "chain_find key x [] = None"
| "chain_find key x (c # cs) =
     (if key c = x then Some c else if sint (key c) > sint x then None else chain_find key x cs)"

subsection \<open>The functions of vcache.c\<close>

definition vcache_hash :: "vcache \<Rightarrow> ino_t \<Rightarrow> nat" where
  "vcache_hash vc v = unat (v AND ucast (cache_size vc - 1))"

abbreviation bucket :: "vcache_entry list list \<Rightarrow> nat \<Rightarrow> vcache_entry list" where
  "bucket t i \<equiv> (if i < length t then t ! i else [])"

definition init_vcache :: "nspace \<Rightarrow> status_t \<times> nspace" where
  "init_vcache vol =
     (let vol = vol\<lparr>vcache := (vcache vol)\<lparr>cur_vnid := ARTIFICIAL_VNID_BITS, cache_size := 512\<rparr>\<rparr>;
          (ok, vol) = malloc vol
      in if \<not> ok then (ENOMEM, vol\<lparr>vcache := (vcache vol)\<lparr>by_vnid := []\<rparr>\<rparr>)
         else
           let vol = vol\<lparr>vcache := (vcache vol)\<lparr>by_vnid := replicate 512 []\<rparr>\<rparr>;
               (ok, vol) = malloc vol
           in if \<not> ok then (ENOMEM, vol\<lparr>vcache := (vcache vol)\<lparr>by_vnid := [], by_loc := []\<rparr>\<rparr>)
              else (B_OK, vol\<lparr>vcache := (vcache vol)\<lparr>by_loc := replicate 512 []\<rparr>\<rparr>))"

definition uninit_vcache :: "nspace \<Rightarrow> status_t \<times> nspace" where
  "uninit_vcache vol = (B_OK, vol\<lparr>vcache := (vcache vol)\<lparr>by_vnid := [], by_loc := []\<rparr>\<rparr>)"

definition generate_unique_vnid :: "nspace \<Rightarrow> ino_t \<times> nspace" where
  "generate_unique_vnid vol =
     (cur_vnid (vcache vol), vol\<lparr>vcache := (vcache vol)\<lparr>cur_vnid := cur_vnid (vcache vol) + 1\<rparr>\<rparr>)"

definition vcache_insert :: "vcache \<Rightarrow> ino_t \<Rightarrow> ino_t \<Rightarrow> vcache" where
  "vcache_insert vc vnid loc =
     (let hash1 = vcache_hash vc vnid; hash2 = vcache_hash vc loc;
          e = \<lparr>ve_vnid = vnid, ve_loc = loc\<rparr>
      in vc\<lparr>by_vnid := (by_vnid vc)[hash1 := chain_insert ve_vnid e (bucket (by_vnid vc) hash1)],
            by_loc := (by_loc vc)[hash2 := chain_insert ve_loc e (bucket (by_loc vc) hash2)]\<rparr>)"

definition add_to_vcache :: "nspace \<Rightarrow> ino_t \<Rightarrow> ino_t \<Rightarrow> status_t \<times> nspace" where
  "add_to_vcache vol vnid loc =
     (let (ok, vol) = malloc vol
      in if \<not> ok then (ENOMEM, vol)
         else (B_OK, vol\<lparr>vcache := vcache_insert (vcache vol) vnid loc\<rparr>))"

text \<open>
  \<open>_remove_from_vcache_\<close>; when the second table lacks the entry the first one has lost it already.
\<close>

definition vcache_delete :: "vcache \<Rightarrow> ino_t \<Rightarrow> status_t \<times> vcache" where
  "vcache_delete vc vnid =
     (let hash1 = vcache_hash vc vnid
      in case chain_remove vnid (bucket (by_vnid vc) hash1) of
           None \<Rightarrow> (ENOENT, vc)
         | Some (e, rest) \<Rightarrow>
             let vc = vc\<lparr>by_vnid := (by_vnid vc)[hash1 := rest]\<rparr>;
                 hash2 = vcache_hash vc (ve_loc e)
             in case chain_remove vnid (bucket (by_loc vc) hash2) of
                  None \<Rightarrow> (ENOENT, vc)
                | Some (_, rest2) \<Rightarrow> (0, vc\<lparr>by_loc := (by_loc vc)[hash2 := rest2]\<rparr>))"

definition remove_from_vcache :: "nspace \<Rightarrow> ino_t \<Rightarrow> status_t \<times> nspace" where
  "remove_from_vcache vol vnid =
     (let (result, vc) = vcache_delete (vcache vol) vnid in (result, vol\<lparr>vcache := vc\<rparr>))"

definition find_vnid_in_vcache :: "nspace \<Rightarrow> ino_t \<Rightarrow> vcache_entry option" where
  "find_vnid_in_vcache vol vnid =
     chain_find ve_vnid vnid (bucket (by_vnid (vcache vol)) (vcache_hash (vcache vol) vnid))"

definition find_loc_in_vcache :: "nspace \<Rightarrow> ino_t \<Rightarrow> vcache_entry option" where
  "find_loc_in_vcache vol loc =
     chain_find ve_loc loc (bucket (by_loc (vcache vol)) (vcache_hash (vcache vol) loc))"

definition update_loc_in_vcache :: "nspace \<Rightarrow> ino_t \<Rightarrow> ino_t \<Rightarrow> status_t \<times> nspace" where
  "update_loc_in_vcache vol vnid loc =
     (let (result, vol) = remove_from_vcache vol vnid
      in if result = 0 then add_to_vcache vol vnid loc else (result, vol))"

text \<open>The out parameters are the second component: \<open>None\<close> when nothing is stored.\<close>

definition vcache_vnid_to_loc :: "nspace \<Rightarrow> ino_t \<Rightarrow> status_t \<times> ino_t option" where
  "vcache_vnid_to_loc vol vnid =
     (case find_vnid_in_vcache vol vnid of
        None \<Rightarrow> (ENOENT, None)
      | Some e \<Rightarrow> (B_OK, Some (ve_loc e)))"

definition vcache_loc_to_vnid :: "nspace \<Rightarrow> ino_t \<Rightarrow> status_t \<times> ino_t option" where
  "vcache_loc_to_vnid vol loc =
     (case find_loc_in_vcache vol loc of
        None \<Rightarrow> (ENOENT, None)
      | Some e \<Rightarrow> (B_OK, Some (ve_vnid e)))"

definition vcache_set_entry :: "nspace \<Rightarrow> ino_t \<Rightarrow> ino_t \<Rightarrow> status_t \<times> nspace" where
  "vcache_set_entry vol vnid loc =
     (case find_vnid_in_vcache vol vnid of
        Some e \<Rightarrow>
          if ve_vnid e = loc then remove_from_vcache vol vnid
          else update_loc_in_vcache vol vnid loc
      | None \<Rightarrow> if vnid \<noteq> loc then add_to_vcache vol vnid loc else (B_OK, vol))"

text \<open>The macro \<open>find_vnid_in_vcache\<close> of vcache.h.\<close>

definition find_vnid_in_vcache_status :: "nspace \<Rightarrow> ino_t \<Rightarrow> status_t" where
  "find_vnid_in_vcache_status vol vnid = fst (vcache_vnid_to_loc vol vnid)"

subsection \<open>Sorted chains\<close>

named_theorems vcache_laws \<open>the effect of the chain operations on a sorted chain\<close>

definition sorted_chain :: "(vcache_entry \<Rightarrow> ino_t) \<Rightarrow> vcache_entry list \<Rightarrow> bool" where
  "sorted_chain key = sorted_wrt (\<lambda>a b. sint (key a) < sint (key b))"

lemma sorted_chain_simps [simp]:
  "sorted_chain key []"
  "sorted_chain key (c # cs) \<longleftrightarrow> (\<forall>d \<in> set cs. sint (key c) < sint (key d)) \<and> sorted_chain key cs"
  by (simp_all add: sorted_chain_def)

lemma sint_inject: "sint a = sint b \<longleftrightarrow> a = (b :: ino_t)"
  by (auto dest: arg_cong [where f = "word_of_int :: int \<Rightarrow> ino_t"])

lemma sorted_chain_inj:
  "sorted_chain key cs \<Longrightarrow> a \<in> set cs \<Longrightarrow> b \<in> set cs \<Longrightarrow> key a = key b \<Longrightarrow> a = b"
  by (induction cs) force+

lemma chain_find_iff:
  "sorted_chain key cs \<Longrightarrow> chain_find key x cs = Some e \<longleftrightarrow> e \<in> set cs \<and> key e = x"
proof (induction cs)
  case (Cons c cs)
  have "d \<in> set cs \<Longrightarrow> sint (key c) < sint (key d)" for d using Cons.prems by simp
  then show ?case using Cons by (auto dest: order.strict_trans) (metis less_irrefl)
qed simp

lemma chain_find_None: "sorted_chain key cs \<Longrightarrow> chain_find key x cs = None \<longleftrightarrow> x \<notin> key ` set cs"
  using chain_find_iff [of key cs x] by (metis image_iff not_None_eq)

lemma set_chain_insert [vcache_laws]: "set (chain_insert key e cs) = insert e (set cs)"
  by (induction cs) auto

lemma sorted_chain_insert [vcache_laws]:
  "sorted_chain key cs \<Longrightarrow> key e \<notin> key ` set cs \<Longrightarrow> sorted_chain key (chain_insert key e cs)"
proof (induction cs)
  case (Cons c cs)
  have "sint (key e) \<noteq> sint (key c)" using Cons.prems(2) by (auto simp: sint_inject)
  with Cons show ?case by (force simp: set_chain_insert)
qed simp

lemma chain_remove_None: "chain_remove v cs = None \<longleftrightarrow> v \<notin> ve_vnid ` set cs"
  by (induction cs) (auto split: option.splits)

lemma chain_remove_Some:
  "chain_remove v cs = Some (e, ds) \<Longrightarrow> e \<in> set cs \<and> ve_vnid e = v \<and> set cs = insert e (set ds) \<and>
     (sorted_chain key cs \<longrightarrow> sorted_chain key ds \<and> e \<notin> set ds)"
  by (induction cs arbitrary: ds) (auto split: if_splits option.splits)

lemma chain_remove_set:
  assumes "chain_remove v cs = Some (e, ds)" "sorted_chain key cs"
  shows "e \<in> set cs" "ve_vnid e = v" "set ds = set cs - {e}" "sorted_chain key ds"
  using chain_remove_Some [OF assms(1), of key] assms(2) by auto

subsection \<open>The two tables\<close>

definition vnid_entries :: "vcache \<Rightarrow> vcache_entry set" where
  "vnid_entries vc = {e. e \<in> set (bucket (by_vnid vc) (vcache_hash vc (ve_vnid e)))}"

definition loc_entries :: "vcache \<Rightarrow> vcache_entry set" where
  "loc_entries vc = {e. e \<in> set (bucket (by_loc vc) (vcache_hash vc (ve_loc e)))}"

definition table_ok :: "vcache \<Rightarrow> (vcache_entry \<Rightarrow> ino_t) \<Rightarrow> vcache_entry list list \<Rightarrow> bool" where
  "table_ok vc key t \<longleftrightarrow> length t = unat (cache_size vc) \<and> 0 < length t \<and>
     (\<forall>i < length t. sorted_chain key (t ! i) \<and> (\<forall>e \<in> set (t ! i). vcache_hash vc (key e) = i))"

definition vcache_ok :: "vcache \<Rightarrow> bool" where
  "vcache_ok vc \<longleftrightarrow> table_ok vc ve_vnid (by_vnid vc) \<and> table_ok vc ve_loc (by_loc vc) \<and>
     vnid_entries vc = loc_entries vc"

lemma vcache_hash_bound:
  assumes "table_ok vc key t"
  shows "vcache_hash vc x < length t"
proof -
  have n: "0 < unat (cache_size vc)" using assms unfolding table_ok_def by metis
  have "x AND ucast (cache_size vc - 1) \<le> (ucast (cache_size vc - 1) :: ino_t)" by (rule word_and_le1)
  then have "vcache_hash vc x \<le> unat (ucast (cache_size vc - 1) :: ino_t)"
    by (simp add: vcache_hash_def word_le_nat_alt)
  also have "\<dots> = unat (cache_size vc - 1)"
    by (simp add: unsigned_ucast_eq take_bit_nat_eq_self less_le_trans [OF unsigned_less])
  also have "\<dots> = unat (cache_size vc) - 1"
    using n by (intro unat_minus_one) (auto simp: unat_gt_0)
  finally show ?thesis using n assms by (simp add: table_ok_def)
qed

lemma table_ok_bucket:
  assumes "table_ok vc key t"
  shows "bucket t (vcache_hash vc x) = t ! vcache_hash vc x" "sorted_chain key (t ! vcache_hash vc x)"
  using assms vcache_hash_bound [OF assms] by (simp_all add: table_ok_def)

text \<open>The entries of a table, by the key it is hashed on.\<close>

definition entries_of :: "vcache \<Rightarrow> (vcache_entry \<Rightarrow> ino_t) \<Rightarrow> vcache_entry list list \<Rightarrow> vcache_entry set" where
  "entries_of vc key t = {e. e \<in> set (bucket t (vcache_hash vc (key e)))}"

lemma entries_eq: "vnid_entries vc = entries_of vc ve_vnid (by_vnid vc)" "loc_entries vc = entries_of vc ve_loc (by_loc vc)"
  by (simp_all add: vnid_entries_def loc_entries_def entries_of_def)

lemma entries_inj:
  "table_ok vc key t \<Longrightarrow> a \<in> entries_of vc key t \<Longrightarrow> b \<in> entries_of vc key t \<Longrightarrow> key a = key b \<Longrightarrow> a = b"
  using sorted_chain_inj [OF table_ok_bucket(2)] by (auto simp: entries_of_def table_ok_bucket(1))

lemma find_in_table:
  assumes "table_ok vc key t"
  shows "chain_find key x (bucket t (vcache_hash vc x)) = Some e \<longleftrightarrow> e \<in> entries_of vc key t \<and> key e = x"
  using chain_find_iff [OF table_ok_bucket(2) [OF assms]]
  by (auto simp: entries_of_def table_ok_bucket(1) [OF assms])

lemma insert_in_table:
  assumes ok: "table_ok vc key t" and new: "key e \<notin> key ` entries_of vc key t"
  defines "h \<equiv> vcache_hash vc (key e)"
  defines "t' \<equiv> t[h := chain_insert key e (bucket t h)]"
  shows "table_ok vc key t'" "entries_of vc key t' = insert e (entries_of vc key t)"
proof -
  note bound = vcache_hash_bound [OF ok, of "key e", folded h_def]
  have fresh: "key e \<notin> key ` set (t ! h)"
  proof
    assume "key e \<in> key ` set (t ! h)"
    then obtain x where "x \<in> set (t ! h)" "key x = key e" by auto
    then have "x \<in> entries_of vc key t" using bound by (simp add: entries_of_def h_def)
    then show False using new \<open>key x = key e\<close> by (metis image_eqI)
  qed
  have "sorted_chain key (chain_insert key e (t ! h))"
    using ok bound fresh by (intro sorted_chain_insert) (simp_all add: table_ok_def)
  then show "table_ok vc key t'"
    using ok bound by (auto simp: table_ok_def t'_def h_def nth_list_update set_chain_insert)
  show "entries_of vc key t' = insert e (entries_of vc key t)"
    using vcache_hash_bound [OF ok] by (auto simp: entries_of_def t'_def h_def nth_list_update set_chain_insert)
qed

lemma delete_from_table:
  assumes ok: "table_ok vc key t" and rem: "chain_remove v (t ! h) = Some (e, rest)" and h: "h < length t"
  shows "table_ok vc key (t[h := rest])" "entries_of vc key (t[h := rest]) = entries_of vc key t - {e}"
    "e \<in> entries_of vc key t" "ve_vnid e = v"
proof -
  have "sorted_chain key (t ! h)" using ok h by (simp add: table_ok_def)
  note r = chain_remove_set [OF rem this]
  have he: "vcache_hash vc (key e) = h" using ok h r(1) by (simp add: table_ok_def)
  show "table_ok vc key (t[h := rest])"
    using ok h r by (auto simp: table_ok_def nth_list_update)
  show "entries_of vc key (t[h := rest]) = entries_of vc key t - {e}"
    using vcache_hash_bound [OF ok] r he by (auto simp: entries_of_def nth_list_update split: if_splits)
  show "e \<in> entries_of vc key t" "ve_vnid e = v" using r he h by (simp_all add: entries_of_def)
qed

subsection \<open>The map the tables represent\<close>

definition loc_of :: "vcache \<Rightarrow> ino_t \<Rightarrow> ino_t option" where
  "loc_of vc vnid = map_option ve_loc (chain_find ve_vnid vnid (bucket (by_vnid vc) (vcache_hash vc vnid)))"

definition vnid_of :: "vcache \<Rightarrow> ino_t \<Rightarrow> ino_t option" where
  "vnid_of vc loc = map_option ve_vnid (chain_find ve_loc loc (bucket (by_loc vc) (vcache_hash vc loc)))"

lemma entry_iff: "\<lparr>ve_vnid = a, ve_loc = l\<rparr> \<in> S \<longleftrightarrow> (\<exists>e. e \<in> S \<and> ve_vnid e = a \<and> ve_loc e = l)"
proof
  assume "\<exists>e. e \<in> S \<and> ve_vnid e = a \<and> ve_loc e = l"
  then obtain e where "e \<in> S" "e = \<lparr>ve_vnid = a, ve_loc = l\<rparr>" by (metis (full_types) old.unit.exhaust vcache_entry.surjective)
  then show "\<lparr>ve_vnid = a, ve_loc = l\<rparr> \<in> S" by simp
qed force

lemma loc_of_iff:
  assumes "vcache_ok vc"
  shows "loc_of vc a = Some l \<longleftrightarrow> \<lparr>ve_vnid = a, ve_loc = l\<rparr> \<in> vnid_entries vc"
proof -
  have t: "table_ok vc ve_vnid (by_vnid vc)" using assms by (simp add: vcache_ok_def)
  show ?thesis
    unfolding loc_of_def entries_eq map_option_eq_Some find_in_table [OF t] entry_iff by blast
qed

lemma vnid_of_iff:
  assumes "vcache_ok vc"
  shows "vnid_of vc l = Some a \<longleftrightarrow> \<lparr>ve_vnid = a, ve_loc = l\<rparr> \<in> vnid_entries vc"
proof -
  have t: "table_ok vc ve_loc (by_loc vc)" "vnid_entries vc = loc_entries vc"
    using assms by (simp_all add: vcache_ok_def)
  show ?thesis
    using t(2) unfolding vnid_of_def map_option_eq_Some find_in_table [OF t(1)] entry_iff entries_eq by blast
qed

lemma loc_of_vnid_of: "vcache_ok vc \<Longrightarrow> loc_of vc a = Some l \<longleftrightarrow> vnid_of vc l = Some a"
  by (simp add: loc_of_iff vnid_of_iff)

lemma map_eqI: "(\<And>a l. f a = Some l \<longleftrightarrow> g a = Some l) \<Longrightarrow> f = g"
  by (rule ext) (metis not_None_eq)

lemma vcache_insert_ok:
  assumes ok: "vcache_ok vc" and new: "loc_of vc a = None" "vnid_of vc l = None"
  shows "vcache_ok (vcache_insert vc a l)" "loc_of (vcache_insert vc a l) = (loc_of vc)(a \<mapsto> l)"
proof -
  let ?e = "\<lparr>ve_vnid = a, ve_loc = l\<rparr>" and ?v = "vcache_insert vc a l"
  have t: "table_ok vc ve_vnid (by_vnid vc)" "table_ok vc ve_loc (by_loc vc)"
    and E: "entries_of vc ve_vnid (by_vnid vc) = entries_of vc ve_loc (by_loc vc)"
    using ok by (simp_all add: vcache_ok_def entries_eq)
  have h: "vcache_hash ?v = vcache_hash vc" "cache_size ?v = cache_size vc"
    by (simp_all add: vcache_insert_def vcache_hash_def Let_def fun_eq_iff)
  have tab: "table_ok ?v = table_ok vc" "entries_of ?v = entries_of vc"
    by (simp_all add: table_ok_def entries_of_def h fun_eq_iff)
  have "a \<notin> ve_vnid ` entries_of vc ve_vnid (by_vnid vc)" "l \<notin> ve_loc ` entries_of vc ve_loc (by_loc vc)"
    using new find_in_table [OF t(1), of a] find_in_table [OF t(2), of l]
    by (auto simp: loc_of_def vnid_of_def)
  then have "ve_vnid ?e \<notin> ve_vnid ` entries_of vc ve_vnid (by_vnid vc)" "ve_loc ?e \<notin> ve_loc ` entries_of vc ve_loc (by_loc vc)"
    by simp_all
  note i1 = insert_in_table [OF t(1) this(1)] and i2 = insert_in_table [OF t(2) this(2)]
  note bound = vcache_hash_bound [OF t(1), of a] vcache_hash_bound [OF t(2), of l]
  show ok': "vcache_ok ?v"
    unfolding vcache_ok_def entries_eq tab using i1 i2 E bound by (simp add: vcache_insert_def Let_def)
  have "vnid_entries ?v = insert ?e (vnid_entries vc)"
    unfolding entries_eq tab using i1(2) bound by (simp add: vcache_insert_def Let_def)
  then have "loc_of ?v b = Some m \<longleftrightarrow> ((loc_of vc)(a \<mapsto> l)) b = Some m" for b m
    using new(1) by (auto simp: loc_of_iff [OF ok'] simp flip: loc_of_iff [OF ok])
  then show "loc_of ?v = (loc_of vc)(a \<mapsto> l)" by (rule map_eqI)
qed

lemma vcache_delete_ok:
  assumes ok: "vcache_ok vc" and some: "loc_of vc a = Some l"
  shows "fst (vcache_delete vc a) = 0" "vcache_ok (snd (vcache_delete vc a))"
    "loc_of (snd (vcache_delete vc a)) = (loc_of vc)(a := None)"
proof -
  let ?e = "\<lparr>ve_vnid = a, ve_loc = l\<rparr>"
  have t: "table_ok vc ve_vnid (by_vnid vc)" "table_ok vc ve_loc (by_loc vc)"
    and E: "entries_of vc ve_vnid (by_vnid vc) = entries_of vc ve_loc (by_loc vc)"
    using ok by (simp_all add: vcache_ok_def entries_eq)
  have e: "?e \<in> entries_of vc ve_vnid (by_vnid vc)" using loc_of_iff [OF ok] some by (simp add: entries_eq)
  let ?h1 = "vcache_hash vc a" and ?h2 = "vcache_hash vc l"
  have b: "bucket (by_vnid vc) ?h1 = by_vnid vc ! ?h1" "bucket (by_loc vc) ?h2 = by_loc vc ! ?h2"
    by (rule table_ok_bucket(1) [OF t(1)], rule table_ok_bucket(1) [OF t(2)])
  note bound = vcache_hash_bound [OF t(1), of a] vcache_hash_bound [OF t(2), of l]
  have "?e \<in> set (by_vnid vc ! ?h1)" using e bound by (simp add: entries_of_def)
  then obtain e1 r1 where r1: "chain_remove a (by_vnid vc ! ?h1) = Some (e1, r1)"
    using chain_remove_None [of a "by_vnid vc ! ?h1"] by (cases "chain_remove a (by_vnid vc ! ?h1)") force+
  note d1 = delete_from_table [OF t(1) r1 bound(1)]
  have e1: "e1 = ?e" using entries_inj [OF t(1) d1(3) e] d1(4) by simp
  have "?e \<in> entries_of vc ve_loc (by_loc vc)" using e unfolding E .
  then have "?e \<in> set (by_loc vc ! ?h2)" using bound by (simp add: entries_of_def)
  then obtain e2 r2 where r2: "chain_remove a (by_loc vc ! ?h2) = Some (e2, r2)"
    using chain_remove_None [of a "by_loc vc ! ?h2"] by (cases "chain_remove a (by_loc vc ! ?h2)") force+
  note d2 = delete_from_table [OF t(2) r2 bound(2)]
  have e2: "e2 = ?e" using entries_inj [OF t(1) _ e, of e2] d2(3,4) E by simp
  let ?v = "vc\<lparr>by_vnid := (by_vnid vc)[?h1 := r1], by_loc := (by_loc vc)[?h2 := r2]\<rparr>"
  have hash: "vcache_hash (vc\<lparr>by_vnid := x\<rparr>) = vcache_hash vc" "vcache_hash ?v = vcache_hash vc" for x
    by (simp_all add: vcache_hash_def fun_eq_iff)
  have del: "vcache_delete vc a = (0, ?v)"
    using bound by (simp add: vcache_delete_def Let_def b r1 r2 e1 hash)
  have tab: "table_ok ?v = table_ok vc" "entries_of ?v = entries_of vc"
    by (simp_all add: table_ok_def entries_of_def hash fun_eq_iff)
  have ok': "vcache_ok ?v"
    unfolding vcache_ok_def entries_eq tab using d1 d2 e1 e2 E by simp
  have "vnid_entries ?v = vnid_entries vc - {?e}"
    unfolding entries_eq tab using d1(2) e1 by simp
  then have "loc_of ?v b = Some m \<longleftrightarrow> ((loc_of vc)(a := None)) b = Some m" for b m
    using some by (auto simp: loc_of_iff [OF ok'] simp flip: loc_of_iff [OF ok])
  then have "loc_of ?v = (loc_of vc)(a := None)" by (rule map_eqI)
  then show "fst (vcache_delete vc a) = 0" "vcache_ok (snd (vcache_delete vc a))"
    "loc_of (snd (vcache_delete vc a)) = (loc_of vc)(a := None)" using del ok' by simp_all
qed

subsection \<open>The interface\<close>

text \<open>
  What the rest of the file system relies on: a one-to-one map from vnode ids to the locations of
  the files that have moved. A file that is not in the map is where its vnode id says.
\<close>

definition where_is :: "('v \<Rightarrow> 'k \<Rightarrow> 'k option) \<Rightarrow> 'v \<Rightarrow> 'k \<Rightarrow> 'k" where
  "where_is look v a = (case look v a of Some l \<Rightarrow> l | None \<Rightarrow> a)"

definition relocate :: "('v \<Rightarrow> 'k \<Rightarrow> 'k option) \<Rightarrow> ('v \<Rightarrow> 'k \<Rightarrow> 'k \<Rightarrow> 'v) \<Rightarrow> ('v \<Rightarrow> 'k \<Rightarrow> 'v) \<Rightarrow> 'v \<Rightarrow> 'k \<Rightarrow> 'k \<Rightarrow> 'v" where
  "relocate look ins del v a l =
     (if look v a = None then (if a = l then v else ins v a l)
      else if a = l then del v a else ins (del v a) a l)"

locale relocation_map =
  fixes ok :: "'v \<Rightarrow> bool" and loc :: "'v \<Rightarrow> 'k \<Rightarrow> 'k option" and vnid :: "'v \<Rightarrow> 'k \<Rightarrow> 'k option"
    and ins :: "'v \<Rightarrow> 'k \<Rightarrow> 'k \<Rightarrow> 'v" and del :: "'v \<Rightarrow> 'k \<Rightarrow> 'v"
  assumes inverse: "ok v \<Longrightarrow> loc v a = Some l \<longleftrightarrow> vnid v l = Some a"
    and ins_ok: "ok v \<Longrightarrow> loc v a = None \<Longrightarrow> vnid v l = None \<Longrightarrow> ok (ins v a l)"
    and ins_loc: "ok v \<Longrightarrow> loc v a = None \<Longrightarrow> vnid v l = None \<Longrightarrow> loc (ins v a l) = (loc v)(a \<mapsto> l)"
    and del_ok: "ok v \<Longrightarrow> loc v a = Some l \<Longrightarrow> ok (del v a)"
    and del_loc: "ok v \<Longrightarrow> loc v a = Some l \<Longrightarrow> loc (del v a) = (loc v)(a := None)"
begin

lemma vnid_after_del:
  assumes "ok v" "loc v a = Some m" "vnid v l = None \<or> vnid v l = Some a"
  shows "vnid (del v a) l = None"
  using assms inverse [OF del_ok [OF assms(1,2)]] inverse [OF assms(1)] del_loc [OF assms(1,2)]
  by (metis fun_upd_apply not_None_eq option.inject)

lemma relocate_ok:
  assumes "ok v" "vnid v l = None \<or> vnid v l = Some a"
  shows "ok (relocate loc ins del v a l)"
    "loc (relocate loc ins del v a l) = (loc v)(a := if a = l then None else Some l)"
proof -
  have "ok (relocate loc ins del v a l) \<and>
      loc (relocate loc ins del v a l) = (loc v)(a := if a = l then None else Some l)"
  proof (cases "loc v a")
    case None
    then have "vnid v l = None" using assms inverse [OF assms(1)] by (metis option.distinct(1))
    then show ?thesis using None assms(1) ins_ok ins_loc by (auto simp: relocate_def)
  next
    case (Some m)
    note d = del_ok [OF assms(1) Some] del_loc [OF assms(1) Some] vnid_after_del [OF assms(1) Some assms(2)]
    have "loc (del v a) a = None" using d(2) by simp
    then show ?thesis using Some d ins_ok [OF d(1)] ins_loc [OF d(1)] by (auto simp: relocate_def)
  qed
  then show "ok (relocate loc ins del v a l)"
    "loc (relocate loc ins del v a l) = (loc v)(a := if a = l then None else Some l)" by blast+
qed

lemma where_is_relocate:
  assumes "ok v" "vnid v l = None \<or> vnid v l = Some a"
  shows "where_is loc (relocate loc ins del v a l) b = (if b = a then l else where_is loc v b)"
  using relocate_ok(2) [OF assms] by (simp add: where_is_def)

text \<open>Two files that have moved are at different places.\<close>

lemma moved_apart: "ok v \<Longrightarrow> loc v a = Some l \<Longrightarrow> loc v b = Some l \<Longrightarrow> a = b"
  using inverse by (metis option.inject)

end

interpretation vc: relocation_map vcache_ok loc_of vnid_of vcache_insert "\<lambda>c a. snd (vcache_delete c a)"
  by unfold_locales (simp_all add: loc_of_vnid_of vcache_insert_ok vcache_delete_ok)

subsection \<open>The operations on the volume\<close>

abbreviation vc_relocate :: "vcache \<Rightarrow> ino_t \<Rightarrow> ino_t \<Rightarrow> vcache" where
  "vc_relocate \<equiv> relocate loc_of vcache_insert (\<lambda>c a. snd (vcache_delete c a))"

lemma find_vnid_eq: "find_vnid_in_vcache vol a = None \<longleftrightarrow> loc_of (vcache vol) a = None"
  by (simp add: find_vnid_in_vcache_def loc_of_def)

lemma vcache_vnid_to_loc_eq:
  "vcache_vnid_to_loc vol a = (case loc_of (vcache vol) a of None \<Rightarrow> (ENOENT, None) | Some l \<Rightarrow> (B_OK, Some l))"
  by (simp add: vcache_vnid_to_loc_def find_vnid_in_vcache_def loc_of_def split: option.splits)

lemma vcache_loc_to_vnid_eq:
  "vcache_loc_to_vnid vol l = (case vnid_of (vcache vol) l of None \<Rightarrow> (ENOENT, None) | Some a \<Rightarrow> (B_OK, Some a))"
  by (simp add: vcache_loc_to_vnid_def find_loc_in_vcache_def vnid_of_def split: option.splits)

lemma vcache_set_entry_eq:
  assumes "vcache_ok (vcache vol)" "mem vol = []"
  shows "vcache_set_entry vol a l = (B_OK, vol\<lparr>vcache := vc_relocate (vcache vol) a l\<rparr>)"
proof (cases "find_vnid_in_vcache vol a")
  case None
  then have "loc_of (vcache vol) a = None" by (simp add: find_vnid_eq)
  then show ?thesis
    using None assms(2) by (simp add: vcache_set_entry_def add_to_vcache_def malloc_def relocate_def)
next
  case (Some e)
  have t: "table_ok (vcache vol) ve_vnid (by_vnid (vcache vol))" using assms(1) by (simp add: vcache_ok_def)
  have "ve_vnid e = a" using Some find_in_table [OF t] by (simp add: find_vnid_in_vcache_def)
  moreover obtain m where m: "loc_of (vcache vol) a = Some m" using Some find_vnid_eq [of vol a] by auto
  moreover obtain u where "vcache_delete (vcache vol) a = (0, u)"
    using vcache_delete_ok(1) [OF assms(1) m] by (metis prod.collapse)
  ultimately show ?thesis
    using Some assms(2)
    by (auto simp: vcache_set_entry_def update_loc_in_vcache_def remove_from_vcache_def add_to_vcache_def
        malloc_def relocate_def B_OK_def)
qed

end
