(* ===== verification/Vcache_Properties.thy ===== *)
theory Vcache_Properties
  imports Vcache Sample_Volume
begin

section \<open>Properties of the vnode id cache\<close>

lemma sample_vcache:
  "vcache sample_volume = \<lparr>cur_vnid = ARTIFICIAL_VNID_BITS, cache_size = 2, by_vnid = [[], []], by_loc = [[], []]\<rparr>"
  by (simp add: sample_volume_def)

lemma sample_mem [simp]: "mem sample_volume = []"
  by (simp add: sample_volume_def)

lemma empty_vcache:
  assumes "0 < n" "unat (cache_size c) = n" "by_vnid c = replicate n []" "by_loc c = replicate n []"
  shows "vcache_ok c" "loc_of c = Map.empty" "vnid_of c = Map.empty"
  using assms
  by (auto simp: vcache_ok_def table_ok_def vnid_entries_def loc_entries_def loc_of_def vnid_of_def fun_eq_iff)

lemma sample_vcache_ok [simp]:
  "vcache_ok (vcache sample_volume)" "loc_of (vcache sample_volume) = Map.empty" "vnid_of (vcache sample_volume) = Map.empty"
proof -
  have "replicate 2 [] = [[], [] :: vcache_entry list]" by (simp add: numeral_2_eq_2)
  then show "vcache_ok (vcache sample_volume)" "loc_of (vcache sample_volume) = Map.empty" "vnid_of (vcache sample_volume) = Map.empty"
    using empty_vcache [of 2 "vcache sample_volume"] by (simp_all add: sample_vcache)
qed

text \<open>
  C11. After \<open>vcache_set_entry\<close> the vnode id is found at its new location (or, when it is back where
  its id says, is no longer in the cache), every other vnode id is found where it was, and the
  invariant of the two tables holds; this needs memory for an entry and a location at which no
  other moved file is.
\<close>

theorem vcache_set_entry_correct:
  assumes "vcache_ok (vcache v)" "mem v = []" "vnid_of (vcache v) l = None \<or> vnid_of (vcache v) l = Some a"
  shows "\<exists>w. vcache_set_entry v a l = (B_OK, w) \<and> vcache_ok (vcache w) \<and>
    vcache_vnid_to_loc w a = (if a = l then (ENOENT, None) else (B_OK, Some l)) \<and>
    (\<forall>b. b \<noteq> a \<longrightarrow> vcache_vnid_to_loc w b = vcache_vnid_to_loc v b) \<and>
    w = v\<lparr>vcache := vcache w\<rparr>"
  using vcache_set_entry_eq [OF assms(1,2)] vc.relocate_ok [OF assms(1,3)]
  by (auto simp: vcache_vnid_to_loc_eq)

theorem vcache_set_entry_correct_witness:
  "\<exists>w. vcache_set_entry sample_volume 7 9 = (B_OK, w) \<and> vcache_ok (vcache w) \<and>
    vcache_vnid_to_loc w 7 = (B_OK, Some 9)"
  using vcache_set_entry_correct [of sample_volume 9 7] by auto

text \<open>
  The two directions of the cache agree: a vnode id is at a location exactly when the location
  is known to hold that vnode id.
\<close>

lemma vcache_directions_agree:
  assumes "vcache_ok (vcache v)"
  shows "vcache_vnid_to_loc v a = (B_OK, Some l) \<longleftrightarrow> vcache_loc_to_vnid v l = (B_OK, Some a)"
proof -
  have "vcache_vnid_to_loc v a = (B_OK, Some l) \<longleftrightarrow> loc_of (vcache v) a = Some l"
    "vcache_loc_to_vnid v l = (B_OK, Some a) \<longleftrightarrow> vnid_of (vcache v) l = Some a"
    by (auto simp: vcache_vnid_to_loc_eq vcache_loc_to_vnid_eq split: option.splits)
  then show ?thesis using loc_of_vnid_of [OF assms] by simp
qed

lemma vcache_directions_agree_witness:
  "vcache_vnid_to_loc sample_volume 7 = (B_OK, Some 9) \<longleftrightarrow> vcache_loc_to_vnid sample_volume 9 = (B_OK, Some 7)"
  by (rule vcache_directions_agree) simp

text \<open>
  \<open>init_vcache\<close> establishes the invariant with an empty map when it returns \<open>B_OK\<close>, which it
  does when both tables can be allocated; otherwise it returns \<open>ENOMEM\<close>.
\<close>

lemma init_vcache_correct:
  "\<exists>result w. init_vcache v = (result, w) \<and>
     (result = B_OK \<and> vcache_ok (vcache w) \<and> loc_of (vcache w) = Map.empty \<and> cur_vnid (vcache w) = ARTIFICIAL_VNID_BITS
      \<or> result = ENOMEM \<and> False \<in> set (take 2 (mem v)))"
proof -
  let ?init = "(vcache v)\<lparr>cur_vnid := ARTIFICIAL_VNID_BITS, cache_size := 512, by_vnid := replicate 512 [], by_loc := replicate 512 []\<rparr>"
  have "vcache_ok ?init" "loc_of ?init = Map.empty" using empty_vcache [of 512 ?init] by simp_all
  then show ?thesis
    by (auto simp: init_vcache_def malloc_def Let_def take_Cons' split: list.splits)
qed

text \<open>
  When no memory is left, moving a file that is already in the cache fails with \<open>ENOMEM\<close> and
  the cache forgets where the file is, because the old entry is removed before the new one is
  allocated.
\<close>

lemma vcache_set_entry_loses_entry:
  assumes "vcache_ok (vcache v)" "mem v = [False]" "loc_of (vcache v) a = Some m" "a \<noteq> l"
  shows "\<exists>w. vcache_set_entry v a l = (ENOMEM, w) \<and> vcache_vnid_to_loc w a = (ENOENT, None)"
proof -
  obtain e where e: "find_vnid_in_vcache v a = Some e" using assms(3) find_vnid_eq [of v a] by auto
  have t: "table_ok (vcache v) ve_vnid (by_vnid (vcache v))" using assms(1) by (simp add: vcache_ok_def)
  have "ve_vnid e = a" using e find_in_table [OF t] by (simp add: find_vnid_in_vcache_def)
  moreover obtain u where u: "vcache_delete (vcache v) a = (0, u)"
    using vcache_delete_ok(1) [OF assms(1,3)] by (metis prod.collapse)
  moreover have "loc_of u = (loc_of (vcache v))(a := None)" using vcache_delete_ok(3) [OF assms(1,3)] u by simp
  ultimately show ?thesis
    using e assms(2,4)
    by (simp add: vcache_set_entry_def update_loc_in_vcache_def remove_from_vcache_def add_to_vcache_def
        malloc_def vcache_vnid_to_loc_eq)
qed

lemma vcache_set_entry_loses_entry_witness:
  "\<exists>v w. loc_of (vcache v) 7 = Some 9 \<and> vcache_set_entry v 7 11 = (ENOMEM, w) \<and>
     vcache_vnid_to_loc w 7 = (ENOENT, None)"
proof -
  let ?c = "vcache_insert (vcache sample_volume) 7 9"
  let ?v = "sample_volume\<lparr>vcache := ?c, mem := [False]\<rparr>"
  have "vcache_ok ?c" "loc_of ?c = (loc_of (vcache sample_volume))(7 \<mapsto> 9)"
    using vcache_insert_ok [of "vcache sample_volume" 7 9] by simp_all
  then show ?thesis
    using vcache_set_entry_loses_entry [of ?v 7 9 11] by (rule_tac x = ?v in exI) simp
qed

end
