(* ===== verification/Dir_List.thy ===== *)
theory Dir_List
  imports Vcache
begin

section \<open>The list of directories: dlist.c\<close>

text \<open>
  The directory list records the vnode ids of the directories seen so far, so that the vnode id of a
  directory can be found from its cluster. It is an array that grows and shrinks in steps of
  \<open>DLIST_ENTRY_QUANTUM\<close>. Cells past \<open>entries\<close> are never read; a fresh array holds zeros in the model.
\<close>

definition DLIST_ENTRY_QUANTUM :: uint32 where "DLIST_ENTRY_QUANTUM = 0x20"

definition dl_cells :: "dlist \<Rightarrow> ino_t list" where
  "dl_cells dl = (case vnid_list dl of None \<Rightarrow> [] | Some xs \<Rightarrow> xs)"

definition dlist_init :: "nspace \<Rightarrow> status_t \<times> nspace" where
  "dlist_init vol =
     (let vol = vol\<lparr>dlist := (dlist vol)\<lparr>entries := 0, allocated := DLIST_ENTRY_QUANTUM\<rparr>\<rparr>;
          (ok, vol) = malloc vol
      in if \<not> ok then (ENOMEM, vol\<lparr>dlist := (dlist vol)\<lparr>vnid_list := None, allocated := 0\<rparr>\<rparr>)
         else (B_OK, vol\<lparr>dlist := (dlist vol)\<lparr>vnid_list := Some (replicate (unat DLIST_ENTRY_QUANTUM) 0)\<rparr>\<rparr>))"

definition dlist_uninit :: "nspace \<Rightarrow> status_t \<times> nspace" where
  "dlist_uninit vol = (B_OK, vol\<lparr>dlist := \<lparr>entries = 0, allocated = 0, vnid_list = None\<rparr>\<rparr>)"

definition dlist_realloc :: "nspace \<Rightarrow> uint32 \<Rightarrow> status_t \<times> nspace" where
  "dlist_realloc vol allocate =
     (let (ok, vol) = malloc vol
      in if \<not> ok then (ENOMEM, vol)
         else
           let dl = dlist vol; n = unat (entries dl)
           in (B_OK, vol\<lparr>dlist := dl\<lparr>
                vnid_list := Some (take n (dl_cells dl) @ replicate (unat allocate - n) 0),
                allocated := allocate\<rparr>\<rparr>))"

definition dlist_add :: "nspace \<Rightarrow> ino_t \<Rightarrow> status_t \<times> nspace" where
  "dlist_add vol vnid =
     (let (result, vol) =
            (if entries (dlist vol) = allocated (dlist vol)
             then dlist_realloc vol (allocated (dlist vol) + DLIST_ENTRY_QUANTUM) else (B_OK, vol))
      in if result < 0 then (B_ERROR, vol)
         else
           let dl = dlist vol
           in (B_OK, vol\<lparr>dlist := dl\<lparr>
                vnid_list := Some ((dl_cells dl)[unat (entries dl) := vnid]),
                entries := entries dl + 1\<rparr>\<rparr>))"

text \<open>The search loop: the index of the first of the next \<open>k\<close> cells that holds \<open>vnid\<close>, from \<open>i\<close> on.\<close>

fun dlist_index :: "ino_t list \<Rightarrow> ino_t \<Rightarrow> nat \<Rightarrow> nat \<Rightarrow> nat" where
  "dlist_index xs vnid i 0 = i"
| "dlist_index xs vnid i (Suc k) = (if xs ! i = vnid then i else dlist_index xs vnid (i + 1) k)"

text \<open>Moving the cells behind the index down by one.\<close>

fun dlist_shift :: "ino_t list \<Rightarrow> nat \<Rightarrow> nat \<Rightarrow> ino_t list" where
  "dlist_shift xs i 0 = xs"
| "dlist_shift xs i (Suc k) = dlist_shift (xs[i := xs ! (i + 1)]) (i + 1) k"

definition dlist_remove :: "nspace \<Rightarrow> ino_t \<Rightarrow> status_t \<times> nspace" where
  "dlist_remove vol vnid =
     (let dl = dlist vol; n = unat (entries dl); i = dlist_index (dl_cells dl) vnid 0 n
      in if i = n then (ENOENT, vol)
         else
           let dl = dl\<lparr>vnid_list := Some (dlist_shift (dl_cells dl) i (n - 1 - i)), entries := entries dl - 1\<rparr>;
               vol = vol\<lparr>dlist := dl\<rparr>
           in if allocated dl - entries dl > 2 * DLIST_ENTRY_QUANTUM
              then dlist_realloc vol (allocated dl - DLIST_ENTRY_QUANTUM)
              else (B_OK, vol))"

text \<open>The loop of \<open>dlist_find\<close>, over the cells in use.\<close>

fun dlist_find_loop :: "nspace \<Rightarrow> uint32 \<Rightarrow> ino_t list \<Rightarrow> ino_t" where
  "dlist_find_loop vol cluster [] = -1"
| "dlist_find_loop vol cluster (v # vs) =
     (let (status, out) = vcache_vnid_to_loc vol v;
          loc = (if status < B_OK then v else case out of Some l \<Rightarrow> l | None \<Rightarrow> v)
      in if CLUSTER_OF_DIR_CLUSTER_VNID loc = cluster then v else dlist_find_loop vol cluster vs)"

definition dlist_find :: "nspace \<Rightarrow> uint32 \<Rightarrow> ino_t" where
  "dlist_find vol cluster =
     dlist_find_loop vol cluster (take (unat (entries (dlist vol))) (dl_cells (dlist vol)))"

subsection \<open>The list that the array represents\<close>

definition dl_list :: "dlist \<Rightarrow> ino_t list" where
  "dl_list dl = take (unat (entries dl)) (dl_cells dl)"

definition dlist_ok :: "dlist \<Rightarrow> bool" where
  "dlist_ok dl \<longleftrightarrow> length (dl_cells dl) = unat (allocated dl) \<and> entries dl \<le> allocated dl"

lemma dl_list_length: "dlist_ok dl \<Longrightarrow> length (dl_list dl) = unat (entries dl)"
  by (simp add: dlist_ok_def dl_list_def word_le_nat_alt)

lemma dlist_index_eq:
  "i + k \<le> length xs \<Longrightarrow> dlist_index xs v i k = i + length (takeWhile (\<lambda>x. x \<noteq> v) (take k (drop i xs)))"
proof (induction k arbitrary: i)
  case (Suc k)
  have "drop i xs = xs ! i # drop (Suc i) xs" using Suc.prems by (simp add: Cons_nth_drop_Suc)
  then show ?case using Suc.IH [of "Suc i"] Suc.prems by simp
qed simp

lemma dlist_shift_correct:
  "i + k < length xs \<Longrightarrow> take (i + k) (dlist_shift xs i k) = take i xs @ take k (drop (i + 1) xs) \<and>
     length (dlist_shift xs i k) = length xs"
proof (induction k arbitrary: i xs)
  case (Suc k)
  let ?ys = "xs[i := xs ! (i + 1)]"
  have "take (i + 1 + k) (dlist_shift ?ys (i + 1) k) = take (i + 1) ?ys @ take k (drop (i + 1 + 1) ?ys)
      \<and> length (dlist_shift ?ys (i + 1) k) = length xs"
    using Suc.IH [of "i + 1" ?ys] Suc.prems by simp
  moreover have "take (i + 1) ?ys = take i xs @ [xs ! (i + 1)]"
    using Suc.prems by (simp add: take_Suc_conv_app_nth)
  moreover have "drop (i + 1) xs = xs ! (i + 1) # drop (i + 1 + 1) xs"
    using Suc.prems by (simp add: Cons_nth_drop_Suc)
  ultimately show ?case by simp
qed simp

lemma remove1_takeWhile: "remove1 v xs = takeWhile (\<lambda>x. x \<noteq> v) xs @ drop (Suc (length (takeWhile (\<lambda>x. x \<noteq> v) xs))) xs"
  by (induction xs) auto

lemma length_takeWhile_eq_iff: "length (takeWhile (\<lambda>x. x \<noteq> v) xs) = length xs \<longleftrightarrow> v \<notin> set xs"
  by (induction xs) auto

lemma dlist_realloc_list:
  assumes "dlist_ok (dlist vol)" "entries (dlist vol) \<le> n" "mem vol = []"
  shows "\<exists>w. dlist_realloc vol n = (B_OK, w) \<and> dlist_ok (dlist w) \<and> dl_list (dlist w) = dl_list (dlist vol) \<and>
    allocated (dlist w) = n \<and> entries (dlist w) = entries (dlist vol) \<and> w = vol\<lparr>dlist := dlist w\<rparr>"
  using assms
  by (auto simp: dlist_realloc_def malloc_def dlist_ok_def dl_list_def dl_cells_def Let_def word_le_nat_alt
      split: option.splits)

lemma dlist_add_list:
  assumes ok: "dlist_ok (dlist vol)" and mem: "mem vol = []" and small: "unat (allocated (dlist vol)) + 0x20 < 2 ^ 32"
  shows "\<exists>w. dlist_add vol v = (B_OK, w) \<and> dlist_ok (dlist w) \<and> dl_list (dlist w) = dl_list (dlist vol) @ [v] \<and>
    w = vol\<lparr>dlist := dlist w\<rparr>"
proof -
  have add: "unat (allocated (dlist vol) + DLIST_ENTRY_QUANTUM) = unat (allocated (dlist vol)) + 0x20"
    using small by (simp add: DLIST_ENTRY_QUANTUM_def unat_word_ariths)
  have push: "dlist_ok (d\<lparr>vnid_list := Some ((dl_cells d)[unat (entries d) := v]), entries := entries d + 1\<rparr>) \<and>
      dl_list (d\<lparr>vnid_list := Some ((dl_cells d)[unat (entries d) := v]), entries := entries d + 1\<rparr>) = dl_list d @ [v]"
    if "dlist_ok d" "entries d < allocated d" for d
  proof -
    have lt: "unat (entries d) < unat (allocated d)" using that(2) by (simp add: word_less_nat_alt)
    have "unat (allocated d) < 2 ^ 32" using unsigned_less [of "allocated d"] by simp
    then have "unat (entries d + 1) = unat (entries d) + 1" using lt by (simp add: unat_word_ariths)
    then show ?thesis
      using that lt by (simp add: dlist_ok_def dl_list_def dl_cells_def word_le_nat_alt take_Suc_conv_app_nth)
  qed
  show ?thesis
  proof (cases "entries (dlist vol) = allocated (dlist vol)")
    case False
    then have "entries (dlist vol) < allocated (dlist vol)" using ok by (simp add: dlist_ok_def order.not_eq_order_implies_strict)
    with False push [OF ok] show ?thesis by (simp add: dlist_add_def B_OK_def Let_def)
  next
    case True
    obtain w where w: "dlist_realloc vol (allocated (dlist vol) + DLIST_ENTRY_QUANTUM) = (B_OK, w)"
      "dlist_ok (dlist w)" "dl_list (dlist w) = dl_list (dlist vol)"
      "allocated (dlist w) = allocated (dlist vol) + DLIST_ENTRY_QUANTUM" "entries (dlist w) = entries (dlist vol)"
      "w = vol\<lparr>dlist := dlist w\<rparr>"
      using dlist_realloc_list [OF ok _ mem, of "allocated (dlist vol) + DLIST_ENTRY_QUANTUM"] True add
      by (auto simp: word_le_nat_alt)
    have "entries (dlist w) < allocated (dlist w)" using w True add by (simp add: word_less_nat_alt)
    note p = push [OF w(2) this]
    have "w\<lparr>dlist := x\<rparr> = vol\<lparr>dlist := x\<rparr>" for x by (subst w(6)) simp
    then show ?thesis using True p w(1,3) by (simp add: dlist_add_def B_OK_def Let_def)
  qed
qed

lemma dlist_remove_list:
  assumes ok: "dlist_ok (dlist vol)" and mem: "mem vol = []" and v: "v \<in> set (dl_list (dlist vol))"
  shows "\<exists>w. dlist_remove vol v = (B_OK, w) \<and> dlist_ok (dlist w) \<and> dl_list (dlist w) = remove1 v (dl_list (dlist vol)) \<and>
    w = vol\<lparr>dlist := dlist w\<rparr>"
proof -
  let ?d = "dlist vol" and ?xs = "dl_cells (dlist vol)"
  let ?n = "unat (entries ?d)"
  let ?i = "length (takeWhile (\<lambda>x. x \<noteq> v) (dl_list ?d))"
  have len: "?n \<le> length ?xs" "length (dl_list ?d) = ?n"
    using ok dl_list_length [OF ok] by (simp_all add: dlist_ok_def word_le_nat_alt)
  have idx: "dlist_index ?xs v 0 ?n = ?i" using dlist_index_eq [of 0 ?n ?xs v] len by (simp add: dl_list_def)
  have i: "?i < ?n" using length_takeWhile_eq_iff [of v "dl_list ?d"] length_takeWhile_le [of _ "dl_list ?d"] v len(2)
    by (metis le_neq_implies_less)
  define xs' where "xs' = dlist_shift ?xs ?i (?n - 1 - ?i)"
  have sh: "take (?n - 1) xs' = take ?i ?xs @ take (?n - 1 - ?i) (drop (?i + 1) ?xs)" "length xs' = length ?xs"
    using dlist_shift_correct [of ?i "?n - 1 - ?i" ?xs] i len by (simp_all add: xs'_def)
  define d' where "d' = ?d\<lparr>vnid_list := Some xs', entries := entries ?d - 1\<rparr>"
  have e: "unat (entries ?d - 1) = ?n - 1" using i by (intro unat_minus_one) auto
  have "take ?i ?xs = takeWhile (\<lambda>x. x \<noteq> v) (dl_list ?d)"
    using i by (metis dl_list_def less_imp_le min.absorb1 take_take takeWhile_eq_take)
  moreover have "take (?n - 1 - ?i) (drop (?i + 1) ?xs) = drop (Suc ?i) (dl_list ?d)"
    using i by (simp add: dl_list_def drop_take)
  ultimately have "take (?n - 1) xs' = remove1 v (dl_list ?d)" using sh(1) by (simp add: remove1_takeWhile)
  then have d': "dlist_ok d'" "dl_list d' = remove1 v (dl_list ?d)" "entries d' \<le> allocated d'"
    using ok sh e i len by (auto simp: d'_def dlist_ok_def dl_list_def dl_cells_def word_le_nat_alt)
  have rem: "dlist_remove vol v = (if allocated d' - entries d' > 2 * DLIST_ENTRY_QUANTUM
      then dlist_realloc (vol\<lparr>dlist := d'\<rparr>) (allocated d' - DLIST_ENTRY_QUANTUM) else (B_OK, vol\<lparr>dlist := d'\<rparr>))"
    using i idx by (simp add: dlist_remove_def Let_def d'_def xs'_def)
  show ?thesis
  proof (cases "allocated d' - entries d' > 2 * DLIST_ENTRY_QUANTUM")
    case False
    then show ?thesis using rem d' by simp
  next
    case True
    then have "entries d' \<le> allocated d' - DLIST_ENTRY_QUANTUM"
      using d'(3) by (simp add: word_le_nat_alt word_less_nat_alt DLIST_ENTRY_QUANTUM_def unat_sub_if_size word_size split: if_splits) linarith
    with dlist_realloc_list [of "vol\<lparr>dlist := d'\<rparr>" "allocated d' - DLIST_ENTRY_QUANTUM"] d' mem
    show ?thesis using rem True by auto
  qed
qed

lemma dlist_remove_absent:
  assumes "dlist_ok (dlist vol)" "v \<notin> set (dl_list (dlist vol))"
  shows "dlist_remove vol v = (ENOENT, vol)"
  using dlist_index_eq [of 0 "unat (entries (dlist vol))" "dl_cells (dlist vol)" v] assms
    length_takeWhile_eq_iff [of v "dl_list (dlist vol)"] dl_list_length [OF assms(1)]
  by (simp add: dlist_remove_def Let_def dl_list_def dlist_ok_def word_le_nat_alt)

lemma dlist_find_first:
  "dlist_find_loop vol c vs =
     (case List.find (\<lambda>v. CLUSTER_OF_DIR_CLUSTER_VNID (where_is loc_of (vcache vol) v) = c) vs of
        Some v \<Rightarrow> v | None \<Rightarrow> -1)"
  by (induction vs)
    (auto simp: vcache_vnid_to_loc_eq where_is_def B_OK_def ENOENT_def split: option.splits)

end
