(* ===== verification/Fs_Info.thy ===== *)
theory Fs_Info
  imports Fat_Table
begin

section \<open>The FSInfo sector: dosfs.c\<close>

text \<open>
  A FAT32 volume may have a sector that records the number of free clusters and the most recently
  allocated one. The driver reads it when it mounts the volume and writes it whenever it
  synchronises the volume.
\<close>

definition B_FS_IS_READONLY :: uint32 where "B_FS_IS_READONLY = 1"
definition B_FS_IS_REMOVABLE :: uint32 where "B_FS_IS_REMOVABLE = 2"
definition FS_FLAGS_OP_SYNC :: uint32 where "FS_FLAGS_OP_SYNC = 1"
definition FS_FLAGS_LOCK_DOOR :: uint32 where "FS_FLAGS_LOCK_DOOR = 2"

abbreviation read_only :: "nspace \<Rightarrow> bool" where
  "read_only vol \<equiv> flags vol AND B_FS_IS_READONLY \<noteq> 0"

definition valid_fsinfo :: "bytes \<Rightarrow> bool" where
  "valid_fsinfo buffer \<longleftrightarrow>
     read32 buffer 0 = 0x41615252 \<and> read32 buffer 0x1e4 = 0x61417272 \<and> read16 buffer 0x1fe = 0xaa55"

definition update_fsinfo :: "nspace \<Rightarrow> nspace" where
  "update_fsinfo vol =
     (if fat_bits vol = 32 \<and> fsinfo_sector vol \<noteq> 0xffff \<and> \<not> read_only vol then
        (case block_cache_get vol (uint (fsinfo_sector vol)) of
           (None, vol) \<Rightarrow> vol
         | (Some b, vol) \<Rightarrow>
             let buffer = block_data vol b;
                 vol = (if valid_fsinfo buffer
                        then store_block vol b
                               (write32 (write32 buffer 0x1e8 (free_clusters vol)) 0x1ec (last_allocated vol))
                        else vol)
             in block_cache_put vol b)
      else vol)"

text \<open>The status, and the number of free clusters and the last allocated one.\<close>

definition get_fsinfo :: "nspace \<Rightarrow> status_t \<times> (uint32 \<times> uint32) option \<times> nspace" where
  "get_fsinfo vol =
     (if fat_bits vol \<noteq> 32 \<or> fsinfo_sector vol = 0xffff then (B_ERROR, None, vol)
      else
        (case block_cache_get vol (uint (fsinfo_sector vol)) of
           (None, vol) \<Rightarrow> (EIO, None, vol)
         | (Some b, vol) \<Rightarrow>
             let buffer = block_data vol b
             in if valid_fsinfo buffer
                then (B_OK, Some (read32 buffer 0x1e8, read32 buffer 0x1ec), block_cache_put vol b)
                else (B_ERROR, None, block_cache_put vol b)))"

text \<open>
  \<open>_dosfs_sync\<close>: after \<open>update_fsinfo\<close> the block cache writes its blocks to the device, which does not
  change their contents. \<open>op_sync\<close> is the call that ends most operations.
\<close>

definition dosfs_sync :: "nspace \<Rightarrow> status_t \<times> nspace" where
  "dosfs_sync vol = (B_OK, update_fsinfo vol)"

definition op_sync :: "nspace \<Rightarrow> nspace" where
  "op_sync vol = (if fs_flags vol AND FS_FLAGS_OP_SYNC \<noteq> 0 then snd (dosfs_sync vol) else vol)"

subsection \<open>The number of free clusters at mount time\<close>

definition volume_count_free_cluster :: "nspace \<Rightarrow> nspace" where
  "volume_count_free_cluster vol =
     (if read_only vol then vol\<lparr>free_clusters := 0\<rparr>
      else
        let (err, info, vol) = get_fsinfo vol;
            (err, vol) =
              (case info of
                 None \<Rightarrow> (err, vol)
               | Some (free_count, recent) \<Rightarrow>
                   let (err, vol) =
                         (if free_count < total_clusters vol then (err, vol\<lparr>free_clusters := free_count\<rparr>)
                          else (-1, vol))
                   in (err, if recent < total_clusters vol then vol\<lparr>last_allocated := recent\<rparr> else vol))
        in if err < 0 then
             let (n, vol) = count_free_clusters vol
             in if n < 0 then vol else vol\<lparr>free_clusters := word_of_int n\<rparr>
           else vol)"

end
