(* ===== verification/Store_Properties.thy ===== *)
theory Store_Properties
  imports Vcache_Properties Dir_List Fs_Info
begin

section \<open>Properties of the directory list, the FSInfo sector and vnode ids\<close>

text \<open>
  The directory list is a list (\<open>dlist.c\<close>), the FSInfo sector keeps what is written to it
  (\<open>dosfs.c\<close>), and the macros of \<open>dosfs.h\<close> pack a location into a vnode id and take it out again.
\<close>

subsection \<open>The directory list\<close>

lemma sample_dlist:
  "dlist sample_volume = \<lparr>entries = 0, allocated = 10, vnid_list = Some (replicate 10 0)\<rparr>"
  by (simp add: sample_volume_def)

lemma sample_dlist_ok [simp]: "dlist_ok (dlist sample_volume)" "dl_list (dlist sample_volume) = []"
  by (simp_all add: sample_dlist dlist_ok_def dl_list_def dl_cells_def)

text \<open>
  C15. \<open>dlist_add\<close> appends the vnode id to the list, whether or not the array has to grow, and
  changes nothing else of the volume.
\<close>

theorem dlist_add_correct:
  assumes "dlist_ok (dlist v)" "mem v = []" "unat (allocated (dlist v)) + 0x20 < 2 ^ 32"
  shows "\<exists>w. dlist_add v a = (B_OK, w) \<and> dlist_ok (dlist w) \<and>
    dl_list (dlist w) = dl_list (dlist v) @ [a] \<and> w = v\<lparr>dlist := dlist w\<rparr>"
  by (rule dlist_add_list [OF assms])

theorem dlist_add_correct_witness:
  "\<exists>w. dlist_add sample_volume 7 = (B_OK, w) \<and> dl_list (dlist w) = [7]"
proof -
  have "unat (allocated (dlist sample_volume)) + 0x20 < 2 ^ 32" by (simp add: sample_dlist)
  then show ?thesis using dlist_add_correct [of sample_volume 7] by auto
qed

text \<open>
  C16. \<open>dlist_remove\<close> takes the first occurrence of the vnode id out of the list and keeps the order
  of the others, also when it shrinks the array; an id that is not there is reported and nothing
  changes.
\<close>

theorem dlist_remove_correct:
  assumes "dlist_ok (dlist v)" "mem v = []"
  shows "\<exists>w. dlist_remove v a = (if a \<in> set (dl_list (dlist v)) then B_OK else ENOENT, w) \<and> dlist_ok (dlist w) \<and>
    dl_list (dlist w) = remove1 a (dl_list (dlist v)) \<and> w = v\<lparr>dlist := dlist w\<rparr>"
proof (cases "a \<in> set (dl_list (dlist v))")
  case True
  then show ?thesis using dlist_remove_list [OF assms True] by simp
next
  case False
  then show ?thesis
    using dlist_remove_absent [OF assms(1) False] assms(1) by (auto simp: remove1_idem)
qed

theorem dlist_remove_correct_witness:
  "\<exists>w. dlist_remove sample_volume 7 = (ENOENT, w) \<and> dl_list (dlist w) = []"
  using dlist_remove_correct [of sample_volume 7] by auto

text \<open>
  \<open>dlist_find\<close> returns the first directory of the list that is at the given cluster now, taking
  moved directories into account, or -1 if there is none.
\<close>

lemma dlist_find_correct:
  "dlist_find v c =
     (case List.find (\<lambda>a. CLUSTER_OF_DIR_CLUSTER_VNID (case vcache_vnid_to_loc v a of (_, Some l) \<Rightarrow> l | _ \<Rightarrow> a) = c)
             (dl_list (dlist v)) of
        Some a \<Rightarrow> a | None \<Rightarrow> -1)"
proof -
  have "(case vcache_vnid_to_loc v a of (_, Some l) \<Rightarrow> l | _ \<Rightarrow> a) = where_is loc_of (vcache v) a" for a
    by (simp add: vcache_vnid_to_loc_eq where_is_def split: option.splits)
  then show ?thesis by (simp add: dlist_find_def dlist_find_first dl_list_def)
qed

subsection \<open>The FSInfo sector\<close>

lemma read32_write32:
  assumes "i + 3 < length b"
  shows "read32 (write32 b i v) i = v"
  using assms le32_byte_of [of v] by (simp add: read32_def write32_def)

lemma read32_write32_other:
  assumes "i + 4 \<le> j \<or> j + 4 \<le> i"
  shows "read32 (write32 b i v) j = read32 b j"
  using assms by (auto simp: read32_def write32_def nth_list_update)

lemma read16_write32_other:
  assumes "i + 4 \<le> j \<or> j + 2 \<le> i"
  shows "read16 (write32 b i v) j = read16 b j"
  using assms by (auto simp: read16_def write32_def nth_list_update)

text \<open>
  C18. What \<open>update_fsinfo\<close> writes, \<open>get_fsinfo\<close> reads: on a writable FAT32 volume with a valid FSInfo
  sector the counter of free clusters and the most recently allocated cluster survive.
\<close>

theorem fsinfo_roundtrip:
  assumes "fat_bits v = 32" "fsinfo_sector v \<noteq> 0xffff" "\<not> read_only v"
    "blk v (uint (fsinfo_sector v)) = Some b" "valid_fsinfo b" "length b \<ge> 512"
  shows "\<exists>w. get_fsinfo (update_fsinfo v) = (B_OK, Some (free_clusters v, last_allocated v), w)"
proof -
  let ?b = "write32 (write32 b 0x1e8 (free_clusters v)) 0x1ec (last_allocated v)"
  have "valid_fsinfo ?b"
    using assms(5) by (simp add: valid_fsinfo_def read32_write32_other read16_write32_other)
  moreover have "read32 ?b 0x1e8 = free_clusters v" "read32 ?b 0x1ec = last_allocated v"
    using assms(6) by (simp_all add: read32_write32 read32_write32_other)
  ultimately show ?thesis
    using assms by (simp add: get_fsinfo_def update_fsinfo_def block_cache_get_def block_cache_put_def
        block_data_def store_block_def set_blocks_def Let_def)
qed

text \<open>A FAT32 volume with a valid FSInfo sector at block 1.\<close>

definition sample_fsinfo :: bytes where
  "sample_fsinfo = [0x52, 0x52, 0x61, 0x41] @ replicate 0x1e0 0 @ [0x72, 0x72, 0x41, 0x61] @ replicate 22 0 @ [0x55, 0xaa]"

definition sample_fat32 :: nspace where
  "sample_fat32 = sample_volume\<lparr>fat_bits := 32, fsinfo_sector := 1,
     fBlockCache := sample_cache\<lparr>blocks := (\<lambda>b. Some sample_fsinfo)\<rparr>\<rparr>"

lemma sample_fat32_sel [simp]:
  "fat_bits sample_fat32 = 32" "fsinfo_sector sample_fat32 = 1" "\<not> read_only sample_fat32"
  "free_clusters sample_fat32 = 2" "last_allocated sample_fat32 = 2" "total_clusters sample_fat32 = 5"
  "blk sample_fat32 b = Some sample_fsinfo"
  by (simp_all add: sample_fat32_def sample_volume_def sample_cache_def)

lemma sample_fsinfo_valid [simp]: "valid_fsinfo sample_fsinfo" "length sample_fsinfo = 512"
  by (simp_all add: sample_fsinfo_def valid_fsinfo_def read32_def read16_def nth_append)

theorem fsinfo_roundtrip_witness:
  "\<exists>w. get_fsinfo (update_fsinfo sample_fat32) = (B_OK, Some (2, 2), w)"
  using fsinfo_roundtrip [of sample_fat32 sample_fsinfo] by simp

lemma get_fsinfo_valid:
  assumes "fat_bits v = 32" "fsinfo_sector v \<noteq> 0xffff" "blk v (uint (fsinfo_sector v)) = Some b" "valid_fsinfo b"
  shows "get_fsinfo v = (B_OK, Some (read32 b 0x1e8, read32 b 0x1ec), v)"
  using assms by (simp add: get_fsinfo_def block_cache_get_def block_cache_put_def block_data_def Let_def)

text \<open>A search start that is no data cluster makes every allocation fail, and no use of the table changes it.\<close>

lemma allocate_without_start:
  "\<not> IS_DATA_CLUSTER v (last_allocated v) \<Longrightarrow> allocate_n_fat_entries v n = (B_BAD_VALUE, None, v)"
  by (simp add: allocate_n_fat_entries_def fat_ioctl_def fat_ioctl_body_def B_BAD_VALUE_def)

lemma clear_loop_keeps_start:
  "fat_ok v \<Longrightarrow> last_allocated (snd (clear_fat_chain_loop k v c d)) = last_allocated v"
proof (induction k arbitrary: v c)
  case (Suc k)
  show ?case
  proof (cases "IS_DATA_CLUSTER v c")
    case True
    have "last_allocated (give_cluster d (fat_store v c 0) c) = last_allocated v"
      using contents_only_sel(13) [OF fat_store_contents_only [OF Suc.prems True]]
      by (simp add: give_cluster_def block_cache_discard_def Let_def)
    then show ?thesis
      using Suc.IH [OF give_store(1) [OF Suc.prems True]] clear_step [OF Suc.prems True] by simp
  qed simp
qed (simp add: raise_fault_def split: option.split)

lemma clear_fat_chain_keeps:
  assumes "fat_ok v"
  shows "fat_ok (snd (clear_fat_chain v c d)) \<and> IS_DATA_CLUSTER (snd (clear_fat_chain v c d)) = IS_DATA_CLUSTER v \<and>
    last_allocated (snd (clear_fat_chain v c d)) = last_allocated v"
proof (cases "IS_DATA_CLUSTER v c")
  case True
  have "card {x. IS_DATA_CLUSTER v x \<and> fat_entry v x \<noteq> 0} \<le> card {x. IS_DATA_CLUSTER v x}"
    by (intro card_mono) auto
  also have "\<dots> = unat (total_clusters v)"
    using scan_all [OF assms True] distinct_card [OF scan_all(1) [OF assms True]] by simp
  finally obtain w where "clear_fat_chain_loop (unat (total_clusters v) + 2) v c d = (B_OK, w)" "fat_ok w" "only_table v w"
    using clear_loop_ends [OF assms, of "unat (total_clusters v) + 2" c d] by auto
  then show ?thesis
    using clear_loop_keeps_start [OF assms, of "unat (total_clusters v) + 2" c d] only_table_geometry(8) True
    by (simp add: clear_fat_chain_def)
qed (simp add: clear_fat_chain_def assms)

lemma set_fat_entry_keeps:
  assumes "fat_ok v"
  shows "fat_ok (snd (set_fat_entry v c x)) \<and> IS_DATA_CLUSTER (snd (set_fat_entry v c x)) = IS_DATA_CLUSTER v \<and>
    last_allocated (snd (set_fat_entry v c x)) = last_allocated v"
proof (cases "IS_DATA_CLUSTER v c")
  case True
  then show ?thesis
    using set_fat_entry_eq [OF assms True] fat_store_ok [OF assms True] contents_only_sel(13,23) [OF fat_store_contents_only [OF assms True]]
    by simp
qed (simp add: set_fat_entry_def fat_ioctl_rw_def fat_ioctl_body_def assms)

text \<open>The volumes that some sequence of allocations, releases and writes of single entries leads to.\<close>

inductive table_use :: "nspace \<Rightarrow> nspace \<Rightarrow> bool" for v where
  unused: "table_use v v"
| alloc: "table_use v w \<Longrightarrow> table_use v (snd (snd (allocate_n_fat_entries w n)))"
| release: "table_use v w \<Longrightarrow> table_use v (snd (clear_fat_chain w c d))"
| store: "table_use v w \<Longrightarrow> table_use v (snd (set_fat_entry w c x))"

lemma table_use_keeps_start:
  assumes "table_use v w" "fat_ok v" "\<not> IS_DATA_CLUSTER v (last_allocated v)"
  shows "fat_ok w \<and> IS_DATA_CLUSTER w = IS_DATA_CLUSTER v \<and> last_allocated w = last_allocated v"
  using assms(1)
proof induction
  case (alloc w n)
  then show ?case using allocate_without_start [of w n] assms(3) by simp
next
  case (release w c d)
  then show ?case using clear_fat_chain_keeps [of w c d] by simp
next
  case (store w c x)
  then show ?case using set_fat_entry_keeps [of w c x] by simp
qed (use assms in simp)

lemma count_free_fat32_keeps: "snd (count_free_loop_fat32 k v c n) = v"
  by (induction k arbitrary: c n) (simp_all add: block_cache_get_eq Let_def)

text \<open>What a hint of 0 or 1 makes of the volume, whether or not the number of free clusters next to it is taken over.\<close>

lemma mounted_with_hint:
  assumes "fat_bits v = 32" "fsinfo_sector v \<noteq> 0xffff" "\<not> read_only v" "blk v (uint (fsinfo_sector v)) = Some b" "valid_fsinfo b"
    "read32 b 0x1ec < total_clusters v"
  shows "\<exists>n. volume_count_free_cluster v = v\<lparr>free_clusters := n, last_allocated := read32 b 0x1ec\<rparr>"
proof -
  have count: "snd (count_free_clusters w) = w" if "fat_bits w = 32" for w
    using that count_free_fat32_keeps
    by (simp add: count_free_clusters_def fat_ioctl_rw_def fat_ioctl_body_def count_free_clusters_fat32_def Let_def)
  let ?w = "v\<lparr>last_allocated := read32 b 0x1ec\<rparr>"
  obtain n where n: "count_free_clusters ?w = (n, ?w)"
    using count [of ?w] assms(1) by (cases "count_free_clusters ?w") auto
  have swap: "u\<lparr>last_allocated := a, free_clusters := k\<rparr> = u\<lparr>free_clusters := k, last_allocated := a\<rparr>" for u :: nspace and a k by simp
  have keep: "v\<lparr>last_allocated := a\<rparr> = v\<lparr>free_clusters := free_clusters v, last_allocated := a\<rparr>" for a by simp
  have "volume_count_free_cluster v \<in> {v\<lparr>free_clusters := read32 b 0x1e8, last_allocated := read32 b 0x1ec\<rparr>, ?w, ?w\<lparr>free_clusters := word_of_int n\<rparr>}"
    using assms(3,6) get_fsinfo_valid [OF assms(1,2,4,5)] n by (simp add: volume_count_free_cluster_def status)
  then show ?thesis unfolding swap by (metis keep insertE singletonD empty_iff)
qed

text \<open>
  C19. A most recently allocated cluster of 0 or 1 in a valid FSInfo sector of a writable FAT32 volume is taken over when the
  volume is mounted, whatever the number of free clusters next to it, and from then on no allocation succeeds:
  after any sequence of allocations, releases of chains and writes of entries, however many
  clusters are free, the next allocation fails with \<open>B_BAD_VALUE\<close> and leaves the volume as it is.
\<close>

theorem fsinfo_hint_blocks_allocation:
  assumes "fat_ok v" "fat_bits v = 32" "fsinfo_sector v \<noteq> 0xffff" "\<not> read_only v"
    "blk v (uint (fsinfo_sector v)) = Some b" "valid_fsinfo b" "read32 b 0x1ec < 2" "read32 b 0x1ec < total_clusters v"
    "table_use (volume_count_free_cluster v) w"
  shows "allocate_n_fat_entries w n = (B_BAD_VALUE, None, w)"
proof -
  obtain k where k: "volume_count_free_cluster v = v\<lparr>free_clusters := k, last_allocated := read32 b 0x1ec\<rparr>" (is "_ = ?u")
    using mounted_with_hint [OF assms(2-6,8)] by blast
  have "same_fat v ?u" by (simp add: same_fat_def)
  then have u: "fat_ok ?u" using same_fat_laws assms(1) by simp
  have "\<not> IS_DATA_CLUSTER ?u (last_allocated ?u)" using assms(7) by (auto simp: IS_DATA_CLUSTER_def dest: leD)
  then have "\<not> IS_DATA_CLUSTER w (last_allocated w)"
    using table_use_keeps_start [OF assms(9) [unfolded k] u] by simp
  then show ?thesis by (rule allocate_without_start)
qed

lemma sample_fat32_ok: "fat_ok sample_fat32"
  by (simp add: fat_ok_def wf_fat_def fat_readable_def bps_def spf_def bits_def) (simp add: sample_fat32_def sample_volume_def)

theorem fsinfo_hint_blocks_allocation_witness:
  "\<forall>c. let w = snd (clear_fat_chain (volume_count_free_cluster sample_fat32) c False)
     in allocate_n_fat_entries w 1 = (B_BAD_VALUE, None, w)"
proof -
  have "read32 sample_fsinfo 0x1ec = 0"
    by (simp add: sample_fsinfo_def read32_def nth_append)
  then show ?thesis
    using fsinfo_hint_blocks_allocation [OF sample_fat32_ok, of sample_fsinfo _ 1] table_use.intros by (simp add: Let_def)
qed

subsection \<open>Vnode ids\<close>

lemma bit_field: "bit (push_bit a (mask b) :: ino_t) n \<longleftrightarrow> n < 64 \<and> a \<le> n \<and> n < a + b"
  by (auto simp: bit_push_bit_iff bit_mask_iff possible_bit_word)

lemma vnid_fields:
  "ARTIFICIAL_VNID_BITS = push_bit 61 (mask 2)" "DIR_CLUSTER_VNID_BITS = push_bit 62 (mask 1)"
  "INVALID_VNID_BITS_MASK = push_bit 60 (mask 1) OR push_bit 63 (mask 1)" "(0xffffffff :: ino_t) = push_bit 0 (mask 32)"
  "(NOT 0xf0000000 :: uint32) = mask 28"
  by (simp_all add: ARTIFICIAL_VNID_BITS_def DIR_CLUSTER_VNID_BITS_def INVALID_VNID_BITS_MASK_def mask_eq_exp_minus_1)

lemma bit_vnid_fields:
  "bit ARTIFICIAL_VNID_BITS n \<longleftrightarrow> n = 61 \<or> n = 62" "bit DIR_CLUSTER_VNID_BITS n \<longleftrightarrow> n = 62"
  "bit INVALID_VNID_BITS_MASK n \<longleftrightarrow> n = 60 \<or> n = 63" "bit (0xffffffff :: ino_t) n \<longleftrightarrow> n < 32"
  unfolding vnid_fields bit_or_iff bit_field by auto

lemma bit_all_ones: "bit (0xffffffff :: int) n \<longleftrightarrow> n < 32"
proof -
  have "(0xffffffff :: int) = mask 32" by (simp add: mask_eq_exp_minus_1)
  then show ?thesis by (simp only: bit_mask_iff) simp
qed

lemmas vnid_defs = IS_DIR_CLUSTER_VNID_def IS_DIR_INDEX_VNID_def IS_ARTIFICIAL_VNID_def
  GENERATE_DIR_CLUSTER_VNID_def GENERATE_DIR_INDEX_VNID_def CLUSTER_OF_DIR_CLUSTER_VNID_def
  INDEX_OF_DIR_INDEX_VNID_def DIR_OF_VNID_def DIR_INDEX_VNID_BITS_def

lemma bit_below:
  assumes "(d :: uint32) < 2 ^ 28" "bit d n"
  shows "n < 28"
proof -
  have "take_bit 28 (uint d) = uint d" using assms(1) by (intro take_bit_int_eq_self) (simp_all add: word_less_def)
  moreover have "bit (uint d) n" using assms(2) bit_imp_le_length [of d n] by (simp add: bit_uint_iff)
  ultimately have "bit (take_bit 28 (uint d)) n" by simp
  then show ?thesis by (simp only: bit_take_bit_iff)
qed

text \<open>
  The location packed into a vnode id can be taken out again: of the id of a file at cluster \<open>c\<close>
  in the directory at cluster \<open>d\<close> the kind, both clusters and the validity are recognised, and the
  same holds for the id of an empty file at index \<open>i\<close>. Clusters have 28 bits.
\<close>

lemma vnid_roundtrip:
  assumes "(d :: uint32) < 2 ^ 28"
  shows "IS_DIR_CLUSTER_VNID (GENERATE_DIR_CLUSTER_VNID (ucast d) c) \<and>
    CLUSTER_OF_DIR_CLUSTER_VNID (GENERATE_DIR_CLUSTER_VNID (ucast d) c) = c \<and>
    DIR_OF_VNID (GENERATE_DIR_CLUSTER_VNID (ucast d) c) = d \<and>
    \<not> IS_INVALID_VNID (GENERATE_DIR_CLUSTER_VNID (ucast d) c) \<and>
    IS_DIR_INDEX_VNID (GENERATE_DIR_INDEX_VNID (ucast d) i) \<and>
    INDEX_OF_DIR_INDEX_VNID (GENERATE_DIR_INDEX_VNID (ucast d) i) = i \<and>
    DIR_OF_VNID (GENERATE_DIR_INDEX_VNID (ucast d) i) = d \<and>
    \<not> IS_INVALID_VNID (GENERATE_DIR_INDEX_VNID (ucast d) i)"
proof -
  note b = bit_below [OF assms]
  have 1: "IS_DIR_CLUSTER_VNID (GENERATE_DIR_CLUSTER_VNID (ucast d) c)"
    unfolding vnid_defs vnid_fields(5) by (rule bit_word_eqI) (auto simp: bit_simps bit_vnid_fields bit_all_ones dest: b bit_imp_le_length)
  have 2: "CLUSTER_OF_DIR_CLUSTER_VNID (GENERATE_DIR_CLUSTER_VNID (ucast d) c) = c"
    unfolding vnid_defs vnid_fields(5) by (rule bit_word_eqI) (auto simp: bit_simps bit_vnid_fields bit_all_ones)
  have 3: "DIR_OF_VNID (GENERATE_DIR_CLUSTER_VNID (ucast d) c) = d"
    unfolding vnid_defs vnid_fields(5) by (rule bit_word_eqI) (auto simp: bit_simps bit_vnid_fields bit_all_ones dest: b bit_imp_le_length)
  have 5: "IS_DIR_INDEX_VNID (GENERATE_DIR_INDEX_VNID (ucast d) i)"
    unfolding vnid_defs vnid_fields(5) by (rule bit_word_eqI) (auto simp: bit_simps bit_vnid_fields bit_all_ones dest: b bit_imp_le_length)
  have 6: "INDEX_OF_DIR_INDEX_VNID (GENERATE_DIR_INDEX_VNID (ucast d) i) = i"
    unfolding vnid_defs vnid_fields(5) by (rule bit_word_eqI) (auto simp: bit_simps bit_vnid_fields bit_all_ones)
  have 7: "DIR_OF_VNID (GENERATE_DIR_INDEX_VNID (ucast d) i) = d"
    unfolding vnid_defs vnid_fields(5) by (rule bit_word_eqI) (auto simp: bit_simps bit_vnid_fields bit_all_ones dest: b bit_imp_le_length)
  have 8: "GENERATE_DIR_CLUSTER_VNID (ucast d) c AND INVALID_VNID_BITS_MASK = 0"
    "GENERATE_DIR_INDEX_VNID (ucast d) i AND INVALID_VNID_BITS_MASK = 0"
    unfolding vnid_defs by (rule bit_word_eqI; auto simp: bit_simps bit_vnid_fields bit_all_ones dest: b bit_imp_le_length)+
  show ?thesis using 1 2 3 5 6 7 8 by (simp add: IS_INVALID_VNID_def)
qed

lemma vnid_roundtrip_witness:
  "IS_DIR_CLUSTER_VNID (GENERATE_DIR_CLUSTER_VNID (ucast (3 :: uint32)) 5) \<and>
   DIR_OF_VNID (GENERATE_DIR_CLUSTER_VNID (ucast (3 :: uint32)) 5) = 3 \<and>
   INDEX_OF_DIR_INDEX_VNID (GENERATE_DIR_INDEX_VNID (ucast (3 :: uint32)) 9) = 9"
  using vnid_roundtrip [of 3 5 9] by simp

end
