(* ===== verification/Dos_Util.thy ===== *)
theory Dos_Util
  imports Fat_Prelude "HOL-Library.Signed_Division"
begin

section \<open>Dates and names: util.c\<close>

text \<open>
  The conversion between the date format of directory entries (16 bits of date in the upper half, 16
  bits of time, in steps of two seconds, in the lower half) and seconds since 1970, the checksum
  that ties a long name to its short name, and the normalisation of a padded name. The offset of
  the time zone, which the code reads once from the system and keeps, is the parameter
  \<open>tzoffset\<close>, in minutes. \<open>time_t\<close> is a 64-bit number; none of the sums comes near its range.
\<close>

definition IS_LEAP_YEAR :: "nat \<Rightarrow> bool" where
  "IS_LEAP_YEAR y \<longleftrightarrow> y mod 4 = 0 \<and> (y mod 100 \<noteq> 0 \<or> y mod 400 = 0)"

text \<open>\<open>yr\<close> counts from 1970, \<open>mon\<close> from 0.\<close>

definition leaps :: "nat \<Rightarrow> int \<Rightarrow> int" where
  "leaps yr mon =
     (let result = (int yr + 2) div 4 - (int yr + 70) div 100;
          result = (if yr + 70 \<ge> 100 then result + 1 else result)
      in if IS_LEAP_YEAR (yr + 1970) \<and> mon < 2 then result - 1 else result)"

definition daze :: "int list" where
  "daze = [0,0,31,59,90,120,151,181,212,243,273,304,334,0,0,0]"

definition dos2time_t :: "int \<Rightarrow> uint32 \<Rightarrow> int" where
  "dos2time_t tzoffset t =
     (let year = unat (drop_bit 25 t); month = unat (drop_bit 21 t AND 15); day = unat (drop_bit 16 t AND 31);
          days = daze ! month + (int year + 10) * 365 + leaps (year + 10) (int month - 1) + int day - 1
      in (((days * 24) + uint (drop_bit 11 t AND 31)) * 60 + uint (drop_bit 5 t AND 63) - tzoffset) * 60
         + 2 * uint (t AND 31))"

text \<open>\<open>for (y=0;;y++)\<close>: the year, and the days that are left in it.\<close>

function year_loop :: "nat \<Rightarrow> int \<Rightarrow> nat \<times> int" where
  "year_loop y s =
     (let days = (if IS_LEAP_YEAR (1980 + y) then 366 else 365)
      in if s < days then (y, s) else year_loop (y + 1) (s - days))"
  by pat_completeness auto
termination
  by (relation "measure (\<lambda>(y, s). nat s)") (auto split: if_splits)

declare year_loop.simps [simp del]

text \<open>\<open>for (d=0;d<11;d++)\<close>\<close>

fun month_loop :: "nat \<Rightarrow> nat \<Rightarrow> int \<Rightarrow> nat" where
  "month_loop 0 d s = d"
| "month_loop (Suc k) d s = (if daze ! (d + 2) > s then d else month_loop k (d + 1) s)"

definition dos_date :: "nat \<Rightarrow> int \<Rightarrow> uint32" where
  "dos_date y s =
     (let leap = IS_LEAP_YEAR (1980 + y)
      in if leap \<and> s = 59 then push_bit 5 1 + 28
         else
           let s = (if leap \<and> s > 59 then s - 1 else s); d = month_loop 11 0 s
           in push_bit 5 (of_nat d) + word_of_int (s - daze ! (d + 1)))"

definition time_t2dos :: "int \<Rightarrow> int \<Rightarrow> uint32" where
  "time_t2dos tzoffset s =
     (let t = word_of_int ((s smod 60) sdiv 2); s = s sdiv 60; s = s + tzoffset;
          t = t + push_bit 5 (word_of_int (s smod 60)); s = s sdiv 60;
          t = t + push_bit 11 (word_of_int (s smod 24)); s = s sdiv 24;
          s = s - (10 * 365 + 2);
          (y, s) = year_loop 0 s;
          d = dos_date y s + (push_bit 5 1 + 1)
      in t + push_bit 16 d + push_bit 25 (of_nat y))"

text \<open>The first eleven bytes of the name.\<close>

definition hash_msdos_name :: "bytes \<Rightarrow> uint8" where
  "hash_msdos_name name = fold (\<lambda>b c. push_bit 7 c + drop_bit 1 c + b) (take 11 name) 0"

subsection \<open>Padded names\<close>

text \<open>\<open>for (i = length - 1; i > 0; i--)\<close>\<close>

fun last_nonspace :: "bytes \<Rightarrow> nat \<Rightarrow> nat" where
  "last_nonspace name 0 = 0"
| "last_nonspace name (Suc i) = (if name ! Suc i \<noteq> 0x20 then Suc i else last_nonspace name i)"

definition lower_case :: "uint8 \<Rightarrow> uint8" where
  "lower_case c = (if c \<ge> 0x41 \<and> c \<le> 0x5a then c + 0x20 else c)"

text \<open>The buffer after the call; it has room for \<open>length + 1\<close> bytes, and \<open>length\<close> is positive.\<close>

definition sanitize_name :: "bytes \<Rightarrow> nat \<Rightarrow> bytes" where
  "sanitize_name name len =
     (let i = last_nonspace name (len - 1)
      in map lower_case (take (i + 1) name) @ drop (i + 1) (name[i + 1 := 0]))"

end
