(* ===== verification/Util_Properties.thy ===== *)
theory Util_Properties
  imports Dos_Util
begin

section \<open>Properties of dates and names: util.c\<close>

subsection \<open>Dates\<close>

text \<open>The days from the start of 1980 to the start of year \<open>y\<close> from 1980, as \<open>dos2time_t\<close> computes them.\<close>

definition year_days :: "nat \<Rightarrow> int" where
  "year_days y = (int y + 10) * 365 + leaps (y + 10) 0 - 3652"

definition year_length :: "nat \<Rightarrow> int" where
  "year_length y = (if IS_LEAP_YEAR (1980 + y) then 366 else 365)"

lemma century: "(y :: nat) < 128 \<Longrightarrow> (1980 + y) mod 100 = (if y < 20 then 80 + y else if y < 120 then y - 20 else y - 120)"
  by (rule mod_nat_eqI) (auto split: if_splits)

lemma century_div: "y < 128 \<Longrightarrow> (int y + 80) div 100 = (if y < 20 then 0 else if y < 120 then 1 else 2)"
  by (auto intro: int_div_pos_eq)

lemma leap_year:
  assumes "y < 128"
  shows "IS_LEAP_YEAR (1980 + y) \<longleftrightarrow> y mod 4 = 0 \<and> y \<noteq> 120"
proof -
  have four: "(1980 + y) mod 4 = y mod 4" by presburger
  consider "y = 20" | "y = 120" | "(1980 + y) mod 100 \<noteq> 0"
    using century [OF assms] assms by (cases "y = 20"; cases "y = 120") auto
  then show ?thesis by cases (auto simp: IS_LEAP_YEAR_def four century [OF assms])
qed

lemma year_days_eq:
  assumes "y < 128"
  shows "year_days y = int y * 365 + (int y + 3) div 4 - (if 120 < y then 1 else 0)"
proof -
  have "IS_LEAP_YEAR (y + 10 + 1970) \<longleftrightarrow> y mod 4 = 0 \<and> y \<noteq> 120" using leap_year [OF assms] by (simp add: add.commute)
  moreover note century_div [OF assms]
  moreover have "(int y + 12) div 4 - (if y mod 4 = 0 then 1 else 0) = (int y + 3) div 4 + 2" by presburger
  ultimately show ?thesis using assms by (auto simp: year_days_def leaps_def Let_def ac_simps)
qed

lemma year_days_ends: "year_days 0 = 0" "year_days 128 = 46751"
  by (simp_all add: year_days_def leaps_def IS_LEAP_YEAR_def Let_def)

lemma year_days_step: "y < 128 \<Longrightarrow> year_days (Suc y) = year_days y + year_length y"
proof -
  consider "y = 120" | "y = 127" | "y \<noteq> 120" "y \<noteq> 127" by blast
  moreover assume "y < 128"
  ultimately show ?thesis
  proof cases
    case 3
    have "(4 + int y) div 4 = (3 + int y) div 4 + (if y mod 4 = 0 then 1 else 0)" by presburger
    then show ?thesis
      using year_days_eq [of y] year_days_eq [of "Suc y"] 3 \<open>y < 128\<close> leap_year [OF \<open>y < 128\<close>]
      by (auto simp: year_length_def ac_simps)
  qed (use year_days_ends year_days_eq [of 120] year_days_eq [of 121] year_days_eq [of 127] leap_year [of 120]
      leap_year [of 127] in \<open>simp_all add: year_length_def\<close>)
qed

lemma year_loop_spec:
  assumes "0 \<le> s" "year_days y + s < year_days 128" "y < 128"
  shows "\<exists>z r. year_loop y s = (z, r) \<and> z < 128 \<and> 0 \<le> r \<and> r < year_length z \<and> year_days z + r = year_days y + s"
  using assms
proof (induction y s rule: year_loop.induct)
  case (1 y s)
  show ?case
  proof (cases "s < year_length y")
    case True
    then have "year_loop y s = (y, s)" by (subst year_loop.simps) (auto simp: year_length_def split: if_splits)
    then show ?thesis using True 1(2,4) by simp
  next
    case False
    have step: "year_loop y s = year_loop (y + 1) (s - year_length y)"
      using False by (subst year_loop.simps) (auto simp: year_length_def split: if_splits)
    have days: "year_days (y + 1) = year_days y + year_length y" using year_days_step [OF 1(4)] by simp
    have "y + 1 \<noteq> 128" using False days 1(3) by auto
    then have "y + 1 < 128" using 1(4) by simp
    moreover have "\<not> s < (if IS_LEAP_YEAR (1980 + y) then 366 else 365)"
      using False by (simp add: year_length_def)
    ultimately show ?thesis
      using 1(1) [OF refl] False 1(2,3) days by (simp add: step year_length_def split: if_splits)
  qed
qed

text \<open>The date within a year.\<close>

lemma month_loop_spec:
  assumes "0 \<le> s" "s < 365"
  shows "\<exists>d. month_loop 11 0 s = d \<and> d \<le> 11 \<and> daze ! (d + 1) \<le> s \<and> s < daze ! (d + 1) + 31 \<and> (2 \<le> d \<longleftrightarrow> 59 \<le> s)"
  using assms by (auto simp: eval_nat_numeral daze_def)

lemma date_word:
  assumes "d \<le> 11" "0 \<le> k" "k < 31"
  shows "unat (push_bit 5 (of_nat d) + word_of_int k + 33 :: uint32) = 32 * (d + 1) + nat k + 1"
proof -
  have "push_bit 5 (of_nat d) + word_of_int k + 33 = (of_nat (32 * (d + 1) + nat k + 1) :: uint32)"
    using assms(2) by (simp add: push_bit_eq_mult word_of_int_nat [symmetric])
  then show ?thesis using assms by (simp only: unat_of_nat) simp
qed

lemma dos_date_spec:
  assumes "0 \<le> r" "r < year_length y"
  shows "\<exists>month day. unat (dos_date y r + 33) = 32 * month + day \<and> 0 < month \<and> month < 13 \<and> 0 < day \<and> day < 32 \<and>
    daze ! month + int day - 1 + (if IS_LEAP_YEAR (1980 + y) \<and> 2 < month then 1 else 0) = r"
proof (cases "IS_LEAP_YEAR (1980 + y) \<and> r = 59")
  case True
  then show ?thesis using date_word [of 1 28]
    by (intro exI [of _ 2] exI [of _ 29]) (simp add: dos_date_def daze_def push_bit_eq_mult)
next
  case False
  let ?s = "if IS_LEAP_YEAR (1980 + y) \<and> r > 59 then r - 1 else r"
  have s: "0 \<le> ?s" "?s < 365" using assms False by (auto simp: year_length_def split: if_splits)
  obtain d where d: "month_loop 11 0 ?s = d" "d \<le> 11" "daze ! (d + 1) \<le> ?s" "?s < daze ! (d + 1) + 31" "2 \<le> d \<longleftrightarrow> 59 \<le> ?s"
    using month_loop_spec [OF s] by blast
  have "dos_date y r + 33 = push_bit 5 (of_nat d) + word_of_int (?s - daze ! (d + 1)) + 33"
    using False d(1) by (auto simp: dos_date_def Let_def)
  then have "unat (dos_date y r + 33) = 32 * (d + 1) + nat (?s - daze ! (d + 1)) + 1"
    using date_word [OF d(2), of "?s - daze ! (d + 1)"] d(3,4) by simp
  moreover have "daze ! (d + 1) + int (nat (?s - daze ! (d + 1)) + 1) - 1
      + (if IS_LEAP_YEAR (1980 + y) \<and> 2 < d + 1 then 1 else 0) = r"
    using d(3,5) False by auto
  ultimately show ?thesis
    using d(2-4) by (intro exI [of _ "d + 1"] exI [of _ "nat (?s - daze ! (d + 1)) + 1"]) auto
qed

text \<open>Packing the parts of a date and a time into 32 bits, and taking them out.\<close>

lemma unat_field:
  assumes "unat (t :: uint32) = n"
  shows "unat (drop_bit k t AND mask j) = n div 2 ^ k mod 2 ^ j" "unat (drop_bit k t) = n div 2 ^ k"
proof -
  show "unat (drop_bit k t) = n div 2 ^ k"
    using trans [OF unat_drop_bit_eq [of k t] drop_bit_eq_div [of k "unat t"]] assms by metis
  moreover have "unat (drop_bit k t AND mask j) = take_bit j (unat (drop_bit k t))"
    by (simp only: take_bit_eq_mask [symmetric] unsigned_take_bit_eq)
  then have "unat (drop_bit k t AND mask j) = unat (drop_bit k t) mod 2 ^ j" by (simp only: take_bit_eq_mod)
  ultimately show "unat (drop_bit k t AND mask j) = n div 2 ^ k mod 2 ^ j" by simp
qed

lemma packed: "y < n \<Longrightarrow> (x * n + y) mod n = (y :: nat)" "y < n \<Longrightarrow> (x * n + y) div n = (x :: nat)"
  by simp_all

lemma time_fields:
  fixes a b c e f g :: nat
  assumes "a < 32" "b < 64" "c < 32" "e < 32" "f < 16" "g < 128"
  defines "t \<equiv> (of_nat ((((((g * 16 + f) * 32 + e) * 32 + c) * 64 + b) * 32 + a)) :: uint32)"
  shows "unat (drop_bit 25 t) = g" "unat (drop_bit 21 t AND 15) = f" "unat (drop_bit 16 t AND 31) = e"
    "unat (drop_bit 11 t AND 31) = c" "unat (drop_bit 5 t AND 63) = b" "unat (t AND 31) = a"
proof -
  let ?n = "((((g * 16 + f) * 32 + e) * 32 + c) * 64 + b) * 32 + a"
  have "?n < 2 ^ 32" using assms by simp
  then have u: "unat t = ?n" unfolding t_def by (rule unat_of_nat_32)
  have m: "(15 :: uint32) = mask 4" "(31 :: uint32) = mask 5" "(63 :: uint32) = mask 6"
    by (simp_all add: mask_eq_exp_minus_1)
  have d: "?n div 2 ^ 5 = (((g * 16 + f) * 32 + e) * 32 + c) * 64 + b"
    "?n div 2 ^ 11 = ((g * 16 + f) * 32 + e) * 32 + c" "?n div 2 ^ 16 = (g * 16 + f) * 32 + e"
    "?n div 2 ^ 21 = g * 16 + f" "?n div 2 ^ 25 = g"
    using assms(1-6) by simp_all
  have p: "(2 :: nat) ^ 4 = 16" "(2 :: nat) ^ 5 = 32" "(2 :: nat) ^ 6 = 64" by simp_all
  have m': "((g * 16 + f) * 32 + e) mod 2 ^ 5 = e" "(((g * 16 + f) * 32 + e) * 32 + c) mod 2 ^ 5 = c"
    "((((g * 16 + f) * 32 + e) * 32 + c) * 64 + b) mod 2 ^ 6 = b" "(g * 16 + f) mod 2 ^ 4 = f" "?n mod 2 ^ 5 = a"
    unfolding p by (rule packed(1), fact)+
  note uf = unat_field [OF u]
  show "unat (drop_bit 25 t) = g" unfolding uf d ..
  show "unat (drop_bit 21 t AND 15) = f" unfolding m uf d m' ..
  show "unat (drop_bit 16 t AND 31) = e" unfolding m uf d m' ..
  show "unat (drop_bit 11 t AND 31) = c" unfolding m uf d m' ..
  show "unat (drop_bit 5 t AND 63) = b" unfolding m uf d m' ..
  show "unat (t AND 31) = a" using uf(1) [of 0 5] unfolding m by (simp only: drop_bit_0 id_apply power_0 div_by_1 m')
qed

lemma sdiv_pos: "0 \<le> a \<Longrightarrow> 0 < b \<Longrightarrow> a sdiv b = a div (b :: int)" "0 \<le> a \<Longrightarrow> 0 < b \<Longrightarrow> a smod b = a mod (b :: int)"
  by (cases "a = 0"; simp add: signed_divide_int_def signed_modulo_int_def minus_div_mult_eq_mod)+

text \<open>The number of days, as \<open>dos2time_t\<close> computes it from year, month and day.\<close>

lemma dos_days:
  assumes "z < 128" "0 \<le> r" "r < year_length z"
    "0 < month" "month < 13" "daze ! month + int day - 1 + (if IS_LEAP_YEAR (1980 + z) \<and> 2 < month then 1 else 0) = r"
  shows "daze ! month + (int z + 10) * 365 + leaps (z + 10) (int month - 1) + int day - 1 = year_days z + r + 3652"
proof -
  have "leaps (z + 10) (int month - 1) = leaps (z + 10) 0 + (if IS_LEAP_YEAR (1980 + z) \<and> 2 < month then 1 else 0)"
    using assms(4,5) by (auto simp: leaps_def Let_def ac_simps)
  then show ?thesis using assms(6) by (simp add: year_days_def)
qed

text \<open>The packed word, from the second, minute, hour and day of the local time.\<close>

lemma time_t2dos_eq:
  assumes s: "0 \<le> s" and m: "m = s div 60 + tz" "3652 * 1440 \<le> m" "m < (3652 + 46751) * 1440"
  obtains z month day where "time_t2dos tz s =
      of_nat (((((z * 16 + month) * 32 + day) * 32 + nat (m div 60 mod 24)) * 64 + nat (m mod 60)) * 32 + nat (s mod 60 div 2))"
    "z < 128" "0 < month" "month < 13" "day < 32"
    "daze ! month + (int z + 10) * 365 + leaps (z + 10) (int month - 1) + int day - 1 = m div 60 div 24"
proof -
  have d: "0 \<le> m div 60 div 24 - 3652" "m div 60 div 24 - 3652 < 46751" "0 \<le> m" using m by auto
  obtain z r where z: "year_loop 0 (m div 60 div 24 - 3652) = (z, r)" "z < 128" "0 \<le> r" "r < year_length z"
    "year_days z + r = m div 60 div 24 - 3652"
    using year_loop_spec [of "m div 60 div 24 - 3652" 0] d year_days_ends by auto
  obtain month day where md: "unat (dos_date z r + 33) = 32 * month + day" "0 < month" "month < 13" "day < 32"
    "daze ! month + int day - 1 + (if IS_LEAP_YEAR (1980 + z) \<and> 2 < month then 1 else 0) = r"
    using dos_date_spec [OF z(3,4)] by blast
  have "dos_date z r + 33 = of_nat (32 * month + day)" using md(1) by (metis of_nat_unat ucast_id)
  moreover have "0 \<le> m div 60" using d(3) by (simp add: pos_imp_zdiv_nonneg_iff)
  then have "time_t2dos tz s = word_of_int (s mod 60 div 2) + push_bit 5 (word_of_int (m mod 60))
      + push_bit 11 (word_of_int (m div 60 mod 24)) + push_bit 16 (dos_date z r + 33) + push_bit 25 (of_nat z)"
    using s d(3) z(1) by (simp add: time_t2dos_def Let_def sdiv_pos m(1) [symmetric])
  ultimately have "time_t2dos tz s =
      of_nat (((((z * 16 + month) * 32 + day) * 32 + nat (m div 60 mod 24)) * 64 + nat (m mod 60)) * 32 + nat (s mod 60 div 2))"
    by (simp add: push_bit_eq_mult word_of_int_nat [symmetric] algebra_simps)
  moreover have "daze ! month + (int z + 10) * 365 + leaps (z + 10) (int month - 1) + int day - 1 = m div 60 div 24"
    using dos_days [OF z(2,3,4) md(2,3,5)] z(5) by simp
  ultimately show thesis using z(2) md(2,3,4) that by blast
qed

text \<open>
  C21. Converting a time to the format of directory entries and back gives the same time, rounded
  down to two seconds, for every time whose local date is from 1980 to 2107.
\<close>

theorem dos_time_roundtrip:
  assumes "0 \<le> s" "3652 * 1440 \<le> s div 60 + tz" "s div 60 + tz < (3652 + 46751) * 1440"
  shows "dos2time_t tz (time_t2dos tz s) = s - s mod 2"
proof -
  let ?m = "s div 60 + tz"
  obtain z month day where t: "time_t2dos tz s =
      of_nat (((((z * 16 + month) * 32 + day) * 32 + nat (?m div 60 mod 24)) * 64 + nat (?m mod 60)) * 32 + nat (s mod 60 div 2))"
    "z < 128" "0 < month" "month < 13" "day < 32"
    "daze ! month + (int z + 10) * 365 + leaps (z + 10) (int month - 1) + int day - 1 = ?m div 60 div 24"
    by (rule time_t2dos_eq [OF assms(1) refl assms(2,3)])
  define T where "T = time_t2dos tz s"
  have b: "nat (s mod 60 div 2) < 32" "nat (?m mod 60) < 64" "nat (?m div 60 mod 24) < 32" "month < 16" using t(4) by auto
  note f = time_fields [OF b(1-3) t(5) b(4) t(2), folded t(1), folded T_def]
  have "dos2time_t tz T
      = (((daze ! month + (int z + 10) * 365 + leaps (z + 10) (int month - 1) + int day - 1) * 24
          + int (nat (?m div 60 mod 24))) * 60 + int (nat (?m mod 60)) - tz) * 60 + 2 * int (nat (s mod 60 div 2))"
    unfolding dos2time_t_def Let_def uint_nat f ..
  also have "\<dots> = ((?m div 60 div 24 * 24 + ?m div 60 mod 24) * 60 + ?m mod 60 - tz) * 60 + 2 * (s mod 60 div 2)"
    unfolding t(6) using assms(1) by simp
  also have "\<dots> = (?m - tz) * 60 + 2 * (s mod 60 div 2)" by (simp only: div_mult_mod_eq)
  also have "\<dots> = s - s mod 60 + (s mod 60 - s mod 60 mod 2)" by (simp add: minus_mod_eq_mult_div)
  also have "\<dots> = s - s mod 2" by (simp add: mod_mod_cancel)
  finally show ?thesis by (simp add: T_def)
qed

theorem dos_time_roundtrip_witness: "dos2time_t 60 (time_t2dos 60 1000000001) = 1000000000"
  using dos_time_roundtrip [of 1000000001 60] by simp

end
