(* ===== verification/Iter.thy ===== *)
theory Iter
  imports Fat_Table
begin

section \<open>Sector and directory iterators: iter.c\<close>

text \<open>
  A \<open>csi\<close> walks the sectors of a cluster chain (or of the fixed root directory of FAT12 and FAT16); a
  \<open>diri\<close> walks the 32-byte entries of a directory, holding one block at a time. The volume that the
  C structures point to is passed and returned. A pointer into a block is the block's number and
  the offset in it; \<open>NULL\<close> is \<open>None\<close>.
\<close>

record csi =
  csi_cluster :: uint32
  csi_sector :: uint32

record diri =
  diri_csi :: csi
  starting_cluster :: uint32
  current_index :: uint32
  current_block :: "int option"

type_synonym entry_ptr = "(int \<times> nat) option"

definition validate_cs :: "nspace \<Rightarrow> uint32 \<Rightarrow> uint32 \<Rightarrow> int" where
  "validate_cs vol cluster sector =
     (if fat_bits vol \<noteq> 32 \<and> IS_FIXED_ROOT cluster then
        if sector \<ge> root_sectors vol then -1 else 0
      else if sector \<ge> sectors_per_cluster vol then -1
      else if \<not> IS_DATA_CLUSTER vol cluster then -1
      else 0)"

definition csi_to_block :: "nspace \<Rightarrow> csi \<Rightarrow> int" where
  "csi_to_block vol csi =
     (if validate_cs vol (csi_cluster csi) (csi_sector csi) \<noteq> 0 then EINVAL
      else if IS_FIXED_ROOT (csi_cluster csi) then uint (root_start vol + csi_sector csi)
      else uint (data_start vol) + uint (csi_cluster csi - 2) * uint (sectors_per_cluster vol)
           + uint (csi_sector csi))"

text \<open>The iterator is left alone (\<open>None\<close>) when the position is not valid.\<close>

definition init_csi :: "nspace \<Rightarrow> uint32 \<Rightarrow> uint32 \<Rightarrow> int \<times> csi option" where
  "init_csi vol cluster sector =
     (let ret = validate_cs vol cluster sector
      in if ret \<noteq> 0 then (ret, None)
         else (0, Some \<lparr>csi_cluster = cluster, csi_sector = sector\<rparr>))"

definition iter_csi :: "nspace \<Rightarrow> csi \<Rightarrow> int \<Rightarrow> int \<times> csi \<times> nspace" where
  "iter_csi vol csi sectors =
     (if csi_sector csi = 0xffff then (-1, csi, vol)
      else if sectors < 0 then (EINVAL, csi, vol)
      else if sectors = 0 then (0, csi, vol)
      else
        let csi = csi\<lparr>csi_sector := csi_sector csi + word_of_int sectors\<rparr>
        in if IS_FIXED_ROOT (csi_cluster csi) then
             if csi_sector csi < root_sectors vol then (0, csi, vol)
             else (-1, csi\<lparr>csi_sector := 0xffff\<rparr>, vol)
           else if csi_sector csi < sectors_per_cluster vol then (0, csi, vol)
           else
             let (cluster, vol) =
                   get_nth_fat_entry vol (sint (csi_cluster csi))
                     (unat (csi_sector csi div sectors_per_cluster vol));
                 csi = csi\<lparr>csi_cluster := word_of_int cluster\<rparr>
             in if sint (csi_cluster csi) < 0 then
                  (sint (csi_cluster csi), csi\<lparr>csi_sector := 0xffff\<rparr>, vol)
                else if IS_DATA_CLUSTER vol (csi_cluster csi) then
                  (0, csi\<lparr>csi_sector := csi_sector csi mod sectors_per_cluster vol\<rparr>, vol)
                else (-1, csi\<lparr>csi_sector := 0xffff\<rparr>, vol))"

definition csi_get_block :: "nspace \<Rightarrow> csi \<Rightarrow> int option \<times> nspace" where
  "csi_get_block vol csi =
     (if validate_cs vol (csi_cluster csi) (csi_sector csi) \<noteq> 0 then (None, vol)
      else block_cache_get vol (csi_to_block vol csi))"

definition csi_release_block :: "nspace \<Rightarrow> csi \<Rightarrow> status_t \<times> nspace" where
  "csi_release_block vol csi =
     (if validate_cs vol (csi_cluster csi) (csi_sector csi) \<noteq> 0 then (EINVAL, vol)
      else (B_OK, block_cache_put vol (csi_to_block vol csi)))"

text \<open>
  \<open>block_cache_make_writable\<close> reads the block if it has to; in the model every block that is held
  may be written.
\<close>

definition csi_make_writable :: "nspace \<Rightarrow> csi \<Rightarrow> status_t" where
  "csi_make_writable vol csi =
     (if validate_cs vol (csi_cluster csi) (csi_sector csi) \<noteq> 0 then EINVAL
      else if blocks (fBlockCache vol) (csi_to_block vol csi) = None then B_ERROR
      else B_OK)"

text \<open>
  The loop that \<open>csi_read_blocks\<close> and \<open>csi_write_blocks\<close> share: it extends the run of consecutive
  blocks as far as the buffer of \<open>len\<close> bytes and the chain allow. It returns the number of sectors
  and the last position (\<open>old_csi\<close>). Every round but the last adds a sector that fits into the
  buffer, so \<open>len\<close> rounds suffice; the first argument bounds the rounds.
\<close>

fun csi_run :: "nat \<Rightarrow> nspace \<Rightarrow> csi \<Rightarrow> int \<Rightarrow> int \<Rightarrow> nat \<Rightarrow> nat \<times> csi \<times> nspace" where
  "csi_run 0 vol csi len block sectors = (sectors, csi, raise_fault Endless_loop vol)"
| "csi_run (Suc k) vol csi len block sectors =
     (let old_csi = csi; (err, csi, vol) = iter_csi vol csi 1
      in if len < int (sectors + 1) * uint (bytes_per_sector vol) then (sectors, old_csi, vol)
         else if err < B_OK \<or> block + int sectors \<noteq> csi_to_block vol csi then (sectors, old_csi, vol)
         else csi_run k vol csi len block (sectors + 1))"

text \<open>The copy loops; the pointer is not checked before it is used.\<close>

fun read_run :: "nat \<Rightarrow> nspace \<Rightarrow> int \<Rightarrow> bytes \<times> nspace" where
  "read_run 0 vol i = ([], vol)"
| "read_run (Suc k) vol i =
     (let (p, vol) = block_cache_get vol i in
      case p of
        None \<Rightarrow> ([], raise_fault Null_dereference vol)
      | Some b \<Rightarrow>
          let data = take (unat (bytes_per_sector vol)) (block_data vol b);
              (rest, vol) = read_run k (block_cache_put vol i) (i + 1)
          in (data @ rest, vol))"

fun write_run :: "nat \<Rightarrow> nspace \<Rightarrow> int \<Rightarrow> bytes \<Rightarrow> nspace" where
  "write_run 0 vol i buf = vol"
| "write_run (Suc k) vol i buf =
     write_run k (overwrite_block vol i (take (unat (bytes_per_sector vol)) buf)) (i + 1)
       (drop (unat (bytes_per_sector vol)) buf)"

text \<open>The status, the bytes put into the buffer, the iterator and the volume.\<close>

definition csi_read_blocks :: "nspace \<Rightarrow> csi \<Rightarrow> int \<Rightarrow> status_t \<times> bytes \<times> csi \<times> nspace" where
  "csi_read_blocks vol csi len =
     (if validate_cs vol (csi_cluster csi) (csi_sector csi) \<noteq> 0 then (EINVAL, [], csi, vol)
      else
        let block = csi_to_block vol csi;
            (sectors, old_csi, vol) = csi_run (nat len + 1) vol csi len block 1;
            (data, vol) = read_run sectors vol block
        in (int sectors * uint (bytes_per_sector vol), data, old_csi, vol))"

definition csi_write_blocks :: "nspace \<Rightarrow> csi \<Rightarrow> bytes \<Rightarrow> int \<Rightarrow> status_t \<times> csi \<times> nspace" where
  "csi_write_blocks vol csi buffer len =
     (if validate_cs vol (csi_cluster csi) (csi_sector csi) \<noteq> 0 then (EINVAL, csi, vol)
      else
        let block = csi_to_block vol csi;
            (sectors, old_csi, vol) = csi_run (nat len + 1) vol csi len block 1;
            vol = write_run sectors vol block buffer
        in (int sectors * uint (bytes_per_sector vol), old_csi, vol))"

definition csi_write_block :: "nspace \<Rightarrow> csi \<Rightarrow> bytes \<Rightarrow> status_t \<times> nspace" where
  "csi_write_block vol csi buffer =
     (if validate_cs vol (csi_cluster csi) (csi_sector csi) \<noteq> 0 then (EINVAL, vol)
      else (B_OK, overwrite_block vol (csi_to_block vol csi) buffer))"

subsection \<open>Directory entries\<close>

definition diri_release_current_block :: "nspace \<Rightarrow> diri \<Rightarrow> diri \<times> nspace" where
  "diri_release_current_block vol diri =
     (if current_block diri = None then (diri, vol)
      else (diri\<lparr>current_block := None\<rparr>, snd (csi_release_block vol (diri_csi diri))))"

definition entries_per_sector :: "nspace \<Rightarrow> uint32" where
  "entries_per_sector vol = bytes_per_sector vol div 0x20"

text \<open>\<open>diri->current_block + (diri->current_index % ...) * 0x20\<close>\<close>

definition diri_ptr :: "nspace \<Rightarrow> diri \<Rightarrow> entry_ptr" where
  "diri_ptr vol diri =
     (case current_block diri of
        None \<Rightarrow> None
      | Some b \<Rightarrow> Some (b, unat (current_index diri mod entries_per_sector vol) * 0x20))"

text \<open>
  \<open>diri_init\<close> fills in the structure \<open>diri\<close>; when it fails, the structure holds no block.
\<close>

definition diri_init :: "nspace \<Rightarrow> uint32 \<Rightarrow> uint32 \<Rightarrow> diri \<Rightarrow> entry_ptr \<times> diri \<times> nspace" where
  "diri_init vol cluster index diri =
     (let diri = diri\<lparr>current_block := None\<rparr>
      in if cluster \<ge> total_clusters vol + 2 then (None, diri, vol)
         else case init_csi vol cluster 0 of
           (_, None) \<Rightarrow> (None, diri, vol)
         | (_, Some csi) \<Rightarrow>
             let diri = diri\<lparr>diri_csi := csi, starting_cluster := cluster, current_index := index\<rparr>;
                 (result, csi, vol) =
                   (if index \<ge> entries_per_sector vol
                    then iter_csi vol csi (sint (current_index diri div entries_per_sector vol))
                    else (0, csi, vol));
                 diri = diri\<lparr>diri_csi := csi\<rparr>
             in if result \<noteq> 0 then (None, diri, vol)
                else
                  let (p, vol) = csi_get_block vol csi;
                      diri = diri\<lparr>current_block := p\<rparr>
                  in (diri_ptr vol diri, diri, vol))"

definition diri_free :: "nspace \<Rightarrow> diri \<Rightarrow> diri \<times> nspace" where
  "diri_free vol diri =
     (if current_block diri \<noteq> None then diri_release_current_block vol diri else (diri, vol))"

definition diri_current_entry :: "nspace \<Rightarrow> diri \<Rightarrow> entry_ptr" where
  "diri_current_entry vol diri = diri_ptr vol diri"

definition diri_next_entry :: "nspace \<Rightarrow> diri \<Rightarrow> entry_ptr \<times> diri \<times> nspace" where
  "diri_next_entry vol diri =
     (if current_block diri = None then (None, diri, vol)
      else
        let diri = diri\<lparr>current_index := current_index diri + 1\<rparr>
        in if current_index diri mod entries_per_sector vol = 0 then
             let (diri, vol) = diri_release_current_block vol diri;
                 (result, csi, vol) = iter_csi vol (diri_csi diri) 1;
                 diri = diri\<lparr>diri_csi := csi\<rparr>
             in if result \<noteq> 0 then (None, diri, vol)
                else
                  let (p, vol) = csi_get_block vol csi;
                      diri = diri\<lparr>current_block := p\<rparr>
                  in (diri_ptr vol diri, diri, vol)
           else (diri_ptr vol diri, diri, vol))"

definition diri_rewind :: "nspace \<Rightarrow> diri \<Rightarrow> int option \<times> diri \<times> nspace" where
  "diri_rewind vol diri =
     (if current_index diri > entries_per_sector vol - 1 then
        let (diri, vol) = (if current_block diri \<noteq> None then diri_release_current_block vol diri else (diri, vol))
        in case init_csi vol (starting_cluster diri) 0 of
             (_, None) \<Rightarrow> (None, diri, vol)
           | (_, Some csi) \<Rightarrow>
               let (p, vol) = csi_get_block vol csi;
                   diri = diri\<lparr>diri_csi := csi, current_block := p, current_index := 0\<rparr>
               in (p, diri, vol)
      else (current_block diri, diri\<lparr>current_index := 0\<rparr>, vol))"

definition diri_make_writable :: "nspace \<Rightarrow> diri \<Rightarrow> status_t" where
  "diri_make_writable vol diri = csi_make_writable vol (diri_csi diri)"

text \<open>The bytes behind a pointer to a directory entry, and writing through it.\<close>

definition entry_byte :: "nspace \<Rightarrow> int \<times> nat \<Rightarrow> nat \<Rightarrow> uint8" where
  "entry_byte vol p k = block_data vol (fst p) ! (snd p + k)"

definition set_entry_byte :: "int \<times> nat \<Rightarrow> nat \<Rightarrow> uint8 \<Rightarrow> nspace \<Rightarrow> nspace" where
  "set_entry_byte p k x vol = update_byte vol (fst p) (snd p + k) x"

definition entry_bytes :: "nspace \<Rightarrow> int \<times> nat \<Rightarrow> bytes" where
  "entry_bytes vol p = take 0x20 (drop (snd p) (block_data vol (fst p)))"

end
