(* ===== verification/Encodings.thy ===== *)
theory Encodings
  imports Volume Dos_Util Code_Pages
begin

section \<open>Conversions of names: encodings.cpp\<close>

text \<open>
  Names come in three forms: UTF-8 in the kernel, little-endian units of 16 bits in the entries of a
  long name, and eleven characters of a code page (DOS or Shift-JIS) in a directory entry. A C string is
  the list of its bytes without the final zero; \<open>cchar\<close> reads it like the code does, the zero
  included. A conversion returns the bytes it has written to its output array. Shared helpers of the
  model come first.
\<close>

subsection \<open>Strings\<close>

definition chars :: "string \<Rightarrow> bytes" where
  "chars s = map (\<lambda>c. of_nat (of_char c)) s"

definition cstring :: "bytes \<Rightarrow> bytes" where
  "cstring bs = takeWhile (\<lambda>c. c \<noteq> 0) bs"

definition cchar :: "bytes \<Rightarrow> nat \<Rightarrow> uint8" where
  "cchar s i = (if i < length s then s ! i else 0)"

text \<open>The character sets of \<open>dir.c\<close> and \<open>encodings.cpp\<close>.\<close>

definition acceptable :: bytes where
  "acceptable = chars ''!#$%&'' @ [0x27] @ chars ''()-0123456789@ABCDEFGHIJKLMNOPQRSTUVWXYZ^_'' @ [0x60] @ chars ''{}~''"

definition illegal :: bytes where
  "illegal = [0x5c, 0x2f, 0x3a, 0x2a, 0x3f, 0x22, 0x3c, 0x3e, 0x7c]"

definition underbar :: bytes where
  "underbar = chars ''+,;=[]'' @ [0x83, 0x85, 0x88, 0x89, 0x8a, 0x8b, 0x8c, 0x8d, 0x93, 0x95, 0x96, 0x97, 0x98,
     0xa0, 0xa1, 0xa2, 0xa3]"

definition capitalize_from :: bytes where
  "capitalize_from = [0x81, 0x82, 0x84, 0x86, 0x87, 0x91, 0x94, 0xa4]"

definition capitalize_to :: bytes where
  "capitalize_to = [0x9a, 0x90, 0x8e, 0x8f, 0x80, 0x92, 0x99, 0xa5]"

subsection \<open>Units and UTF-8\<close>

text \<open>\<open>B_LENDIAN_TO_HOST_INT16\<close> of the unit at a position.\<close>

definition le_unit :: "bytes \<Rightarrow> nat \<Rightarrow> uint16" where
  "le_unit src i = push_bit 8 (ucast (src ! (i + 1))) OR ucast (src ! i)"

text \<open>
  The UTF-8 bytes of the unit \<open>u\<close>, which \<open>v\<close> follows; \<open>v\<close> is only looked at when \<open>u\<close> is the first half of
  a surrogate pair.
\<close>

definition u_hostendian_to_utf8 :: "uint16 \<Rightarrow> uint16 \<Rightarrow> bytes" where
  "u_hostendian_to_utf8 u v =
     (if u AND 0xff80 = 0 then [ucast u]
      else if u AND 0xf800 = 0 then [0xc0 OR ucast (drop_bit 6 u), 0x80 OR ucast (u AND 0x3f)]
      else if u AND 0xfc00 \<noteq> 0xd800
        then [0xe0 OR ucast (drop_bit 12 u), 0x80 OR ucast (drop_bit 6 u AND 0x3f), 0x80 OR ucast (u AND 0x3f)]
      else
        let val = push_bit 10 (ucast u - 0xd7c0) OR ucast (v AND 0x3ff) :: uint32
        in [0xf0 OR ucast (drop_bit 18 val), 0x80 OR ucast (drop_bit 12 val AND 0x3f),
            0x80 OR ucast (drop_bit 6 val AND 0x3f), 0x80 OR ucast (val AND 0x3f)])"

definition u_lendian_to_utf8 :: "bytes \<Rightarrow> nat \<Rightarrow> bytes" where
  "u_lendian_to_utf8 src i = u_hostendian_to_utf8 (le_unit src i) (le_unit src (i + 2))"

text \<open>
  The unit at the start of a row of bytes and how many bytes it takes; \<open>None\<close> is the error flag. A byte
  behind the first one is only looked at when the one before it is not zero.
\<close>

definition utf8_to_u_hostendian :: "bytes \<Rightarrow> (uint16 \<times> nat) option" where
  "utf8_to_u_hostendian str =
     (if str ! 0 AND 0x80 = 0 then Some (ucast (str ! 0), 1)
      else if str ! 1 AND 0xc0 \<noteq> 0x80 then Some (0xfffd, 1)
      else if str ! 0 AND 0x20 = 0
        then Some (push_bit 6 (ucast (str ! 0 AND 31)) OR ucast (str ! 1 AND 63), 2)
      else if str ! 2 AND 0xc0 \<noteq> 0x80 then Some (0xfffd, 2)
      else if str ! 0 AND 0x10 = 0
        then Some (push_bit 12 (ucast (str ! 0 AND 15)) OR push_bit 6 (ucast (str ! 1 AND 63)) OR ucast (str ! 2 AND 63), 3)
      else if str ! 3 AND 0xc0 \<noteq> 0x80 then Some (0xfffd, 3)
      else None)"

text \<open>The number of bytes that the first byte announces; the shift is by 30 places at most.\<close>

definition utf8_char_len :: "uint8 \<Rightarrow> nat" where
  "utf8_char_len c = unat (drop_bit (unat (drop_bit 3 c AND 0x1e)) (0xe5000000 :: uint32) AND 3) + 1"

text \<open>The loop of \<open>_lendian_unicode_to_utf8\<close>: how much of the source is consumed, and the output.\<close>

function lendian_loop :: "bytes \<Rightarrow> nat \<Rightarrow> nat \<Rightarrow> nat \<Rightarrow> bytes \<Rightarrow> nat \<times> bytes" where
  "lendian_loop src srcLimit dstLimit srcCount dst =
     (if srcCount < srcLimit then
        let utf8 = u_lendian_to_utf8 src srcCount
        in if length dst + length utf8 > dstLimit then (srcCount, dst)
           else lendian_loop src srcLimit dstLimit (srcCount + 2) (dst @ utf8)
      else (srcCount, dst))"
  by pat_completeness auto
termination by (relation "measure (\<lambda>(src, srcLimit, dstLimit, srcCount, dst). srcLimit - srcCount)") auto

declare lendian_loop.simps [simp del]

definition lendian_unicode_to_utf8 :: "bytes \<Rightarrow> nat \<Rightarrow> nat \<Rightarrow> status_t \<times> nat \<times> bytes" where
  "lendian_unicode_to_utf8 src srcLen dstLen =
     (let (srcCount, dst) = lendian_loop src srcLen dstLen 0 []
      in (if length dst > 0 then B_OK else B_ERROR, srcCount, dst))"

definition unicode_to_utf8 :: "bytes \<Rightarrow> nat \<Rightarrow> nat \<Rightarrow> status_t \<times> bytes" where
  "unicode_to_utf8 uni unilen utf8len =
     (let (result, srcCount, utf8) = lendian_unicode_to_utf8 uni unilen utf8len
      in if srcCount < unilen then (B_ERROR, utf8) else (result, utf8))"

lemma utf8_to_u_consumes: "utf8_to_u_hostendian str = Some (u, n) \<Longrightarrow> 0 < n"
  by (auto simp: utf8_to_u_hostendian_def split: if_split_asm)

text \<open>
  The loop of \<open>_utf8_to_lendian_unicode\<close>: an error, or what is left of the source and the output. The
  source ends with the zero of the string; \<open>dstLen\<close> is the room for the output.
\<close>

function utf8_loop :: "bytes \<Rightarrow> nat \<Rightarrow> bytes \<Rightarrow> status_t + bytes \<times> bytes" where
  "utf8_loop src dstLen dst =
     (if src \<noteq> [] \<and> length dst + 1 < dstLen then
        if utf8_char_len (src ! 0) > length src then Inr (src, dst)
        else
          case utf8_to_u_hostendian src of
            None \<Rightarrow> Inl EINVAL
          | Some (u, n) \<Rightarrow> utf8_loop (drop n src) dstLen (dst @ [ucast (u AND 0xff), ucast (drop_bit 8 u)])
      else Inr (src, dst))"
  by pat_completeness auto
termination by (relation "measure (\<lambda>(src, dstLen, dst). length src)") (auto dest: utf8_to_u_consumes)

declare utf8_loop.simps [simp del]

definition utf8_to_lendian_unicode :: "bytes \<Rightarrow> nat \<Rightarrow> status_t \<times> nat \<times> bytes" where
  "utf8_to_lendian_unicode src dstLen =
     (case utf8_loop src dstLen [] of
        Inl err \<Rightarrow> (err, length src, [])
      | Inr (rest, dst) \<Rightarrow> (if length dst > 0 then B_OK else B_ERROR, length src - length rest, dst))"

text \<open>The result is an error or the length of the output, which comes with it.\<close>

definition utf8_to_unicode :: "bytes \<Rightarrow> nat \<Rightarrow> int \<times> bytes" where
  "utf8_to_unicode utf8 unilen =
     (let origlen = length utf8 + 1;
          (result, utf8len, uni) = utf8_to_lendian_unicode (utf8 @ [0]) unilen
      in if origlen < utf8len then (B_ERROR, uni)
         else if result = B_OK then (int (length uni), uni) else (result, uni))"

subsection \<open>The DOS code page\<close>

fun one_loop :: "uint16 list \<Rightarrow> bytes \<Rightarrow> nat \<Rightarrow> bytes \<Rightarrow> bytes" where
  "one_loop table [] dstLimit dst = dst"
| "one_loop table (c # src) dstLimit dst =
     (let utf8 = u_hostendian_to_utf8 (table ! unat c) 0
      in if length dst + length utf8 > dstLimit then dst else one_loop table src dstLimit (dst @ utf8))"

definition one_to_utf8 :: "uint16 list \<Rightarrow> bytes \<Rightarrow> nat \<Rightarrow> bytes" where
  "one_to_utf8 table src dstLen = one_loop table src dstLen []"

text \<open>The name with a dot and without padding.\<close>

definition normalized_name :: "bytes \<Rightarrow> uint8 \<Rightarrow> bytes" where
  "normalized_name msdos toLower =
     (let name = takeWhile (\<lambda>c. c \<noteq> 0x20) (take 8 msdos);
          base = map (\<lambda>i. if i = 0 \<and> name ! i = 5 then 0xe5
                          else if toLower AND 0x08 \<noteq> 0 then lower_case (name ! i) else name ! i) [0..<length name];
          ext = takeWhile (\<lambda>c. c \<noteq> 0x20) (take 3 (drop 8 msdos));
          ext = map (\<lambda>c. if toLower AND 0x10 \<noteq> 0 then lower_case c else c) ext
      in base @ (if msdos ! 8 \<noteq> 0x20 then 0x2e # ext else []))"

text \<open>No caller looks at the status; these are the bytes that are stored, the final zero among them if it fits.\<close>

definition msdos_to_utf8 :: "bytes \<Rightarrow> nat \<Rightarrow> uint8 \<Rightarrow> bytes" where
  "msdos_to_utf8 msdos utf8len toLower = one_to_utf8 msdostou (normalized_name msdos toLower @ [0]) utf8len"

subsection \<open>Whether a name needs more than a short one\<close>

definition is_unicode_japanese :: "uint16 \<Rightarrow> bool" where
  "is_unicode_japanese c \<longleftrightarrow>
     c \<ge> 0x3000 \<and> c \<le> 0x30ff \<or> c \<ge> 0x3200 \<and> c \<le> 0x3400 \<or> c \<ge> 0x4e00 \<and> c \<le> 0x9fff \<or>
     c \<ge> 0xf900 \<and> c \<le> 0xfaff \<or> c \<ge> 0xfe30 \<and> c \<le> 0xfe6f \<or> c \<ge> 0xff00 \<and> c \<le> 0xffef"

definition is_initial_sjis_byte :: "uint8 \<Rightarrow> bool" where
  "is_initial_sjis_byte c \<longleftrightarrow> c \<ge> 0x81 \<and> c \<le> 0x9f \<or> c \<ge> 0xe0 \<and> c \<le> 0xef"

text \<open>The loop over the units up to the final zero; \<open>None\<close> when there is none in the array.\<close>

fun japanese_loop :: "bytes \<Rightarrow> bool option" where
  "japanese_loop (a # b # rest) =
     (if a = 0 \<and> b = 0 then Some False
      else if is_unicode_japanese (push_bit 8 (ucast b) OR ucast a) then Some True
      else japanese_loop rest)"
| "japanese_loop _ = None"

text \<open>\<open>for (i=0;i<8;i++)\<close> with \<open>k\<close> rounds to go: the result of the function, or the position.\<close>

fun base_loop :: "bytes \<Rightarrow> nat \<Rightarrow> nat \<Rightarrow> bool + nat" where
  "base_loop utf8 i 0 = Inr i"
| "base_loop utf8 i (Suc k) =
     (if cchar utf8 i = 0 then Inl False
      else if cchar utf8 i = 0x2e then Inr i
      else if cchar utf8 i \<notin> set acceptable then Inl True
      else base_loop utf8 (i + 1) k)"

fun ext_loop :: "bytes \<Rightarrow> nat \<Rightarrow> nat \<Rightarrow> bool + nat" where
  "ext_loop utf8 i 0 = Inr i"
| "ext_loop utf8 i (Suc k) =
     (if cchar utf8 i = 0 then Inl False
      else if cchar utf8 i \<notin> set acceptable then Inl True
      else ext_loop utf8 (i + 1) k)"

definition needs_long_name :: "bytes \<Rightarrow> bool" where
  "needs_long_name utf8 =
     (case base_loop utf8 0 8 of
        Inl b \<Rightarrow> b
      | Inr i \<Rightarrow>
          if cchar utf8 i = 0 then False
          else if i = 8 \<and> cchar utf8 i \<noteq> 0x2e then True
          else if cchar utf8 (i + 1) = 0 then True
          else (case ext_loop utf8 (i + 1) 3 of Inl b \<Rightarrow> b | Inr j \<Rightarrow> cchar utf8 j \<noteq> 0))"

definition requires_long_name :: "bytes \<Rightarrow> bytes \<Rightarrow> bool option" where
  "requires_long_name utf8 unicode =
     (case japanese_loop unicode of
        None \<Rightarrow> None
      | Some True \<Rightarrow> Some True
      | Some False \<Rightarrow> Some (needs_long_name utf8))"

definition MS_DOS_CONVERSION :: int where "MS_DOS_CONVERSION = 1"
definition SJIS_CONVERSION :: int where "SJIS_CONVERSION = 2"

definition BEGINS_UTF8CHAR :: "uint8 \<Rightarrow> bool" where
  "BEGINS_UTF8CHAR c \<longleftrightarrow> c AND 0xc0 \<noteq> 0x80"

text \<open>The characters before the first dot: \<open>None\<close> for the result \<open>true\<close>, else their number and the rest from the dot on.\<close>

fun leading_loop :: "bytes \<Rightarrow> bytes \<Rightarrow> nat \<Rightarrow> (nat \<times> bytes) option" where
  "leading_loop nshort [] leading = Some (leading, [])"
| "leading_loop nshort (c # name) leading =
     (if \<not> BEGINS_UTF8CHAR c then leading_loop nshort name leading
      else if c = 0x2e then Some (leading, c # name)
      else if leading + 1 > 8 then None
      else if nshort ! leading = 0x5f \<and> c \<noteq> 0x5f then None
      else leading_loop nshort name (leading + 1))"

text \<open>The characters behind it.\<close>

fun trailing_loop :: "bytes \<Rightarrow> nat \<Rightarrow> bytes \<Rightarrow> nat \<Rightarrow> nat option" where
  "trailing_loop nshort leading [] trailing = Some trailing"
| "trailing_loop nshort leading (c # name) trailing =
     (if \<not> BEGINS_UTF8CHAR c then trailing_loop nshort leading name trailing
      else if c = 0x2e then None
      else if trailing + 1 > 3 then None
      else if nshort ! (leading + trailing) = 0x5f \<and> c \<noteq> 0x5f then None
      else trailing_loop nshort leading name (trailing + 1))"

definition requires_munged_short_name :: "bytes \<Rightarrow> bytes \<Rightarrow> int \<Rightarrow> bool" where
  "requires_munged_short_name utf8name nshort encoding =
     (if encoding \<noteq> MS_DOS_CONVERSION then True
      else
        case leading_loop nshort utf8name 0 of
          None \<Rightarrow> True
        | Some (leading, rest) \<Rightarrow>
            (case trailing_loop nshort leading (tl rest) 0 of
               None \<Rightarrow> True
             | Some trailing \<Rightarrow>
                 length (filter (\<lambda>c. c \<noteq> 0x20) (take 8 nshort)) \<noteq> leading \<or>
                 length (filter (\<lambda>c. c \<noteq> 0x20) (take 3 (drop 8 nshort))) \<noteq> trailing))"

subsection \<open>Patching a short name\<close>

text \<open>\<open>sprintf(buffer, "~%u", value)\<close>\<close>

fun decimal :: "nat \<Rightarrow> bytes" where
  "decimal n = (if n < 10 then [0x30 + of_nat n] else decimal (n div 10) @ [0x30 + of_nat (n mod 10)])"

declare decimal.simps [simp del]

definition tilde_number :: "nat \<Rightarrow> bytes" where
  "tilde_number value = 0x7e # decimal value"

definition put_bytes :: "nat \<Rightarrow> bytes \<Rightarrow> bytes \<Rightarrow> bytes" where
  "put_bytes i buffer nshort = take i nshort @ buffer @ drop (i + length buffer) nshort"

text \<open>\<open>while ((nshort[i] == ' ') && (i > 0)) i--;\<close>\<close>

fun back_over_spaces :: "bytes \<Rightarrow> nat \<Rightarrow> nat" where
  "back_over_spaces nshort 0 = 0"
| "back_over_spaces nshort (Suc i) = (if nshort ! Suc i = 0x20 then back_over_spaces nshort i else Suc i)"

definition munge_short_name_english :: "bytes \<Rightarrow> nat \<Rightarrow> bytes" where
  "munge_short_name_english nshort value =
     (let buffer = tilde_number value
      in put_bytes (back_over_spaces nshort (7 - length buffer) + 1) buffer nshort)"

text \<open>The loop that finds the last place for the number, with \<open>n\<close> for \<open>8 - len\<close>.\<close>

function munge_sjis_loop :: "bytes \<Rightarrow> nat \<Rightarrow> nat \<Rightarrow> nat \<Rightarrow> nat" where
  "munge_sjis_loop nshort n i place =
     (if i \<le> n then
        if nshort ! i = 0x20 then i
        else munge_sjis_loop nshort n (if is_initial_sjis_byte (nshort ! i) then i + 2 else i + 1) i
      else place)"
  by pat_completeness auto
termination by (relation "measure (\<lambda>(nshort, n, i, place). Suc n - i)") auto

declare munge_sjis_loop.simps [simp del]

definition munge_short_name_sjis :: "bytes \<Rightarrow> nat \<Rightarrow> bytes" where
  "munge_short_name_sjis nshort value =
     (let buffer = tilde_number value;
          place = munge_sjis_loop nshort (8 - length buffer) 0 0
      in put_bytes place (buffer @ replicate (8 - (place + length buffer)) 0x20) nshort)"

text \<open>The callers ignore the status; the short name is left alone when it is \<open>EINVAL\<close>.\<close>

definition munge_short_name1 :: "bytes \<Rightarrow> nat \<Rightarrow> int \<Rightarrow> bytes" where
  "munge_short_name1 nshort iteration encoding =
     (if encoding = MS_DOS_CONVERSION then munge_short_name_english nshort iteration
      else if encoding = SJIS_CONVERSION then munge_short_name_sjis nshort iteration
      else nshort)"

text \<open>\<open>time\<close> is the result of \<open>system_time\<close>.\<close>

definition munge_short_name2 :: "bytes \<Rightarrow> nat \<Rightarrow> int \<Rightarrow> bytes" where
  "munge_short_name2 nshort time encoding =
     (let value = time mod 100000;
          value = (if value = 0 then 1 else value)
      in if encoding = MS_DOS_CONVERSION then munge_short_name_english nshort value
         else if encoding = SJIS_CONVERSION then munge_short_name_sjis nshort value
         else nshort)"

subsection \<open>Short names in the DOS code page\<close>

text \<open>\<open>for (c = 0; c < 0x100; c++)\<close>: the first character that stands for \<open>match\<close>, \<open>0x100\<close> if there is none.\<close>

fun code_page_search :: "uint16 list \<Rightarrow> uint16 \<Rightarrow> nat \<Rightarrow> nat" where
  "code_page_search [] match c = c"
| "code_page_search (u # table) match c =
     (if c \<ge> 0x100 then c else if u = match then c else code_page_search table match (c + 1))"

fun list_index :: "bytes \<Rightarrow> uint8 \<Rightarrow> nat" where
  "list_index [] c = 0"
| "list_index (x # xs) c = (if x = c then 0 else Suc (list_index xs c))"

text \<open>What is stored for a character: an error, nothing, or a byte.\<close>

definition short_char :: "uint16 \<Rightarrow> status_t + uint8 option" where
  "short_char match =
     (let n = code_page_search msdostou match 0;
          c = of_nat n :: uint8
      in if n \<ge> 0x100 then Inr None
         else if c \<in> set illegal then Inl EINVAL
         else if c \<ge> 0x61 \<and> c \<le> 0x7a then Inr (Some (c - 0x61 + 0x41))
         else if c \<in> set underbar then Inr (Some 0x5f)
         else if c \<in> set capitalize_from then Inr (Some (capitalize_to ! list_index capitalize_from c))
         else if c \<in> set acceptable \<or> c \<in> set capitalize_to then Inr (Some c)
         else Inr None)"

text \<open>The two loops; the result is that of the function if the loop returns from it.\<close>

fun short_base :: "uint16 list \<Rightarrow> nat \<Rightarrow> bytes \<Rightarrow> status_t option \<times> bytes" where
  "short_base [] i nshort = (None, nshort)"
| "short_base (match # puni) i nshort =
     (if i \<ge> 8 then (None, nshort)
      else if match = 0 then (Some B_OK, nshort)
      else if match = 0x2e then if i = 0 then short_base puni i nshort else (None, nshort)
      else case short_char match of
             Inl err \<Rightarrow> (Some err, nshort)
           | Inr None \<Rightarrow> short_base puni i nshort
           | Inr (Some c) \<Rightarrow> short_base puni (i + 1) (nshort[i := c]))"

fun short_ext :: "uint16 list \<Rightarrow> nat \<Rightarrow> bytes \<Rightarrow> status_t \<times> bytes" where
  "short_ext [] i nshort = (B_OK, nshort)"
| "short_ext (match # puni) i nshort =
     (if i \<ge> 11 then (B_OK, nshort)
      else if match = 0 then (B_OK, nshort)
      else case short_char match of
             Inl err \<Rightarrow> (err, nshort)
           | Inr None \<Rightarrow> short_ext puni i nshort
           | Inr (Some c) \<Rightarrow> short_ext puni (i + 1) (nshort[i := c]))"

text \<open>The final dot, searched from the end.\<close>

fun final_dot :: "uint16 list \<Rightarrow> nat \<Rightarrow> nat option" where
  "final_dot us 0 = None"
| "final_dot us (Suc n) = (if us ! n = 0x2e then Some n else final_dot us n)"

definition generate_short_name_msdos :: "uint16 list \<Rightarrow> bytes \<Rightarrow> status_t \<times> bytes" where
  "generate_short_name_msdos us nshort =
     (case short_base us 0 nshort of
        (Some result, nshort) \<Rightarrow> (result, nshort)
      | (None, nshort) \<Rightarrow>
          (case final_dot us (length us) of
             None \<Rightarrow> (B_OK, nshort)
           | Some n \<Rightarrow> short_ext (drop (n + 1) us) 8 nshort))"

subsection \<open>Short names in Shift-JIS\<close>

text \<open>The position of a unit in a table that ends with \<open>0xffff\<close>.\<close>

fun table_search :: "uint16 list \<Rightarrow> uint16 \<Rightarrow> nat \<Rightarrow> nat option" where
  "table_search [] unicode i = None"
| "table_search (u # table) unicode i =
     (if u = 0xffff then None else if unicode = u then Some i else table_search table unicode (i + 1))"

fun tables_search :: "(uint16 list \<times> uint16) list \<Rightarrow> uint16 \<Rightarrow> (uint16 \<times> nat) option" where
  "tables_search [] unicode = None"
| "tables_search ((table, offset) # rest) unicode =
     (case table_search table unicode 0 of Some i \<Rightarrow> Some (offset, i) | None \<Rightarrow> tables_search rest unicode)"

text \<open>The bytes for a unit.\<close>

definition sjis_bytes :: "uint16 \<Rightarrow> bytes" where
  "sjis_bytes unicode =
     (case tables_search sjistables unicode of
        None \<Rightarrow> [0x1a]
      | Some (offset, i) \<Rightarrow>
          if offset = 0 then [of_nat i]
          else let sjis = offset + of_nat i in [ucast (drop_bit 8 sjis), ucast sjis])"

function utf8_sjis_loop :: "bytes \<Rightarrow> nat \<Rightarrow> bytes \<Rightarrow> status_t + bytes \<times> bytes" where
  "utf8_sjis_loop src dstLimit dst =
     (if src \<noteq> [] \<and> length dst < dstLimit then
        if utf8_char_len (src ! 0) > length src then Inr (src, dst)
        else
          case utf8_to_u_hostendian src of
            None \<Rightarrow> Inl EINVAL
          | Some (u, n) \<Rightarrow>
              if length dst + length (sjis_bytes u) > dstLimit then Inr (src, dst)
              else utf8_sjis_loop (drop n src) dstLimit (dst @ sjis_bytes u)
      else Inr (src, dst))"
  by pat_completeness auto
termination by (relation "measure (\<lambda>(src, dstLen, dst). length src)") (auto dest: utf8_to_u_consumes)

declare utf8_sjis_loop.simps [simp del]

text \<open>
  The loops that fill the name and the extension read on in \<open>sjis\<close>; \<open>None\<close> means that they read behind
  what has been stored there. The flag tells that the final zero was met.
\<close>

fun sjis_base :: "nat \<Rightarrow> bytes \<Rightarrow> bytes \<Rightarrow> (bytes \<times> bytes \<times> bool) option" where
  "sjis_base state [] nshort = (if state < 8 then None else Some ([], nshort, False))"
| "sjis_base state (c # s) nshort =
     (if state < 8 then
        if is_initial_sjis_byte c then
          if state < 7 then
            (case s of
               [] \<Rightarrow> None
             | d # s' \<Rightarrow> sjis_base (state + 2) s' (nshort[state := c, state + 1 := d]))
          else Some (c # s, nshort, False)
        else if c = 0x2e then Some (c # s, nshort, False)
        else if c = 0 then Some (c # s, nshort, True)
        else sjis_base (state + 1) s (nshort[state := (if c \<ge> 0x61 \<and> c \<le> 0x7a then c - 0x61 + 0x41 else c)])
      else Some (c # s, nshort, False))"

fun sjis_ext :: "nat \<Rightarrow> bytes \<Rightarrow> bytes \<Rightarrow> bytes option" where
  "sjis_ext state [] nshort = (if state < 11 then None else Some nshort)"
| "sjis_ext state (c # s) nshort =
     (if state < 11 then
        if is_initial_sjis_byte c then
          if state < 10 then
            (case s of [] \<Rightarrow> None | d # s' \<Rightarrow> sjis_ext (state + 2) s' (nshort[state := c, state + 1 := d]))
          else Some nshort
        else if c = 0 then Some nshort
        else sjis_ext (state + 1) s (nshort[state := (if c \<ge> 0x61 \<and> c \<le> 0x7a then c - 0x61 + 0x41 else c)])
      else Some nshort)"

text \<open>What follows the last dot of the string, if it has a dot.\<close>

fun behind_last_dot :: "bytes \<Rightarrow> bytes option" where
  "behind_last_dot [] = None"
| "behind_last_dot (c # s) =
     (if c = 0 then None
      else case behind_last_dot s of Some r \<Rightarrow> Some r | None \<Rightarrow> if c = 0x2e then Some s else None)"

definition sjis_short_name :: "bytes \<Rightarrow> bytes \<Rightarrow> bytes option" where
  "sjis_short_name sjis nshort =
     (case sjis_base 0 (dropWhile (\<lambda>c. c = 0x2e) sjis) nshort of
        None \<Rightarrow> None
      | Some (s, nshort, True) \<Rightarrow> Some nshort
      | Some (s, nshort, False) \<Rightarrow>
          (case behind_last_dot s of None \<Rightarrow> Some nshort | Some s \<Rightarrow> sjis_ext 8 s nshort))"

definition generate_short_name_sjis :: "nspace \<Rightarrow> bytes \<Rightarrow> nat \<Rightarrow> bytes \<Rightarrow> status_t \<times> bytes \<times> nspace" where
  "generate_short_name_sjis vol utf8 unilen nshort =
     (let (ok, vol) = malloc vol
      in if \<not> ok then (ENOMEM, nshort, vol)
         else
           case utf8_sjis_loop (utf8 @ [0]) unilen [] of
             Inl err \<Rightarrow> (err, nshort, vol)
           | Inr (rest, sjis) \<Rightarrow>
               if sjis = [] then (B_ERROR, nshort, vol)
               else if rest \<noteq> [] then (EINVAL, nshort, vol)
               else case sjis_short_name sjis nshort of
                      None \<Rightarrow> (B_OK, nshort, raise_fault Out_of_bounds vol)
                    | Some nshort \<Rightarrow> (B_OK, nshort, vol))"

text \<open>The status, the short name and the encoding.\<close>

definition generate_short_name ::
  "nspace \<Rightarrow> bytes \<Rightarrow> bytes \<Rightarrow> nat \<Rightarrow> status_t \<times> bytes \<times> int \<times> nspace" where
  "generate_short_name vol name uni unilen =
     (let nshort = replicate 11 0x20;
          japanese = (\<exists>i \<in> set [0..<unilen]. even i \<and> is_unicode_japanese (le_unit uni i));
          us = map (\<lambda>i. le_unit uni (2 * i)) [0..<unilen div 2];
          (result, nshort, vol) =
            (if japanese then generate_short_name_sjis vol name unilen nshort
             else let (result, nshort) = generate_short_name_msdos us nshort in (result, nshort, vol));
          nshort = (if result = B_OK \<and> nshort = replicate 11 0x20 then nshort[0 := 0x5f] else nshort)
      in (result, nshort, if japanese then SJIS_CONVERSION else MS_DOS_CONVERSION, vol))"

end
