(* ===== verification/Environment.thy ===== *)
theory Environment
  imports Iter Dir_List Encodings
begin

section \<open>What the file system gets from elsewhere\<close>

text \<open>
  The table of MIME types that all file systems share (\<open>set_mime\<close> gives the type for a file name), the
  time zone and the clock of the system are collected in one parameter: \<open>now\<close> is the result of \<open>time\<close>,
  \<open>system_time\<close> that of the function of this name, which the code calls at most once in a round of a
  loop, for the round of that number.
\<close>

record environment =
  tzoffset :: int
  now :: int
  set_mime :: "bytes \<Rightarrow> bytes option"
  system_time :: "nat \<Rightarrow> nat"

text \<open>\<open>strcasecmp\<close> in the C locale.\<close>

definition same_nocase :: "bytes \<Rightarrow> bytes \<Rightarrow> bool" where
  "same_nocase a b \<longleftrightarrow> map lower_case a = map lower_case b"

text \<open>Writing a row of bytes into a directory entry.\<close>

fun write_entry :: "int \<times> nat \<Rightarrow> nat \<Rightarrow> bytes \<Rightarrow> nspace \<Rightarrow> nspace" where
  "write_entry p k [] vol = vol"
| "write_entry p k (x # xs) vol = write_entry p (k + 1) xs (set_entry_byte p k x vol)"

definition le16 :: "uint32 \<Rightarrow> bytes" where
  "le16 v = [byte_of v 0, byte_of v 1]"

definition le32 :: "uint32 \<Rightarrow> bytes" where
  "le32 v = [byte_of v 0, byte_of v 1, byte_of v 2, byte_of v 3]"

text \<open>A \<open>struct diri\<close> on the stack before \<open>diri_init\<close>.\<close>

definition fresh_diri :: diri where
  "fresh_diri = \<lparr>diri_csi = \<lparr>csi_cluster = 0, csi_sector = 0\<rparr>, starting_cluster = 0, current_index = 0,
     current_block = None\<rparr>"

definition VNODE_PARENT_DIR_CLUSTER :: "vnode \<Rightarrow> uint32" where
  "VNODE_PARENT_DIR_CLUSTER node = CLUSTER_OF_DIR_CLUSTER_VNID (vn_dir_vnid node)"

section \<open>Writing a vnode back to its directory entry, and the length of a chain\<close>

text \<open>
  \<open>write_vnode_entry\<close> of \<open>file.c\<close> and \<open>set_fat_chain_length\<close> of \<open>fat.c\<close>, which calls it. A vnode is
  passed by value; a function that changes it returns it. Notifications of other parts of the
  system have no effect on the state and are left out.
\<close>

definition write_vnode_entry :: "environment \<Rightarrow> nspace \<Rightarrow> vnode \<Rightarrow> status_t \<times> nspace" where
  "write_vnode_entry E vol node =
     (if vn_cluster node \<noteq> 0 \<and> \<not> IS_DATA_CLUSTER vol (vn_cluster node) then (EINVAL, vol)
      else
        let (buffer, diri, vol) = diri_init vol (VNODE_PARENT_DIR_CLUSTER node) (vn_eindex node) fresh_diri
        in case buffer of
             None \<Rightarrow> (ENOENT, vol)
           | Some p \<Rightarrow>
               let vol = set_entry_byte p 0x0b (ucast (vn_mode node)) vol;
                   vol = write_entry p 0xc (replicate (0x16 - 0xc) 0) vol;
                   vol = write_entry p 0x0e (le32 (time_t2dos (tzoffset E) (vn_st_crtim node))) vol;
                   vol = write_entry p 0x16 (le32 (time_t2dos (tzoffset E) (vn_st_time node))) vol;
                   vol = write_entry p 0x1a (le16 (vn_cluster node)) vol;
                   vol = (if fat_bits vol = 32 then write_entry p 0x14 (le16 (drop_bit 16 (vn_cluster node))) vol else vol);
                   vol = (if vn_mode node AND FAT_SUBDIR \<noteq> 0 then write_entry p 0x1c [0, 0, 0, 0] vol
                          else write_entry p 0x1c (le32 (word_of_int (vn_st_size node))) vol)
               in (B_OK, snd (diri_free vol diri)))"

text \<open>
  The loop that repeats \<open>vcache_set_entry\<close> until it succeeds. Every failure for lack of memory uses
  up one outcome of \<open>malloc\<close>; the first argument bounds the attempts.
\<close>

fun vcache_set_entry_retry :: "nat \<Rightarrow> nspace \<Rightarrow> ino_t \<Rightarrow> ino_t \<Rightarrow> status_t \<times> nspace" where
  "vcache_set_entry_retry 0 vol vnid loc = (B_OK, raise_fault Endless_loop vol)"
| "vcache_set_entry_retry (Suc k) vol vnid loc =
     (let (result, vol) = vcache_set_entry vol vnid loc
      in if result = B_OK then (result, vol) else vcache_set_entry_retry k vol vnid loc)"

abbreviation vcache_set_entry_until_ok :: "nspace \<Rightarrow> ino_t \<Rightarrow> ino_t \<Rightarrow> status_t \<times> nspace" where
  "vcache_set_entry_until_ok vol vnid loc \<equiv> vcache_set_entry_retry (length (mem vol) + 1) vol vnid loc"

text \<open>
  The number of clusters for a size, computed in 64 bits with the product of the two 32-bit numbers
  wrapped around and with division towards zero.
\<close>

definition clusters_of_size :: "nspace \<Rightarrow> int \<Rightarrow> int" where
  "clusters_of_size vol st_size =
     (st_size + uint (bytes_per_sector vol * sectors_per_cluster vol) - 1)
       sdiv uint (bytes_per_sector vol) sdiv uint (sectors_per_cluster vol)"

text \<open>\<open>for (i = 1; i < clusters; i++)\<close>: returns \<open>c\<close>, \<open>n\<close> and whether the loop ran to its end.\<close>

fun chain_walk :: "nat \<Rightarrow> nspace \<Rightarrow> int \<Rightarrow> int \<Rightarrow> int \<times> int \<times> bool \<times> nspace" where
  "chain_walk 0 vol c n = (c, n, True, vol)"
| "chain_walk (Suc k) vol c n =
     (if \<not> IS_DATA_CLUSTER_int32 vol n then (c, n, False, vol)
      else let c = n; (n, vol) = get_fat_entry vol (word_of_int c) in chain_walk k vol c n)"

definition set_chain_empty :: "environment \<Rightarrow> nspace \<Rightarrow> vnode \<Rightarrow> bool \<Rightarrow> status_t \<times> vnode \<times> nspace" where
  "set_chain_empty E vol node discardBlockCache =
     (if vn_cluster node = 0 then (B_OK, node, vol)
      else
        let (result, vol) = clear_fat_chain vol (vn_cluster node) discardBlockCache
        in if result \<noteq> B_OK then (result, node, vol)
           else
             let node = node\<lparr>vn_cluster := 0, vn_end_cluster := 0\<rparr>;
                 (result, vol) = vcache_set_entry_until_ok vol (vn_vnid node)
                   (GENERATE_DIR_INDEX_VNID (vn_dir_vnid node) (vn_sindex node));
                 (_, vol) = write_vnode_entry E vol node
             in (result, node, vol))"

definition set_chain_first :: "environment \<Rightarrow> nspace \<Rightarrow> vnode \<Rightarrow> uint32 \<Rightarrow> status_t \<times> vnode \<times> nspace" where
  "set_chain_first E vol node clusters =
     (case allocate_n_fat_entries vol (sint clusters) of
        (result, None, vol) \<Rightarrow> (result, node, vol)
      | (_, Some n, vol) \<Rightarrow>
          let node = node\<lparr>vn_cluster := word_of_int n\<rparr>;
              (e, vol) = get_nth_fat_entry vol n (unat (clusters - 1));
              node = node\<lparr>vn_end_cluster := word_of_int e\<rparr>;
              (result, vol) = vcache_set_entry_until_ok vol (vn_vnid node)
                (GENERATE_DIR_CLUSTER_VNID (vn_dir_vnid node) (vn_cluster node));
              (_, vol) = write_vnode_entry E vol node
          in (result, node, vol))"

definition set_chain_grow :: "nspace \<Rightarrow> vnode \<Rightarrow> uint32 \<Rightarrow> status_t \<times> vnode \<times> nspace" where
  "set_chain_grow vol node extra =
     (case allocate_n_fat_entries vol (sint extra) of
        (result, None, vol) \<Rightarrow> (result, node, vol)
      | (_, Some n, vol) \<Rightarrow>
          let (result, vol) = set_fat_entry vol (vn_end_cluster node) n
          in if result < B_OK then (result, node, snd (clear_fat_chain vol (word_of_int n) False))
             else let (e, vol) = get_nth_fat_entry vol n (unat (extra - 1))
                  in (result, node\<lparr>vn_end_cluster := word_of_int e\<rparr>, vol))"

definition set_chain_shrink :: "nspace \<Rightarrow> vnode \<Rightarrow> uint32 \<Rightarrow> bool \<Rightarrow> status_t \<times> vnode \<times> nspace" where
  "set_chain_shrink vol node clusters discardBlockCache =
     (let (n, vol) = get_fat_entry vol (vn_cluster node);
          (c, n, complete, vol) = chain_walk (unat clusters - 1) vol (sint (vn_cluster node)) n
      in if complete \<and> n = END_FAT_ENTRY then (B_OK, node, vol)
         else if n < 0 then (n, node, vol)
         else if n \<noteq> END_FAT_ENTRY \<and> \<not> IS_DATA_CLUSTER_int32 vol n then (B_BAD_VALUE, node, vol)
         else
           let (result, vol) = set_fat_entry vol (word_of_int c) 0x0fffffff
           in if result \<noteq> B_OK then (result, node, vol)
              else
                let node = node\<lparr>vn_end_cluster := word_of_int c\<rparr>;
                    (result, vol) = clear_fat_chain vol (word_of_int n) discardBlockCache
                in (result, node, vol))"

definition set_fat_chain_length ::
  "environment \<Rightarrow> nspace \<Rightarrow> vnode \<Rightarrow> uint32 \<Rightarrow> bool \<Rightarrow> status_t \<times> vnode \<times> nspace" where
  "set_fat_chain_length E vol node clusters discardBlockCache =
     (if IS_FIXED_ROOT (vn_cluster node) \<or> (\<not> IS_DATA_CLUSTER vol (vn_cluster node) \<and> vn_cluster node \<noteq> 0)
      then (B_BAD_VALUE, node, vol)
      else if clusters = 0 then set_chain_empty E vol node discardBlockCache
      else if vn_cluster node = 0 then set_chain_first E vol node clusters
      else
        let i = word_of_int (clusters_of_size vol (vn_st_size node))
        in if i = clusters then (B_OK, node, vol)
           else if clusters > i then set_chain_grow vol node (clusters - i)
           else set_chain_shrink vol node clusters discardBlockCache)"

end
