(* ===== verification/Directory.thy ===== *)
theory Directory
  imports Environment
begin

section \<open>Reading directories: dir.c\<close>

text \<open>
  The scan of a directory for its next entry, with the assembly of long names from the entries that
  precede a short one, and the searches built on it.
\<close>

record dirent_info =
  di_sindex :: uint32
  di_eindex :: uint32
  di_mode :: uint32
  di_cluster :: uint32
  di_size :: uint32
  di_time :: uint32
  di_creation_time :: uint32

text \<open>The local state of \<open>_next_dirent_\<close> that survives from one entry to the next.\<close>

record lfn_state =
  lfn_hash :: uint8
  uni :: bytes
  start_index :: uint32
  filename_len :: nat
  lfn_count :: uint32

definition no_lfn :: lfn_state where
  "no_lfn = \<lparr>lfn_hash = 0, uni = replicate 1024 0, start_index = 0xffff, filename_len = 0, lfn_count = 0\<rparr>"

text \<open>
  The offsets that \<open>for (i = 1; i < 0x20; i += 2)\<close> visits: 3 more after \<open>0x9\<close>, 2 more after \<open>0x18\<close>.
\<close>

definition lfn_offsets :: "nat list" where
  "lfn_offsets = [0x1, 0x3, 0x5, 0x7, 0x9, 0xe, 0x10, 0x12, 0x14, 0x16, 0x18, 0x1c, 0x1e]"

text \<open>Copying two-byte units until the padding \<open>0xffff\<close>: the buffer, the position, and whether padding was met.\<close>

fun lfn_copy :: "bytes \<Rightarrow> nat list \<Rightarrow> nat \<Rightarrow> bytes \<Rightarrow> bytes \<times> nat \<times> bool" where
  "lfn_copy buffer [] pos u = (u, pos, False)"
| "lfn_copy buffer (i # is) pos u =
     (if buffer ! i = 0xff \<and> buffer ! (i + 1) = 0xff then (u, pos, True)
      else lfn_copy buffer is (pos + 2) (u[pos := buffer ! i, pos + 1 := buffer ! (i + 1)]))"

definition lfn_position :: "uint32 \<Rightarrow> nat" where
  "lfn_position count = unat (2 * 13 * (count - 1))"

text \<open>
  An entry of a long name. The flag tells that the code writes outside \<open>uni\<close>: a first entry with
  the number 0 makes the position wrap around.
\<close>

definition lfn_entry :: "bytes \<Rightarrow> uint32 \<Rightarrow> lfn_state \<Rightarrow> lfn_state \<times> bool" where
  "lfn_entry buffer index s =
     (if buffer ! 0xc \<noteq> 0 \<or> buffer ! 0x1a \<noteq> 0 \<or> buffer ! 0x1b \<noteq> 0 then (s, False)
      else if start_index s = 0xffff then
        if buffer ! 0 AND 0x40 = 0 then (s, False)
        else
          let count = ucast (buffer ! 0 AND 0x1f);
              (u, pos, _) = lfn_copy buffer lfn_offsets (lfn_position count) (uni s);
              u = u[pos := 0, pos + 1 := 0]
          in (s\<lparr>lfn_hash := buffer ! 0xd, lfn_count := count, start_index := index, uni := u,
                filename_len := pos + 2\<rparr>, pos + 2 > 1024)
      else if buffer ! 0xd \<noteq> lfn_hash s then (s\<lparr>start_index := 0xffff\<rparr>, False)
      else
        let s = s\<lparr>lfn_count := lfn_count s - 1\<rparr>
        in if ucast (buffer ! 0) \<noteq> lfn_count s then (s\<lparr>start_index := 0xffff\<rparr>, False)
           else
             let (u, pos, padded) = lfn_copy buffer lfn_offsets (lfn_position (lfn_count s)) (uni s);
                 s = s\<lparr>uni := u\<rparr>
             in (if padded then s\<lparr>start_index := 0xffff\<rparr> else s, pos > 1024))"

text \<open>
  The loop over the entries: \<open>None\<close> for the end of the directory, otherwise the state at the first
  entry that is neither erased nor part of a long name. The loop visits an entry at most once
  unless the chain of the directory is cyclic; the first argument bounds the entries it visits.
\<close>

fun dirent_loop ::
  "nat \<Rightarrow> nspace \<Rightarrow> diri \<Rightarrow> entry_ptr \<Rightarrow> lfn_state \<Rightarrow> (int \<times> nat) option \<times> lfn_state \<times> diri \<times> nspace" where
  "dirent_loop 0 vol iter buffer s = (None, s, iter, raise_fault Endless_loop vol)"
| "dirent_loop (Suc k) vol iter buffer s =
     (case buffer of
        None \<Rightarrow> (None, s, iter, vol)
      | Some p \<Rightarrow>
          if entry_byte vol p 0 = 0 then (None, s, iter, vol)
          else if entry_byte vol p 0 = 0xe5 then
            let (next, iter, vol) = diri_next_entry vol iter
            in dirent_loop k vol iter next (s\<lparr>start_index := 0xffff\<rparr>)
          else if entry_byte vol p 0xb = 0xf then
            let (s, outside) = lfn_entry (entry_bytes vol p) (current_index iter) s;
                vol = (if outside then raise_fault Out_of_bounds vol else vol);
                (next, iter, vol) = diri_next_entry vol iter
            in dirent_loop k vol iter next s
          else (Some p, s, iter, vol))"

definition dir_fuel :: "nspace \<Rightarrow> nat" where
  "dir_fuel vol =
     (unat (total_clusters vol) * unat (sectors_per_cluster vol) + unat (root_sectors vol) + 1)
       * unat (entries_per_sector vol) + 2"

text \<open>
  What \<open>_next_dirent_\<close> does with the entry it found: \<open>Inl\<close> an error, \<open>Inr\<close> the start index and the
  bytes stored in \<open>filename\<close>. Where there is no zero among them, the callers read on behind them.
\<close>

definition dirent_name ::
  "nspace \<Rightarrow> diri \<Rightarrow> int \<times> nat \<Rightarrow> nat \<Rightarrow> lfn_state \<Rightarrow> status_t + uint32 \<times> bytes" where
  "dirent_name vol iter p len s =
     (let buffer = entry_bytes vol p;
          short = (current_index iter, msdos_to_utf8 buffer len (buffer ! 0xc AND 0x18))
      in if start_index s = 0xffff then Inr short
         else if lfn_count s \<noteq> 1 then Inr short
         else
           let (err, name) = unicode_to_utf8 (uni s) (filename_len s) len
           in if err \<noteq> 0 then Inl ENAMETOOLONG
              else if hash_msdos_name buffer \<noteq> lfn_hash s then Inr short
              else Inr (start_index s, name))"

definition dirent_read :: "nspace \<Rightarrow> int \<times> nat \<Rightarrow> uint32 \<Rightarrow> uint32 \<Rightarrow> dirent_info" where
  "dirent_read vol p sindex eindex =
     (let buffer = entry_bytes vol p
      in \<lparr>di_sindex = sindex, di_eindex = eindex, di_mode = ucast (buffer ! 0xb),
          di_cluster = read16 buffer 0x1a + (if fat_bits vol = 32 then 0x10000 * read16 buffer 0x14 else 0),
          di_size = read32 buffer 0x1c, di_time = read32 buffer 0x16, di_creation_time = read32 buffer 0x0e\<rparr>)"

text \<open>The result: an error, or the information and the name.\<close>

type_synonym dirent_result = "(status_t + dirent_info \<times> bytes) \<times> diri \<times> nspace"

definition next_dirent :: "nspace \<Rightarrow> diri \<Rightarrow> int \<Rightarrow> dirent_result" where
  "next_dirent vol iter len =
     (if current_block iter = None then (Inl ENOENT, iter, vol)
      else if len < 15 then (Inl ENOMEM, iter, vol)
      else
        let (found, s, iter, vol) = dirent_loop (dir_fuel vol) vol iter (diri_ptr vol iter) no_lfn
        in case found of
             None \<Rightarrow> (Inl ENOENT, iter, vol)
           | Some p \<Rightarrow>
               (case dirent_name vol iter p (nat len) s of
                  Inl err \<Rightarrow>
                    let (iter, vol) = diri_free vol iter;
                        (_, iter, vol) = diri_init vol (starting_cluster iter) (start_index s) iter
                    in (Inl err, iter, vol)
                | Inr (sindex, name) \<Rightarrow>
                    let info = dirent_read vol p sindex (current_index iter);
                        vol = (if 0 \<in> set name then vol else raise_fault Out_of_bounds vol);
                        (_, iter, vol) = diri_next_entry vol iter
                    in (Inr (info, cstring name), iter, vol)))"

text \<open>
  \<open>do ... while\<close>: skips the volume label in the root directory. Each round consumes an entry; the
  first argument bounds the rounds.
\<close>

fun next_visible ::
  "nat \<Rightarrow> nspace \<Rightarrow> vnode \<Rightarrow> diri \<Rightarrow> int \<Rightarrow> dirent_result" where
  "next_visible 0 vol dir iter len = (Inl ENOENT, iter, raise_fault Endless_loop vol)"
| "next_visible (Suc k) vol dir iter len =
     (case next_dirent vol iter len of
        (Inl err, iter, vol) \<Rightarrow> (Inl err, iter, vol)
      | (Inr (info, name), iter, vol) \<Rightarrow>
          if di_mode info AND FAT_VOLUME \<noteq> 0 \<and> vn_vnid dir = vn_vnid (root_vnode vol)
          then next_visible k vol dir iter len
          else (Inr (info, name), iter, vol))"

definition dirent_loc :: "nspace \<Rightarrow> vnode \<Rightarrow> dirent_info \<Rightarrow> ino_t" where
  "dirent_loc vol dir info =
     (if IS_DATA_CLUSTER vol (di_cluster info) then GENERATE_DIR_CLUSTER_VNID (vn_vnid dir) (di_cluster info)
      else GENERATE_DIR_INDEX_VNID (vn_vnid dir) (di_sindex info))"

text \<open>The vnode id for a location: the one in the cache, or the location itself unless another file
  has it as its id, or a new one. The flag tells that a cache entry was added.\<close>

definition vnid_for_loc :: "nspace \<Rightarrow> ino_t \<Rightarrow> (status_t + ino_t \<times> bool) \<times> nspace" where
  "vnid_for_loc vol loc =
     (case vcache_loc_to_vnid vol loc of
        (_, Some vnid) \<Rightarrow> (Inr (vnid, False), vol)
      | (_, None) \<Rightarrow>
          if find_vnid_in_vcache_status vol loc = B_OK then
            let (vnid, vol) = generate_unique_vnid vol;
                (result, vol) = add_to_vcache vol vnid loc
            in if result < 0 then (Inl result, vol) else (Inr (vnid, True), vol)
          else (Inr (loc, False), vol))"

text \<open>Every caller passes a place for the vnode id.\<close>

definition get_next_dirent ::
  "nspace \<Rightarrow> vnode \<Rightarrow> diri \<Rightarrow> int \<Rightarrow> (status_t + ino_t \<times> bytes) \<times> diri \<times> nspace" where
  "get_next_dirent vol dir iter len =
     (case next_visible (dir_fuel vol) vol dir iter len of
        (Inl err, iter, vol) \<Rightarrow> (Inl err, iter, vol)
      | (Inr (info, filename), iter, vol) \<Rightarrow>
          if filename = chars ''.'' then (Inr (vn_vnid dir, filename), iter, vol)
          else if filename = chars ''..'' then (Inr (vn_dir_vnid dir, filename), iter, vol)
          else
            (case vnid_for_loc vol (dirent_loc vol dir info) of
               (Inl err, vol) \<Rightarrow> (Inl err, iter, vol)
             | (Inr (vnid, added), vol) \<Rightarrow>
                 if di_mode info AND FAT_SUBDIR \<noteq> 0 \<and> dlist_find vol (di_cluster info) = -1 then
                   let (result, vol) = dlist_add vol vnid
                   in if result < 0
                      then (Inl result, iter, if added then snd (remove_from_vcache vol vnid) else vol)
                      else (Inr (vnid, filename), iter, vol)
                 else (Inr (vnid, filename), iter, vol)))"

subsection \<open>Vnodes\<close>

definition S_IFREG :: uint32 where "S_IFREG = 0x8000"
definition S_IFDIR :: uint32 where "S_IFDIR = 0x4000"
definition S_IRUGO :: uint32 where "S_IRUGO = 0x124"
definition S_IWUGO :: uint32 where "S_IWUGO = 0x92"
definition S_IXUGO :: uint32 where "S_IXUGO = 0x49"

text \<open>
  \<open>make_mode\<close> of \<open>file.c\<close>; \<open>S_IRUGO\<close>, \<open>S_IWUGO\<close> and \<open>S_IXUGO\<close> stand for the three permission bits
  (owner, group, others) that the code always names together.
\<close>

definition make_mode :: "vnode \<Rightarrow> uint32" where
  "make_mode node =
     (let result = S_IFREG OR S_IRUGO OR S_IWUGO;
          result = (if vn_mode node AND FAT_SUBDIR \<noteq> 0
                    then (result AND NOT S_IFREG) OR (S_IFDIR OR S_IXUGO) else result)
      in if vn_mode node AND FAT_READ_ONLY \<noteq> 0 then result AND NOT S_IWUGO else result)"

text \<open>
  The loop of \<open>dosfs_read_vnode\<close>: a location that names a cluster is searched for in the whole
  directory, one that names an index has to be found at once. Every round consumes an entry; the
  first argument bounds the rounds.
\<close>

fun read_vnode_loop ::
  "nat \<Rightarrow> nspace \<Rightarrow> diri \<Rightarrow> ino_t \<Rightarrow> dirent_result" where
  "read_vnode_loop 0 vol iter loc = (Inl ENOENT, iter, raise_fault Endless_loop vol)"
| "read_vnode_loop (Suc k) vol iter loc =
     (case next_dirent vol iter 512 of
        (Inl err, iter, vol) \<Rightarrow> (Inl err, iter, vol)
      | (Inr (info, filename), iter, vol) \<Rightarrow>
          if IS_DIR_CLUSTER_VNID loc then
            if di_cluster info = CLUSTER_OF_DIR_CLUSTER_VNID loc then (Inr (info, filename), iter, vol)
            else read_vnode_loop k vol iter loc
          else if di_sindex info = INDEX_OF_DIR_INDEX_VNID loc then (Inr (info, filename), iter, vol)
          else (Inl ENOENT, iter, vol))"

text \<open>The vnode built from a directory entry.\<close>

definition vnode_of_dirent ::
  "environment \<Rightarrow> nspace \<Rightarrow> ino_t \<Rightarrow> ino_t \<Rightarrow> dirent_info \<Rightarrow> bytes \<Rightarrow> vnode \<times> nspace" where
  "vnode_of_dirent E vol vnid dir_vnid info filename =
     (let beos = (respect_disk_image vol \<and> dir_vnid = vn_vnid (root_vnode vol) \<and> filename = chars ''BEOS'');
          vol = (if beos then vol\<lparr>beos_vnid := vnid\<rparr> else vol);
          image = (if respect_disk_image vol \<and> dir_vnid = beos_vnid vol \<and> filename = chars ''IMAGE.BE'' then 2
                   else if beos then 1 else 0);
          (st_size, vol) =
            (if di_mode info AND FAT_SUBDIR \<noteq> 0 then
               let (n, vol) = count_clusters vol (sint (di_cluster info))
               in (uint (n * sectors_per_cluster vol * bytes_per_sector vol), vol)
             else (uint (di_size info), vol));
          (end_cluster, vol) =
            (if di_cluster info \<noteq> 0 then
               get_nth_fat_entry vol (sint (di_cluster info))
                 (unat (word_of_int (clusters_of_size vol st_size - 1) :: uint32))
             else (0, vol));
          (named, vol) = malloc vol
      in (\<lparr>vn_vnid = vnid, vn_dir_vnid = dir_vnid, vn_disk_image = image, vn_iteration = 0,
           vn_sindex = di_sindex info, vn_eindex = di_eindex info, vn_cluster = di_cluster info,
           vn_mode = di_mode info, vn_st_size = st_size,
           vn_st_time = dos2time_t (tzoffset E) (di_time info),
           vn_st_crtim = dos2time_t (tzoffset E) (di_creation_time info),
           vn_end_cluster = word_of_int end_cluster,
           vn_mime = (if di_mode info AND FAT_SUBDIR = 0 then set_mime E filename else None),
           vn_dirty = False, vn_filename = (if named then Some filename else None)\<rparr>, vol))"

text \<open>
  \<open>dosfs_read_vnode\<close>: an error, or the vnode and its mode. The file cache and the file map, which
  the kernel keeps for every vnode, are not represented.
\<close>

definition vnode_loc :: "nspace \<Rightarrow> ino_t \<Rightarrow> ino_t" where
  "vnode_loc vol vnid = (case vcache_vnid_to_loc vol vnid of (_, Some loc) \<Rightarrow> loc | (_, None) \<Rightarrow> vnid)"

definition dosfs_read_vnode :: "environment \<Rightarrow> nspace \<Rightarrow> ino_t \<Rightarrow> (status_t + vnode \<times> uint32) \<times> nspace" where
  "dosfs_read_vnode E vol vnid =
     (if vnid = vn_vnid (root_vnode vol) then (Inr (root_vnode vol, make_mode (root_vnode vol)), vol)
      else
        let loc = vnode_loc vol vnid
        in if IS_ARTIFICIAL_VNID loc \<or> IS_INVALID_VNID loc then (Inl ENOENT, vol)
           else
             let dir_vnid = dlist_find vol (DIR_OF_VNID loc)
             in if dir_vnid = -1 then (Inl ENOENT, vol)
                else
                  (case diri_init vol (DIR_OF_VNID loc)
                          (if IS_DIR_CLUSTER_VNID loc then 0 else INDEX_OF_DIR_INDEX_VNID loc) fresh_diri of
                     (None, iter, vol) \<Rightarrow> (Inl ENOENT, vol)
                   | (Some p, iter, vol) \<Rightarrow>
                       (case read_vnode_loop (dir_fuel vol) vol iter loc of
                          (Inl err, iter, vol) \<Rightarrow> (Inl err, snd (diri_free vol iter))
                        | (Inr (info, filename), iter, vol) \<Rightarrow>
                            (case malloc vol of
                               (False, vol) \<Rightarrow> (Inl ENOMEM, snd (diri_free vol iter))
                             | (True, vol) \<Rightarrow>
                                 let (node, vol) = vnode_of_dirent E vol vnid dir_vnid info filename
                                 in (Inr (node, make_mode node), snd (diri_free vol iter))))))"

text \<open>
  The kernel's table of vnodes. A pointer to a vnode is represented by the id of the vnode; all
  pointers to one vnode are the same memory. \<open>get_vnode\<close> gives the vnode in memory, or asks the file
  system to read it. \<open>put_vnode\<close> gives up a reference; when the last one is gone the kernel calls
  \<open>dosfs_release_vnode\<close> or \<open>dosfs_remove_vnode\<close>, which are operations of their own here.
\<close>

definition vnode_at :: "nspace \<Rightarrow> ino_t \<Rightarrow> vnode option" where
  "vnode_at vol vnid = (if vnid = vn_vnid (root_vnode vol) then Some (root_vnode vol) else nodes vol vnid)"

definition store_vnode :: "nspace \<Rightarrow> ino_t \<Rightarrow> vnode \<Rightarrow> nspace" where
  "store_vnode vol vnid node =
     (if vnid = vn_vnid (root_vnode vol) then vol\<lparr>root_vnode := node\<rparr> else vol\<lparr>nodes := (nodes vol)(vnid \<mapsto> node)\<rparr>)"

definition get_vnode :: "environment \<Rightarrow> nspace \<Rightarrow> ino_t \<Rightarrow> status_t \<times> ino_t option \<times> nspace" where
  "get_vnode E vol vnid =
     (if vnode_at vol vnid \<noteq> None then (B_OK, Some vnid, vol)
      else case dosfs_read_vnode E vol vnid of
             (Inl err, vol) \<Rightarrow> (err, None, vol)
           | (Inr (node, _), vol) \<Rightarrow> (B_OK, Some vnid, store_vnode vol vnid node))"

subsection \<open>Searches\<close>

text \<open>\<open>for (; i < 3; i++)\<close>\<close>

function check_dir_empty_loop ::
  "nspace \<Rightarrow> diri \<Rightarrow> nat \<Rightarrow> status_t \<Rightarrow> status_t \<times> diri \<times> nspace" where
  "check_dir_empty_loop vol iter i result =
     (if i < 3 then
        (case next_dirent vol iter 512 of
           (Inl err, iter, vol) \<Rightarrow> (if i = 2 \<and> err = ENOENT then B_OK else err, iter, vol)
         | (Inr (info, filename), iter, vol) \<Rightarrow>
             if i = 0 \<and> filename \<noteq> chars ''.'' \<or> i = 1 \<and> filename \<noteq> chars ''..''
                \<or> i < 2 \<and> current_index iter \<noteq> of_nat (i + 1)
             then (ENOTDIR, iter, vol)
             else check_dir_empty_loop vol iter (i + 1) ENOTEMPTY)
      else (result, iter, vol))"
  by pat_completeness auto
termination
  by (relation "measure (\<lambda>(vol, iter, i, result). 3 - i)") auto

declare check_dir_empty_loop.simps [simp del]

definition check_dir_empty :: "nspace \<Rightarrow> vnode \<Rightarrow> status_t \<times> nspace" where
  "check_dir_empty vol dir =
     (case diri_init vol (vn_cluster dir) 0 fresh_diri of
        (None, iter, vol) \<Rightarrow> (B_ERROR, vol)
      | (Some p, iter, vol) \<Rightarrow>
          let (result, iter, vol) =
                check_dir_empty_loop vol iter (if vn_vnid dir = vn_vnid (root_vnode vol) then 2 else 0) B_ERROR
          in (result, snd (diri_free vol iter)))"

record search =
  found_file :: bool
  found_vnid :: ino_t
  dups_exist :: bool

text \<open>What one name does to the search.\<close>

definition findfile_match :: "bool \<Rightarrow> bool \<Rightarrow> bytes \<Rightarrow> bytes \<Rightarrow> ino_t \<Rightarrow> search \<Rightarrow> search" where
  "findfile_match check_case check_dups file filename vnid s =
     (if check_case then
        if \<not> found_file s \<and> filename = file then s\<lparr>found_file := True, found_vnid := vnid\<rparr>
        else if check_dups \<and> same_nocase filename file then s\<lparr>dups_exist := True\<rparr>
        else s
      else if same_nocase filename file then
        (if check_dups \<and> found_file s then s\<lparr>dups_exist := True\<rparr> else s)\<lparr>found_file := True, found_vnid := vnid\<rparr>
      else s)"

text \<open>\<open>while (1)\<close>: every round consumes an entry; the first argument bounds the rounds.\<close>

fun findfile_loop ::
  "nat \<Rightarrow> nspace \<Rightarrow> vnode \<Rightarrow> diri \<Rightarrow> bytes \<Rightarrow> bool \<Rightarrow> bool \<Rightarrow> search \<Rightarrow> search \<times> diri \<times> nspace" where
  "findfile_loop 0 vol dir iter file check_case check_dups s = (s, iter, raise_fault Endless_loop vol)"
| "findfile_loop (Suc k) vol dir iter file check_case check_dups s =
     (case get_next_dirent vol dir iter 512 of
        (Inl err, iter, vol) \<Rightarrow> (s, iter, vol)
      | (Inr (vnid, filename), iter, vol) \<Rightarrow>
          let s = findfile_match check_case check_dups file filename vnid s
          in if found_file s \<and> (\<not> check_dups \<or> (check_dups \<and> dups_exist s)) then (s, iter, vol)
             else findfile_loop k vol dir iter file check_case check_dups s)"

text \<open>
  \<open>findfile\<close>: the status, the vnode id, the pointer that \<open>get_vnode\<close> stored and whether other names
  match up to case. The code drops the result of \<open>get_vnode\<close>; when it fails, the pointer is not set
  (\<open>None\<close>). \<open>node\<close> tells whether the caller passes a place for the pointer; \<open>check_dups\<close> is set
  exactly by the callers that pass a place for \<open>dups_exist\<close>.
\<close>

definition findfile_vnode ::
  "environment \<Rightarrow> nspace \<Rightarrow> bool \<Rightarrow> search \<Rightarrow> status_t \<times> ino_t \<times> ino_t option \<times> bool \<times> nspace" where
  "findfile_vnode E vol node s =
     (if found_file s then
        let (p, vol) = (if node then snd (get_vnode E vol (found_vnid s)) else (None, vol))
        in (B_OK, found_vnid s, p, dups_exist s, vol)
      else (ENOENT, 0, None, dups_exist s, vol))"

definition findfile ::
  "environment \<Rightarrow> nspace \<Rightarrow> vnode \<Rightarrow> bytes \<Rightarrow> bool \<Rightarrow> bool \<Rightarrow> bool \<Rightarrow>
   status_t \<times> ino_t \<times> ino_t option \<times> bool \<times> nspace" where
  "findfile E vol dir file node check_case check_dups =
     (let s = \<lparr>found_file = False, found_vnid = 0, dups_exist = False\<rparr>;
          root = (vn_vnid dir = vn_vnid (root_vnode vol))
      in if file = chars ''.'' \<and> root then
           findfile_vnode E vol node (s\<lparr>found_file := True, found_vnid := vn_vnid dir\<rparr>)
         else if file = chars ''..'' \<and> root then
           findfile_vnode E vol node (s\<lparr>found_file := True, found_vnid := vn_dir_vnid dir\<rparr>)
         else
           (case diri_init vol (vn_cluster dir) 0 fresh_diri of
              (None, iter, vol) \<Rightarrow> (ENOENT, 0, None, False, vol)
            | (Some p, iter, vol) \<Rightarrow>
                let (s, iter, vol) = findfile_loop (dir_fuel vol) vol dir iter file check_case check_dups s
                in findfile_vnode E (snd (diri_free vol iter)) node s))"

definition findfile_case ::
  "environment \<Rightarrow> nspace \<Rightarrow> vnode \<Rightarrow> bytes \<Rightarrow> bool \<Rightarrow> status_t \<times> ino_t \<times> ino_t option \<times> nspace" where
  "findfile_case E vol dir file node =
     (let (result, vnid, p, _, vol) = findfile E vol dir file node True False in (result, vnid, p, vol))"

definition findfile_nocase ::
  "environment \<Rightarrow> nspace \<Rightarrow> vnode \<Rightarrow> bytes \<Rightarrow> bool \<Rightarrow> status_t \<times> ino_t \<times> ino_t option \<times> nspace" where
  "findfile_nocase E vol dir file node =
     (let (result, vnid, p, _, vol) = findfile E vol dir file node False False in (result, vnid, p, vol))"

definition findfile_nocase_duplicates ::
  "environment \<Rightarrow> nspace \<Rightarrow> vnode \<Rightarrow> bytes \<Rightarrow> bool \<Rightarrow> status_t \<times> ino_t \<times> ino_t option \<times> bool \<times> nspace" where
  "findfile_nocase_duplicates E vol dir file node = findfile E vol dir file node False True"

definition findfile_case_duplicates ::
  "environment \<Rightarrow> nspace \<Rightarrow> vnode \<Rightarrow> bytes \<Rightarrow> bool \<Rightarrow> status_t \<times> ino_t \<times> ino_t option \<times> bool \<times> nspace" where
  "findfile_case_duplicates E vol dir file node = findfile E vol dir file node True True"

text \<open>\<open>while (buffer)\<close> of \<open>find_short_name\<close>.\<close>

fun find_short_name_loop :: "nat \<Rightarrow> nspace \<Rightarrow> diri \<Rightarrow> entry_ptr \<Rightarrow> bytes \<Rightarrow> status_t \<times> diri \<times> nspace" where
  "find_short_name_loop 0 vol diri buffer name = (ENOENT, diri, raise_fault Endless_loop vol)"
| "find_short_name_loop (Suc k) vol diri buffer name =
     (case buffer of
        None \<Rightarrow> (ENOENT, diri, vol)
      | Some p \<Rightarrow>
          if entry_byte vol p 0 = 0 then (ENOENT, diri, vol)
          else if entry_byte vol p 0xb \<noteq> 0xf \<and> take 11 name = take 11 (entry_bytes vol p) then (B_OK, diri, vol)
          else let (next, diri, vol) = diri_next_entry vol diri
               in find_short_name_loop k vol diri next name)"

definition find_short_name :: "nspace \<Rightarrow> vnode \<Rightarrow> bytes \<Rightarrow> status_t \<times> nspace" where
  "find_short_name vol dir name =
     (let (buffer, diri, vol) = diri_init vol (vn_cluster dir) 0 fresh_diri;
          (result, diri, vol) = find_short_name_loop (dir_fuel vol) vol diri buffer name
      in (result, snd (diri_free vol diri)))"

end
