(* ===== verification/Dir_Update.thy ===== *)
theory Dir_Update
  imports Directory
begin

section \<open>Changing directories: dir.c\<close>

text \<open>
  Erasing, compacting and creating directory entries. A directory is passed by value and returned
  when the function changes it.
\<close>

text \<open>The second pass of \<open>erase_dir_entry\<close>, over \<open>n\<close> entries.\<close>

fun erase_entries :: "nat \<Rightarrow> nspace \<Rightarrow> diri \<Rightarrow> entry_ptr \<Rightarrow> diri \<times> nspace" where
  "erase_entries 0 vol diri buffer = (diri, vol)"
| "erase_entries (Suc n) vol diri buffer =
     (case buffer of
        None \<Rightarrow> (diri, vol)
      | Some p \<Rightarrow>
          let vol = set_entry_byte p 0 0xe5 vol;
              (next, diri, vol) = diri_next_entry vol diri
          in erase_entries n vol diri next)"

definition erase_dir_entry :: "nspace \<Rightarrow> vnode \<Rightarrow> status_t \<times> nspace" where
  "erase_dir_entry vol node =
     (case diri_init vol (VNODE_PARENT_DIR_CLUSTER node) (vn_sindex node) fresh_diri of
        (None, diri, vol) \<Rightarrow> (ENOENT, vol)
      | (Some p, diri, vol) \<Rightarrow>
          let (result, diri, vol) = next_dirent vol diri 512;
              vol = snd (diri_free vol diri)
          in case result of
               Inl err \<Rightarrow> (err, vol)
             | Inr (info, _) \<Rightarrow>
                 if di_sindex info \<noteq> vn_sindex node \<or> di_eindex info \<noteq> vn_eindex node then (B_ERROR, vol)
                 else
                   let (buffer, diri, vol) =
                         diri_init vol (VNODE_PARENT_DIR_CLUSTER node) (vn_sindex node) fresh_diri;
                       (diri, vol) = erase_entries (unat (vn_eindex node) + 1 - unat (vn_sindex node)) vol diri buffer
                   in (0, snd (diri_free vol diri)))"

subsection \<open>Compacting\<close>

definition cluster_bytes :: "nspace \<Rightarrow> uint32" where
  "cluster_bytes vol = bytes_per_sector vol * sectors_per_cluster vol"

definition clusters_for_entries :: "nspace \<Rightarrow> uint32 \<Rightarrow> uint32" where
  "clusters_for_entries vol last_index =
     (last_index + bytes_per_sector vol div 0x20 * sectors_per_cluster vol - 1)
       div (bytes_per_sector vol div 0x20) div sectors_per_cluster vol"

definition compact_shrink :: "environment \<Rightarrow> nspace \<Rightarrow> vnode \<Rightarrow> uint32 \<Rightarrow> status_t \<times> vnode \<times> nspace" where
  "compact_shrink E vol dir last_index =
     (let clusters = clusters_for_entries vol last_index;
          clusters = (if clusters = 0 then 1 else clusters)
      in if uint (clusters * bytes_per_sector vol * sectors_per_cluster vol) < vn_st_size dir then
           let (error, dir, vol) = set_fat_chain_length E vol dir clusters True
           in (error, dir\<lparr>vn_st_size := uint (clusters * bytes_per_sector vol * sectors_per_cluster vol),
                         vn_iteration := vn_iteration dir + 1\<rparr>, vol)
         else (0, dir, vol))"

text \<open>\<open>while (diri.current_block)\<close>: every round consumes an entry; the first argument bounds the rounds.\<close>

fun compact_loop ::
  "nat \<Rightarrow> environment \<Rightarrow> nspace \<Rightarrow> vnode \<Rightarrow> diri \<Rightarrow> uint32 \<Rightarrow> status_t \<Rightarrow> status_t \<times> vnode \<times> diri \<times> nspace" where
  "compact_loop 0 E vol dir diri last_index error = (error, dir, diri, raise_fault Endless_loop vol)"
| "compact_loop (Suc k) E vol dir diri last_index error =
     (if current_block diri = None then (error, dir, diri, vol)
      else
        (case next_dirent vol diri 512 of
           (Inr (info, _), diri, vol) \<Rightarrow>
             compact_loop k E vol dir diri
               (if di_mode info AND FAT_VOLUME = 0 \<or> vn_vnid dir \<noteq> vn_vnid (root_vnode vol)
                then current_index diri else last_index) B_OK
         | (Inl err, diri, vol) \<Rightarrow>
             if err = ENOENT
             then let (error, dir, vol) = compact_shrink E vol dir last_index in (error, dir, diri, vol)
             else (err, dir, diri, vol)))"

definition compact_directory :: "environment \<Rightarrow> nspace \<Rightarrow> vnode \<Rightarrow> status_t \<times> vnode \<times> nspace" where
  "compact_directory E vol dir =
     (if IS_FIXED_ROOT (vn_cluster dir) then (0, dir, vol)
      else
        (case diri_init vol (vn_cluster dir) 0 fresh_diri of
           (None, diri, vol) \<Rightarrow> (EIO, dir, vol)
         | (Some p, diri, vol) \<Rightarrow>
             let (error, dir, diri, vol) = compact_loop (dir_fuel vol) E vol dir diri 0 B_ERROR
             in (error, dir, snd (diri_free vol diri))))"

subsection \<open>Creating\<close>

record entry_info =
  ei_mode :: uint32
  ei_cluster :: uint32
  ei_size :: uint32
  ei_time :: int
  ei_creation_time :: int

definition device_names :: "bytes list" where
  "device_names = map chars
     [''CON        '', ''AUX        '', ''PRN        '', ''CLOCK$     '', ''COM1       '', ''LPT1       '',
      ''LPT2       '', ''LPT3       '', ''COM2       '', ''COM3       '', ''COM4       '', ''CONFIG$    '']"

text \<open>
  The search for a gap of \<open>required\<close> entries: the error of the last call, where the gap starts, and
  whether it is at the end of the directory.
\<close>

fun find_gap ::
  "nat \<Rightarrow> nspace \<Rightarrow> diri \<Rightarrow> uint32 \<Rightarrow> uint32 \<Rightarrow> status_t \<Rightarrow>
   status_t \<times> uint32 \<times> bool \<times> diri \<times> nspace" where
  "find_gap 0 vol diri required ns error = (error, ns, True, diri, raise_fault Endless_loop vol)"
| "find_gap (Suc k) vol diri required ns error =
     (if current_block diri = None then (error, ns, True, diri, vol)
      else
        (case next_dirent vol diri 512 of
           (Inr (info, _), diri, vol) \<Rightarrow>
             if di_sindex info - ns \<ge> required then (B_OK, ns, False, diri, vol)
             else find_gap k vol diri required (current_index diri) B_OK
         | (Inl err, diri, vol) \<Rightarrow> (err, ns, True, diri, vol)))"

text \<open>Growing the directory so that entry \<open>ne\<close> fits.\<close>

definition grow_directory :: "environment \<Rightarrow> nspace \<Rightarrow> vnode \<Rightarrow> uint32 \<Rightarrow> status_t \<times> vnode \<times> nspace" where
  "grow_directory E vol dir ne =
     (if uint (ne * 0x20) \<ge> vn_st_size dir then
        if IS_FIXED_ROOT (vn_cluster dir) then (ENOSPC, dir, vol)
        else
          let clusters_needed =
                ((ne + 1) * 0x20 + cluster_bytes vol - 1) div bytes_per_sector vol div sectors_per_cluster vol;
              (error, dir, vol) = set_fat_chain_length E vol dir clusters_needed False
          in if error < 0 then (error, dir, vol)
             else (B_OK, dir\<lparr>vn_st_size := uint (bytes_per_sector vol * sectors_per_cluster vol * clusters_needed),
                             vn_iteration := vn_iteration dir + 1\<rparr>, vol)
      else (B_OK, dir, vol))"

text \<open>
  One entry of the long name, number \<open>i\<close> from 1, and the loop with \<open>n\<close> entries left to write. The
  26 bytes for the entry are copied from \<open>nlong\<close> without a check that the array has so many.
\<close>

definition write_lfn_entry :: "int \<times> nat \<Rightarrow> bytes \<Rightarrow> uint8 \<Rightarrow> nat \<Rightarrow> nat \<Rightarrow> nspace \<Rightarrow> nspace" where
  "write_lfn_entry p nlong hash required i vol =
     (let q = drop ((required - i - 1) * 26) nlong;
          vol = (if (required - i) * 26 > length nlong then raise_fault Out_of_bounds vol else vol);
          vol = write_entry p 0 (replicate 0x20 0) vol;
          vol = set_entry_byte p 0 (of_nat (required - i) + (if i = 1 then 0x40 else 0)) vol;
          vol = set_entry_byte p 0x0b 0x0f vol;
          vol = set_entry_byte p 0x0d hash vol;
          vol = write_entry p 1 (take 10 q) vol;
          vol = write_entry p 0x0e (take 12 (drop 10 q)) vol
      in write_entry p 0x1c (take 4 (drop 22 q)) vol)"

fun write_lfn ::
  "nat \<Rightarrow> nspace \<Rightarrow> diri \<Rightarrow> entry_ptr \<Rightarrow> bytes \<Rightarrow> uint8 \<Rightarrow> nat \<Rightarrow> nat \<Rightarrow> entry_ptr \<times> diri \<times> nspace" where
  "write_lfn 0 vol diri buffer nlong hash required i = (buffer, diri, vol)"
| "write_lfn (Suc n) vol diri buffer nlong hash required i =
     (case buffer of
        None \<Rightarrow> (None, diri, vol)
      | Some p \<Rightarrow>
          let (next, diri, vol) = diri_next_entry (write_lfn_entry p nlong hash required i vol) diri
          in write_lfn n vol diri next nlong hash required (i + 1))"

definition write_short :: "environment \<Rightarrow> nspace \<Rightarrow> int \<times> nat \<Rightarrow> entry_info \<Rightarrow> bytes \<Rightarrow> nspace" where
  "write_short E vol p info nshort =
     (let vol = write_entry p 0 (take 11 nshort) vol;
          vol = set_entry_byte p 0x0b (ucast (ei_mode info)) vol;
          vol = write_entry p 0xc (replicate (0x16 - 0xc) 0) vol;
          vol = write_entry p 0x0e (le32 (time_t2dos (tzoffset E) (ei_creation_time info))) vol;
          vol = write_entry p 0x16 (le32 (time_t2dos (tzoffset E) (ei_time info))) vol;
          i = (if ei_size info = 0 then 0 else ei_cluster info);
          vol = write_entry p 0x1a (le16 i) vol;
          vol = (if fat_bits vol = 32 then write_entry p 0x14 (le16 (drop_bit 16 i)) vol else vol)
      in write_entry p 0x1c (le32 (if ei_mode info AND FAT_SUBDIR \<noteq> 0 then 0 else ei_size info)) vol)"

text \<open>\<open>while ((buffer = diri_next_entry(&diri)) != NULL)\<close>: clears the rest of the directory.\<close>

fun clear_rest :: "nat \<Rightarrow> nspace \<Rightarrow> diri \<Rightarrow> diri \<times> nspace" where
  "clear_rest 0 vol diri = (diri, raise_fault Endless_loop vol)"
| "clear_rest (Suc k) vol diri =
     (case diri_next_entry vol diri of
        (None, diri, vol) \<Rightarrow> (diri, vol)
      | (Some p, diri, vol) \<Rightarrow> clear_rest k (write_entry p 0 (replicate 0x20 0) vol) diri)"

definition blit_entries ::
  "environment \<Rightarrow> nspace \<Rightarrow> vnode \<Rightarrow> entry_info \<Rightarrow> bytes \<Rightarrow> bytes \<Rightarrow> uint32 \<Rightarrow> uint32 \<Rightarrow> bool \<Rightarrow> status_t \<times> nspace" where
  "blit_entries E vol dir info nshort nlong ns required last_entry =
     (case diri_init vol (vn_cluster dir) ns fresh_diri of
        (None, diri, vol) \<Rightarrow> (EIO, vol)
      | (Some p, diri, vol) \<Rightarrow>
          let (buffer, diri, vol) =
                write_lfn (unat required - 1) vol diri (Some p) nlong (hash_msdos_name nshort) (unat required) 1
          in case buffer of
               None \<Rightarrow> (B_ERROR, snd (diri_free vol diri))
             | Some p \<Rightarrow>
                 let vol = write_short E vol p info nshort;
                     (diri, vol) = (if last_entry then clear_rest (dir_fuel vol) vol diri else (diri, vol))
                 in (0, snd (diri_free vol diri)))"

text \<open>\<open>_create_dir_entry_\<close>: the status, the first and the last entry, and the directory.\<close>

definition create_entries ::
  "environment \<Rightarrow> nspace \<Rightarrow> vnode \<Rightarrow> entry_info \<Rightarrow> bytes \<Rightarrow> bytes \<Rightarrow> uint32 \<Rightarrow>
   status_t \<times> uint32 \<times> uint32 \<times> vnode \<times> nspace" where
  "create_entries E vol dir info nshort nlong len =
     (if \<exists>d \<in> set device_names. take 8 nshort = take 8 d then (EPERM, 0, 0, dir, vol)
      else if ei_cluster info \<noteq> 0 \<and> \<not> IS_DATA_CLUSTER vol (ei_cluster info) then (EINVAL, 0, 0, dir, vol)
      else
        let required = (len + 24) div 26 + 1
        in case diri_init vol (vn_cluster dir) 0 fresh_diri of
             (None, diri, vol) \<Rightarrow> (EIO, 0, 0, dir, vol)
           | (Some p, diri, vol) \<Rightarrow>
               let (error, ns, last_entry, diri, vol) = find_gap (dir_fuel vol) vol diri required 0 B_ERROR;
                   vol = snd (diri_free vol diri)
               in if error \<noteq> B_OK \<and> error \<noteq> ENOENT then (error, ns, 0, dir, vol)
                  else
                    let ne = ns + required - 1;
                        (error, dir, vol) = grow_directory E vol dir ne
                    in if error < 0 then (error, ns, ne, dir, vol)
                       else let (error, vol) = blit_entries E vol dir info nshort nlong ns required last_entry
                            in (error, ns, ne, dir, vol))"

text \<open>\<open>create_volume_label\<close>: the status, the index of the entry and the volume.\<close>

definition create_volume_label :: "environment \<Rightarrow> nspace \<Rightarrow> bytes \<Rightarrow> status_t \<times> uint32 \<times> nspace" where
  "create_volume_label E vol name =
     (let info = \<lparr>ei_mode = FAT_ARCHIVE OR FAT_VOLUME, ei_cluster = 0, ei_size = 0, ei_time = now E,
                  ei_creation_time = 0\<rparr>;
          (err, vol) = find_short_name vol (root_vnode vol) name
      in if err = B_OK then (EEXIST, 0, vol)
         else if err \<noteq> ENOENT then (err, 0, vol)
         else let (error, index, _, root, vol) = create_entries E vol (root_vnode vol) info name [] 0
              in (error, index, vol\<lparr>root_vnode := root\<rparr>))"

definition is_filename_legal :: "bytes \<Rightarrow> bool" where
  "is_filename_legal name \<longleftrightarrow>
     name \<noteq> [] \<and> last name \<noteq> 0x2e \<and> last name \<noteq> 0x20 \<and>
     (\<forall>c \<in> set name. c AND 0x80 \<noteq> 0 \<or> c \<notin> set illegal \<and> c \<ge> 32)"

text \<open>The two loops that patch a short name until no other file has it.\<close>

fun munge1_loop :: "nat \<Rightarrow> nspace \<Rightarrow> vnode \<Rightarrow> bytes \<Rightarrow> int \<Rightarrow> nat \<Rightarrow> status_t \<times> bytes \<times> nspace" where
  "munge1_loop 0 vol dir tshort encoding i = (B_OK, tshort, vol)"
| "munge1_loop (Suc k) vol dir tshort encoding i =
     (let nshort = munge_short_name1 tshort i encoding;
          (error, vol) = find_short_name vol dir nshort
      in if error = B_OK \<and> k > 0 then munge1_loop k vol dir tshort encoding (i + 1)
         else (error, nshort, vol))"

text \<open>The second one may go on forever; the first argument bounds its attempts.\<close>

fun munge2_loop :: "nat \<Rightarrow> environment \<Rightarrow> nspace \<Rightarrow> vnode \<Rightarrow> bytes \<Rightarrow> int \<Rightarrow> nat \<Rightarrow> status_t \<times> bytes \<times> nspace" where
  "munge2_loop 0 E vol dir tshort encoding i = (B_OK, tshort, raise_fault Endless_loop vol)"
| "munge2_loop (Suc k) E vol dir tshort encoding i =
     (let nshort = munge_short_name2 tshort (system_time E i) encoding;
          (error, vol) = find_short_name vol dir nshort
      in if error = B_OK then munge2_loop k E vol dir tshort encoding (i + 1)
         else (error, nshort, vol))"

definition unique_short_name ::
  "environment \<Rightarrow> nspace \<Rightarrow> vnode \<Rightarrow> bytes \<Rightarrow> bytes \<Rightarrow> int \<Rightarrow> status_t \<times> bytes \<times> nspace" where
  "unique_short_name E vol dir name tshort encoding =
     (let (error, vol) =
            (if requires_munged_short_name name tshort encoding then (B_OK, vol)
             else find_short_name vol dir tshort);
          (error, nshort, vol) =
            (if error = B_OK then munge1_loop 9 vol dir tshort encoding 1 else (error, tshort, vol))
      in if error \<noteq> B_OK \<and> error \<noteq> ENOENT then (error, nshort, vol)
         else if error = B_OK then
           let (error, nshort, vol) = munge2_loop (dir_fuel vol) E vol dir tshort encoding 0
           in if error \<noteq> ENOENT then (error, nshort, vol) else (B_OK, nshort, vol)
         else (B_OK, nshort, vol))"

definition create_dir_entry ::
  "environment \<Rightarrow> nspace \<Rightarrow> vnode \<Rightarrow> vnode \<Rightarrow> bytes \<Rightarrow> status_t \<times> uint32 \<times> uint32 \<times> vnode \<times> nspace" where
  "create_dir_entry E vol dir node name =
     (if \<not> is_filename_legal name then (EINVAL, 0, 0, dir, vol)
      else
        let (error, _, _, vol) = findfile_nocase E vol dir name False
        in if error = B_OK then (EEXIST, 0, 0, dir, vol)
           else if error \<noteq> ENOENT then (error, 0, 0, dir, vol)
           else
             let (len, u) = utf8_to_unicode name 512
             in if len \<le> 0 then (if len \<noteq> 0 then len else B_ERROR, 0, 0, dir, vol)
                else
                  let nlong = take (nat len) u @ replicate (512 - nat len) 0xff;
                      (error, nshort, encoding, vol) = generate_short_name vol name nlong (nat len)
                  in if error \<noteq> 0 then (error, 0, 0, dir, vol)
                     else
                       let (long_name, vol) =
                             (case requires_long_name name nlong of
                                None \<Rightarrow> (True, raise_fault Out_of_bounds vol)
                              | Some b \<Rightarrow> (b, vol));
                           (error, nshort, vol) =
                             (if long_name then unique_short_name E vol dir name nshort encoding
                              else (B_OK, nshort, vol));
                           len = (if long_name then word_of_int len else 0);
                           info = \<lparr>ei_mode = (if vn_mode node AND FAT_SUBDIR = 0 then vn_mode node OR FAT_ARCHIVE
                                              else vn_mode node),
                                   ei_cluster = vn_cluster node, ei_size = word_of_int (vn_st_size node),
                                   ei_time = vn_st_time node, ei_creation_time = vn_st_crtim node\<rparr>
                       in if error \<noteq> B_OK then (error, 0, 0, dir, vol)
                          else create_entries E vol dir info nshort nlong len)"

end
