(* ===== verification/Dir_Ops.thy ===== *)
theory Dir_Ops
  imports Dir_Update Fs_Info
begin

section \<open>Directory operations of the file system interface: dir.c\<close>

text \<open>
  The operations the kernel calls on a directory. A directory that an operation does not change is
  passed by value. A directory cookie is the index it holds.
\<close>

definition dosfs_walk :: "environment \<Rightarrow> nspace \<Rightarrow> vnode \<Rightarrow> bytes \<Rightarrow> status_t \<times> ino_t \<times> nspace" where
  "dosfs_walk E vol dir file =
     (let (result, vnid, _, vol) = findfile_case E vol dir file True in (result, vnid, vol))"

definition W_OK :: uint32 where "W_OK = 2"

definition dosfs_access :: "nspace \<Rightarrow> vnode \<Rightarrow> uint32 \<Rightarrow> status_t" where
  "dosfs_access vol node mode =
     (if mode AND W_OK \<noteq> 0 then
        if read_only vol then EROFS
        else if vn_mode node AND FAT_READ_ONLY \<noteq> 0 then EPERM
        else if vn_disk_image node \<noteq> 0 then EPERM
        else B_OK
      else B_OK)"

definition dosfs_readlink :: "nspace \<Rightarrow> vnode \<Rightarrow> status_t" where
  "dosfs_readlink vol node = EINVAL"

text \<open>The status and the cookie.\<close>

definition dosfs_opendir :: "nspace \<Rightarrow> vnode \<Rightarrow> status_t \<times> uint32 option \<times> nspace" where
  "dosfs_opendir vol node =
     (if vn_mode node AND FAT_SUBDIR = 0 then (ENOTDIR, None, vol)
      else
        let (ok, vol) = malloc vol
        in if \<not> ok then (ENOMEM, None, vol) else (B_OK, Some 0, vol))"

text \<open>
  \<open>struct dirent\<close> without the device number. \<open>d_reclen\<close> is counted from \<open>sizeof(struct dirent)\<close>, which
  is the parameter \<open>sz\<close> where the size of the buffer is split up.
\<close>

record dirent =
  d_ino :: ino_t
  d_reclen :: nat
  d_name :: bytes

definition dirent_of :: "ino_t \<Rightarrow> bytes \<Rightarrow> dirent" where
  "dirent_of vnid name = \<lparr>d_ino = vnid, d_reclen = length name, d_name = name\<rparr>"

definition readdir_len :: "nat \<Rightarrow> nat \<Rightarrow> int" where
  "readdir_len sz bufsize = sint (word_of_int (int bufsize - int sz - 1) :: uint32)"

text \<open>
  The part of \<open>dosfs_readdir\<close> after the simulated entries of the root directory: the status, the
  entry (\<open>None\<close> when \<open>*num\<close> is 0 or an error is returned), the cookie and the volume.
\<close>

definition readdir_entry ::
  "nspace \<Rightarrow> vnode \<Rightarrow> uint32 \<Rightarrow> int \<Rightarrow> status_t \<times> dirent option \<times> uint32 \<times> nspace" where
  "readdir_entry vol dir cookie len =
     (case diri_init vol (vn_cluster dir) cookie fresh_diri of
        (None, diri, vol) \<Rightarrow> (B_OK, None, cookie, vol)
      | (Some p, diri, vol) \<Rightarrow>
          let (result, diri, vol) = get_next_dirent vol dir diri len;
              cookie = current_index diri;
              vol = snd (diri_free vol diri);
              cookie = (if vn_vnid dir = vn_vnid (root_vnode vol) then cookie + 2 else cookie)
          in case result of
               Inr (vnid, name) \<Rightarrow> (B_OK, Some (dirent_of vnid name), cookie, vol)
             | Inl err \<Rightarrow> (if err = ENOENT then B_OK else err, None, cookie, vol))"

definition dosfs_readdir ::
  "nat \<Rightarrow> nspace \<Rightarrow> vnode \<Rightarrow> uint32 \<Rightarrow> nat \<Rightarrow>
   status_t \<times> dirent option \<times> uint32 \<times> nspace" where
  "dosfs_readdir sz vol dir cookie bufsize =
     (if vn_vnid dir = vn_vnid (root_vnode vol) then
        if cookie \<ge> 2 then readdir_entry vol dir (cookie - 2) (readdir_len sz bufsize)
        else if cookie = 0
        then (B_OK, Some (dirent_of (vn_vnid (root_vnode vol)) (chars ''.'')), cookie + 1, vol)
        else (B_OK, Some (dirent_of (vn_vnid (root_vnode vol)) (chars ''..'')), cookie + 1, vol)
      else readdir_entry vol dir cookie (readdir_len sz bufsize))"

text \<open>The status and the new cookie.\<close>

definition dosfs_rewinddir :: "nspace \<Rightarrow> vnode \<Rightarrow> uint32 \<Rightarrow> status_t \<times> uint32" where
  "dosfs_rewinddir vol node cookie = (B_OK, 0)"

definition dosfs_closedir :: "nspace \<Rightarrow> vnode \<Rightarrow> uint32 \<Rightarrow> status_t" where
  "dosfs_closedir vol node cookie = 0"

definition dosfs_free_dircookie :: "nspace \<Rightarrow> vnode \<Rightarrow> uint32 \<Rightarrow> status_t" where
  "dosfs_free_dircookie vol node cookie = 0"

end
