(* ===== verification/Reader.thy ===== *)
theory Reader
  imports Dir_Ops
begin

section \<open>What operations that only read leave alone\<close>

text \<open>
  Reading a directory or a table takes and returns references to blocks, may use up an allocation
  and may record a fault; it may also enter vnodes, vnode ids and directories into the tables in
  memory. The locales below state this as an interface: a relation between volumes that holds
  across these elementary effects (\<open>reader\<close>, and \<open>dir_reader\<close> for those that involve the tables in
  memory). Every reading operation of the driver then keeps the relation; the lemmas are proved
  once, and each interpretation gives a frame property of all of them.
\<close>

locale reader =
  fixes R :: "nspace \<Rightarrow> nspace \<Rightarrow> bool"
  assumes R_refl [simp]: "R v v"
    and R_trans: "R u v \<Longrightarrow> R v w \<Longrightarrow> R u w"
    and R_get: "R v (snd (block_cache_get v b))"
    and R_put: "R v (block_cache_put v b)"
    and R_fault: "R v (raise_fault f v)"
    and R_malloc: "R v (snd (malloc v))"
begin

text \<open>Each lemma has the form of a rule that extends a chain of steps, so that a proof search finds the chain.\<close>

lemma get_R: "block_cache_get v b = (p, w) \<Longrightarrow> R u v \<Longrightarrow> R u w"
  using R_get [of v b] R_trans by auto

lemma malloc_R: "malloc v = (ok, w) \<Longrightarrow> R u v \<Longrightarrow> R u w"
  using R_malloc [of v] R_trans by auto

lemma put_R: "R u v \<Longrightarrow> R u (block_cache_put v b)"
  using R_put R_trans by blast

lemma fault_R: "R u v \<Longrightarrow> R u (raise_fault f v)"
  using R_fault R_trans by blast

lemmas [intro!] = R_refl put_R fault_R
lemmas [intro] = get_R malloc_R

subsection \<open>The table\<close>

lemma ioctl_entry_R:
  assumes "ioctl_entry IOCTL_GET_ENTRY m b s = (t, stop)"
  shows "R (io_vol s) (io_vol t)"
  using assms
  by (auto simp: ioctl_entry_def ioctl_fat12_def ioctl_fat16_def ioctl_fat32_def ioctl_writes_def Let_def
      split: if_splits prod.splits option.splits)

lemma ioctl_iteration_R:
  assumes "ioctl_iteration f IOCTL_GET_ENTRY n m s = (t, stop)"
  shows "R (io_vol s) (io_vol t) \<and> stop"
proof (cases "io_block1 s")
  case (Some b)
  obtain u st where "ioctl_entry IOCTL_GET_ENTRY m b s = (u, st)" by fastforce
  with assms Some show ?thesis
    using ioctl_entry_R by (auto simp: ioctl_iteration_def ioctl_dispatch_def Let_def split: if_splits)
qed (use assms R_fault in \<open>auto simp: ioctl_iteration_def\<close>)

lemma ioctl_loop_R: "R (io_vol s) (io_vol (ioctl_loop f IOCTL_GET_ENTRY n m k s))"
proof (cases k)
  case (Suc j)
  obtain t stop where it: "ioctl_iteration f IOCTL_GET_ENTRY n m s = (t, stop)" by fastforce
  then show ?thesis using ioctl_iteration_R [OF it] Suc by simp
qed auto

lemma get_fat_entry_R:
  assumes "get_fat_entry v c = (r, w)" "R u v"
  shows "R u w"
proof -
  have loop: "R x (io_vol s) \<Longrightarrow> R x (io_vol (ioctl_loop f IOCTL_GET_ENTRY n m k s))" for x s f n m k
    by (rule R_trans [OF _ ioctl_loop_R])
  have "fat_ioctl_rw v IOCTL_GET_ENTRY c 0 = (x, y) \<Longrightarrow> R u y" for x y
    using assms(2)
    by (auto simp: fat_ioctl_rw_def fat_ioctl_body_def ioctl_finish_def Let_def intro!: loop split: if_splits prod.splits)
  then show ?thesis
    using assms(1) by (auto simp: get_fat_entry_def split: prod.splits if_splits)
qed

lemmas [intro] = get_fat_entry_R

lemma get_nth_fat_entry_R: "get_nth_fat_entry v c n = (r, w) \<Longrightarrow> R u v \<Longrightarrow> R u w"
  by (induction n arbitrary: v c) (fastforce split: prod.splits if_splits)+

lemma count_clusters_loop_R: "count_clusters_loop k v c n = (r, w) \<Longrightarrow> R u v \<Longrightarrow> R u w"
  by (induction k arbitrary: v c n) (fastforce simp: Let_def split: prod.splits if_splits)+

lemma count_clusters_R: "count_clusters v c = (r, w) \<Longrightarrow> R u v \<Longrightarrow> R u w"
  by (auto simp: count_clusters_def intro: count_clusters_loop_R split: if_splits)

lemmas [intro] = get_nth_fat_entry_R count_clusters_R

subsection \<open>Iterators\<close>

lemma iter_csi_R: "iter_csi v csi n = (r, csi', w) \<Longrightarrow> R u v \<Longrightarrow> R u w"
  by (auto simp: iter_csi_def Let_def split: prod.splits if_splits)

lemma csi_get_block_R: "csi_get_block v csi = (p, w) \<Longrightarrow> R u v \<Longrightarrow> R u w"
  by (auto simp: csi_get_block_def split: if_splits)

lemma csi_release_block_R: "R u v \<Longrightarrow> R u (snd (csi_release_block v csi))"
  by (auto simp: csi_release_block_def)

lemmas [intro!] = csi_release_block_R
lemmas [intro] = iter_csi_R csi_get_block_R

lemma diri_release_current_block_R: "diri_release_current_block v d = (d', w) \<Longrightarrow> R u v \<Longrightarrow> R u w"
  by (auto simp: diri_release_current_block_def split: if_splits)

lemma diri_free_R: "diri_free v d = (d', w) \<Longrightarrow> R u v \<Longrightarrow> R u w"
  by (auto simp: diri_free_def intro: diri_release_current_block_R split: if_splits)

lemma diri_free_snd_R: "R u v \<Longrightarrow> R u (snd (diri_free v d))"
  by (cases "diri_free v d") (auto intro: diri_free_R)

lemma diri_init_R: "diri_init v c i d = (p, d', w) \<Longrightarrow> R u v \<Longrightarrow> R u w"
  by (fastforce simp: diri_init_def Let_def split: prod.splits if_splits option.splits)

lemma diri_next_entry_R: "diri_next_entry v d = (p, d', w) \<Longrightarrow> R u v \<Longrightarrow> R u w"
  by (fastforce simp: diri_next_entry_def Let_def intro: diri_release_current_block_R split: prod.splits if_splits)

lemmas [intro!] = diri_free_snd_R
lemmas [intro] = diri_free_R diri_init_R diri_next_entry_R

subsection \<open>Directories\<close>

lemma dirent_loop_R: "dirent_loop k v d b s = (p, t, d', w) \<Longrightarrow> R u v \<Longrightarrow> R u w"
  by (induction k arbitrary: v d b s) (fastforce simp: Let_def split: prod.splits if_splits option.splits)+

lemma next_dirent_R: "next_dirent v d l = (r, d', w) \<Longrightarrow> R u v \<Longrightarrow> R u w"
  by (fastforce simp: next_dirent_def Let_def intro: dirent_loop_R split: prod.splits if_splits option.splits sum.splits)

lemmas [intro] = next_dirent_R

lemma next_visible_R: "next_visible k v dir d l = (r, d', w) \<Longrightarrow> R u v \<Longrightarrow> R u w"
  by (induction k arbitrary: v d) (fastforce split: prod.splits if_splits sum.splits)+

lemma read_vnode_loop_R: "read_vnode_loop k v d loc = (r, d', w) \<Longrightarrow> R u v \<Longrightarrow> R u w"
  by (induction k arbitrary: v d) (fastforce split: prod.splits if_splits sum.splits)+

lemma check_dir_empty_loop_R: "check_dir_empty_loop v d i s = (r, d', w) \<Longrightarrow> R u v \<Longrightarrow> R u w"
proof (induction v d i s rule: check_dir_empty_loop.induct)
  case (1 v d i s)
  from "1.prems" show ?case
    by (subst (asm) check_dir_empty_loop.simps) (auto dest: "1.IH" split: prod.splits if_splits sum.splits)
qed

lemma find_short_name_loop_R: "find_short_name_loop k v d b n = (r, d', w) \<Longrightarrow> R u v \<Longrightarrow> R u w"
  by (induction k arbitrary: v d b) (fastforce split: prod.splits if_splits option.splits)+

lemma check_dir_empty_R: "check_dir_empty v dir = (r, w) \<Longrightarrow> R u v \<Longrightarrow> R u w"
  by (fastforce simp: check_dir_empty_def intro: check_dir_empty_loop_R split: prod.splits option.splits)

lemma find_short_name_R: "find_short_name v dir n = (r, w) \<Longrightarrow> R u v \<Longrightarrow> R u w"
  by (auto simp: find_short_name_def intro: find_short_name_loop_R split: prod.splits)

lemmas [intro] = next_visible_R read_vnode_loop_R check_dir_empty_R find_short_name_R

end

subsection \<open>Reading that enters what it found into the tables in memory\<close>

locale dir_reader = reader +
  assumes R_vcache: "R v (v\<lparr>vcache := vc\<rparr>)"
    and R_dlist: "R v (v\<lparr>dlist := dl\<rparr>)"
    and R_nodes: "R v (v\<lparr>nodes := ns\<rparr>)"
    and R_beos: "R v (v\<lparr>beos_vnid := x\<rparr>)"
    and R_root: "R v w \<Longrightarrow> root_vnode w = root_vnode v"
begin

lemma table_R:
  assumes "R u v"
  shows "R u (v\<lparr>vcache := vc\<rparr>)" "R u (v\<lparr>dlist := dl\<rparr>)" "R u (v\<lparr>nodes := ns\<rparr>)" "R u (v\<lparr>beos_vnid := x\<rparr>)"
  using R_trans [OF assms] R_vcache R_dlist R_nodes R_beos by blast+

lemmas [intro!] = table_R

lemma add_to_vcache_R: "add_to_vcache v a l = (r, w) \<Longrightarrow> R u v \<Longrightarrow> R u w"
  by (fastforce simp: add_to_vcache_def split: prod.splits if_splits)

lemma remove_from_vcache_R: "R u v \<Longrightarrow> R u (snd (remove_from_vcache v a))"
  by (auto simp: remove_from_vcache_def split: prod.splits)

lemma dlist_add_R: "dlist_add v a = (r, w) \<Longrightarrow> R u v \<Longrightarrow> R u w"
  by (fastforce simp: dlist_add_def dlist_realloc_def Let_def split: prod.splits if_splits)

lemmas [intro] = add_to_vcache_R dlist_add_R
lemmas [intro!] = remove_from_vcache_R

lemma vnid_for_loc_R: "vnid_for_loc v l = (r, w) \<Longrightarrow> R u v \<Longrightarrow> R u w"
  by (auto simp: vnid_for_loc_def generate_unique_vnid_def split: prod.splits option.splits if_splits)

lemma get_next_dirent_R: "get_next_dirent v dir d l = (r, d', w) \<Longrightarrow> R u v \<Longrightarrow> R u w"
  by (fastforce simp: get_next_dirent_def intro: vnid_for_loc_R split: prod.splits sum.splits if_splits)

lemma vnode_of_dirent_R:
  assumes "vnode_of_dirent E v a b info n = (x, w)" "R u v"
  shows "R u w"
proof -
  have steps: "R u t \<Longrightarrow> R u (snd (malloc t))" "R u t \<Longrightarrow> R u (snd (count_clusters t c))"
    "R u t \<Longrightarrow> R u (snd (get_nth_fat_entry t c k))" "R u t \<Longrightarrow> R u t' \<Longrightarrow> R u (if P then t else t')" for t t' c k P
    using malloc_R [of t] count_clusters_R [of t c] get_nth_fat_entry_R [of t c k] by (auto simp: prod_eq_iff)
  have "R u (snd (vnode_of_dirent E v a b info n))"
    unfolding vnode_of_dirent_def Let_def split_beta snd_conv fst_conv if_distrib [of snd]
    by (intro steps table_R assms)
  then show ?thesis using assms(1) by simp
qed

lemma dosfs_read_vnode_R: "dosfs_read_vnode E v a = (r, w) \<Longrightarrow> R u v \<Longrightarrow> R u w"
  by (fastforce simp: dosfs_read_vnode_def Let_def intro: vnode_of_dirent_R
      split: prod.splits if_splits option.splits sum.splits bool.splits)

lemmas [intro] = get_next_dirent_R dosfs_read_vnode_R

lemma get_vnode_R:
  assumes "get_vnode E v a = (r, p, w)" "R u v"
  shows "R u w"
proof (cases "vnode_at v a")
  case None
  obtain res w' where rd: "dosfs_read_vnode E v a = (res, w')" by fastforce
  have "R u w'" "root_vnode w' = root_vnode v"
    using dosfs_read_vnode_R [OF rd] assms(2) R_root by blast+
  with None rd show ?thesis
    using assms(1) by (auto simp: get_vnode_def vnode_at_def store_vnode_def split: sum.splits if_splits)
qed (use assms in \<open>simp add: get_vnode_def\<close>)

lemma findfile_loop_R: "findfile_loop k v dir d f cc cd s = (t, d', w) \<Longrightarrow> R u v \<Longrightarrow> R u w"
  by (induction k arbitrary: v d s) (fastforce simp: Let_def split: prod.splits sum.splits if_splits)+

lemma findfile_vnode_R: "findfile_vnode E v n s = (r, a, p, x, w) \<Longrightarrow> R u v \<Longrightarrow> R u w"
  by (cases "get_vnode E v (found_vnid s)") (auto simp: findfile_vnode_def intro: get_vnode_R split: prod.splits if_splits)

lemma findfile_R: "findfile E v dir f n cc cd = (r, a, p, x, w) \<Longrightarrow> R u v \<Longrightarrow> R u w"
  by (fastforce simp: findfile_def Let_def intro: findfile_vnode_R findfile_loop_R
      split: prod.splits option.splits if_splits)

lemma dosfs_walk_R: "dosfs_walk E v dir f = (r, a, w) \<Longrightarrow> R u v \<Longrightarrow> R u w"
  by (auto simp: dosfs_walk_def findfile_case_def intro: findfile_R split: prod.splits)

lemma readdir_entry_R: "readdir_entry v dir c l = (r, e, c', w) \<Longrightarrow> R u v \<Longrightarrow> R u w"
  by (fastforce simp: readdir_entry_def Let_def split: prod.splits option.splits sum.splits)

lemma dosfs_readdir_R: "dosfs_readdir sz v dir c n = (r, e, c', w) \<Longrightarrow> R u v \<Longrightarrow> R u w"
  by (auto simp: dosfs_readdir_def intro: readdir_entry_R split: if_splits)

lemma dosfs_opendir_R: "dosfs_opendir v node = (r, c, w) \<Longrightarrow> R u v \<Longrightarrow> R u w"
  by (auto simp: dosfs_opendir_def split: prod.splits if_splits)

end

subsection \<open>Two interpretations\<close>

text \<open>
  What is left of a volume when everything that reading may change is forgotten: the references that
  are held, the tables in memory and the state of the C machine. The contents of all blocks, the
  geometry, the flags, the label and the counters remain.
\<close>

definition disk_state :: "nspace \<Rightarrow> nspace" where
  "disk_state v =
     v\<lparr>fBlockCache := (fBlockCache v)\<lparr>refs := (\<lambda>_. 0)\<rparr>,
       vcache := \<lparr>cur_vnid = 0, cache_size = 0, by_vnid = [], by_loc = []\<rparr>,
       dlist := \<lparr>entries = 0, allocated = 0, vnid_list = None\<rparr>,
       nodes := (\<lambda>_. None), beos_vnid := 0, fault := None, mem := []\<rparr>"

definition same_disk :: "nspace \<Rightarrow> nspace \<Rightarrow> bool" where
  "same_disk v w \<longleftrightarrow> disk_state w = disk_state v"

lemma disk_state_sel:
  "blocks (fBlockCache (disk_state v)) = blocks (fBlockCache v)" "flags (disk_state v) = flags v"
  "fs_flags (disk_state v) = fs_flags v" "root_vnode (disk_state v) = root_vnode v"
  "total_clusters (disk_state v) = total_clusters v" "fat_bits (disk_state v) = fat_bits v"
  "free_clusters (disk_state v) = free_clusters v"
  by (simp_all add: disk_state_def)

lemma same_disk_fields:
  assumes "same_disk v w"
  shows "blocks (fBlockCache w) = blocks (fBlockCache v)" "flags w = flags v" "fs_flags w = fs_flags v"
    "root_vnode w = root_vnode v" "total_clusters w = total_clusters v" "fat_bits w = fat_bits v"
    "free_clusters w = free_clusters v"
  using assms by (metis same_disk_def disk_state_sel)+

interpretation disk: dir_reader same_disk
proof
  show "same_disk v w \<Longrightarrow> root_vnode w = root_vnode v" for v w by (rule same_disk_fields)
qed (auto simp: same_disk_def disk_state_def block_cache_get_def block_cache_put_def raise_fault_def malloc_def Let_def
    split: option.splits list.splits)

text \<open>The first fault that was recorded stays recorded.\<close>

definition fault_kept :: "nspace \<Rightarrow> nspace \<Rightarrow> bool" where
  "fault_kept v w \<longleftrightarrow> root_vnode w = root_vnode v \<and> (fault v \<noteq> None \<longrightarrow> fault w = fault v)"

interpretation faults: dir_reader fault_kept
  by unfold_locales (auto simp: fault_kept_def block_cache_get_def block_cache_put_def raise_fault_def malloc_def Let_def
    split: option.splits list.splits)

end
