(* ===== verification/File_Ops.thy ===== *)
theory File_Ops
  imports Dir_Ops
begin

section \<open>File operations: file.c\<close>

text \<open>
  The operations on a vnode that is in memory. The vnode is passed as a pointer (its id); the kernel
  passes only pointers to vnodes of its table, so that \<open>deref\<close> is defined. The contents of files go
  through the kernel's file cache, whose read and write calls are parameters here; the operations
  of this file decide whether and how they are called and maintain the size of the file.
\<close>

definition deref :: "nspace \<Rightarrow> ino_t \<Rightarrow> vnode" where
  "deref vol p = the (vnode_at vol p)"

definition dosfs_get_vnode_name :: "nspace \<Rightarrow> ino_t \<Rightarrow> nat \<Rightarrow> status_t \<times> bytes \<times> nspace" where
  "dosfs_get_vnode_name vol p bufferSize =
     (case vn_filename (deref vol p) of
        None \<Rightarrow> (B_OK, [], raise_fault Null_dereference vol)
      | Some name \<Rightarrow> (B_OK, take (bufferSize - 1) name, vol))"

text \<open>\<open>NULL\<close> is \<open>None\<close>. The root vnode is part of the volume and stays.\<close>

definition dosfs_release_vnode :: "nspace \<Rightarrow> ino_t option \<Rightarrow> status_t \<times> nspace" where
  "dosfs_release_vnode vol node =
     (case node of
        None \<Rightarrow> (0, vol)
      | Some p \<Rightarrow>
          let vol = (if vn_dirty (deref vol p) then op_sync vol else vol)
          in if p \<noteq> vn_vnid (root_vnode vol) then (0, vol\<lparr>nodes := (nodes vol)(p := None)\<rparr>) else (0, vol))"

record stat =
  st_ino :: ino_t
  st_mode :: uint32
  st_nlink :: nat
  st_size :: int
  st_blocks :: int
  st_blksize :: int
  st_mtime :: int
  st_atime :: int
  st_ctime :: int
  st_crtime :: int

definition dosfs_rstat :: "nspace \<Rightarrow> ino_t \<Rightarrow> status_t \<times> stat" where
  "dosfs_rstat vol p =
     (let node = deref vol p
      in (B_OK, \<lparr>st_ino = vn_vnid node, st_mode = make_mode node, st_nlink = 1, st_size = vn_st_size node,
                 st_blocks = (vn_st_size node + 511) sdiv 512, st_blksize = 0x10000,
                 st_mtime = vn_st_time node, st_atime = vn_st_time node, st_ctime = vn_st_time node,
                 st_crtime = vn_st_crtim node\<rparr>))"

subsection \<open>Changing the attributes of a file\<close>

definition MAX_FILE_SIZE :: int where "MAX_FILE_SIZE = 0xffffffff"
definition B_STAT_MODE :: uint32 where "B_STAT_MODE = 1"
definition B_STAT_SIZE :: uint32 where "B_STAT_SIZE = 8"
definition B_STAT_MODIFICATION_TIME :: uint32 where "B_STAT_MODIFICATION_TIME = 0x20"
definition B_STAT_CREATION_TIME :: uint32 where "B_STAT_CREATION_TIME = 0x40"
definition S_IWUSR :: uint32 where "S_IWUSR = 0x80"
definition S_IWGRP :: uint32 where "S_IWGRP = 0x10"

definition wstat_mode :: "stat \<Rightarrow> vnode \<Rightarrow> vnode" where
  "wstat_mode st node =
     node\<lparr>vn_mode := (if st_mode st AND S_IWUSR \<noteq> 0 then vn_mode node AND NOT FAT_READ_ONLY
                      else vn_mode node OR FAT_READ_ONLY)\<rparr>"

text \<open>The status, whether the size was set, the vnode and the volume.\<close>

definition wstat_size :: "environment \<Rightarrow> nspace \<Rightarrow> stat \<Rightarrow> vnode \<Rightarrow> status_t \<times> bool \<times> vnode \<times> nspace" where
  "wstat_size E vol st node =
     (if vn_mode node AND FAT_SUBDIR \<noteq> 0 then (EISDIR, False, node, vol)
      else if st_size st > MAX_FILE_SIZE then (E2BIG, False, node, vol)
      else
        let clusters = word_of_int (clusters_of_size vol (st_size st));
            (err, node, vol) = set_fat_chain_length E vol node clusters False
        in if err = B_OK
           then (err, True, node\<lparr>vn_st_size := st_size st, vn_iteration := vn_iteration node + 1\<rparr>, vol)
           else (err, False, node, vol))"

definition wstat_mtime :: "stat \<Rightarrow> vnode \<Rightarrow> vnode" where
  "wstat_mtime st node =
     node\<lparr>vn_mode := (if vn_mode node AND FAT_SUBDIR = 0 then vn_mode node OR FAT_ARCHIVE else vn_mode node),
          vn_st_time := st_mtime st\<rparr>"

definition dosfs_wstat :: "environment \<Rightarrow> nspace \<Rightarrow> ino_t \<Rightarrow> stat \<Rightarrow> uint32 \<Rightarrow> status_t \<times> nspace" where
  "dosfs_wstat E vol p st stat_mask =
     (if read_only vol then (EROFS, vol)
      else if vn_disk_image (deref vol p) = 2 then (EPERM, vol)
      else
        let node = deref vol p;
            set_mode = (stat_mask AND B_STAT_MODE \<noteq> 0);
            node = (if set_mode then wstat_mode st node else node);
            (err, sized, node, vol) =
              (if stat_mask AND B_STAT_SIZE \<noteq> 0 then wstat_size E vol st node else (B_OK, False, node, vol));
            set_mtime = (stat_mask AND B_STAT_MODIFICATION_TIME \<noteq> 0);
            node = (if set_mtime then wstat_mtime st node else node);
            set_crtime = (stat_mask AND B_STAT_CREATION_TIME \<noteq> 0);
            node = (if set_crtime then node\<lparr>vn_st_crtim := st_crtime st\<rparr> else node)
        in if set_mode \<or> sized \<or> set_mtime \<or> set_crtime then
             let (_, vol) = write_vnode_entry E vol node;
                 sync = (fs_flags vol AND FS_FLAGS_OP_SYNC \<noteq> 0);
                 vol = op_sync vol
             in (err, store_vnode vol p (if sync then node\<lparr>vn_dirty := False\<rparr> else node))
           else (err, store_vnode vol p node))"

subsection \<open>Opening, reading and writing\<close>

definition O_RWMASK :: uint32 where "O_RWMASK = 3"
definition O_RDONLY :: uint32 where "O_RDONLY = 0"
definition O_EXCL :: uint32 where "O_EXCL = 0x100"
definition O_CREAT :: uint32 where "O_CREAT = 0x200"
definition O_TRUNC :: uint32 where "O_TRUNC = 0x400"
definition O_APPEND :: uint32 where "O_APPEND = 0x800"

text \<open>A file cookie is the mode it holds. The mode a file is really opened with:\<close>

definition open_mode :: "nspace \<Rightarrow> vnode \<Rightarrow> uint32 \<Rightarrow> uint32" where
  "open_mode vol node omode =
     (if read_only vol \<or> vn_mode node AND FAT_READ_ONLY \<noteq> 0 \<or> vn_disk_image node \<noteq> 0
         \<or> vn_mode node AND FAT_SUBDIR \<noteq> 0
      then (omode AND NOT O_RWMASK) OR O_RDONLY else omode)"

definition open_truncate :: "environment \<Rightarrow> nspace \<Rightarrow> ino_t \<Rightarrow> status_t \<times> nspace" where
  "open_truncate E vol p =
     (let (result, node, vol) = set_fat_chain_length E vol (deref vol p) 0 False
      in if result \<noteq> B_OK then (result, store_vnode vol p node)
         else (B_OK, store_vnode vol p
                       (node\<lparr>vn_mode := 0, vn_st_size := 0, vn_iteration := vn_iteration node + 1\<rparr>)))"

definition dosfs_open :: "environment \<Rightarrow> nspace \<Rightarrow> ino_t \<Rightarrow> uint32 \<Rightarrow> status_t \<times> uint32 option \<times> nspace" where
  "dosfs_open E vol p omode =
     (if omode AND O_CREAT \<noteq> 0 then (EINVAL, None, vol)
      else
        let omode = open_mode vol (deref vol p) omode
        in if omode AND O_TRUNC \<noteq> 0 \<and> omode AND O_RWMASK = O_RDONLY then (EPERM, None, vol)
           else
             let (result, vol) = (if omode AND O_TRUNC \<noteq> 0 then open_truncate E vol p else (B_OK, vol))
             in if result \<noteq> B_OK then (result, None, vol)
                else let (ok, vol) = malloc vol
                     in if ok then (B_OK, Some omode, vol) else (ENOMEM, None, vol))"

text \<open>The status and the length; \<open>cache_read\<close> is \<open>file_cache_read\<close>.\<close>

definition dosfs_read ::
  "(ino_t \<Rightarrow> int \<Rightarrow> nat \<Rightarrow> status_t \<times> nat) \<Rightarrow> nspace \<Rightarrow> ino_t \<Rightarrow> int \<Rightarrow> nat \<Rightarrow> status_t \<times> nat" where
  "dosfs_read cache_read vol p pos len =
     (if vn_mode (deref vol p) AND FAT_SUBDIR \<noteq> 0 then (EISDIR, 0) else cache_read p pos len)"

text \<open>
  Extending a file before data is written behind its end. \<open>pos + *len\<close> is computed in 64 bits
  without sign.
\<close>

definition write_end :: "int \<Rightarrow> 64 word \<Rightarrow> 64 word" where
  "write_end pos len = word_of_int pos + len"

definition write_clusters :: "nspace \<Rightarrow> int \<Rightarrow> 64 word \<Rightarrow> uint32" where
  "write_clusters vol pos len =
     ucast ((write_end pos len + ucast (bytes_per_sector vol * sectors_per_cluster vol) - 1)
              div ucast (bytes_per_sector vol) div ucast (sectors_per_cluster vol))"

definition write_extend ::
  "environment \<Rightarrow> nspace \<Rightarrow> vnode \<Rightarrow> int \<Rightarrow> 64 word \<Rightarrow> status_t \<times> vnode \<times> nspace" where
  "write_extend E vol node pos len =
     (if write_end pos len > word_of_int (vn_st_size node) then
        let clusters = write_clusters vol pos len;
            (result, node, vol) =
              (if vn_st_size node \<le> uint ((clusters - 1) * sectors_per_cluster vol * bytes_per_sector vol) then
                 let (result, node, vol) = set_fat_chain_length E vol node clusters False
                 in (result, if result = B_OK then node\<lparr>vn_iteration := vn_iteration node + 1\<rparr> else node, vol)
               else (B_OK, node, vol))
        in if result \<noteq> B_OK then (result, node, vol)
           else
             let node = node\<lparr>vn_st_size := sint (write_end pos len)\<rparr>;
                 (_, vol) = write_vnode_entry E vol node
             in (B_OK, node\<lparr>vn_dirty := True\<rparr>, vol)
      else (B_OK, node, vol))"

text \<open>The status, the length and the volume; \<open>cache_write\<close> is \<open>file_cache_write\<close>.\<close>

definition dosfs_write ::
  "environment \<Rightarrow> (ino_t \<Rightarrow> int \<Rightarrow> 64 word \<Rightarrow> status_t \<times> 64 word) \<Rightarrow> nspace \<Rightarrow> ino_t \<Rightarrow> uint32 \<Rightarrow> int \<Rightarrow> 64 word \<Rightarrow>
   status_t \<times> 64 word \<times> nspace" where
  "dosfs_write E cache_write vol p cookie pos len =
     (if read_only vol then (EROFS, len, vol)
      else if vn_mode (deref vol p) AND FAT_SUBDIR \<noteq> 0 then (EISDIR, 0, vol)
      else if cookie AND O_RWMASK = O_RDONLY then (EPERM, 0, vol)
      else
        let pos = (if pos < 0 then 0 else pos);
            pos = (if cookie AND O_APPEND \<noteq> 0 then vn_st_size (deref vol p) else pos)
        in if pos \<ge> MAX_FILE_SIZE then (E2BIG, 0, vol)
           else
             let len = (if write_end pos len \<ge> word_of_int MAX_FILE_SIZE then word_of_int (MAX_FILE_SIZE - pos) else len);
                 (result, node, vol) = write_extend E vol (deref vol p) pos len;
                 vol = store_vnode vol p node
             in if result \<noteq> B_OK then (result, len, vol)
                else let (result, len) = cache_write p pos len in (result, len, vol))"

definition dosfs_close :: "nspace \<Rightarrow> ino_t \<Rightarrow> status_t \<times> nspace" where
  "dosfs_close vol p =
     (let node = deref vol p
      in if fs_flags vol AND FS_FLAGS_OP_SYNC \<noteq> 0 \<and> vn_dirty node
         then (0, store_vnode (snd (dosfs_sync vol)) p (node\<lparr>vn_dirty := False\<rparr>)) else (0, vol))"

definition dosfs_free_cookie :: "nspace \<Rightarrow> ino_t \<Rightarrow> uint32 \<Rightarrow> status_t" where
  "dosfs_free_cookie vol p cookie = 0"

subsection \<open>Where a file is on the disk\<close>

text \<open>
  The inner loop of \<open>dosfs_get_file_map\<close>: it extends a run of consecutive sectors that starts at
  \<open>block\<close>. Every round takes at least a byte from \<open>len\<close>, the number of bytes not covered yet; the
  first argument bounds the rounds.
\<close>

fun map_run :: "nat \<Rightarrow> nspace \<Rightarrow> csi \<Rightarrow> int \<Rightarrow> nat \<Rightarrow> nat \<Rightarrow> status_t \<times> csi \<times> nat \<times> nat \<times> nspace" where
  "map_run 0 vol iter block sectors len = (B_OK, iter, sectors, len, raise_fault Endless_loop vol)"
| "map_run (Suc k) vol iter block sectors len =
     (if len > 0 then
        let (result, iter, vol) = iter_csi vol iter 1
        in if result \<noteq> B_OK then (EIO, iter, sectors, len, vol)
           else if block + int sectors \<noteq> csi_to_block vol iter then (B_OK, iter, sectors, len, vol)
           else map_run k vol iter block (sectors + 1) (len - min len (unat (bytes_per_sector vol)))
      else (B_OK, iter, sectors, len, vol))"

text \<open>
  The outer loop. A vector is a pair of an offset on the disk and a length; the length is computed
  in 32 bits. The vector is stored before the number of vectors is compared with \<open>max\<close>.
\<close>

fun map_loop ::
  "nat \<Rightarrow> nspace \<Rightarrow> csi \<Rightarrow> nat \<Rightarrow> nat \<Rightarrow> nat \<Rightarrow> (int \<times> int) list \<Rightarrow> status_t \<times> (int \<times> int) list \<times> nspace" where
  "map_loop 0 vol iter offset len max_vecs vecs = (B_OK, vecs, raise_fault Endless_loop vol)"
| "map_loop (Suc k) vol iter offset len max_vecs vecs =
     (if len > 0 then
        let block = csi_to_block vol iter;
            len = len - min len (unat (bytes_per_sector vol) - offset);
            (result, iter, sectors, len, vol) = map_run (Suc len) vol iter block 1 len
        in if result \<noteq> B_OK then (result, vecs, vol)
           else
             let vol = (if length vecs \<ge> max_vecs then raise_fault Out_of_bounds vol else vol);
                 vecs = vecs @ [(block * uint (bytes_per_sector vol) + int offset,
                                 uint (of_nat sectors * bytes_per_sector vol) - int offset)]
             in if len = 0 then (B_OK, vecs, vol)
                else if length vecs \<ge> max_vecs then (B_BUFFER_OVERFLOW, vecs, vol)
                else map_loop k vol iter 0 len max_vecs vecs
      else (B_OK, vecs, vol))"

text \<open>The number of bytes to map: up to the end of the file, taking overflow into account.\<close>

definition map_length :: "int \<Rightarrow> int \<Rightarrow> 64 word \<Rightarrow> nat" where
  "map_length fsize position len =
     (if word_of_int position + len \<ge> word_of_int fsize \<or> word_of_int position + len < word_of_int position
      then nat (fsize - position) else unat len)"

text \<open>The status, the vectors and the volume.\<close>

definition dosfs_get_file_map ::
  "nspace \<Rightarrow> ino_t \<Rightarrow> int \<Rightarrow> 64 word \<Rightarrow> nat \<Rightarrow> status_t \<times> (int \<times> int) list \<times> nspace" where
  "dosfs_get_file_map vol p position len max_vecs =
     (let node = deref vol p;
          position = (if position < 0 then 0 else position)
      in if vn_mode node AND FAT_SUBDIR \<noteq> 0 then (EISDIR, [], vol)
         else if vn_st_size node = 0 \<or> len = 0 \<or> position \<ge> vn_st_size node then (B_OK, [], vol)
         else
           let len = map_length (vn_st_size node) position len
           in case init_csi vol (vn_cluster node) 0 of
                (_, None) \<Rightarrow> (EIO, [], vol)
              | (_, Some iter) \<Rightarrow>
                  let skipSectors = word_of_int (position div uint (bytes_per_sector vol)) :: uint32;
                      (result, iter, vol) =
                        (if skipSectors > 0 then iter_csi vol iter (sint skipSectors) else (B_OK, iter, vol))
                  in if result \<noteq> B_OK then (EIO, [], vol)
                     else map_loop (Suc len) vol iter (nat (position mod uint (bytes_per_sector vol))) len max_vecs [])"

end
