(* ===== verification/Name_Ops.thy ===== *)
theory Name_Ops
  imports File_Ops
begin

section \<open>Creating, renaming and removing files and directories: file.c\<close>

text \<open>
  The operations that change the name space. Directories and files are pointers to vnodes. The
  kernel's \<open>remove_vnode\<close> marks a vnode for removal: the vnode stays in memory until it is no longer
  used, then the kernel calls \<open>dosfs_remove_vnode\<close>.
\<close>

definition remove_vnode :: "nspace \<Rightarrow> ino_t \<Rightarrow> nspace" where
  "remove_vnode vol vnid = vol\<lparr>removed := vnid # removed vol\<rparr>"

text \<open>The local variable \<open>dummy\<close>, of which only the given fields are used.\<close>

definition dummy_vnode :: "ino_t \<Rightarrow> uint32 \<Rightarrow> uint32 \<Rightarrow> int \<Rightarrow> int \<Rightarrow> vnode" where
  "dummy_vnode dir_vnid cluster mode fsize tm =
     \<lparr>vn_vnid = 0, vn_dir_vnid = dir_vnid, vn_disk_image = 0, vn_iteration = 0, vn_sindex = 0, vn_eindex = 0,
      vn_cluster = cluster, vn_mode = mode, vn_st_size = fsize, vn_st_time = tm, vn_st_crtim = tm,
      vn_end_cluster = cluster, vn_mime = None, vn_dirty = False, vn_filename = None\<rparr>"

text \<open>The id for a new file or directory at a location, entered into the cache if the location is taken as an id.\<close>

definition vnid_for_new :: "nspace \<Rightarrow> ino_t \<Rightarrow> status_t \<times> ino_t \<times> nspace" where
  "vnid_for_new vol loc =
     (if find_vnid_in_vcache_status vol loc = B_OK then
        let (vnid, vol) = generate_unique_vnid vol;
            (result, vol) = add_to_vcache vol vnid loc
        in (result, vnid, vol)
      else (B_OK, loc, vol))"

subsection \<open>Creating a file\<close>

text \<open>An existing file is opened, and truncated if that is asked for.\<close>

definition create_existing :: "environment \<Rightarrow> nspace \<Rightarrow> ino_t option \<Rightarrow> uint32 \<Rightarrow> status_t \<times> nspace" where
  "create_existing E vol p omode =
     (case p of
        None \<Rightarrow> (B_OK, raise_fault Null_dereference vol)
      | Some f \<Rightarrow>
          let file = deref vol f
          in if omode AND O_EXCL \<noteq> 0 then (EEXIST, vol)
             else if vn_mode file AND FAT_SUBDIR \<noteq> 0 then (EPERM, vol)
             else if vn_disk_image file \<noteq> 0 then (EPERM, vol)
             else if omode AND O_TRUNC \<noteq> 0 then
               let (_, file, vol) = set_fat_chain_length E vol file 0 False
               in (B_OK, store_vnode vol f (file\<lparr>vn_st_size := 0, vn_iteration := vn_iteration file + 1\<rparr>))
             else (B_OK, vol))"

definition create_new :: "environment \<Rightarrow> nspace \<Rightarrow> ino_t \<Rightarrow> bytes \<Rightarrow> status_t \<times> ino_t \<times> nspace" where
  "create_new E vol dirp name =
     (let dir = deref vol dirp;
          dummy = dummy_vnode (vn_vnid dir) 0 0 0 (now E);
          (result, ns, ne, dir, vol) = create_dir_entry E vol dir dummy name;
          vol = store_vnode vol dirp dir
      in if result \<noteq> B_OK then (result, 0, vol)
         else
           let (result, vnid, vol) = vnid_for_new vol (GENERATE_DIR_INDEX_VNID (vn_dir_vnid dummy) ns)
           in if result < 0 then (result, 0, op_sync vol)
              else
                let (result, _, vol) = get_vnode E vol vnid
                in if result < B_OK then (result, vnid, op_sync vol) else (B_OK, vnid, vol))"

text \<open>The status, the file cookie, the vnode id and the volume; \<open>NULL\<close> as a name is \<open>None\<close>.\<close>

definition dosfs_create ::
  "environment \<Rightarrow> nspace \<Rightarrow> ino_t \<Rightarrow> bytes option \<Rightarrow> uint32 \<Rightarrow> status_t \<times> uint32 option \<times> ino_t \<times> nspace" where
  "dosfs_create E vol dirp name omode =
     (case name of
        None \<Rightarrow> (EINVAL, None, 0, vol)
      | Some name \<Rightarrow>
          if read_only vol then (EROFS, None, 0, vol)
          else if omode AND O_RWMASK = O_RDONLY then (EPERM, None, 0, vol)
          else
            let (ok, vol) = malloc vol
            in if \<not> ok then (ENOMEM, None, 0, vol)
               else
                 let (result, vnid, p, dups, vol) = findfile_case_duplicates E vol (deref vol dirp) name True;
                     (result, vnid, vol) =
                       (if result = B_OK then let (result, vol) = create_existing E vol p omode in (result, vnid, vol)
                        else if result = ENOENT \<and> dups then (EEXIST, vnid, vol)
                        else if result = ENOENT \<and> \<not> dups then create_new E vol dirp name
                        else (result, vnid, vol))
                 in if result \<noteq> B_OK then (result, None, vnid, vol)
                    else (B_OK, Some omode, vnid, op_sync vol))"

subsection \<open>Creating a directory\<close>

definition patch :: "nat \<Rightarrow> bytes \<Rightarrow> bytes \<Rightarrow> bytes" where
  "patch k xs buffer = take k buffer @ xs @ drop (k + length xs) buffer"

text \<open>The first sector of a new directory, with the entries \<open>.\<close> and \<open>..\<close>.\<close>

definition mkdir_block :: "environment \<Rightarrow> nspace \<Rightarrow> vnode \<Rightarrow> vnode \<Rightarrow> bytes" where
  "mkdir_block E vol dir dummy =
     (let buffer = replicate (unat (bytes_per_sector vol)) 0;
          buffer = patch 0 (0x2e # replicate 10 0x20) buffer;
          buffer = patch 0x20 (0x2e # 0x2e # replicate 9 0x20) buffer;
          buffer = buffer[0x0b := ucast FAT_SUBDIR, 0x2b := ucast FAT_SUBDIR];
          i = time_t2dos (tzoffset E) (vn_st_time dummy);
          buffer = patch 0x16 (le32 i) (patch 0x0e (le32 i) buffer);
          buffer = patch 0x2e (le32 (time_t2dos (tzoffset E) (vn_st_crtim dir))) buffer;
          buffer = patch 0x36 (le32 (time_t2dos (tzoffset E) (vn_st_time dir))) buffer;
          buffer = patch 0x1a (le16 (vn_cluster dummy)) buffer;
          buffer = (if fat_bits vol = 32 then patch 0x14 (le16 (drop_bit 16 (vn_cluster dummy))) buffer else buffer)
      in if vn_vnid dir \<noteq> vn_vnid (root_vnode vol) then
           let buffer = patch 0x3a (le16 (vn_cluster dir)) buffer
           in if fat_bits vol = 32 then patch 0x34 (le16 (drop_bit 16 (vn_cluster dir))) buffer else buffer
         else buffer)"

text \<open>\<open>for (i=1;i<vol->sectors_per_cluster;i++)\<close>\<close>

fun mkdir_clear :: "nat \<Rightarrow> nspace \<Rightarrow> csi \<Rightarrow> nspace" where
  "mkdir_clear 0 vol csi = vol"
| "mkdir_clear (Suc k) vol csi =
     (let (err, csi, vol) = iter_csi vol csi 1
      in if err \<noteq> B_OK then vol
         else mkdir_clear k (snd (csi_write_block vol csi (replicate (unat (bytes_per_sector vol)) 0))) csi)"

text \<open>The labels \<open>bi2\<close>, \<open>bi3\<close> and \<open>bi4\<close>.\<close>

definition mkdir_bi2 :: "nspace \<Rightarrow> uint32 \<Rightarrow> nspace" where
  "mkdir_bi2 vol cluster = op_sync (snd (clear_fat_chain vol cluster False))"

definition mkdir_bi3 :: "nspace \<Rightarrow> uint32 \<Rightarrow> ino_t \<Rightarrow> nspace" where
  "mkdir_bi3 vol cluster vnid =
     mkdir_bi2 (if IS_ARTIFICIAL_VNID vnid then snd (remove_from_vcache vol vnid) else vol) cluster"

definition mkdir_bi4 :: "nspace \<Rightarrow> uint32 \<Rightarrow> ino_t \<Rightarrow> nspace" where
  "mkdir_bi4 vol cluster vnid = mkdir_bi3 (snd (dlist_remove vol vnid)) cluster vnid"

definition mkdir_fill :: "environment \<Rightarrow> nspace \<Rightarrow> vnode \<Rightarrow> vnode \<Rightarrow> nspace" where
  "mkdir_fill E vol dir dummy =
     (case init_csi vol (vn_cluster dummy) 0 of
        (_, None) \<Rightarrow> vol
      | (_, Some csi) \<Rightarrow>
          mkdir_clear (unat (sectors_per_cluster vol) - 1)
            (snd (csi_write_block vol csi (mkdir_block E vol dir dummy))) csi)"

definition dosfs_mkdir :: "environment \<Rightarrow> nspace \<Rightarrow> ino_t \<Rightarrow> bytes \<Rightarrow> uint32 \<Rightarrow> status_t \<times> nspace" where
  "dosfs_mkdir E vol dirp name perms =
     (let dir = deref vol dirp
      in if vn_mode dir AND FAT_SUBDIR = 0 then (EINVAL, vol)
         else if read_only vol then (EROFS, vol)
         else case allocate_n_fat_entries vol 1 of
           (result, None, vol) \<Rightarrow> (result, vol)
         | (_, Some c, vol) \<Rightarrow>
             let cluster = word_of_int c;
                 mode = (if perms AND (S_IWUSR OR S_IWGRP) = 0 then FAT_SUBDIR OR FAT_READ_ONLY else FAT_SUBDIR);
                 dummy = dummy_vnode (vn_vnid dir) cluster mode (uint (bytes_per_sector vol * sectors_per_cluster vol)) (now E);
                 (result, vnid, vol) = vnid_for_new vol (GENERATE_DIR_CLUSTER_VNID (vn_vnid dir) cluster)
             in if result < 0 then (result, mkdir_bi2 vol cluster)
                else
                  let (result, vol) = dlist_add vol vnid
                  in if result < 0 then (result, mkdir_bi3 vol cluster vnid)
                     else
                       let (ok, vol) = malloc vol
                       in if \<not> ok then (ENOMEM, mkdir_bi4 vol cluster vnid)
                          else
                            let (result, ns, ne, dir, vol) = create_dir_entry E vol dir dummy name;
                                vol = store_vnode vol dirp dir
                            in if result \<noteq> B_OK then (result, mkdir_bi4 vol cluster vnid)
                               else (B_OK, op_sync (mkdir_fill E vol dir dummy)))"

subsection \<open>Renaming\<close>

text \<open>
  The walk from the target directory to the root, which fails if it meets \<open>vnid\<close>, the directory
  that is to be moved. Unless the parents form a cycle it visits every directory at most once, and
  all directories are in the directory list or marked for removal; the first argument bounds the
  steps.
\<close>

fun rename_parents :: "nat \<Rightarrow> environment \<Rightarrow> nspace \<Rightarrow> ino_t \<Rightarrow> ino_t \<Rightarrow> status_t \<times> nspace" where
  "rename_parents 0 E vol file vnid = (B_OK, raise_fault Endless_loop vol)"
| "rename_parents (Suc k) E vol file vnid =
     (if vnid = file then (EINVAL, vol)
      else if vnid = vn_vnid (root_vnode vol) then (B_OK, vol)
      else case get_vnode E vol vnid of
             (result, None, vol) \<Rightarrow> (result, vol)
           | (_, Some dir, vol) \<Rightarrow> rename_parents k E vol file (vn_dir_vnid (deref vol dir)))"

text \<open>
  The target exists: its entry is taken over and the old entry is erased. The results are the
  status, the first and the last index of the new entry, \<open>dirty\<close> and the volume.
\<close>

definition rename_replace ::
  "environment \<Rightarrow> nspace \<Rightarrow> ino_t \<Rightarrow> ino_t option \<Rightarrow> status_t \<times> uint32 \<times> uint32 \<times> bool \<times> nspace" where
  "rename_replace E vol file p =
     (case p of
        None \<Rightarrow> (B_ERROR, 0, 0, False, raise_fault Null_dereference vol)
      | Some f2 \<Rightarrow>
          let file2 = deref vol f2
          in if vn_mode file2 AND FAT_SUBDIR \<noteq> 0 then (EPERM, 0, 0, False, vol)
             else if vn_disk_image file2 \<noteq> 0 then (EPERM, 0, 0, False, vol)
             else
               let (u, vol) = generate_unique_vnid vol;
                   (_, vol) = vcache_set_entry vol (vn_vnid file2) u;
                   vol = remove_vnode vol (vn_vnid file2);
                   (result, vol) = erase_dir_entry vol (deref vol file)
               in (result, vn_sindex file2, vn_eindex file2, True, vol))"

text \<open>The target does not exist: the old entry is erased and a new one is created.\<close>

definition rename_create ::
  "environment \<Rightarrow> nspace \<Rightarrow> ino_t \<Rightarrow> ino_t \<Rightarrow> bytes \<Rightarrow> status_t \<times> uint32 \<times> uint32 \<times> bool \<times> nspace" where
  "rename_create E vol file ndir newname =
     (let (result, vol) = erase_dir_entry vol (deref vol file)
      in if result \<noteq> B_OK then (result, 0, 0, False, vol)
         else
           let (result, ns, ne, dir, vol) = create_dir_entry E vol (deref vol ndir) (deref vol file) newname
           in (result, ns, ne, True, store_vnode vol ndir dir))"

text \<open>
  The entry \<open>..\<close> of a directory that was moved. When the entry is not what it should be, the block
  of the iterator is not released.
\<close>

definition rename_dotdot :: "nspace \<Rightarrow> vnode \<Rightarrow> vnode \<Rightarrow> status_t \<times> nspace" where
  "rename_dotdot vol file ndir =
     (case diri_init vol (vn_cluster file) 1 fresh_diri of
        (None, diri, vol) \<Rightarrow> (EIO, vol)
      | (Some p, diri, vol) \<Rightarrow>
          if take 11 (entry_bytes vol p) \<noteq> chars ''..         '' then (EIO, vol)
          else
            let vol = (if vn_vnid ndir = vn_vnid (root_vnode vol) then write_entry p 0x1a [0, 0] vol
                       else
                         let vol = write_entry p 0x1a (le16 (vn_cluster ndir)) vol
                         in if fat_bits vol = 32 then write_entry p 0x14 (le16 (drop_bit 16 (vn_cluster ndir))) vol
                            else vol)
            in (B_OK, snd (diri_free vol diri)))"

text \<open>
  What follows once the entry is in its new place. On an error in the last step the code goes to
  \<open>bi2\<close>, where it uses \<open>file2\<close>, which is set only if the target existed.
\<close>

definition rename_finish ::
  "environment \<Rightarrow> nspace \<Rightarrow> ino_t \<Rightarrow> ino_t \<Rightarrow> ino_t \<Rightarrow> ino_t option \<Rightarrow> uint32 \<Rightarrow> uint32 \<Rightarrow> bytes \<Rightarrow> status_t \<times> nspace" where
  "rename_finish E vol odir ndir f file2 ns ne newname =
     (let (_, dir, vol) = compact_directory E vol (deref vol odir);
          vol = store_vnode vol odir dir;
          file = (deref vol f)\<lparr>vn_dir_vnid := vn_vnid (deref vol ndir), vn_sindex := ns, vn_eindex := ne\<rparr>;
          vol = store_vnode vol f file;
          (_, vol) = vcache_set_entry vol (vn_vnid file)
            (if vn_st_size file \<noteq> 0 then GENERATE_DIR_CLUSTER_VNID (vn_dir_vnid file) (vn_cluster file)
             else GENERATE_DIR_INDEX_VNID (vn_dir_vnid file) (vn_sindex file));
          (_, vol) = write_vnode_entry E vol file;
          (result, vol) =
            (if vn_mode file AND FAT_SUBDIR \<noteq> 0 then rename_dotdot vol file (deref vol ndir) else (B_OK, vol))
      in if result \<noteq> B_OK then (result, if file2 = None then raise_fault Null_dereference vol else vol)
         else
           let (ok, vol) = malloc vol;
               file = file\<lparr>vn_filename := (if ok then Some newname else None)\<rparr>;
               file = (if vn_mode file AND FAT_SUBDIR = 0 then file\<lparr>vn_mime := set_mime E newname\<rparr> else file)
           in (B_OK, store_vnode vol f file))"

text \<open>From the point where the file was found; the results are the status, \<open>dirty\<close> and the volume.\<close>

definition rename_found ::
  "environment \<Rightarrow> nspace \<Rightarrow> ino_t \<Rightarrow> bytes \<Rightarrow> ino_t \<Rightarrow> bytes \<Rightarrow> ino_t \<Rightarrow> status_t \<times> bool \<times> nspace" where
  "rename_found E vol odir oldname ndir newname f =
     (let file = deref vol f
      in if vn_disk_image file \<noteq> 0 then (EPERM, False, vol)
         else
           let (result, vol) =
                 (if vn_mode file AND FAT_SUBDIR \<noteq> 0
                  then rename_parents (unat (entries (dlist vol)) + length (removed vol) + 2) E vol (vn_vnid file)
                         (vn_vnid (deref vol ndir))
                  else (B_OK, vol))
           in if result < B_OK then (result, False, vol)
              else
                let (result, _, file2, dups, vol) = findfile_case_duplicates E vol (deref vol ndir) newname True;
                    (result, ns, ne, dirty, vol) =
                      (if result = B_OK then rename_replace E vol f file2
                       else if result = ENOENT \<and>
                               (\<not> dups \<or> vn_vnid (deref vol odir) = vn_vnid (deref vol ndir) \<and> same_nocase oldname newname)
                       then rename_create E vol f ndir newname
                       else if result = ENOENT \<and> dups then (EEXIST, 0, 0, False, vol)
                       else (result, 0, 0, False, vol))
                in if result \<noteq> B_OK then (result, dirty, vol)
                   else let (result, vol) = rename_finish E vol odir ndir f file2 ns ne newname
                        in (result, True, vol))"

definition dosfs_rename ::
  "environment \<Rightarrow> nspace \<Rightarrow> ino_t \<Rightarrow> bytes \<Rightarrow> ino_t \<Rightarrow> bytes \<Rightarrow> status_t \<times> nspace" where
  "dosfs_rename E vol odir oldname ndir newname =
     (if oldname = [] \<or> newname = [] then (EINVAL, vol)
      else if \<not> is_filename_legal newname then (EINVAL, vol)
      else if read_only vol then (EROFS, vol)
      else if vn_vnid (deref vol odir) = vn_vnid (deref vol ndir) \<and> oldname = newname then (EPERM, vol)
      else
        let (result, _, file, vol) = findfile_case E vol (deref vol odir) oldname True
        in if result \<noteq> B_OK then (result, vol)
           else case file of
             None \<Rightarrow> (B_ERROR, raise_fault Null_dereference vol)
           | Some f \<Rightarrow>
               let (result, dirty, vol) = rename_found E vol odir oldname ndir newname f
               in (result, if dirty then op_sync vol else vol))"

subsection \<open>Removing\<close>

text \<open>Called by the kernel when a vnode that is marked for removal is no longer used.\<close>

definition dosfs_remove_vnode :: "nspace \<Rightarrow> ino_t \<Rightarrow> bool \<Rightarrow> status_t \<times> nspace" where
  "dosfs_remove_vnode vol p reenter =
     (if read_only vol then (EROFS, vol)
      else
        let node = deref vol p;
            vol = (if vn_cluster node \<noteq> 0
                   then snd (clear_fat_chain vol (vn_cluster node) (vn_mode node AND FAT_SUBDIR \<noteq> 0)) else vol);
            vol = (if find_vnid_in_vcache_status vol (vn_vnid node) = B_OK
                   then snd (remove_from_vcache vol (vn_vnid node)) else vol);
            vol = vol\<lparr>nodes := (nodes vol)(p := None)\<rparr>
        in (B_OK, if \<not> reenter then op_sync vol else vol))"

text \<open>The checks that depend on what is removed.\<close>

definition unlink_check :: "nspace \<Rightarrow> vnode \<Rightarrow> bool \<Rightarrow> status_t \<times> nspace" where
  "unlink_check vol file is_file =
     (if vn_disk_image file \<noteq> 0 then (EPERM, vol)
      else if is_file then (if vn_mode file AND FAT_SUBDIR \<noteq> 0 then EISDIR else B_OK, vol)
      else if vn_mode file AND FAT_SUBDIR = 0 then (ENOTDIR, vol)
      else if vn_vnid file = vn_vnid (root_vnode vol) then (EPERM, vol)
      else check_dir_empty vol file)"

definition unlink_found :: "environment \<Rightarrow> nspace \<Rightarrow> ino_t \<Rightarrow> ino_t \<Rightarrow> bool \<Rightarrow> status_t \<times> nspace" where
  "unlink_found E vol dirp f is_file =
     (let (result, vol) = unlink_check vol (deref vol f) is_file
      in if result < 0 then (result, vol)
         else
           let (result, vol) = erase_dir_entry vol (deref vol f)
           in if result \<noteq> B_OK then (result, vol)
              else
                let (_, dir, vol) = compact_directory E vol (deref vol dirp);
                    vol = store_vnode vol dirp dir;
                    file = deref vol f;
                    (u, vol) = generate_unique_vnid vol;
                    (_, vol) = vcache_set_entry vol (vn_vnid file) u;
                    vol = (if \<not> is_file then snd (dlist_remove vol (vn_vnid file)) else vol)
                in (0, op_sync (remove_vnode vol (vn_vnid file))))"

definition do_unlink :: "environment \<Rightarrow> nspace \<Rightarrow> ino_t \<Rightarrow> bytes \<Rightarrow> bool \<Rightarrow> status_t \<times> nspace" where
  "do_unlink E vol dirp name is_file =
     (if name = chars ''.'' then (EPERM, vol)
      else if name = chars ''..'' then (EPERM, vol)
      else if read_only vol then (EROFS, vol)
      else
        let (result, _, file, vol) = findfile_case E vol (deref vol dirp) name True
        in if result \<noteq> B_OK then (ENOENT, vol)
           else case file of
             None \<Rightarrow> (B_ERROR, raise_fault Null_dereference vol)
           | Some f \<Rightarrow> unlink_found E vol dirp f is_file)"

definition dosfs_unlink :: "environment \<Rightarrow> nspace \<Rightarrow> ino_t \<Rightarrow> bytes \<Rightarrow> status_t \<times> nspace" where
  "dosfs_unlink E vol dirp name = do_unlink E vol dirp name True"

definition dosfs_rmdir :: "environment \<Rightarrow> nspace \<Rightarrow> ino_t \<Rightarrow> bytes \<Rightarrow> status_t \<times> nspace" where
  "dosfs_rmdir E vol dirp name = do_unlink E vol dirp name False"

end
