(* ===== verification/Mount.thy ===== *)
theory Mount
  imports Dir_Update Fs_Info
begin

section \<open>Mounting a volume: dosfs.c\<close>

text \<open>
  The boot sector (BIOS parameter block) is validated and turned into a volume. The device is given by
  its read function: \<open>Inl\<close> what \<open>read_pos\<close> returned if that is not the number of bytes asked for,
  \<open>Inr\<close> the bytes otherwise. The block cache that is created shows the contents of the device.
\<close>

type_synonym device = "int \<Rightarrow> nat \<Rightarrow> status_t + bytes"

record geometry =
  geo_bytes_per_sector :: uint32
  sectors_per_track :: uint32
  cylinder_count :: uint32
  head_count :: uint32
  geo_removable :: bool
  geo_read_only :: bool

subsection \<open>Labels\<close>

text \<open>\<open>for (index = 10; index > 0; index--)\<close>\<close>

fun trim_loop :: "nat \<Rightarrow> bytes \<Rightarrow> bytes" where
  "trim_loop 0 label = label"
| "trim_loop (Suc i) label = (if label ! Suc i = 0x20 then trim_loop i (label[Suc i := 0]) else label)"

definition dosfs_trim_spaces :: "bytes \<Rightarrow> bytes" where
  "dosfs_trim_spaces label = trim_loop 10 label"

text \<open>Whether there is a label, and the buffer for it, of which the first eleven bytes are set.\<close>

definition set_label :: "bytes \<Rightarrow> bytes \<Rightarrow> bytes" where
  "set_label src label = dosfs_trim_spaces (take 11 src @ drop 11 label)"

definition dosfs_read_label :: "bool \<Rightarrow> bytes \<Rightarrow> bytes \<Rightarrow> bool \<times> bytes" where
  "dosfs_read_label fat32 buffer label =
     (let check = (if fat32 then 0x42 else 0x29); offset = (if fat32 then 0x47 else 0x2b)
      in if buffer ! check = 0x29 \<and> take 11 (drop offset buffer) \<noteq> replicate 11 0x20
         then (True, set_label (drop offset buffer) label) else (False, label))"

subsection \<open>The volume\<close>

definition zero_vnode :: vnode where
  "zero_vnode = \<lparr>vn_vnid = 0, vn_dir_vnid = 0, vn_disk_image = 0, vn_iteration = 0, vn_sindex = 0, vn_eindex = 0,
     vn_cluster = 0, vn_mode = 0, vn_st_size = 0, vn_st_time = 0, vn_st_crtim = 0, vn_end_cluster = 0,
     vn_mime = None, vn_dirty = False, vn_filename = None\<rparr>"

text \<open>\<open>calloc(sizeof(nspace), 1)\<close>; \<open>outcomes\<close> are those of the later calls of \<open>malloc\<close>.\<close>

definition zero_nspace :: "bool list \<Rightarrow> nspace" where
  "zero_nspace outcomes = \<lparr>flags = 0, fBlockCache = \<lparr>blocks = (\<lambda>_. None), refs = (\<lambda>_. 0), discards = []\<rparr>,
     bytes_per_sector = 0, sectors_per_cluster = 0, reserved_sectors = 0, fat_count = 0, root_entries_count = 0,
     total_sectors = 0, sectors_per_fat = 0, media_descriptor = 0, fsinfo_sector = 0, total_clusters = 0,
     free_clusters = 0, fat_bits = 0, fat_mirrored = False, active_fat = 0, root_start = 0, root_sectors = 0,
     root_vnode = zero_vnode, vol_entry = 0, vol_label = replicate 12 0, data_start = 0, last_allocated = 0,
     beos_vnid = 0, respect_disk_image = False, fs_flags = 0,
     vcache = \<lparr>cur_vnid = 0, cache_size = 0, by_vnid = [], by_loc = []\<rparr>,
     dlist = \<lparr>entries = 0, allocated = 0, vnid_list = None\<rparr>,
     nodes = (\<lambda>_. None), removed = [], fault = None, mem = outcomes\<rparr>"

text \<open>The checks that \<open>volume_init\<close> and \<open>dosfs_identify_partition\<close> have in common.\<close>

definition bpb_valid :: "bytes \<Rightarrow> bool" where
  "bpb_valid buf \<longleftrightarrow>
     \<not> ((buf ! 0x1fe \<noteq> 0x55 \<or> buf ! 0x1ff \<noteq> 0xaa) \<and> buf ! 0x15 = 0xf8) \<and>
     take 8 (drop 3 buf) \<noteq> chars ''NTFS    '' \<and> take 8 (drop 3 buf) \<noteq> chars ''HPFS    '' \<and>
     read16 buf 0xb \<in> {0x200, 0x400, 0x800, 0x1000} \<and>
     buf ! 0xd \<in> {1, 2, 4, 8, 0x10, 0x20, 0x40, 0x80} \<and>
     \<not> (buf ! 0x10 = 0 \<or> buf ! 0x10 > 8) \<and>
     \<not> (buf ! 0x15 \<noteq> 0xf0 \<and> buf ! 0x15 < 0xf8)"

definition bpb_common :: "bytes \<Rightarrow> nspace \<Rightarrow> nspace" where
  "bpb_common buf vol =
     vol\<lparr>bytes_per_sector := read16 buf 0xb, sectors_per_cluster := ucast (buf ! 0xd),
         reserved_sectors := read16 buf 0xe, fat_count := ucast (buf ! 0x10), media_descriptor := buf ! 0x15,
         vol_entry := -2, vol_label := chars ''no name'' @ replicate 5 0, sectors_per_fat := read16 buf 0x16\<rparr>"

definition with_label :: "bool \<times> bytes \<Rightarrow> nspace \<Rightarrow> nspace" where
  "with_label r vol = (if fst r then vol\<lparr>vol_label := snd r, vol_entry := -1\<rparr> else vol)"

text \<open>FAT32: \<open>None\<close> is the jump to \<open>error\<close>.\<close>

definition bpb_fat32 :: "bytes \<Rightarrow> nspace \<Rightarrow> nspace option" where
  "bpb_fat32 buf vol =
     (let vol = vol\<lparr>fat_bits := 32, sectors_per_fat := read32 buf 0x24, total_sectors := read32 buf 0x20,
                    fsinfo_sector := ucast (read16 buf 0x30)\<rparr>
      in if fsinfo_sector vol \<noteq> 0xffff \<and> ucast (fsinfo_sector vol) \<ge> reserved_sectors vol then None
         else
           let vol = vol\<lparr>fat_mirrored := (buf ! 0x28 AND 0x80 = 0)\<rparr>;
               vol = vol\<lparr>active_fat := (if \<not> fat_mirrored vol then buf ! 0x28 AND 0xf else 0),
                         data_start := reserved_sectors vol + fat_count vol * sectors_per_fat vol\<rparr>;
               vol = vol\<lparr>total_clusters := (total_sectors vol - data_start vol) div sectors_per_cluster vol,
                         root_vnode := (root_vnode vol)\<lparr>vn_cluster := read32 buf 0x2c\<rparr>\<rparr>
           in if vn_cluster (root_vnode vol) \<ge> total_clusters vol then None
              else Some (with_label (dosfs_read_label True buf (vol_label vol)) vol))"

definition bogus_zip_data :: bytes where
  "bogus_zip_data = [0x00, 0x02, 0x04, 0x01, 0x00, 0x02, 0x00, 0x02, 0x00, 0x00,
     0xf8, 0xc0, 0x00, 0x20, 0x00, 0x40, 0x00, 0x20, 0x00, 0x00]"

definition bpb_total_sectors :: "bytes \<Rightarrow> geometry option \<Rightarrow> uint32" where
  "bpb_total_sectors buf geo =
     (let n = read16 buf 0x13; n = (if n = 0 then read32 buf 0x20 else n)
      in case geo of
           None \<Rightarrow> n
         | Some g \<Rightarrow>
             if take 20 (drop 0x0b buf) = bogus_zip_data \<and> n = 196576 \<and>
                uint (sectors_per_track g) * uint (cylinder_count g) * uint (head_count g) = 196192
             then 196192 else n)"

text \<open>FAT12 and FAT16.\<close>

definition bpb_fat16 :: "bytes \<Rightarrow> geometry option \<Rightarrow> nspace \<Rightarrow> nspace option" where
  "bpb_fat16 buf geo vol =
     (if fat_count vol \<noteq> 2 then None
      else
        let vol = vol\<lparr>root_entries_count := read16 buf 0x11\<rparr>
        in if root_entries_count vol mod (bytes_per_sector vol div 0x20) \<noteq> 0 then None
           else
             let vol = vol\<lparr>fsinfo_sector := 0xffff, total_sectors := bpb_total_sectors buf geo,
                           fat_mirrored := True, active_fat := 0,
                           root_start := reserved_sectors vol + fat_count vol * sectors_per_fat vol,
                           root_sectors := root_entries_count vol * 0x20 div bytes_per_sector vol\<rparr>;
                 vol = vol\<lparr>root_vnode := (root_vnode vol)\<lparr>vn_cluster := 1, vn_end_cluster := 1,
                             vn_st_size := uint (root_sectors vol * bytes_per_sector vol)\<rparr>,
                           data_start := root_start vol + root_sectors vol\<rparr>;
                 vol = vol\<lparr>total_clusters := (total_sectors vol - data_start vol) div sectors_per_cluster vol\<rparr>;
                 vol = vol\<lparr>fat_bits := (if total_clusters vol > 0xff1 then 16 else 12)\<rparr>
             in Some (with_label (dosfs_read_label False buf (vol_label vol)) vol))"

text \<open>The first byte of a copy of the table is the media descriptor; positions are computed in 32 bits.\<close>

definition media_ok :: "device \<Rightarrow> nspace \<Rightarrow> uint32 \<Rightarrow> bool" where
  "media_ok dev vol sector =
     (case dev (uint (bytes_per_sector vol * sector)) 0x200 of
        Inl _ \<Rightarrow> False
      | Inr media_buf \<Rightarrow> media_buf ! 0 = media_descriptor vol)"

definition check_media :: "device \<Rightarrow> nspace \<Rightarrow> bool" where
  "check_media dev vol \<longleftrightarrow>
     media_ok dev vol (reserved_sectors vol + ucast (active_fat vol) * sectors_per_fat vol) \<and>
     (fat_mirrored vol \<longrightarrow>
       (\<forall>i \<in> {0..<unat (fat_count vol)}. i \<noteq> unat (active_fat vol) \<longrightarrow>
          media_ok dev vol (reserved_sectors vol + sectors_per_fat vol * of_nat i)))"

text \<open>The search for the volume label in the root directory; the first argument bounds the entries.\<close>

fun label_loop :: "nat \<Rightarrow> nspace \<Rightarrow> diri \<Rightarrow> entry_ptr \<Rightarrow> diri \<times> nspace" where
  "label_loop 0 vol diri buffer = (diri, raise_fault Endless_loop vol)"
| "label_loop (Suc k) vol diri buffer =
     (case buffer of
        None \<Rightarrow> (diri, vol)
      | Some p \<Rightarrow>
          if ucast (entry_byte vol p 0x0b) AND FAT_VOLUME \<noteq> 0 \<and> entry_byte vol p 0x0b \<noteq> 0xf \<and> entry_byte vol p 0 \<noteq> 0xe5
          then (diri, vol\<lparr>vol_entry := sint (current_index diri),
                          vol_label := set_label (entry_bytes vol p) (vol_label vol)\<rparr>)
          else let (next, diri, vol) = diri_next_entry vol diri in label_loop k vol diri next)"

definition find_label :: "nspace \<Rightarrow> nspace" where
  "find_label vol =
     (let (buffer, diri, vol) = diri_init vol (vn_cluster (root_vnode vol)) 0 fresh_diri;
          (diri, vol) = label_loop (dir_fuel vol) vol diri buffer
      in snd (diri_free vol diri))"

definition create_cache :: "device \<Rightarrow> nspace \<Rightarrow> bcache" where
  "create_cache dev vol = \<lparr>blocks = (\<lambda>b. if b < 0 \<or> uint (total_sectors vol) \<le> b then None
       else case dev (b * uint (bytes_per_sector vol)) (unat (bytes_per_sector vol)) of
              Inl _ \<Rightarrow> None | Inr bs \<Rightarrow> Some bs),
     refs = (\<lambda>_. 0), discards = []\<rparr>"

definition ro_label :: bytes where
  "ro_label = chars ''__RO__     ''"

definition ro_trick :: "nspace \<Rightarrow> nspace" where
  "ro_trick vol = (if take 11 (vol_label vol) = ro_label then vol\<lparr>flags := flags vol OR B_FS_IS_READONLY\<rparr> else vol)"

definition past_end :: "nspace \<Rightarrow> geometry option \<Rightarrow> bool" where
  "past_end vol geo = (case geo of None \<Rightarrow> False
     | Some g \<Rightarrow> total_sectors vol > sectors_per_track g * cylinder_count g * head_count g)"

text \<open>\<open>None\<close> is the result \<open>NULL\<close>.\<close>

definition volume_init ::
  "device \<Rightarrow> bytes \<Rightarrow> uint32 \<Rightarrow> uint32 \<Rightarrow> geometry option \<Rightarrow> bool list \<Rightarrow> nspace option" where
  "volume_init dev buf vflags fsflags geo outcomes =
     (case malloc (zero_nspace outcomes) of
        (False, _) \<Rightarrow> None
      | (True, vol) \<Rightarrow>
          if \<not> bpb_valid buf then None
          else
            let vol = bpb_common buf (vol\<lparr>flags := vflags, fs_flags := fsflags\<rparr>)
            in case (if sectors_per_fat vol = 0 then bpb_fat32 buf vol else bpb_fat16 buf geo vol) of
                 None \<Rightarrow> None
               | Some vol \<Rightarrow>
                   if \<not> check_media dev vol then None
                   else
                     let vol = (if past_end vol geo then vol\<lparr>flags := flags vol OR B_FS_IS_READONLY\<rparr> else vol);
                         vol = vol\<lparr>last_allocated := 2, beos_vnid := INVALID_VNID_BITS_MASK\<rparr>;
                         (ok, vol) = malloc vol
                     in if \<not> ok then None
                        else Some (ro_trick (find_label (vol\<lparr>fBlockCache := create_cache dev vol\<rparr>))))"

subsection \<open>Mounting\<close>

text \<open>
  What the driver learns about the device: the results of the two calls of \<open>open\<close>, the geometry, the
  size of a regular file and whether its owner may write it (a disk image), and its contents.
\<close>

record disk =
  open_result :: status_t
  reopen_result :: status_t
  disk_geometry :: "geometry option"
  regular_file :: "(int \<times> bool) option"
  disk_read :: device

definition B_FS_IS_PERSISTENT :: uint32 where "B_FS_IS_PERSISTENT = 4"
definition B_FS_HAS_MIME :: uint32 where "B_FS_HAS_MIME = 0x10000"
definition B_MOUNT_READ_ONLY :: uint32 where "B_MOUNT_READ_ONLY = 1"

definition image_geometry :: "int \<Rightarrow> bool \<Rightarrow> geometry" where
  "image_geometry fsize writable =
     \<lparr>geo_bytes_per_sector = 0x200, sectors_per_track = 1, cylinder_count = word_of_int (fsize sdiv 0x200),
      head_count = 1, geo_removable = True, geo_read_only = \<not> writable\<rparr>"

definition find_geometry :: "disk \<Rightarrow> geometry option" where
  "find_geometry dev =
     (case disk_geometry dev of
        Some geo \<Rightarrow> Some geo
      | None \<Rightarrow> map_option (\<lambda>(fsize, writable). image_geometry fsize writable) (regular_file dev))"

definition mount_flags :: "geometry \<Rightarrow> uint32 \<Rightarrow> uint32" where
  "mount_flags geo mflags =
     (let f = B_FS_IS_PERSISTENT OR B_FS_HAS_MIME;
          f = (if geo_removable geo then f OR B_FS_IS_REMOVABLE else f)
      in if geo_read_only geo \<or> mflags AND B_MOUNT_READ_ONLY \<noteq> 0 then f OR B_FS_IS_READONLY else f)"

definition sync_flags :: "uint32 \<Rightarrow> uint32 \<Rightarrow> int \<Rightarrow> uint32" where
  "sync_flags fsflags vol_flags op_sync_mode =
     (let f = fsflags AND NOT FS_FLAGS_OP_SYNC
      in if op_sync_mode = 1 \<and> vol_flags AND B_FS_IS_REMOVABLE \<noteq> 0 \<or> op_sync_mode = 2 then f OR FS_FLAGS_OP_SYNC
         else f)"

text \<open>The length of the root directory of a FAT32 volume, and the root vnode.\<close>

definition init_root :: "environment \<Rightarrow> nspace \<Rightarrow> nspace" where
  "init_root E vol =
     (let vol = (if fat_bits vol = 32 then
                   let cluster = vn_cluster (root_vnode vol);
                       (n, vol) = count_clusters vol (sint cluster);
                       fsize = uint (n * bytes_per_sector vol * sectors_per_cluster vol);
                       (e, vol) = get_nth_fat_entry vol (sint cluster)
                         (unat (word_of_int (fsize sdiv uint (bytes_per_sector vol) sdiv uint (sectors_per_cluster vol) - 1) :: uint32))
                   in vol\<lparr>root_vnode := (root_vnode vol)\<lparr>vn_st_size := fsize, vn_end_cluster := word_of_int e\<rparr>\<rparr>
                 else vol);
          cluster = vn_cluster (root_vnode vol);
          vnid = GENERATE_DIR_CLUSTER_VNID (ucast cluster) cluster;
          vol = vol\<lparr>root_vnode := (root_vnode vol)\<lparr>vn_vnid := vnid, vn_dir_vnid := vnid, vn_sindex := 0xffffffff,
                      vn_eindex := 0xffffffff, vn_mode := FAT_SUBDIR, vn_st_time := now E, vn_st_crtim := now E,
                      vn_mime := None, vn_dirty := False\<rparr>\<rparr>
      in snd (dlist_add vol vnid))"

text \<open>
  \<open>Inl\<close> an error; \<open>respect\<close> is the driver setting of that name. When a cache cannot be set up, \<open>err\<close>
  still holds the number of bytes read, so the result is \<open>EINVAL\<close>.
\<close>

definition mount_volume :: "environment \<Rightarrow> bool \<Rightarrow> nspace \<Rightarrow> status_t + nspace" where
  "mount_volume E respect vol =
     (let (err, vol) = init_vcache (vol\<lparr>respect_disk_image := respect\<rparr>)
      in if err \<noteq> B_OK then Inl EINVAL
         else
           let (err, vol) = dlist_init vol
           in if err \<noteq> B_OK then Inl EINVAL
              else Inr (ro_trick (init_root E (volume_count_free_cluster vol))))"

definition mount_error :: "status_t \<Rightarrow> status_t" where
  "mount_error err = (if err \<ge> 0 then EINVAL else err)"

definition mount_fat_disk ::
  "environment \<Rightarrow> disk \<Rightarrow> uint32 \<Rightarrow> uint32 \<Rightarrow> int \<Rightarrow> bool \<Rightarrow> bool list \<Rightarrow> status_t + nspace" where
  "mount_fat_disk E dev mflags fsflags op_sync_mode respect outcomes =
     (if open_result dev < 0 then Inl (mount_error (open_result dev))
      else case find_geometry dev of
        None \<Rightarrow> Inl (mount_error (open_result dev))
      | Some geo \<Rightarrow>
          if geo_bytes_per_sector geo \<notin> {0x200, 0x400, 0x800, 0x1000} then Inl (mount_error (open_result dev))
          else
            let vol_flags = mount_flags geo mflags
            in if vol_flags AND B_FS_IS_READONLY = 0 \<and> reopen_result dev < 0 then Inl (mount_error (reopen_result dev))
               else case disk_read dev 0 512 of
                 Inl err \<Rightarrow> Inl (mount_error err)
               | Inr buf \<Rightarrow>
                   (case volume_init (disk_read dev) buf vol_flags (sync_flags fsflags vol_flags op_sync_mode)
                           (Some geo) outcomes of
                      None \<Rightarrow> Inl B_ERROR
                    | Some vol \<Rightarrow> mount_volume E respect vol))"

subsection \<open>Identifying a partition, unmounting\<close>

text \<open>\<open>None\<close> for the result -1; otherwise the cookie.\<close>

record identify_cookie =
  ic_bytes_per_sector :: uint32
  ic_total_sectors :: uint32
  ic_name :: bytes

definition dosfs_identify_partition :: "device \<Rightarrow> bool list \<Rightarrow> bool \<Rightarrow> identify_cookie option" where
  "dosfs_identify_partition dev outcomes cookie_ok =
     (case dev 0 512 of
        Inl _ \<Rightarrow> None
      | Inr buf \<Rightarrow>
          if \<not> bpb_valid buf then None
          else
            let fat32 = (read16 buf 0x16 = 0);
                total = (if fat32 then read32 buf 0x20
                         else if read16 buf 0x13 = 0 then read32 buf 0x20 else read16 buf 0x13);
                name = snd (dosfs_read_label fat32 buf (chars ''no name'' @ replicate 5 0));
                name = (case volume_init dev buf 0 0 None outcomes of
                          None \<Rightarrow> name
                        | Some vol \<Rightarrow> (let s = take 11 (cstring (vol_label vol)) in s @ [0] @ drop (length s + 1) name))
            in if \<not> cookie_ok then None
               else Some \<lparr>ic_bytes_per_sector = read16 buf 0xb, ic_total_sectors = total,
                          ic_name = take 11 (cstring (sanitize_name name 12))\<rparr>)"

definition dosfs_unmount :: "nspace \<Rightarrow> nspace" where
  "dosfs_unmount vol = snd (uninit_vcache (snd (dlist_uninit (update_fsinfo vol))))"

subsection \<open>Information about the volume, and its label\<close>

record fs_info =
  fi_flags :: uint32
  fi_block_size :: uint32
  fi_io_size :: nat
  fi_total_blocks :: uint32
  fi_free_blocks :: uint32
  fi_volume_name :: bytes
  fi_fsh_name :: bytes

text \<open>\<open>old\<close> is what the caller's buffer for the name, of at least 13 bytes, held before.\<close>

definition dosfs_read_fs_stat :: "nspace \<Rightarrow> bytes \<Rightarrow> status_t \<times> fs_info" where
  "dosfs_read_fs_stat vol old =
     (let s = (if vol_entry vol > -2 then cstring (vol_label vol) else chars ''no name'');
          buffer = s @ [0] @ drop (length s + 1) old
      in (B_OK, \<lparr>fi_flags = flags vol, fi_block_size = bytes_per_sector vol * sectors_per_cluster vol,
                 fi_io_size = 65536, fi_total_blocks = total_clusters vol, fi_free_blocks = free_clusters vol,
                 fi_volume_name = cstring (sanitize_name buffer 12), fi_fsh_name = chars ''fat''\<rparr>))"

definition upper_case :: "uint8 \<Rightarrow> uint8" where
  "upper_case c = (if c \<ge> 0x61 \<and> c \<le> 0x7a then c - 0x20 else c)"

text \<open>The loop that builds the label, with \<open>i\<close> characters still to come; its own array \<open>acceptable\<close> is that of \<open>dir.c\<close>.\<close>

fun label_chars :: "nat \<Rightarrow> bytes \<Rightarrow> bytes" where
  "label_chars 0 name = []"
| "label_chars (Suc i) [] = []"
| "label_chars (Suc i) (c # name) =
     (if c = 0 then []
      else let c = upper_case c
           in if c \<in> set acceptable \<or> c = 0x20 then c # label_chars i name else label_chars (Suc i) name)"

fun strncmp_eq :: "nat \<Rightarrow> bytes \<Rightarrow> bytes \<Rightarrow> bool" where
  "strncmp_eq 0 a b \<longleftrightarrow> True"
| "strncmp_eq (Suc n) a b \<longleftrightarrow> hd a = hd b \<and> (hd a = 0 \<or> strncmp_eq n (tl a) (tl b))"

text \<open>The label in the boot sector, block 0.\<close>

definition write_bpb_label :: "nspace \<Rightarrow> bytes \<Rightarrow> status_t \<times> nspace" where
  "write_bpb_label vol name =
     (case block_cache_get vol 0 of
        (None, vol) \<Rightarrow> (EIO, vol)
      | (Some b, vol) \<Rightarrow>
          let buffer = block_data vol b;
              label = vol_label vol
          in if sectors_per_fat vol = 0 \<and> (buffer ! 0x42 \<noteq> 0x29 \<or> \<not> strncmp_eq 11 (drop 0x47 buffer) label)
                \<or> sectors_per_fat vol \<noteq> 0 \<and> (buffer ! 0x26 \<noteq> 0x29 \<or> strncmp_eq 11 (drop 0x2b buffer) label)
             then (B_ERROR, block_cache_put vol 0)
             else (B_OK, block_cache_put (store_block vol b (take 0x2b buffer @ name @ drop (0x2b + 11) buffer)) 0))"

text \<open>The label in the root directory.\<close>

definition write_entry_label :: "nspace \<Rightarrow> bytes \<Rightarrow> status_t \<times> nspace" where
  "write_entry_label vol name =
     (case diri_init vol (vn_cluster (root_vnode vol)) (word_of_int (vol_entry vol)) fresh_diri of
        (None, diri, vol) \<Rightarrow> (B_ERROR, snd (diri_free vol diri))
      | (Some p, diri, vol) \<Rightarrow>
          if strncmp_eq 11 (entry_bytes vol p) (vol_label vol) then (B_ERROR, snd (diri_free vol diri))
          else (B_OK, snd (diri_free (write_entry p 0 name vol) diri)))"

text \<open>Where the label is written; the flag tells that the function returns without synchronising.\<close>

definition write_label :: "environment \<Rightarrow> nspace \<Rightarrow> bytes \<Rightarrow> status_t \<times> bool \<times> nspace" where
  "write_label E vol name =
     (if vol_entry vol = -1 then
        let (result, vol) = write_bpb_label vol name in (result, result = EIO, vol)
      else if vol_entry vol \<ge> 0 then
        let (result, vol) = write_entry_label vol name in (result, result \<noteq> B_OK, vol)
      else
        let (result, index, vol) = create_volume_label E vol name
        in (result, False, if result = B_OK then vol\<lparr>vol_entry := sint index\<rparr> else vol))"

definition dosfs_write_fs_stat :: "environment \<Rightarrow> nspace \<Rightarrow> bytes \<Rightarrow> bool \<Rightarrow> status_t \<times> nspace" where
  "dosfs_write_fs_stat E vol volume_name set_name =
     (if read_only vol \<and> take 11 (vol_label vol) \<noteq> ro_label then (EROFS, vol)
      else if \<not> set_name then (B_ERROR, op_sync vol)
      else
        let cs = label_chars 11 volume_name;
            name = cs @ replicate (11 - length cs) 0x20
        in if cs = [] then (EINVAL, vol)
           else
             let (result, early, vol) = write_label E vol name
             in if early then (result, vol)
                else if result = B_OK then (B_OK, op_sync (vol\<lparr>vol_label := set_label name (vol_label vol)\<rparr>))
                else (result, op_sync vol))"

end
