(* ===== verification/Attributes.thy ===== *)
theory Attributes
  imports File_Ops
begin

section \<open>The attribute of a file: attr.c\<close>

text \<open>
  Files have one attribute, \<open>BEOS:TYPE\<close>, which is the MIME type that the driver derives from the
  name of the file. The cookie of an attribute directory is the number it holds, 0 at first; the
  only other cookie is the address of \<open>kBeOSTypeCookie\<close>, represented by \<open>BeOSTypeCookie\<close>.
\<close>

datatype attr_cookie = BeOSTypeCookie | OtherCookie

definition set_mime_type :: "environment \<Rightarrow> vnode \<Rightarrow> bytes \<Rightarrow> vnode" where
  "set_mime_type E node filename = node\<lparr>vn_mime := set_mime E filename\<rparr>"

definition dosfs_open_attrdir :: "nspace \<Rightarrow> status_t \<times> int option \<times> nspace" where
  "dosfs_open_attrdir vol = (let (ok, vol) = malloc vol in if ok then (0, Some 0, vol) else (ENOMEM, None, vol))"

text \<open>The status and the new value of the cookie.\<close>

definition dosfs_close_attrdir :: "int \<Rightarrow> status_t \<times> int" where
  "dosfs_close_attrdir cookie = (0, 1)"

definition dosfs_free_attrdir_cookie :: "int option \<Rightarrow> status_t" where
  "dosfs_free_attrdir_cookie cookie = (case cookie of None \<Rightarrow> EINVAL | Some _ \<Rightarrow> 0)"

definition dosfs_rewind_attrdir :: "int option \<Rightarrow> status_t \<times> int option" where
  "dosfs_rewind_attrdir cookie = (case cookie of None \<Rightarrow> (EINVAL, None) | Some _ \<Rightarrow> (0, Some 0))"

definition beos_type :: bytes where
  "beos_type = chars ''BEOS:TYPE''"

text \<open>The status, the entry (\<open>None\<close> for \<open>*num\<close> 0) and the new value of the cookie.\<close>

definition dosfs_read_attrdir :: "nspace \<Rightarrow> ino_t \<Rightarrow> int \<Rightarrow> status_t \<times> dirent option \<times> int" where
  "dosfs_read_attrdir vol p cookie =
     (if cookie = 0 \<and> vn_mime (deref vol p) \<noteq> None
      then (0, Some \<lparr>d_ino = vn_vnid (deref vol p), d_reclen = 10, d_name = beos_type\<rparr>, 1)
      else (0, None, 1))"

definition dosfs_open_attr :: "nspace \<Rightarrow> ino_t \<Rightarrow> bytes \<Rightarrow> status_t \<times> attr_cookie option" where
  "dosfs_open_attr vol p name =
     (if name \<noteq> beos_type then (ENOENT, None)
      else if vn_mime (deref vol p) = None then (ENOENT, None)
      else (B_OK, Some BeOSTypeCookie))"

text \<open>The status and the size.\<close>

definition dosfs_read_attr_stat :: "nspace \<Rightarrow> ino_t \<Rightarrow> attr_cookie \<Rightarrow> status_t \<times> nat option" where
  "dosfs_read_attr_stat vol p cookie =
     (if cookie \<noteq> BeOSTypeCookie then (ENOENT, None)
      else case vn_mime (deref vol p) of
             None \<Rightarrow> (ENOENT, None)
           | Some mime \<Rightarrow> (0, Some (length mime + 1)))"

text \<open>
  \<open>user_strlcpy\<close> is the kernel's copy of a string into a buffer of user memory: the length of the
  source, or an error, and what the buffer holds. The results are the status, the buffer and the
  length.
\<close>

definition dosfs_read_attr ::
  "(bytes \<Rightarrow> nat \<Rightarrow> status_t \<times> bytes) \<Rightarrow> nspace \<Rightarrow> ino_t \<Rightarrow> attr_cookie \<Rightarrow> int \<Rightarrow> nat \<Rightarrow>
   status_t \<times> bytes option \<times> nat" where
  "dosfs_read_attr user_strlcpy vol p cookie pos len =
     (if cookie \<noteq> BeOSTypeCookie then (ENOENT, None, len)
      else case vn_mime (deref vol p) of
             None \<Rightarrow> (ENOENT, None, len)
           | Some mime \<Rightarrow>
               if pos < 0 \<or> pos > int (length mime) then (EINVAL, None, len)
               else
                 let (n, buffer) = user_strlcpy (drop (nat pos) mime) len
                 in if n < B_OK then (B_BAD_ADDRESS, None, len)
                    else (0, Some buffer, if n < int len then nat n + 1 else len))"

definition dosfs_write_attr :: "attr_cookie \<Rightarrow> status_t \<times> nat" where
  "dosfs_write_attr cookie = (if cookie \<noteq> BeOSTypeCookie then ENOSYS else B_OK, 0)"

end
