(* ===== verification/Extent_Map.thy ===== *)
theory Extent_Map
  imports Volume
begin

section \<open>The kernel's file maps: file_map.cpp\<close>

text \<open>
  A file map remembers where a file is on its device: a sorted array of extents, which covers the file from its
  start up to some position. What is missing is asked of the file system, by its operation \<open>get_file_map\<close>, which is a
  parameter here; it takes the position and the number of vectors that there is room for, and its state is
  passed through. Up to two extents are kept in the object itself, more of them in an array
  from \<open>realloc\<close>; both share their memory, as the two constructors of \<open>extent_store\<close> do. A pointer to
  an extent is its index. The outcomes of the next calls of \<open>realloc\<close> are in \<open>fRealloc\<close>, as those of \<open>malloc\<close> are
  in the volume. Memory that has not been written holds \<open>no_extent\<close>.
\<close>

subsection \<open>Extents\<close>

type_synonym file_io_vec = "int \<times> int"

record file_extent =
  ext_offset :: int
  ext_disk :: file_io_vec

datatype extent_store = Direct "file_extent list" | Indirect "file_extent list" nat

record file_map =
  fStore :: extent_store
  fCount :: nat
  fSize :: int
  fCacheAll :: bool
  fRealloc :: "bool list"

definition CACHED_FILE_EXTENTS :: nat where "CACHED_FILE_EXTENTS = 2"

definition no_extent :: file_extent where
  "no_extent = \<lparr>ext_offset = 0, ext_disk = (0, 0)\<rparr>"

definition new_file_map :: "int \<Rightarrow> bool list \<Rightarrow> file_map" where
  "new_file_map sz outcomes =
     \<lparr>fStore = Direct (replicate CACHED_FILE_EXTENTS no_extent), fCount = 0, fSize = sz, fCacheAll = False, fRealloc = outcomes\<rparr>"

text \<open>The array that the number of extents selects; the other one cannot be read.\<close>

definition extents :: "file_map \<Rightarrow> file_extent list" where
  "extents m =
     (case fStore m of
        Indirect array _ \<Rightarrow> if fCount m > CACHED_FILE_EXTENTS then array else []
      | Direct array \<Rightarrow> if fCount m > CACHED_FILE_EXTENTS then [] else array)"

definition max_count :: "file_map \<Rightarrow> nat" where
  "max_count m = (case fStore m of Indirect _ n \<Rightarrow> n | Direct _ \<Rightarrow> 0)"

definition ExtentAt :: "file_map \<Rightarrow> nat \<Rightarrow> nat option" where
  "ExtentAt m i = (if i \<ge> fCount m then None else Some i)"

abbreviation extent :: "file_map \<Rightarrow> nat \<Rightarrow> file_extent" where
  "extent m i \<equiv> extents m ! i"

definition put_extent :: "nat \<Rightarrow> file_extent \<Rightarrow> file_map \<Rightarrow> file_map" where
  "put_extent i e m =
     m\<lparr>fStore := (case fStore m of Indirect array n \<Rightarrow> Indirect (array[i := e]) n | Direct array \<Rightarrow> Direct (array[i := e]))\<rparr>"

definition ext_end :: "file_extent \<Rightarrow> int" where
  "ext_end e = ext_offset e + snd (ext_disk e)"

text \<open>The search among the extents from \<open>left\<close> to \<open>right\<close>.\<close>

function find_loop :: "file_map \<Rightarrow> int \<Rightarrow> int \<Rightarrow> int \<Rightarrow> nat option" where
  "find_loop m offset left right =
     (if left \<le> right then
        let index = (left + right) div 2; e = extent m (nat index)
        in if ext_offset e > offset then find_loop m offset left (index - 1)
           else if ext_end e \<le> offset then find_loop m offset (index + 1) right
           else Some (nat index)
      else None)"
  by pat_completeness auto
termination by (relation "measure (\<lambda>(m, offset, left, right). nat (right - left + 1))") auto

declare find_loop.simps [simp del]

definition FindExtent :: "file_map \<Rightarrow> int \<Rightarrow> nat option" where
  "FindExtent m offset = find_loop m offset 0 (int (fCount m) - 1)"

subsection \<open>The array\<close>

definition realloc :: "file_map \<Rightarrow> bool \<times> file_map" where
  "realloc m = (case fRealloc m of [] \<Rightarrow> (True, m) | ok # rest \<Rightarrow> (ok, m\<lparr>fRealloc := rest\<rparr>))"

text \<open>\<open>while (maxCount < count)\<close>; the loop starts with 2 or more.\<close>

function grow_count :: "nat \<Rightarrow> nat \<Rightarrow> nat" where
  "grow_count maxCount count =
     (if maxCount < count \<and> 0 < maxCount
      then grow_count (if maxCount < 32768 then 2 * maxCount else maxCount + 32768) count else maxCount)"
  by pat_completeness auto
termination by (relation "measure (\<lambda>(maxCount, count). count - maxCount)") auto

declare grow_count.simps [simp del]

definition MakeSpace :: "nat \<Rightarrow> file_map \<Rightarrow> status_t \<times> file_map" where
  "MakeSpace count m =
     (if count \<le> CACHED_FILE_EXTENTS then
        let m = (if fCount m > CACHED_FILE_EXTENTS
                 then m\<lparr>fStore := Direct (take count (extents m) @ replicate (CACHED_FILE_EXTENTS - count) no_extent)\<rparr> else m)
        in (B_OK, m\<lparr>fCount := count\<rparr>)
      else
        let oldArray = (if fCount m > CACHED_FILE_EXTENTS then extents m else []);
            maxCount = (if fCount m > CACHED_FILE_EXTENTS then max_count m else CACHED_FILE_EXTENTS)
        in if count > maxCount then
             let maxCount = grow_count maxCount count;
                 (ok, m) = realloc m
             in if \<not> ok then (ENOMEM, m)
                else
                  let newArray = oldArray @ replicate (maxCount - length oldArray) no_extent;
                      newArray = (if fCount m > 0 \<and> fCount m \<le> CACHED_FILE_EXTENTS
                                  then take (fCount m) (extents m) @ drop (fCount m) newArray else newArray)
                  in (B_OK, m\<lparr>fStore := Indirect newArray maxCount, fCount := count\<rparr>)
           else (B_OK, m\<lparr>fCount := count\<rparr>))"

text \<open>
  The loop of \<open>_Add\<close>: the map, the next free index, the last extent and the end of the mapped part. A vector
  that continues the last extent on the device is joined with it. When the extents move back into the object, the
  pointer to the last one is fetched again.
\<close>

definition continues :: "file_extent \<Rightarrow> file_io_vec \<Rightarrow> bool" where
  "continues e vec \<longleftrightarrow> fst (ext_disk e) + snd (ext_disk e) = fst vec \<or> fst (ext_disk e) = -1 \<and> fst vec = -1"

fun add_loop :: "file_map \<Rightarrow> nat \<Rightarrow> nat option \<Rightarrow> int \<Rightarrow> file_io_vec list \<Rightarrow> file_map \<times> int" where
  "add_loop m start lastExtent offset [] = (m, offset)"
| "add_loop m start lastExtent offset (vec # vecs) =
     (case lastExtent of
        Some i \<Rightarrow>
          if continues (extent m i) vec then
            let e = extent m i;
                m = put_extent i (e\<lparr>ext_disk := (fst (ext_disk e), snd (ext_disk e) + snd vec)\<rparr>) m;
                (_, m) = MakeSpace (fCount m - 1) m;
                lastExtent = (if fCount m = CACHED_FILE_EXTENTS then ExtentAt m (start - 1) else lastExtent)
            in add_loop m start lastExtent (offset + snd vec) vecs
          else add_loop (put_extent start \<lparr>ext_offset = offset, ext_disk = vec\<rparr> m) (start + 1) (Some start) (offset + snd vec) vecs
      | None \<Rightarrow> add_loop (put_extent start \<lparr>ext_offset = offset, ext_disk = vec\<rparr> m) (start + 1) (Some start) (offset + snd vec) vecs)"

text \<open>The status, the end of the mapped part (meaningful with \<open>B_OK\<close>) and the map.\<close>

definition Add :: "file_map \<Rightarrow> file_io_vec list \<Rightarrow> int \<Rightarrow> status_t \<times> int \<times> file_map" where
  "Add m vecs lastOffset =
     (let start = fCount m;
          (status, m) = MakeSpace (fCount m + length vecs) m
      in if status \<noteq> B_OK then (status, lastOffset, m)
         else
           let lastExtent = (if start \<noteq> 0 then ExtentAt m (start - 1) else None);
               offset = (case lastExtent of Some i \<Rightarrow> ext_end (extent m i) | None \<Rightarrow> 0);
               (m, offset) = add_loop m start lastExtent offset vecs
           in (B_OK, offset, m))"

subsection \<open>Invalidating\<close>

definition InvalidateAfter :: "int \<Rightarrow> file_map \<Rightarrow> file_map" where
  "InvalidateAfter offset m =
     (case FindExtent m offset of
        None \<Rightarrow> m
      | Some index \<Rightarrow>
          let e = extent m index
          in if ext_end e > offset then
               let m = put_extent index (e\<lparr>ext_disk := (fst (ext_disk e), offset - ext_offset e)\<rparr>) m
               in snd (MakeSpace (if offset - ext_offset e = 0 then index else index + 1) m)
             else snd (MakeSpace (index + 1) m))"

definition Free :: "file_map \<Rightarrow> file_map" where
  "Free m =
     (if fCount m > CACHED_FILE_EXTENTS then m\<lparr>fStore := Direct (replicate CACHED_FILE_EXTENTS no_extent)\<rparr> else m)\<lparr>fCount := 0\<rparr>"

definition Invalidate :: "int \<Rightarrow> file_map \<Rightarrow> file_map" where
  "Invalidate offset m = (if offset = 0 then Free m else InvalidateAfter offset m)"

definition SetSize :: "int \<Rightarrow> file_map \<Rightarrow> file_map" where
  "SetSize sz m = (if sz < fSize m then InvalidateAfter sz m else m)\<lparr>fSize := sz\<rparr>"

subsection \<open>Asking the file system\<close>

type_synonym 's get_map = "int \<Rightarrow> nat \<Rightarrow> 's \<Rightarrow> status_t \<times> file_io_vec list \<times> 's"

definition map_end :: "file_map \<Rightarrow> int" where
  "map_end m = (if fCount m > 0 then ext_end (extent m (fCount m - 1)) else 0)"

text \<open>
  The loop of \<open>_Cache\<close>. A round in which the file system returns no vectors would be repeated forever; the first
  argument bounds the rounds, each of which extends the map by a byte at least.
\<close>

fun cache_loop :: "nat \<Rightarrow> 's get_map \<Rightarrow> int \<Rightarrow> int \<Rightarrow> file_map \<Rightarrow> 's \<Rightarrow> fault + status_t \<times> file_map \<times> 's" where
  "cache_loop 0 get_map mapEnd fin m s = (if mapEnd < fin then Inl Endless_loop else Inr (B_OK, m, s))"
| "cache_loop (Suc k) get_map mapEnd fin m s =
     (if mapEnd < fin then
        let (status, vecs, s) = get_map mapEnd 8 s
        in if status = B_OK \<or> status = B_BUFFER_OVERFLOW then
             let (status, mapEnd, m) = Add m vecs mapEnd
             in if status = B_OK then cache_loop k get_map mapEnd fin m s else Inr (status, m, s)
           else Inr (status, m, s)
      else Inr (B_OK, m, s))"

definition Cache :: "'s get_map \<Rightarrow> int \<Rightarrow> int \<Rightarrow> file_map \<Rightarrow> 's \<Rightarrow> fault + status_t \<times> file_map \<times> 's" where
  "Cache get_map offset sz m s =
     (if fCacheAll m \<and> map_end m < offset + sz then Inr (B_ERROR, m, s)
      else cache_loop (nat (offset + sz - map_end m)) get_map (map_end m) (offset + sz) m s)"

definition FILE_MAP_CACHE_ON_DEMAND :: uint32 where "FILE_MAP_CACHE_ON_DEMAND = 1"
definition FILE_MAP_CACHE_ALL :: uint32 where "FILE_MAP_CACHE_ALL = 2"

definition SetMode :: "'s get_map \<Rightarrow> uint32 \<Rightarrow> file_map \<Rightarrow> 's \<Rightarrow> fault + status_t \<times> file_map \<times> 's" where
  "SetMode get_map mode m s =
     (if mode \<noteq> FILE_MAP_CACHE_ALL \<and> mode \<noteq> FILE_MAP_CACHE_ON_DEMAND then Inr (B_BAD_VALUE, m, s)
      else if mode = FILE_MAP_CACHE_ALL \<and> fCacheAll m \<or> mode = FILE_MAP_CACHE_ON_DEMAND \<and> \<not> fCacheAll m then Inr (B_OK, m, s)
      else if mode = FILE_MAP_CACHE_ALL then
        (case Cache get_map 0 (fSize m) m s of
           Inl f \<Rightarrow> Inl f
         | Inr (status, m, s) \<Rightarrow> if status \<noteq> B_OK then Inr (status, m, s) else Inr (B_OK, m\<lparr>fCacheAll := True\<rparr>, s))
      else Inr (B_OK, m\<lparr>fCacheAll := False\<rparr>, s))"

subsection \<open>Translating\<close>

text \<open>The vectors behind the first one: \<open>index\<close> is the extent before, \<open>sz\<close> what is left of the request.\<close>

function copy_loop :: "file_map \<Rightarrow> nat \<Rightarrow> int \<Rightarrow> int \<Rightarrow> nat \<Rightarrow> file_io_vec list \<Rightarrow> fault + status_t \<times> file_io_vec list" where
  "copy_loop m index sz padLastVec maxVecs vecs =
     (if fCount m \<le> index + 1 \<or> maxVecs \<le> length vecs then Inl Out_of_bounds
      else
        let disk = ext_disk (extent m (index + 1))
        in if sz \<le> snd disk then Inr (B_OK, vecs @ [(fst disk, sz + padLastVec)])
           else if length vecs + 1 \<ge> maxVecs then Inr (B_BUFFER_OVERFLOW, vecs @ [disk])
           else copy_loop m (index + 1) (sz - snd disk) padLastVec maxVecs (vecs @ [disk]))"
  by pat_completeness auto
termination by (relation "measure (\<lambda>(m, index, sz, padLastVec, maxVecs, vecs). fCount m - index)") auto

declare copy_loop.simps [simp del]

definition first_vec :: "file_extent \<Rightarrow> int \<Rightarrow> file_io_vec" where
  "first_vec e offset =
     (if fst (ext_disk e) \<noteq> -1 then fst (ext_disk e) + (offset - ext_offset e) else -1, snd (ext_disk e) - (offset - ext_offset e))"

text \<open>
  The size is cut to that of the file; the sum is computed in 64 bits without a sign. With an alignment the last vector
  is extended to it.
\<close>

definition past_size :: "file_map \<Rightarrow> int \<Rightarrow> 64 word \<Rightarrow> bool" where
  "past_size m offset sz \<longleftrightarrow> sint (word_of_int offset + sz) > fSize m"

definition pad_last :: "file_map \<Rightarrow> int \<Rightarrow> 64 word \<Rightarrow> int \<Rightarrow> int" where
  "pad_last m offset sz align =
     (if past_size m offset sz \<and> align > 1 then
        let alignedSize = (fSize m + align - 1) AND NOT (align - 1)
        in if sint (word_of_int offset + sz) \<ge> alignedSize then alignedSize - fSize m else 0
      else 0)"

definition Translate ::
  "'s get_map \<Rightarrow> file_map \<Rightarrow> int \<Rightarrow> 64 word \<Rightarrow> nat \<Rightarrow> int \<Rightarrow> 's \<Rightarrow> fault + status_t \<times> file_io_vec list \<times> file_map \<times> 's" where
  "Translate get_map m offset sz maxVecs align s =
     (if offset < 0 then Inr (B_BAD_VALUE, [], m, s)
      else if offset \<ge> fSize m then Inr (B_OK, [], m, s)
      else
        let padLastVec = pad_last m offset sz align;
            sz = (if past_size m offset sz then word_of_int (fSize m - offset) else sz)
        in case Cache get_map offset (sint sz) m s of
             Inl f \<Rightarrow> Inl f
           | Inr (status, m, s) \<Rightarrow>
               if status \<noteq> B_OK then Inr (status, [], m, s)
               else
                 (case FindExtent m offset of
                    None \<Rightarrow> Inl Null_dereference
                  | Some index \<Rightarrow>
                      if maxVecs = 0 then Inl Out_of_bounds
                      else
                        let vec = first_vec (extent m index) offset
                        in if snd vec \<ge> sint sz then Inr (B_OK, [(fst vec, sint sz + padLastVec)], m, s)
                           else (case copy_loop m index (sint sz - snd vec) padLastVec maxVecs [vec] of
                                   Inl f \<Rightarrow> Inl f
                                 | Inr (status, vecs) \<Rightarrow> Inr (status, vecs, m, s))))"

subsection \<open>The functions that file systems call\<close>

definition file_map_create :: "status_t \<Rightarrow> bool \<Rightarrow> int \<Rightarrow> bool list \<Rightarrow> file_map option" where
  "file_map_create lookup ok sz outcomes = (if lookup \<noteq> B_OK \<or> \<not> ok then None else Some (new_file_map sz outcomes))"

definition file_map_set_size :: "int \<Rightarrow> file_map option \<Rightarrow> file_map option" where
  "file_map_set_size sz fm = map_option (SetSize sz) fm"

definition file_map_invalidate :: "int \<Rightarrow> int \<Rightarrow> file_map option \<Rightarrow> file_map option" where
  "file_map_invalidate offset sz fm = map_option (Invalidate offset) fm"

definition file_map_set_mode ::
  "'s get_map \<Rightarrow> uint32 \<Rightarrow> file_map option \<Rightarrow> 's \<Rightarrow> fault + status_t \<times> file_map option \<times> 's" where
  "file_map_set_mode get_map mode fm s =
     (case fm of
        None \<Rightarrow> Inr (B_BAD_VALUE, None, s)
      | Some m \<Rightarrow> (case SetMode get_map mode m s of Inl f \<Rightarrow> Inl f | Inr (status, m, s) \<Rightarrow> Inr (status, Some m, s)))"

definition file_map_translate ::
  "'s get_map \<Rightarrow> file_map option \<Rightarrow> int \<Rightarrow> 64 word \<Rightarrow> nat \<Rightarrow> int \<Rightarrow> 's \<Rightarrow>
     fault + status_t \<times> file_io_vec list \<times> file_map option \<times> 's" where
  "file_map_translate get_map fm offset sz maxVecs align s =
     (case fm of
        None \<Rightarrow> Inr (B_BAD_VALUE, [], None, s)
      | Some m \<Rightarrow>
          (case Translate get_map m offset sz maxVecs align s of
             Inl f \<Rightarrow> Inl f
           | Inr (status, vecs, m, s) \<Rightarrow> Inr (status, vecs, Some m, s)))"

end
