(* ===== verification/Page_IO.thy ===== *)
theory Page_IO
  imports Extent_Map File_Ops
begin

section \<open>Reading and writing pages: vfs.cpp and file.c\<close>

text \<open>
  \<open>common_file_io_vec_pages\<close> of the virtual file system moves bytes between the places on a device that a list of file
  vectors names and the memory that a list of \<open>iovec\<close>s names; \<open>dosfs_read_pages\<close> and \<open>dosfs_write_pages\<close> call it with
  the vectors of the file map. The device is an operation of another file system: the state \<open>io\<close> has the
  bytes of memory and of the device, and the outcomes of the next transfers, a status and a number of bytes (a
  transfer without one is complete). A driver may move more bytes than it was asked for, if the memory has room.
  Sizes and indices are natural numbers.
\<close>

definition B_FILE_ERROR :: status_t where [status]: "B_FILE_ERROR = -0x80000000 + 0x6000"

subsection \<open>Transfers\<close>

type_synonym iovec = "nat \<times> nat"

record io =
  io_memory :: "nat \<Rightarrow> uint8"
  io_device :: "int \<Rightarrow> uint8"
  io_transfers :: "(status_t \<times> nat) list"

definition vec_addrs :: "iovec list \<Rightarrow> nat list" where
  "vec_addrs vecs = concat (map (\<lambda>(base, len). [base..<base + len]) vecs)"

definition store_all :: "'a list \<Rightarrow> 'b list \<Rightarrow> ('a \<Rightarrow> 'b) \<Rightarrow> 'a \<Rightarrow> 'b" where
  "store_all addrs bs f = fold (\<lambda>(a, b) f. f(a := b)) (zip addrs bs) f"

definition transfer :: "nat \<Rightarrow> nat \<Rightarrow> io \<Rightarrow> status_t \<times> nat \<times> io" where
  "transfer n room s =
     (case io_transfers s of
        [] \<Rightarrow> (B_OK, min n room, s)
      | (status, k) # rest \<Rightarrow> (status, min k room, s\<lparr>io_transfers := rest\<rparr>))"

definition places :: "int \<Rightarrow> nat \<Rightarrow> int list" where
  "places pos n = map (\<lambda>i. pos + int i) [0..<n]"

definition device_read :: "int \<Rightarrow> iovec list \<Rightarrow> nat \<Rightarrow> io \<Rightarrow> status_t \<times> nat \<times> io" where
  "device_read pos vecs n s =
     (let (status, k, s) = transfer n (length (vec_addrs vecs)) s
      in (status, k, s\<lparr>io_memory := store_all (take k (vec_addrs vecs)) (map (io_device s) (places pos k)) (io_memory s)\<rparr>))"

definition device_write :: "int \<Rightarrow> iovec list \<Rightarrow> nat \<Rightarrow> io \<Rightarrow> status_t \<times> nat \<times> io" where
  "device_write pos vecs n s =
     (let (status, k, s) = transfer n (length (vec_addrs vecs)) s
      in (status, k, s\<lparr>io_device := store_all (places pos k) (map (io_memory s) (take k (vec_addrs vecs))) (io_device s)\<rparr>))"

definition zero_iovecs :: "iovec list \<Rightarrow> nat \<Rightarrow> io \<Rightarrow> io" where
  "zero_iovecs vecs n s = s\<lparr>io_memory := store_all (take n (vec_addrs vecs)) (replicate n 0) (io_memory s)\<rparr>"

subsection \<open>Combining the two lists\<close>

definition MAX_TEMP_IO_VECS :: nat where "MAX_TEMP_IO_VECS = 8"

text \<open>Where the first \<open>n\<close> bytes of the memory end: an index and an offset.\<close>

fun skip_vecs :: "iovec list \<Rightarrow> nat \<Rightarrow> nat \<Rightarrow> nat \<times> nat" where
  "skip_vecs [] i n = (i, n)"
| "skip_vecs ((base, len) # vecs) i n = (if n < len then (i, n) else skip_vecs vecs (i + 1) (n - len))"

text \<open>
  The temporary vectors for what is left of a file vector: the number of bytes, the index and offset behind
  them, and the vectors.
\<close>

function fill_temp :: "iovec list \<Rightarrow> nat \<Rightarrow> nat \<Rightarrow> nat \<Rightarrow> nat \<Rightarrow> iovec list \<Rightarrow> nat \<times> nat \<times> nat \<times> iovec list" where
  "fill_temp vecs fileLeft sz vecIndex vecOffset temp =
     (if sz < fileLeft \<and> vecIndex < length vecs \<and> length temp < MAX_TEMP_IO_VECS then
        let (base, len) = vecs ! vecIndex; vecLeft = len - vecOffset
        in if vecLeft = 0 then fill_temp vecs fileLeft sz (vecIndex + 1) 0 temp
           else
             let n = min vecLeft (fileLeft - sz)
             in fill_temp vecs fileLeft (sz + n) vecIndex (vecOffset + n) (temp @ [(base + vecOffset, n)])
      else (sz, vecIndex, vecOffset, temp))"
  by pat_completeness auto
termination
  by (relation "measure (\<lambda>(vecs, fileLeft, sz, vecIndex, vecOffset, temp). (MAX_TEMP_IO_VECS - length temp) + (length vecs - vecIndex))") auto

declare fill_temp.simps [simp del]

lemma fill_temp_stop:
  "\<not> (sz < left \<and> i < length vecs \<and> length temp < MAX_TEMP_IO_VECS) \<Longrightarrow> fill_temp vecs left sz i off temp = (sz, i, off, temp)"
  by (subst fill_temp.simps) (simp only: if_False)

lemma fill_temp_skip:
  assumes "sz < left \<and> i < length vecs \<and> length temp < MAX_TEMP_IO_VECS" "snd (vecs ! i) \<le> off"
  shows "fill_temp vecs left sz i off temp = fill_temp vecs left sz (i + 1) 0 temp"
  using assms by (subst fill_temp.simps) (simp add: case_prod_beta)

lemma fill_temp_take:
  assumes "sz < left \<and> i < length vecs \<and> length temp < MAX_TEMP_IO_VECS" "off < snd (vecs ! i)" "n = min (snd (vecs ! i) - off) (left - sz)"
  shows "fill_temp vecs left sz i off temp = fill_temp vecs left (sz + n) i (off + n) (temp @ [(fst (vecs ! i) + off, n)])"
  using assms by (subst fill_temp.simps) (simp add: case_prod_beta Let_def)

text \<open>An induction along these three cases.\<close>

lemma fill_temp_induct [case_names Stop Skip Take]:
  assumes stop: "\<And>sz i off temp. \<not> (sz < left \<and> i < length vecs \<and> length temp < MAX_TEMP_IO_VECS) \<Longrightarrow> P sz i off temp (sz, i, off, temp)"
    and skip: "\<And>sz i off temp. sz < left \<and> i < length vecs \<and> length temp < MAX_TEMP_IO_VECS \<Longrightarrow> snd (vecs ! i) \<le> off \<Longrightarrow>
      P sz (i + 1) 0 temp (fill_temp vecs left sz (i + 1) 0 temp) \<Longrightarrow> P sz i off temp (fill_temp vecs left sz (i + 1) 0 temp)"
    and take: "\<And>sz i off temp n. sz < left \<and> i < length vecs \<and> length temp < MAX_TEMP_IO_VECS \<Longrightarrow> off < snd (vecs ! i) \<Longrightarrow>
      n = min (snd (vecs ! i) - off) (left - sz) \<Longrightarrow>
      P (sz + n) i (off + n) (temp @ [(fst (vecs ! i) + off, n)]) (fill_temp vecs left (sz + n) i (off + n) (temp @ [(fst (vecs ! i) + off, n)])) \<Longrightarrow>
      P sz i off temp (fill_temp vecs left (sz + n) i (off + n) (temp @ [(fst (vecs ! i) + off, n)]))"
  shows "P sz i off temp (fill_temp vecs left sz i off temp)"
proof (induction "(MAX_TEMP_IO_VECS - length temp) + (length vecs - i)" arbitrary: sz i off temp rule: less_induct)
  case less
  show ?case
  proof (cases "sz < left \<and> i < length vecs \<and> length temp < MAX_TEMP_IO_VECS")
    case True
    show ?thesis
    proof (cases "snd (vecs ! i) \<le> off")
      case below: True
      have "P sz (i + 1) 0 temp (fill_temp vecs left sz (i + 1) 0 temp)" by (rule less) (use True in auto)
      then show ?thesis unfolding fill_temp_skip [OF True below] by (rule skip [OF True below])
    next
      case False
      then have off: "off < snd (vecs ! i)" by simp
      define n where "n = min (snd (vecs ! i) - off) (left - sz)"
      let ?temp = "temp @ [(fst (vecs ! i) + off, n)]"
      have "P (sz + n) i (off + n) ?temp (fill_temp vecs left (sz + n) i (off + n) ?temp)" by (rule less) (use True in auto)
      then show ?thesis unfolding fill_temp_take [OF True off n_def] by (rule take [OF True off n_def])
    qed
  qed (simp add: fill_temp_stop stop)
qed

lemma fill_temp_grows: "sz \<le> fst (fill_temp vecs left sz i off temp)"
  by (rule fill_temp_induct [where P = "\<lambda>sz i off temp r. sz \<le> fst r"]) auto

lemma fill_temp_stuck:
  "fst (fill_temp vecs left sz i off temp) = sz \<longrightarrow> sz < left \<longrightarrow> length temp < MAX_TEMP_IO_VECS \<longrightarrow>
     length vecs \<le> fst (snd (fill_temp vecs left sz i off temp))"
proof (rule fill_temp_induct [where P = "\<lambda>sz i off temp r. fst r = sz \<longrightarrow> sz < left \<longrightarrow> length temp < MAX_TEMP_IO_VECS \<longrightarrow>
      length vecs \<le> fst (snd r)"])
  fix sz i off :: nat and temp :: "iovec list" and n :: nat
  assume "sz < left \<and> i < length vecs \<and> length temp < MAX_TEMP_IO_VECS" "off < snd (vecs ! i)" "n = min (snd (vecs ! i) - off) (left - sz)"
  then have "0 < n" by simp
  then have "fst (fill_temp vecs left (sz + n) i (off + n) (temp @ [(fst (vecs ! i) + off, n)])) \<noteq> sz"
    using fill_temp_grows [of "sz + n" vecs left i "off + n" "temp @ [(fst (vecs ! i) + off, n)]"] by linarith
  then show "fst (fill_temp vecs left (sz + n) i (off + n) (temp @ [(fst (vecs ! i) + off, n)])) = sz \<longrightarrow> sz < left \<longrightarrow>
      length temp < MAX_TEMP_IO_VECS \<longrightarrow> length vecs \<le> fst (snd (fill_temp vecs left (sz + n) i (off + n) (temp @ [(fst (vecs ! i) + off, n)])))"
    by blast
qed auto

lemma fill_temp_progress:
  assumes "(sz, i', off', temp') = fill_temp vecs left 0 i off []" "0 < left" "\<not> length vecs \<le> i'"
  shows "left - sz < left"
proof -
  have "sz \<noteq> 0"
    using fill_temp_stuck [of vecs left 0 i off "[]"] assms(2,3) unfolding assms(1) [symmetric] by (auto simp: MAX_TEMP_IO_VECS_def)
  then show ?thesis using assms(2) by simp
qed

text \<open>
  The loop over one file vector. Its state has the index and the offset in the memory, the bytes moved and the
  bytes left; \<open>Inl\<close> is an early return with a status and, with \<open>B_OK\<close>, the number of bytes.
\<close>

type_synonym vec_state = "nat \<times> nat \<times> nat \<times> nat \<times> io"

function file_vec_loop :: "bool \<Rightarrow> iovec list \<Rightarrow> int \<Rightarrow> nat \<Rightarrow> vec_state \<Rightarrow> (status_t \<times> nat option \<times> io) + vec_state" where
  "file_vec_loop doWrite vecs fileOffset fileLeft (vecIndex, vecOffset, totalSize, bytesLeft, s) =
     (if fileLeft > 0 then
        let (sz, vecIndex', vecOffset', temp) = fill_temp vecs fileLeft 0 vecIndex vecOffset [];
            (status, bytes, s') =
              (if fileOffset = -1 then if doWrite then (B_IO_ERROR, sz, s) else (B_OK, sz, zero_iovecs temp sz s)
               else if doWrite then device_write fileOffset temp sz s else device_read fileOffset temp sz s)
        in if status \<noteq> B_OK then Inl (status, None, s')
           else if sz \<noteq> bytes \<or> vecIndex' \<ge> length vecs then Inl (B_OK, Some (totalSize + bytes), s')
           else file_vec_loop doWrite vecs (if fileOffset \<ge> 0 then fileOffset + int sz else fileOffset) (fileLeft - sz)
                  (vecIndex', vecOffset', totalSize + bytes, bytesLeft - sz, s')
      else Inr (vecIndex, vecOffset, totalSize, bytesLeft, s))"
  by pat_completeness auto
termination
  by (relation "measure (\<lambda>(w, vecs, off, left, st). left)") (auto dest: fill_temp_progress)

declare file_vec_loop.simps [simp del]

fun file_vecs_loop :: "bool \<Rightarrow> iovec list \<Rightarrow> file_io_vec list \<Rightarrow> vec_state \<Rightarrow> (status_t \<times> nat option \<times> io) + vec_state" where
  "file_vecs_loop doWrite vecs [] st = Inr st"
| "file_vecs_loop doWrite vecs (fileVec # fileVecs) (vecIndex, vecOffset, totalSize, bytesLeft, s) =
     (case file_vec_loop doWrite vecs (fst fileVec) (nat (min (snd fileVec) (int bytesLeft))) (vecIndex, vecOffset, totalSize, bytesLeft, s) of
        Inl r \<Rightarrow> Inl r
      | Inr st \<Rightarrow> file_vecs_loop doWrite vecs fileVecs st)"

text \<open>The status, the new index, offset and number of bytes (the old ones when they are not written), and the state.\<close>

definition rest_vec_pages ::
  "bool \<Rightarrow> file_io_vec list \<Rightarrow> iovec list \<Rightarrow> nat \<Rightarrow> nat \<Rightarrow> nat \<Rightarrow> vec_state \<Rightarrow> status_t \<times> nat \<times> nat \<times> nat \<times> io" where
  "rest_vec_pages doWrite fileVecs vecs vecIndex vecOffset numBytes st =
     (case file_vecs_loop doWrite vecs fileVecs st of
        Inl (status, moved, s) \<Rightarrow> (status, vecIndex, vecOffset, (case moved of Some n \<Rightarrow> n | None \<Rightarrow> numBytes), s)
      | Inr (vecIndex, vecOffset, totalSize, _, s) \<Rightarrow> (B_OK, vecIndex, vecOffset, totalSize, s))"

text \<open>
  A read that starts with a new \<open>iovec\<close> takes its first file vector directly. The code that finds out where to go on
  counts \<open>size\<close> down, and goes on with what is left of it as the number of bytes that have been read.
\<close>

definition common_file_io_vec_pages ::
  "bool \<Rightarrow> file_io_vec list \<Rightarrow> iovec list \<Rightarrow> nat \<Rightarrow> nat \<Rightarrow> nat \<Rightarrow> io \<Rightarrow> status_t \<times> nat \<times> nat \<times> nat \<times> io" where
  "common_file_io_vec_pages doWrite fileVecs vecs vecIndex vecOffset numBytes s =
     (case fileVecs of
        [] \<Rightarrow> (B_BAD_VALUE, vecIndex, vecOffset, numBytes, s)
      | first # others \<Rightarrow>
          if \<not> doWrite \<and> vecOffset = 0 then
            let sz = (if snd first < int numBytes then nat (snd first) else numBytes);
                (status, sz, s) =
                  (if fst first \<ge> 0 then device_read (fst first) (drop vecIndex vecs) sz s
                   else (B_OK, sz, zero_iovecs (drop vecIndex vecs) sz s))
            in if status \<noteq> B_OK then (status, vecIndex, vecOffset, numBytes, s)
               else
                 let sz = (if int sz > snd first then nat (snd first) else sz)
                 in if sz = numBytes then (B_OK, vecIndex, vecOffset, numBytes, s)
                    else if int sz \<noteq> snd first then (B_OK, vecIndex, vecOffset, sz, s)
                    else
                      let (vecIndex', sz) = skip_vecs (drop vecIndex vecs) vecIndex sz
                      in rest_vec_pages doWrite others vecs vecIndex vecOffset numBytes (vecIndex', sz, sz, numBytes - sz, s)
          else rest_vec_pages doWrite fileVecs vecs vecIndex vecOffset numBytes (vecIndex, vecOffset, 0, numBytes, s))"

text \<open>\<open>valid\<close>: the descriptor is open.\<close>

definition read_file_io_vec_pages ::
  "bool \<Rightarrow> file_io_vec list \<Rightarrow> iovec list \<Rightarrow> nat \<Rightarrow> nat \<Rightarrow> nat \<Rightarrow> io \<Rightarrow> status_t \<times> nat \<times> nat \<times> nat \<times> io" where
  "read_file_io_vec_pages valid fileVecs vecs vecIndex vecOffset bytes s =
     (if valid then common_file_io_vec_pages False fileVecs vecs vecIndex vecOffset bytes s
      else (B_FILE_ERROR, vecIndex, vecOffset, bytes, s))"

definition write_file_io_vec_pages ::
  "bool \<Rightarrow> file_io_vec list \<Rightarrow> iovec list \<Rightarrow> nat \<Rightarrow> nat \<Rightarrow> nat \<Rightarrow> io \<Rightarrow> status_t \<times> nat \<times> nat \<times> nat \<times> io" where
  "write_file_io_vec_pages valid fileVecs vecs vecIndex vecOffset bytes s =
     (if valid then common_file_io_vec_pages True fileVecs vecs vecIndex vecOffset bytes s
      else (B_FILE_ERROR, vecIndex, vecOffset, bytes, s))"

subsection \<open>The operations of the driver\<close>

text \<open>
  The kernel's objects of a vnode: whether it has a file cache, and its file map. \<open>get_map\<close> of a vnode of the driver
  is \<open>dosfs_get_file_map\<close>, which the file map asks for as many bytes as there are.
\<close>

record paged_file =
  pf_cache :: bool
  pf_map :: "file_map option"

definition vfs_get_file_map :: "ino_t \<Rightarrow> nspace get_map" where
  "vfs_get_file_map p position max_vecs vol = dosfs_get_file_map vol p position (- 1) max_vecs"

definition dosfs_can_page :: "nspace \<Rightarrow> bool" where
  "dosfs_can_page vol = False"

text \<open>
  The loop of \<open>dosfs_read_pages\<close> and \<open>dosfs_write_pages\<close>. It goes on only after a translation that filled the eight
  vectors, and then takes a byte at least, or repeats itself forever; the first argument bounds the rounds.
\<close>

fun pages_loop ::
  "nat \<Rightarrow> bool \<Rightarrow> bool \<Rightarrow> 's get_map \<Rightarrow> file_map option \<Rightarrow> int \<Rightarrow> iovec list \<Rightarrow> nat \<Rightarrow> nat \<Rightarrow> nat \<Rightarrow> io \<Rightarrow> 's \<Rightarrow>
     fault + status_t \<times> file_map option \<times> io \<times> 's" where
  "pages_loop 0 doWrite valid get_map fm pos vecs vecIndex vecOffset bytesLeft s vol = Inl Endless_loop"
| "pages_loop (Suc k) doWrite valid get_map fm pos vecs vecIndex vecOffset bytesLeft s vol =
     (case file_map_translate get_map fm pos (of_nat bytesLeft) 8 0 vol of
        Inl f \<Rightarrow> Inl f
      | Inr (status, fileVecs, fm, vol) \<Rightarrow>
          if status \<noteq> B_OK \<and> status \<noteq> B_BUFFER_OVERFLOW then Inr (status, fm, s, vol)
          else
            let bufferOverflow = (status = B_BUFFER_OVERFLOW);
                (status, vecIndex, vecOffset, bytes, s) =
                  (if doWrite then write_file_io_vec_pages else read_file_io_vec_pages) valid fileVecs vecs vecIndex vecOffset bytesLeft s
            in if status \<noteq> B_OK \<or> \<not> bufferOverflow then Inr (status, fm, s, vol)
               else pages_loop k doWrite valid get_map fm (pos + int bytes) vecs vecIndex vecOffset (bytesLeft - bytes) s vol)"

definition dosfs_read_pages ::
  "nspace \<Rightarrow> ino_t \<Rightarrow> paged_file \<Rightarrow> int \<Rightarrow> iovec list \<Rightarrow> nat \<Rightarrow> bool \<Rightarrow> io \<Rightarrow> fault + status_t \<times> file_map option \<times> io \<times> nspace" where
  "dosfs_read_pages vol p node pos vecs numBytes valid s =
     (if \<not> pf_cache node then Inr (B_BAD_VALUE, pf_map node, s, vol)
      else pages_loop (numBytes + 1) False valid (vfs_get_file_map p) (pf_map node) pos vecs 0 0 numBytes s vol)"

definition dosfs_write_pages ::
  "nspace \<Rightarrow> ino_t \<Rightarrow> paged_file \<Rightarrow> int \<Rightarrow> iovec list \<Rightarrow> nat \<Rightarrow> bool \<Rightarrow> io \<Rightarrow> fault + status_t \<times> file_map option \<times> io \<times> nspace" where
  "dosfs_write_pages vol p node pos vecs numBytes valid s =
     (if \<not> pf_cache node then Inr (B_BAD_VALUE, pf_map node, s, vol)
      else if read_only vol then Inr (EROFS, pf_map node, s, vol)
      else pages_loop (numBytes + 1) True valid (vfs_get_file_map p) (pf_map node) pos vecs 0 0 numBytes s vol)"

end
