(* ===== verification/Safety.thy ===== *)
theory Safety
  imports Reader Name_Ops Mount Attributes Page_IO Sample_Volume
begin

section \<open>The driver as a state machine\<close>

text \<open>
  The kernel calls the operations of a mounted volume through two tables of functions, \<open>gFATVolumeOps\<close>
  and \<open>gFATVnodeOps\<close>. A request is a call of one of those operations that can change the volume, the memory or the
  device; \<open>exec\<close> carries it out, and \<open>reaches\<close> relates a state to all those that some sequence of requests
  leads to. The state has the volume and, for the operations on pages, the memory and the bytes of the device
  that \<open>vol->fd\<close> stands for; once the volume is unmounted there are no requests any more.

  The requests on pages have the kernel's objects of the vnode as an argument, its file map above all, which can then be in
  any state. \<open>dosfs_fsync\<close> calls \<open>file_cache_sync\<close>, and the kernel then has the pages of the file that are not on the device yet
  written by \<open>dosfs_write_pages\<close>: these calls are the argument of \<open>Fsync\<close>. The other entries
  of the tables have no request: \<open>dosfs_can_page\<close>, \<open>dosfs_readlink\<close>, \<open>dosfs_access\<close>, \<open>dosfs_rstat\<close>, \<open>dosfs_read\<close>,
  \<open>dosfs_free_cookie\<close>, \<open>dosfs_closedir\<close>, \<open>dosfs_free_dircookie\<close>, \<open>dosfs_rewinddir\<close>, \<open>dosfs_read_fs_stat\<close> and the
  operations of \<open>Attributes\<close> other than \<open>dosfs_open_attrdir\<close> have no volume among their results, which are
  a status, a cookie or data for the caller.
\<close>

type_synonym page_run = "paged_file \<times> int \<times> iovec list \<times> nat \<times> bool"

datatype request =
  Walk ino_t bytes | Get_Vnode ino_t | Get_Vnode_Name ino_t nat | Release_Vnode ino_t | Remove_Vnode ino_t bool
| Get_File_Map ino_t int "64 word" nat | Read_Pages ino_t page_run | Write_Pages ino_t page_run | Fsync ino_t "page_run list"
| Unlink ino_t bytes | Rename ino_t bytes ino_t bytes
| Wstat ino_t stat uint32 | Create ino_t "bytes option" uint32 | Open ino_t uint32 | Close ino_t
| Write ino_t uint32 int "64 word" | Mkdir ino_t bytes uint32 | Rmdir ino_t bytes | Opendir ino_t
| Readdir ino_t uint32 nat | Open_Attrdir | Write_Fs_Stat bytes bool | Sync | Unmount

text \<open>
  What the driver gets from the kernel besides the environment: \<open>file_cache_write\<close> and the size of
  a \<open>struct dirent\<close>.
\<close>

record kernel =
  k_env :: environment
  k_cache_write :: "ino_t \<Rightarrow> int \<Rightarrow> 64 word \<Rightarrow> status_t \<times> 64 word"
  k_dirent_size :: nat

record machine =
  m_vol :: nspace
  m_io :: io
  m_mounted :: bool

definition on_volume :: "(nspace \<Rightarrow> nspace) \<Rightarrow> machine \<Rightarrow> machine" where
  "on_volume f s = s\<lparr>m_vol := f (m_vol s)\<rparr>"

definition after_transfer :: "machine \<Rightarrow> fault + status_t \<times> file_map option \<times> io \<times> nspace \<Rightarrow> machine" where
  "after_transfer s r =
     (case r of
        Inl f \<Rightarrow> on_volume (raise_fault f) s
      | Inr (_, _, io, vol) \<Rightarrow> s\<lparr>m_vol := vol, m_io := io\<rparr>)"

definition serve_read :: "ino_t \<Rightarrow> page_run \<Rightarrow> machine \<Rightarrow> machine" where
  "serve_read p run s =
     (case run of (node, pos, vecs, n, valid) \<Rightarrow> after_transfer s (dosfs_read_pages (m_vol s) p node pos vecs n valid (m_io s)))"

definition serve_write :: "ino_t \<Rightarrow> page_run \<Rightarrow> machine \<Rightarrow> machine" where
  "serve_write p run s =
     (case run of (node, pos, vecs, n, valid) \<Rightarrow> after_transfer s (dosfs_write_pages (m_vol s) p node pos vecs n valid (m_io s)))"

fun exec :: "kernel \<Rightarrow> request \<Rightarrow> machine \<Rightarrow> machine" where
  "exec K (Walk d name) s = on_volume (\<lambda>vol. snd (snd (dosfs_walk (k_env K) vol (deref vol d) name))) s"
| "exec K (Get_Vnode vnid) s = on_volume (\<lambda>vol. snd (snd (get_vnode (k_env K) vol vnid))) s"
| "exec K (Get_Vnode_Name p n) s = on_volume (\<lambda>vol. snd (snd (dosfs_get_vnode_name vol p n))) s"
| "exec K (Release_Vnode p) s = on_volume (\<lambda>vol. snd (dosfs_release_vnode vol (Some p))) s"
| "exec K (Remove_Vnode p reenter) s = on_volume (\<lambda>vol. snd (dosfs_remove_vnode vol p reenter)) s"
| "exec K (Get_File_Map p pos len n) s = on_volume (\<lambda>vol. snd (snd (dosfs_get_file_map vol p pos len n))) s"
| "exec K (Read_Pages p run) s = serve_read p run s"
| "exec K (Write_Pages p run) s = serve_write p run s"
| "exec K (Fsync p runs) s = fold (serve_write p) runs s"
| "exec K (Unlink d name) s = on_volume (\<lambda>vol. snd (dosfs_unlink (k_env K) vol d name)) s"
| "exec K (Rename d name d' name') s = on_volume (\<lambda>vol. snd (dosfs_rename (k_env K) vol d name d' name')) s"
| "exec K (Wstat p st m) s = on_volume (\<lambda>vol. snd (dosfs_wstat (k_env K) vol p st m)) s"
| "exec K (Create d name omode) s = on_volume (\<lambda>vol. snd (snd (snd (dosfs_create (k_env K) vol d name omode)))) s"
| "exec K (Open p omode) s = on_volume (\<lambda>vol. snd (snd (dosfs_open (k_env K) vol p omode))) s"
| "exec K (Close p) s = on_volume (\<lambda>vol. snd (dosfs_close vol p)) s"
| "exec K (Write p cookie pos len) s =
     on_volume (\<lambda>vol. snd (snd (dosfs_write (k_env K) (k_cache_write K) vol p cookie pos len))) s"
| "exec K (Mkdir d name perms) s = on_volume (\<lambda>vol. snd (dosfs_mkdir (k_env K) vol d name perms)) s"
| "exec K (Rmdir d name) s = on_volume (\<lambda>vol. snd (dosfs_rmdir (k_env K) vol d name)) s"
| "exec K (Opendir p) s = on_volume (\<lambda>vol. snd (snd (dosfs_opendir vol (deref vol p)))) s"
| "exec K (Readdir d cookie n) s =
     on_volume (\<lambda>vol. snd (snd (snd (dosfs_readdir (k_dirent_size K) vol (deref vol d) cookie n)))) s"
| "exec K Open_Attrdir s = on_volume (\<lambda>vol. snd (snd (dosfs_open_attrdir vol))) s"
| "exec K (Write_Fs_Stat name b) s = on_volume (\<lambda>vol. snd (dosfs_write_fs_stat (k_env K) vol name b)) s"
| "exec K Sync s = on_volume (\<lambda>vol. snd (dosfs_sync vol)) s"
| "exec K Unmount s = (on_volume dosfs_unmount s)\<lparr>m_mounted := False\<rparr>"

inductive reaches :: "kernel \<Rightarrow> machine \<Rightarrow> machine \<Rightarrow> bool" for K s where
  start: "reaches K s s"
| step: "reaches K s t \<Longrightarrow> m_mounted t \<Longrightarrow> reaches K s (exec K r t)"

subsection \<open>Reading the map of a file\<close>

context dir_reader
begin

lemma map_run_R: "map_run k v c b s l = (r, c', s', l', w) \<Longrightarrow> R u v \<Longrightarrow> R u w"
  by (induction k arbitrary: v c s l) (fastforce split: prod.splits if_splits)+

text \<open>The shape of the body of the outer loop.\<close>

lemma map_body_R:
  assumes "(if a then (if b then (r1, x, v1) else if c then (r2, y, v2) else if d then (r3, z, v2) else t)
     else (r4, q, v)) = (r, vs', w)"
    "R u v" "R u v1" "R u v2" "t = (r, vs', w) \<Longrightarrow> R u w"
  shows "R u w"
  using assms by (simp split: if_split_asm)

lemma map_loop_R: "map_loop k v c o' l m vs = (r, vs', w) \<Longrightarrow> R u v \<Longrightarrow> R u w"
proof (induction k arbitrary: v c o' l vs)
  case (Suc k)
  let ?l = "l - min l (unat (bytes_per_sector v) - o')" and ?b = "csi_to_block v c"
  obtain res c1 s1 l1 v1 where run: "map_run (Suc ?l) v c ?b 1 ?l = (res, c1, s1, l1, v1)"
    by (cases "map_run (Suc ?l) v c ?b 1 ?l" rule: prod_cases5) (rule that)
  have 1: "R u v1" by (rule map_run_R [OF run Suc.prems(2)])
  then have 2: "R u (if m \<le> length vs then raise_fault Out_of_bounds v1 else v1)" by (simp add: fault_R)
  show ?case
    by (rule map_body_R [OF Suc.prems(1) [unfolded map_loop.simps Let_def run prod.case] Suc.prems(2) 1 2 Suc.IH [OF _ 2]])
qed (auto intro: fault_R)

lemma map_entry_R:
  assumes "(if a then (r1, x, v) else if b then (r2, y, v)
     else case c of (_, None) \<Rightarrow> (r3, z, v)
       | (_, Some i) \<Rightarrow> (case seek i of (e, i', v') \<Rightarrow> if e \<noteq> ok then (r4, q, v') else loop i' v')) = (r, vs, w)"
    "R u v" "\<And>i e i' v'. seek i = (e, i', v') \<Longrightarrow> R u v'" "\<And>i' v'. loop i' v' = (r, vs, w) \<Longrightarrow> R u v' \<Longrightarrow> R u w"
  shows "R u w"
  using assms(1,2) by (auto split: if_split_asm prod.split_asm option.split_asm dest: assms(3) intro: assms(4))

lemma dosfs_get_file_map_R:
  assumes "dosfs_get_file_map v p pos l m = (r, vs, w)" "R u v"
  shows "R u w"
  by (rule map_entry_R [OF assms(1) [unfolded dosfs_get_file_map_def Let_def] assms(2)])
    (auto intro: map_loop_R iter_csi_R assms(2) simp del: map_loop.simps split: if_split_asm)

text \<open>The kernel's file map asks for it.\<close>

lemma vfs_get_file_map_R: "vfs_get_file_map p pos n v = (r, vs, w) \<Longrightarrow> R u v \<Longrightarrow> R u w"
  unfolding vfs_get_file_map_def by (rule dosfs_get_file_map_R)

lemma cache_loop_R:
  "cache_loop k (vfs_get_file_map p) e fin m v = Inr (st, m', w) \<Longrightarrow> R u v \<Longrightarrow> R u w"
proof (induction k arbitrary: e m v)
  case (Suc k)
  obtain r vs v1 where g: "vfs_get_file_map p e 8 v = (r, vs, v1)" by (cases "vfs_get_file_map p e 8 v")
  obtain st1 e1 m1 where a: "Add m vs e = (st1, e1, m1)" by (cases "Add m vs e")
  have 1: "R u v1" by (rule vfs_get_file_map_R [OF g Suc.prems(2)])
  show ?case using Suc.prems 1 Suc.IH [OF _ 1] by (auto simp: g a split: if_split_asm)
qed (auto split: if_split_asm)

lemma Cache_R: "Cache (vfs_get_file_map p) pos sz m v = Inr (st, m', w) \<Longrightarrow> R u v \<Longrightarrow> R u w"
  by (auto simp: Cache_def intro: cache_loop_R split: if_split_asm)

lemma file_map_translate_R:
  "file_map_translate (vfs_get_file_map p) fm pos sz n align v = Inr (st, vs, fm', w) \<Longrightarrow> R u v \<Longrightarrow> R u w"
  by (auto simp: file_map_translate_def Translate_def Let_def intro: Cache_R
      split: if_split_asm option.split_asm sum.split_asm prod.split_asm)

end

subsection \<open>Reading pages\<close>

text \<open>A transfer to the memory leaves the device alone.\<close>

lemma device_read_device: "device_read pos vecs n s = (st, k, s') \<Longrightarrow> io_device s' = io_device s"
  by (auto simp: device_read_def transfer_def split: list.split_asm)

lemma zero_iovecs_device [simp]: "io_device (zero_iovecs vecs n s) = io_device s"
  by (simp add: zero_iovecs_def)

definition vecs_io :: "(status_t \<times> nat option \<times> io) + vec_state \<Rightarrow> io" where
  "vecs_io r = (case r of Inl (_, _, s) \<Rightarrow> s | Inr (_, _, _, _, s) \<Rightarrow> s)"

lemma file_vec_loop_device:
  "io_device (vecs_io (file_vec_loop False vecs pos left (i, off, t, n, s))) = io_device s"
proof (induction "left" arbitrary: pos i off t n s rule: less_induct)
  case (less left)
  show ?case
  proof (cases "0 < left")
    case False
    then show ?thesis by (subst file_vec_loop.simps) (simp add: vecs_io_def)
  next
    case True
    obtain sz i' off' temp where f: "fill_temp vecs left 0 i off [] = (sz, i', off', temp)"
      by (cases "fill_temp vecs left 0 i off []")
    obtain st k s' where r: "(if pos = -1 then (B_OK, sz, zero_iovecs temp sz s) else device_read pos temp sz s) = (st, k, s')"
      by (cases "if pos = -1 then (B_OK, sz, zero_iovecs temp sz s) else device_read pos temp sz s")
    have s': "io_device s' = io_device s" using r device_read_device by (auto split: if_split_asm)
    define nxt where "nxt = file_vec_loop False vecs (if pos \<ge> 0 then pos + int sz else pos) (left - sz) (i', off', t + k, n - sz, s')"
    have loop: "file_vec_loop False vecs pos left (i, off, t, n, s) =
        (if st \<noteq> B_OK then Inl (st, None, s') else if sz \<noteq> k \<or> i' \<ge> length vecs then Inl (B_OK, Some (t + k), s') else nxt)"
    proof (cases "pos = -1")
      case hole: True
      with r have "st = B_OK" "k = sz" "s' = zero_iovecs temp sz s" by auto
      with True hole show ?thesis by (subst file_vec_loop.simps) (simp add: f nxt_def)
    next
      case False
      with r have "device_read pos temp sz s = (st, k, s')" by simp
      with True False show ?thesis by (subst file_vec_loop.simps) (simp add: f nxt_def)
    qed
    have "io_device (vecs_io nxt) = io_device s'" if "\<not> i' \<ge> length vecs"
      unfolding nxt_def by (rule less) (rule fill_temp_progress [OF f [symmetric] True that])
    then show ?thesis using s' unfolding loop by (simp add: vecs_io_def)
  qed
qed

lemma file_vecs_loop_device:
  "io_device (vecs_io (file_vecs_loop False vecs fvs (i, off, t, n, s))) = io_device s"
proof (induction fvs arbitrary: i off t n s)
  case (Cons fv fvs)
  let ?one = "file_vec_loop False vecs (fst fv) (nat (min (snd fv) (int n))) (i, off, t, n, s)"
  have one: "io_device (vecs_io ?one) = io_device s" by (rule file_vec_loop_device)
  show ?case
  proof (cases ?one)
    case (Inr st)
    obtain i' off' t' n' s' where "st = (i', off', t', n', s')" by (cases st)
    then show ?thesis using one Inr Cons.IH [of i' off' t' n' s'] by (simp add: vecs_io_def)
  qed (use one in simp)
qed (simp add: vecs_io_def)

lemma rest_vec_pages_device:
  "rest_vec_pages False fvs vecs i off n (i', off', t, k, s) = (st, j, o', m, s') \<Longrightarrow> io_device s' = io_device s"
  using file_vecs_loop_device [of vecs fvs i' off' t k s]
  by (auto simp: rest_vec_pages_def vecs_io_def split: sum.split_asm prod.split_asm option.split_asm)

lemma read_vec_pages_device:
  assumes "read_file_io_vec_pages valid fvs vecs i off n s = (st, i', off', m, s')"
  shows "io_device s' = io_device s"
  using assms
  by (auto simp: read_file_io_vec_pages_def common_file_io_vec_pages_def Let_def
      dest!: rest_vec_pages_device device_read_device split: if_split_asm list.split_asm prod.split_asm)

lemma pages_loop_reads:
  "pages_loop k False valid (vfs_get_file_map p) fm pos vecs i off n s v = Inr (st, fm', s', w) \<Longrightarrow>
     same_disk v w \<and> io_device s' = io_device s"
proof (induction k arbitrary: fm pos i off n s v)
  case (Suc k)
  obtain r fvs fm1 v1 where t: "file_map_translate (vfs_get_file_map p) fm pos (of_nat n) 8 0 v = Inr (r, fvs, fm1, v1)"
    using Suc.prems by (auto split: sum.split_asm prod.split_asm)
  obtain r' i' off' m s1 where io: "read_file_io_vec_pages valid fvs vecs i off n s = (r', i', off', m, s1)"
    by (cases "read_file_io_vec_pages valid fvs vecs i off n s") auto
  have v1: "same_disk v v1" by (rule disk.file_map_translate_R [OF t disk.R_refl])
  have s1: "io_device s1 = io_device s" by (rule read_vec_pages_device [OF io])
  show ?case
    using Suc.prems Suc.IH [of fm1 "pos + int m" i' off' "n - m" s1 v1] v1 s1 disk.R_trans [OF v1]
    by (auto simp: t io Let_def split: if_split_asm)
qed simp

subsection \<open>A read-only volume stays as it is\<close>

text \<open>What stays: the contents of all blocks, the flags and the label.\<close>

definition frozen :: "nspace \<Rightarrow> nspace \<Rightarrow> bool" where
  "frozen v w \<longleftrightarrow> blocks (fBlockCache w) = blocks (fBlockCache v) \<and> flags w = flags v \<and> vol_label w = vol_label v"

lemma frozen_refl [simp]: "frozen v v"
  by (simp add: frozen_def)

lemma frozen_trans: "frozen u v \<Longrightarrow> frozen v w \<Longrightarrow> frozen u w"
  by (simp add: frozen_def)

lemma same_disk_frozen: "same_disk v w \<Longrightarrow> frozen v w"
proof -
  have "vol_label (disk_state x) = vol_label x" for x by (simp add: disk_state_def)
  then show "same_disk v w \<Longrightarrow> frozen v w"
    unfolding frozen_def using same_disk_fields by (metis same_disk_def)
qed

lemma update_fsinfo_read_only: "read_only v \<Longrightarrow> update_fsinfo v = v"
  by (simp add: update_fsinfo_def)

lemma op_sync_read_only: "read_only v \<Longrightarrow> op_sync v = v"
  by (simp add: op_sync_def dosfs_sync_def update_fsinfo_read_only)

lemma store_vnode_frozen: "frozen v (store_vnode v p n)"
  by (simp add: frozen_def store_vnode_def)

lemma malloc_frozen: "malloc v = (ok, w) \<Longrightarrow> frozen v w"
  by (auto simp: malloc_def frozen_def split: list.splits)

lemma open_mode_read_only: "read_only v \<Longrightarrow> open_mode v node omode AND O_RWMASK = O_RDONLY"
  by (rule bit_word_eqI) (auto simp: open_mode_def O_RDONLY_def bit_simps)

lemma dosfs_open_frozen:
  assumes "read_only v" "dosfs_open E v p omode = (r, c, w)"
  shows "frozen v w"
  using assms open_mode_read_only [OF assms(1)]
  by (auto simp: dosfs_open_def Let_def dest: malloc_frozen split: if_splits prod.splits)

lemma open_attrdir_frozen: "frozen v (snd (snd (dosfs_open_attrdir v)))"
  by (cases "malloc v") (auto simp: dosfs_open_attrdir_def dest: malloc_frozen split: if_splits)

lemma unmount_frozen: "read_only v \<Longrightarrow> frozen v (dosfs_unmount v)"
  by (simp add: dosfs_unmount_def update_fsinfo_read_only dlist_uninit_def uninit_vcache_def frozen_def)

text \<open>A state in which neither the disk nor what the volume knows of it has changed.\<close>

definition undisturbed :: "machine \<Rightarrow> machine \<Rightarrow> bool" where
  "undisturbed s t \<longleftrightarrow> same_disk (m_vol s) (m_vol t) \<and> io_device (m_io t) = io_device (m_io s)"

lemma undisturbed_volume: "same_disk (m_vol s) (f (m_vol s)) \<Longrightarrow> undisturbed s (on_volume f s)"
  by (simp add: undisturbed_def on_volume_def)

lemma serve_read_undisturbed: "undisturbed s (serve_read p run s)"
proof -
  obtain node pos vecs n valid where run: "run = (node, pos, vecs, n, valid)" by (cases run)
  have "same_disk (m_vol s) w \<and> io_device io = io_device (m_io s)"
    if "dosfs_read_pages (m_vol s) p node pos vecs n valid (m_io s) = Inr (st, fm, io, w)" for st fm io w
    using that pages_loop_reads by (auto simp: dosfs_read_pages_def simp del: pages_loop.simps split: if_split_asm)
  then show ?thesis
    using disk.R_fault [of "m_vol s"]
    by (auto simp: run serve_read_def after_transfer_def undisturbed_def on_volume_def split: sum.split)
qed

lemma serve_write_read_only: "read_only (m_vol s) \<Longrightarrow> serve_write p run s = s"
  by (simp add: serve_write_def dosfs_write_pages_def after_transfer_def split: prod.split)

lemma serve_writes_read_only: "read_only (m_vol s) \<Longrightarrow> fold (serve_write p) runs s = s"
  by (induction runs) (simp_all add: serve_write_read_only)

text \<open>The operations that only read change neither blocks nor flags, read-only volume or not.\<close>

lemma reading_undisturbed:
  "undisturbed s (exec K (Walk d name) s)" "undisturbed s (exec K (Get_Vnode vnid) s)"
  "undisturbed s (exec K (Get_File_Map p pos len n) s)" "undisturbed s (exec K (Opendir p) s)"
  "undisturbed s (exec K (Readdir d cookie n) s)" "undisturbed s (exec K (Read_Pages p run) s)"
proof -
  let ?v = "m_vol s"
  show "undisturbed s (exec K (Walk d name) s)"
    by (cases "dosfs_walk (k_env K) ?v (deref ?v d) name") (auto intro!: undisturbed_volume intro: disk.dosfs_walk_R)
  show "undisturbed s (exec K (Get_Vnode vnid) s)"
    by (cases "get_vnode (k_env K) ?v vnid") (auto intro!: undisturbed_volume intro: disk.get_vnode_R)
  show "undisturbed s (exec K (Get_File_Map p pos len n) s)"
    by (cases "dosfs_get_file_map ?v p pos len n") (auto intro!: undisturbed_volume intro: disk.dosfs_get_file_map_R)
  show "undisturbed s (exec K (Opendir p) s)"
    by (cases "dosfs_opendir ?v (deref ?v p)") (auto intro!: undisturbed_volume intro: disk.dosfs_opendir_R)
  show "undisturbed s (exec K (Readdir d cookie n) s)"
    by (cases "dosfs_readdir (k_dirent_size K) ?v (deref ?v d) cookie n") (auto intro!: undisturbed_volume intro: disk.dosfs_readdir_R)
  show "undisturbed s (exec K (Read_Pages p run) s)" using serve_read_undisturbed by simp
qed

definition untouched :: "machine \<Rightarrow> machine \<Rightarrow> bool" where
  "untouched s t \<longleftrightarrow> frozen (m_vol s) (m_vol t) \<and> io_device (m_io t) = io_device (m_io s)"

lemma untouched_refl [simp]: "untouched s s"
  by (simp add: untouched_def)

lemma untouched_trans: "untouched s t \<Longrightarrow> untouched t u \<Longrightarrow> untouched s u"
  unfolding untouched_def using frozen_trans by metis

lemma undisturbed_untouched: "undisturbed s t \<Longrightarrow> untouched s t"
  by (simp add: undisturbed_def untouched_def same_disk_frozen)

lemma untouched_volume: "frozen (m_vol s) (f (m_vol s)) \<Longrightarrow> untouched s (on_volume f s)"
  by (simp add: untouched_def on_volume_def)

lemma exec_read_only:
  assumes "read_only (m_vol s)" "take 11 (vol_label (m_vol s)) \<noteq> ro_label"
  shows "untouched s (exec K r s)"
proof (cases r)
  case (Open p omode)
  then show ?thesis
    by (cases "dosfs_open (k_env K) (m_vol s) p omode")
      (auto intro!: untouched_volume intro: dosfs_open_frozen [OF assms(1)])
next
  case Open_Attrdir
  then show ?thesis by (auto intro!: untouched_volume open_attrdir_frozen)
next
  case Unmount
  then show ?thesis using unmount_frozen [OF assms(1)] by (simp add: untouched_def on_volume_def)
next
  case (Write_Pages p run)
  then show ?thesis using serve_write_read_only [OF assms(1)] by simp
next
  case (Fsync p runs)
  then show ?thesis using serve_writes_read_only [OF assms(1)] by simp
qed (use assms reading_undisturbed [THEN undisturbed_untouched] in
    \<open>auto intro!: untouched_volume simp: dosfs_release_vnode_def dosfs_remove_vnode_def dosfs_unlink_def dosfs_rmdir_def do_unlink_def
      dosfs_rename_def dosfs_wstat_def dosfs_create_def dosfs_close_def dosfs_write_def dosfs_mkdir_def
      dosfs_open_attrdir_def dosfs_write_fs_stat_def dosfs_sync_def dosfs_get_vnode_name_def op_sync_read_only
      update_fsinfo_read_only store_vnode_def Let_def frozen_def raise_fault_def
      split: option.splits prod.splits dest: malloc_frozen simp del: exec.simps(1,2,6,7,19,20)\<close>)

text \<open>
  C22. No sequence of requests, page writes and unmounting included, changes the contents of any block of a
  read-only volume or any byte of its device, or makes the volume writable. (A volume with the label
  \<open>__RO__\<close> is excluded: its label may be changed. No volume that \<open>volume_init\<close> makes has this label, see
  \<open>ro_label_has_no_effect\<close>.)
\<close>

theorem read_only_safe:
  assumes "read_only (m_vol s)" "take 11 (vol_label (m_vol s)) \<noteq> ro_label" "reaches K s t"
  shows "blocks (fBlockCache (m_vol t)) = blocks (fBlockCache (m_vol s)) \<and> io_device (m_io t) = io_device (m_io s) \<and>
    read_only (m_vol t)"
proof -
  from assms(3) have "untouched s t"
  proof induction
    case (step t r)
    then have "read_only (m_vol t)" "take 11 (vol_label (m_vol t)) \<noteq> ro_label"
      using assms(1,2) by (simp_all add: untouched_def frozen_def)
    then show ?case using step.IH exec_read_only untouched_trans by blast
  qed simp
  then show ?thesis using assms(1) by (simp add: untouched_def frozen_def)
qed

definition sample_read_only :: machine where
  "sample_read_only = \<lparr>m_vol = sample_volume\<lparr>flags := B_FS_IS_READONLY\<rparr>,
     m_io = \<lparr>io_memory = (\<lambda>_. 1), io_device = (\<lambda>_. 0), io_transfers = []\<rparr>, m_mounted = True\<rparr>"

theorem read_only_safe_witness:
  "\<forall>K node. let t = exec K (Write_Pages 7 (node, 0, [(0, 512)], 512, True)) (exec K Sync sample_read_only)
     in blocks (fBlockCache (m_vol t)) 1 = Some sample_fat \<and> io_device (m_io t) = (\<lambda>_. 0)"
proof (intro allI)
  fix K node
  let ?t = "exec K (Write_Pages 7 (node, 0, [(0, 512)], 512, True)) (exec K Sync sample_read_only)"
  have ro: "read_only (m_vol sample_read_only)" "take 11 (vol_label (m_vol sample_read_only)) \<noteq> ro_label" "m_mounted sample_read_only"
    by (simp_all add: sample_read_only_def sample_volume_def B_FS_IS_READONLY_def ro_label_def chars_def)
  then have "m_mounted (exec K Sync sample_read_only)" by (simp add: on_volume_def)
  then have "reaches K sample_read_only ?t" using ro(3) by (intro reaches.intros)
  then show "let t = ?t in blocks (fBlockCache (m_vol t)) 1 = Some sample_fat \<and> io_device (m_io t) = (\<lambda>_. 0)"
    using read_only_safe [OF ro(1,2)] by (simp add: Let_def sample_read_only_def sample_volume_def sample_cache_def del: exec.simps)
qed

text \<open>
  C23. The operations that only read leave the disk alone, on every volume, also when a read fails,
  memory runs out or the directory is damaged: looking a name up, reading a vnode, listing a
  directory, mapping a file and reading its pages change no block, no byte of the device, no flag, no counter and
  not the root vnode.
\<close>

theorem reading_leaves_disk_alone:
  "undisturbed s (exec K (Walk d name) s) \<and> undisturbed s (exec K (Get_Vnode vnid) s) \<and>
   undisturbed s (exec K (Opendir d) s) \<and> undisturbed s (exec K (Readdir d cookie n) s) \<and>
   undisturbed s (exec K (Get_File_Map p pos len n) s) \<and> undisturbed s (exec K (Read_Pages p run) s)"
  by (intro conjI reading_undisturbed)

text \<open>
  The second interpretation: looking a name up or listing a directory never hides a fault that the
  code has run into before.
\<close>

lemma faults_persist:
  assumes "fault (m_vol s) = Some f"
  shows "fault (m_vol (exec K (Walk d name) s)) = Some f \<and> fault (m_vol (exec K (Readdir d cookie n) s)) = Some f"
proof -
  let ?v = "m_vol s"
  have "fault_kept ?v (m_vol (exec K (Walk d name) s))"
    by (cases "dosfs_walk (k_env K) ?v (deref ?v d) name") (auto simp: on_volume_def intro: faults.dosfs_walk_R)
  moreover have "fault_kept ?v (m_vol (exec K (Readdir d cookie n) s))"
    by (cases "dosfs_readdir (k_dirent_size K) ?v (deref ?v d) cookie n") (auto simp: on_volume_def intro: faults.dosfs_readdir_R)
  ultimately show ?thesis using assms by (simp add: fault_kept_def)
qed

end
