(* ===== verification/Dir_Entry.thy ===== *)
theory Dir_Entry
  imports Dir_Update Name_Ops Sample_Volume
begin

section \<open>Directory entries on the disk\<close>

text \<open>
  What the functions that write a directory entry through a pointer do to the 32 bytes of that
  entry. Writing a row of bytes is \<open>patch\<close> on the entry; the entry that \<open>_create_dir_entry_\<close> and
  \<open>write_vnode_entry\<close> write is read back by \<open>_next_dirent_\<close>.
\<close>

subsection \<open>Writing through a pointer\<close>

definition entry_in :: "nspace \<Rightarrow> int \<times> nat \<Rightarrow> bool" where
  "entry_in vol p \<longleftrightarrow> (case blk vol (fst p) of None \<Rightarrow> False | Some b \<Rightarrow> snd p + 0x20 \<le> length b)"

lemma entry_bytes_length: "entry_in vol p \<Longrightarrow> length (entry_bytes vol p) = 0x20"
  by (auto simp: entry_in_def entry_bytes_def block_data_def split: option.splits)

lemma set_entry_byte_bytes:
  assumes "entry_in vol p" "k < 0x20"
  shows "entry_bytes (set_entry_byte p k x vol) p = (entry_bytes vol p)[k := x]"
  using assms
  by (auto simp: entry_in_def entry_bytes_def set_entry_byte_def update_byte_eq block_data_def drop_update_swap
      take_update_swap split: option.splits)

lemma set_entry_byte_in [simp]: "entry_in vol p \<Longrightarrow> entry_in (set_entry_byte p k x vol) p"
  by (auto simp: entry_in_def set_entry_byte_def update_byte_eq block_data_def split: option.splits)

lemma write_entry_in [simp]: "entry_in vol p \<Longrightarrow> entry_in (write_entry p k xs vol) p"
  by (induction xs arbitrary: k vol) auto

lemma patch_Nil [simp]: "k \<le> length e \<Longrightarrow> patch k [] e = e"
  by (simp add: patch_def)

lemma patch_Cons: "k < length e \<Longrightarrow> patch (Suc k) xs (e[k := x]) = patch k (x # xs) e"
  by (simp add: patch_def take_Suc_conv_app_nth drop_update_cancel)

lemma write_entry_bytes:
  assumes "entry_in vol p" "k + length xs \<le> 0x20"
  shows "entry_bytes (write_entry p k xs vol) p = patch k xs (entry_bytes vol p)"
  using assms
  by (induction xs arbitrary: k vol) (auto simp: set_entry_byte_bytes entry_bytes_length patch_Cons)

lemma patch_length [simp]: "k + length xs \<le> length e \<Longrightarrow> length (patch k xs e) = length e"
  by (simp add: patch_def)

lemma patch_nth:
  "k + length xs \<le> length e \<Longrightarrow> j < length e \<Longrightarrow>
   patch k xs e ! j = (if k \<le> j \<and> j < k + length xs then xs ! (j - k) else e ! j)"
  by (auto simp: patch_def nth_append min_def)

text \<open>Everything else stays: the fault state, the geometry, the other blocks.\<close>

lemma write_entry_fault [simp]: "fault (write_entry p k xs vol) = fault vol"
  by (induction xs arbitrary: k vol) (auto simp: set_entry_byte_def update_byte_eq set_blocks_def)

lemma write_entry_fat_bits [simp]:
  "fat_bits (write_entry p k xs vol) = fat_bits vol" "fat_bits (set_entry_byte p k x vol) = fat_bits vol"
proof -
  show *: "fat_bits (set_entry_byte p k x vol) = fat_bits vol" for k x vol
    by (simp add: set_entry_byte_def update_byte_eq set_blocks_def)
  show "fat_bits (write_entry p k xs vol) = fat_bits vol"
    by (induction xs arbitrary: k vol) (auto simp: *)
qed

subsection \<open>The short entry\<close>

lemma le_length [simp]: "length (le16 v) = 2" "length (le32 v) = 4"
  by (simp_all add: le16_def le32_def)

lemma read32_patch:
  assumes "k + 4 \<le> length e"
  shows "read32 (patch k (le32 v) e) k = v"
  using assms le32_byte_of [of v] by (simp add: read32_def le32_def patch_nth)

lemma read16_patch:
  assumes "k + 2 \<le> length e"
  shows "read16 (patch k (le16 v) e) k = v AND 0xffff"
  using assms le16_byte_of [of v] by (simp add: read16_def le16_def patch_nth)

lemma read32_patch_other:
  assumes "k + length xs \<le> length e" "j + 4 \<le> length e" "j + 4 \<le> k \<or> k + length xs \<le> j"
  shows "read32 (patch k xs e) j = read32 e j"
  using assms by (auto simp: read32_def patch_nth)

lemma read16_patch_other:
  assumes "k + length xs \<le> length e" "j + 2 \<le> length e" "j + 2 \<le> k \<or> k + length xs \<le> j"
  shows "read16 (patch k xs e) j = read16 e j"
  using assms by (auto simp: read16_def patch_nth)

lemmas read_patch = read32_patch read16_patch read32_patch_other read16_patch_other patch_nth

text \<open>The 32 bytes that \<open>_create_dir_entry_\<close> writes for the short name.\<close>

definition short_image :: "environment \<Rightarrow> bool \<Rightarrow> entry_info \<Rightarrow> bytes \<Rightarrow> bytes \<Rightarrow> bytes" where
  "short_image E fat32 info nshort e =
     (let e = (patch 0 (take 11 nshort) e)[0x0b := ucast (ei_mode info)];
          e = patch 0xc (replicate 10 0) e;
          e = patch 0x0e (le32 (time_t2dos (tzoffset E) (ei_creation_time info))) e;
          e = patch 0x16 (le32 (time_t2dos (tzoffset E) (ei_time info))) e;
          i = (if ei_size info = 0 then 0 else ei_cluster info);
          e = patch 0x1a (le16 i) e;
          e = (if fat32 then patch 0x14 (le16 (drop_bit 16 i)) e else e)
      in patch 0x1c (le32 (if ei_mode info AND FAT_SUBDIR \<noteq> 0 then 0 else ei_size info)) e)"

lemma write_short_bytes:
  assumes "entry_in vol p" "length nshort = 11"
  shows "entry_bytes (write_short E vol p info nshort) p =
    short_image E (fat_bits vol = 32) info nshort (entry_bytes vol p)"
  using assms
  by (simp add: write_short_def short_image_def Let_def write_entry_bytes set_entry_byte_bytes entry_bytes_length)

lemma cluster_parts: "(c AND 0xffff) + 0x10000 * (drop_bit 16 c AND 0xffff) = (c :: uint32)"
proof -
  have "0x10000 * (drop_bit 16 c AND 0xffff) = push_bit 16 (drop_bit 16 c AND 0xffff)"
    by (simp add: push_bit_eq_mult)
  moreover have "(c AND 0xffff) AND push_bit 16 (drop_bit 16 c AND 0xffff) = 0"
    unfolding mask_numerals by (rule bit_word_eqI) (auto simp: bit_simps)
  moreover have "(c AND 0xffff) OR push_bit 16 (drop_bit 16 c AND 0xffff) = c"
    unfolding mask_numerals by (rule bit_word_eqI) (auto simp: bit_simps dest: bit_imp_le_length)
  ultimately show ?thesis by (simp add: disjunctive_add_eq_or)
qed

lemma ucast_low_byte: "ucast (ucast m :: uint8) = (m AND 0xff :: uint32)"
  unfolding mask_numerals by (rule bit_word_eqI) (auto simp: bit_simps)

lemma short_image_length [simp]:
  "length e = 32 \<Longrightarrow> length nshort = 11 \<Longrightarrow> length (short_image E f info nshort e) = 32"
  by (simp add: short_image_def Let_def)

text \<open>
  C24. A directory entry that is written is read back: the name, the attributes, the size, the times
  and the first cluster, of which 16 bits are kept on FAT12 and FAT16. An empty file has the cluster
  0 and a directory the size 0 on the disk.
\<close>

theorem dir_entry_roundtrip:
  assumes "entry_in vol p" "length nshort = 11"
  shows "dirent_read (write_short E vol p info nshort) p s e =
      \<lparr>di_sindex = s, di_eindex = e, di_mode = ei_mode info AND 0xff,
       di_cluster = (if ei_size info = 0 then 0
                     else if fat_bits vol = 32 then ei_cluster info else ei_cluster info AND 0xffff),
       di_size = (if ei_mode info AND FAT_SUBDIR \<noteq> 0 then 0 else ei_size info),
       di_time = time_t2dos (tzoffset E) (ei_time info),
       di_creation_time = time_t2dos (tzoffset E) (ei_creation_time info)\<rparr> \<and>
    take 11 (entry_bytes (write_short E vol p info nshort) p) = nshort"
proof -
  let ?e = "entry_bytes vol p" and ?w = "write_short E vol p info nshort"
  have len: "length ?e = 32" using assms(1) by (rule entry_bytes_length)
  have bits: "fat_bits ?w = fat_bits vol" by (simp add: write_short_def Let_def)
  have mode: "entry_bytes ?w p ! 0xb = ucast (ei_mode info)"
    and lo: "read16 (entry_bytes ?w p) 0x1a = (if ei_size info = 0 then 0 else ei_cluster info) AND 0xffff"
    and hi: "fat_bits vol = 32 \<Longrightarrow>
      read16 (entry_bytes ?w p) 0x14 = drop_bit 16 (if ei_size info = 0 then 0 else ei_cluster info) AND 0xffff"
    and size: "read32 (entry_bytes ?w p) 0x1c = (if ei_mode info AND FAT_SUBDIR \<noteq> 0 then 0 else ei_size info)"
    and tm: "read32 (entry_bytes ?w p) 0x16 = time_t2dos (tzoffset E) (ei_time info)"
    and ctm: "read32 (entry_bytes ?w p) 0x0e = time_t2dos (tzoffset E) (ei_creation_time info)"
    unfolding write_short_bytes [OF assms] short_image_def Let_def
    using len assms(2) by (simp_all add: read_patch)
  have "take 11 (entry_bytes ?w p) = nshort"
    unfolding write_short_bytes [OF assms]
    using len assms(2) by (auto simp: list_eq_iff_nth_eq) (simp add: short_image_def Let_def patch_nth)
  then show ?thesis
    using bits hi by (simp add: dirent_read_def Let_def mode lo size tm ctm ucast_low_byte cluster_parts)
qed

theorem dir_entry_roundtrip_witness:
  "\<forall>E. di_cluster (dirent_read (write_short E sample_volume (3, 32)
      \<lparr>ei_mode = FAT_ARCHIVE, ei_cluster = 5, ei_size = 100, ei_time = 0, ei_creation_time = 0\<rparr> (replicate 11 0x41)) (3, 32) 1 1) = 5"
proof -
  have "entry_in sample_volume (3, 32)" by (simp add: entry_in_def)
  then show ?thesis using dir_entry_roundtrip [of sample_volume "(3, 32)" "replicate 11 0x41"] by simp
qed

end
