(* ===== verification/Long_Names.thy ===== *)
theory Long_Names
  imports Dir_Entry
begin

section \<open>Long names\<close>

text \<open>
  A long name is spread over several directory entries, last part first, 13 units of two bytes in
  each. This theory shows that assembling a name from entries stays within the array that receives
  it, and that the entries \<open>_create_dir_entry_\<close> writes are assembled to the name again.
\<close>

subsection \<open>Copying units\<close>

lemma drop_patch: "k \<le> length e \<Longrightarrow> drop k (patch k xs e) = xs @ drop (k + length xs) e"
  by (simp add: patch_def)

definition unit_at :: "bytes \<Rightarrow> nat \<Rightarrow> bytes" where
  "unit_at buffer i = [buffer ! i, buffer ! (i + 1)]"

definition padding_at :: "bytes \<Rightarrow> nat \<Rightarrow> bool" where
  "padding_at buffer i \<longleftrightarrow> unit_at buffer i = [0xff, 0xff]"

lemma lfn_copy_eq:
  assumes "pos + 2 * length is \<le> length u"
  shows "lfn_copy buffer is pos u =
    (let js = takeWhile (\<lambda>i. \<not> padding_at buffer i) is
     in (patch pos (concat (map (unit_at buffer) js)) u, pos + 2 * length js, js \<noteq> is))"
  using assms
proof (induction "is" arbitrary: pos u)
  case (Cons i "is")
  have "patch (pos + 2) xs (u[pos := buffer ! i, Suc pos := buffer ! Suc i]) = patch pos (unit_at buffer i @ xs) u" for xs
    using Cons.prems patch_Cons [of "Suc pos" "u[pos := buffer ! i]" xs "buffer ! Suc i"]
      patch_Cons [of pos u "buffer ! Suc i # xs" "buffer ! i"]
    by (simp add: unit_at_def)
  then show ?case
    using Cons.IH [of "pos + 2" "u[pos := buffer ! i, Suc pos := buffer ! Suc i]"] Cons.prems
    by (simp add: padding_at_def unit_at_def Let_def)
qed simp

lemma lfn_offsets_length [simp]: "length lfn_offsets = 13"
  by (simp add: lfn_offsets_def)

subsection \<open>Bounds\<close>

text \<open>
  While a name is being assembled, the number of the last entry seen is between 1 and 31; \<open>uni\<close> has
  1024 bytes.
\<close>

definition lfn_ok :: "lfn_state \<Rightarrow> bool" where
  "lfn_ok s \<longleftrightarrow> length (uni s) = 1024 \<and> (start_index s \<noteq> 0xffff \<longrightarrow> lfn_count s \<noteq> 0 \<and> lfn_count s \<le> 31)"

lemma no_lfn_ok [simp]: "lfn_ok no_lfn"
  by (simp add: lfn_ok_def no_lfn_def)

lemma lfn_position_eq:
  assumes "c \<noteq> 0" "c \<le> 31"
  shows "lfn_position c = 26 * (unat c - 1)"
proof -
  have *: "unat (c - 1) = unat c - 1" using assms(1) by (simp add: unat_minus_one)
  moreover have "unat c \<le> 31" using assms(2) by (simp add: word_le_nat_alt)
  ultimately have "unat (26 * (c - 1)) = 26 * (unat c - 1)"
    by (simp only: unat_word_ariths(2) *) simp
  then show ?thesis by (simp add: lfn_position_def)
qed

lemma lfn_position_le: "c \<noteq> 0 \<Longrightarrow> c \<le> 31 \<Longrightarrow> lfn_position c \<le> 780"
  by (simp add: lfn_position_eq word_le_nat_alt)

lemma ucast8_0 [simp]: "(ucast (x :: uint8) :: uint32) = 0 \<longleftrightarrow> x = 0"
  by (simp add: word_unat_eq_iff)

lemma and_31_le: "(ucast (x AND 0x1f :: uint8) :: uint32) \<le> 31"
proof -
  have "(0x1f :: uint8) = mask 5" by (simp add: mask_eq_exp_minus_1)
  then have "x AND 0x1f \<le> (0x1f :: uint8)" by (simp add: word_and_le1)
  then show ?thesis by (simp add: word_le_nat_alt)
qed

lemma lfn_copy_bounds:
  assumes "lfn_copy buffer lfn_offsets pos u = (u', pos', padded)" "length u = 1024" "pos \<le> 780"
  shows "length u' = 1024 \<and> pos' \<le> 806"
proof -
  let ?js = "takeWhile (\<lambda>i. \<not> padding_at buffer i) lfn_offsets"
  have len: "length ?js \<le> 13" using length_takeWhile_le [of _ lfn_offsets] by simp
  have "length (concat (map (unit_at buffer) js)) = 2 * length js" for js
    by (induction js) (auto simp: unit_at_def)
  then show ?thesis using assms len by (auto simp: lfn_copy_eq Let_def)
qed

text \<open>
  C25. Assembling a long name stays within the array: if the first entry of the name has a number
  that is not 0, the next entries of it, whatever they hold, never make the code write outside \<open>uni\<close>.
  The entry itself is not the end of the directory, that is, its first byte is not 0.
\<close>

theorem lfn_entry_in_bounds:
  assumes "lfn_ok s" "buffer ! 0 \<noteq> 0" "start_index s = 0xffff \<longrightarrow> buffer ! 0 AND 0x1f \<noteq> 0"
  shows "lfn_ok (fst (lfn_entry buffer index s)) \<and> \<not> snd (lfn_entry buffer index s)"
proof (cases "buffer ! 0xc \<noteq> 0 \<or> buffer ! 0x1a \<noteq> 0 \<or> buffer ! 0x1b \<noteq> 0")
  case False
  have len: "length (uni s) = 1024" using assms(1) by (simp add: lfn_ok_def)
  show ?thesis
  proof (cases "start_index s = 0xffff")
    case True
    let ?c = "ucast (buffer ! 0 AND 0x1f) :: uint32"
    obtain u pos padded where copy: "lfn_copy buffer lfn_offsets (lfn_position ?c) (uni s) = (u, pos, padded)"
      using prod_cases3 by blast
    have c: "?c \<noteq> 0" "?c \<le> 31" using assms(3) True and_31_le by auto
    have "length u = 1024 \<and> pos \<le> 806" by (rule lfn_copy_bounds [OF copy len lfn_position_le [OF c]])
    then show ?thesis
      using True False assms(1) copy c by (auto simp: lfn_entry_def lfn_ok_def Let_def)
  next
    case started: False
    let ?c = "lfn_count s - 1"
    have c: "?c \<le> 31" using assms(1) started by (auto simp: lfn_ok_def word_le_nat_alt unat_minus_one)
    obtain u pos padded where copy: "lfn_copy buffer lfn_offsets (lfn_position ?c) (uni s) = (u, pos, padded)"
      using prod_cases3 by blast
    show ?thesis
    proof (cases "ucast (buffer ! 0) = ?c")
      case True
      then have "?c \<noteq> 0" using assms(2) by (metis ucast8_0)
      moreover have "length u = 1024 \<and> pos \<le> 806"
        by (rule lfn_copy_bounds [OF copy len lfn_position_le [OF calculation c]])
      ultimately show ?thesis
        using True started False c copy len by (auto simp: lfn_entry_def lfn_ok_def Let_def)
    qed (use started False len in \<open>auto simp: lfn_entry_def lfn_ok_def Let_def\<close>)
  qed
qed (use assms(1) in \<open>simp add: lfn_entry_def\<close>)

theorem lfn_entry_in_bounds_witness:
  "\<not> snd (lfn_entry (0x41 # replicate 31 0) 7 no_lfn)"
  using lfn_entry_in_bounds [of no_lfn "0x41 # replicate 31 0" 7] by simp

lemma lfn_copy_pos: "lfn_copy buffer is pos u = (u', pos', padded) \<Longrightarrow> pos \<le> pos'"
  by (induction "is" arbitrary: pos u) (fastforce split: if_splits dest: Suc_leD)+

text \<open>
  C26. The number of a first entry is not checked: an entry that claims to be the last part of a
  long name with the number 0 makes the code write outside \<open>uni\<close>, far behind its end.
\<close>

theorem lfn_number_zero_out_of_bounds:
  assumes "buffer ! 0xc = 0" "buffer ! 0x1a = 0" "buffer ! 0x1b = 0" "start_index s = 0xffff"
    "buffer ! 0 AND 0x40 \<noteq> 0" "buffer ! 0 AND 0x1f = 0"
  shows "snd (lfn_entry buffer index s)"
proof -
  obtain u pos padded where copy: "lfn_copy buffer lfn_offsets (lfn_position 0) (uni s) = (u, pos, padded)"
    using prod_cases3 by blast
  have "lfn_position 0 = 4294967270" by (simp add: lfn_position_def)
  then have "pos > 1024" using lfn_copy_pos [OF copy] by simp
  then show ?thesis using assms copy by (simp add: lfn_entry_def Let_def)
qed

theorem lfn_number_zero_out_of_bounds_witness:
  "snd (lfn_entry (0x40 # replicate 31 0) 7 no_lfn)"
  using lfn_number_zero_out_of_bounds [of "0x40 # replicate 31 0" no_lfn 7] by (simp add: no_lfn_def)

subsection \<open>The entries of a long name\<close>

text \<open>The 32 bytes of an entry with the number \<open>n\<close> and the 26 bytes \<open>q\<close> of the name.\<close>

definition lfn_image :: "uint8 \<Rightarrow> uint8 \<Rightarrow> bytes \<Rightarrow> bytes" where
  "lfn_image n hash q = n # take 10 q @ [0x0f, 0, hash] @ take 12 (drop 10 q) @ [0, 0] @ drop 22 q"

lemma patch_zero_image:
  assumes "length q = 26" "length e = 32"
  shows "patch 0x1c (take 4 (drop 22 q)) (patch 0x0e (take 12 (drop 10 q)) (patch 1 (take 10 q)
     ((patch 0 (replicate 0x20 0) e)[0 := n, 0x0b := 0x0f, 0x0d := hash]))) = lfn_image n hash q"
proof (rule nth_equalityI)
  fix i assume "i < length (patch 0x1c (take 4 (drop 22 q)) (patch 0x0e (take 12 (drop 10 q)) (patch 1 (take 10 q)
     ((patch 0 (replicate 0x20 0) e)[0 := n, 0x0b := 0x0f, 0x0d := hash]))))"
  then have "i < 32" using assms by simp
  then show "patch 0x1c (take 4 (drop 22 q)) (patch 0x0e (take 12 (drop 10 q)) (patch 1 (take 10 q)
     ((patch 0 (replicate 0x20 0) e)[0 := n, 0x0b := 0x0f, 0x0d := hash]))) ! i = lfn_image n hash q ! i"
    using assms by (auto simp: patch_nth lfn_image_def nth_append nth_list_update nth_Cons')
qed (use assms in \<open>simp add: lfn_image_def\<close>)

lemma fault_entry [simp]:
  "entry_in (raise_fault f vol) p = entry_in vol p" "entry_bytes (raise_fault f vol) p = entry_bytes vol p"
  by (simp_all add: entry_in_def entry_bytes_def block_data_def raise_fault_def split: option.splits)

lemma write_lfn_entry_bytes:
  assumes "entry_in vol p" "i < required" "(required - i) * 26 \<le> length nlong"
  shows "entry_bytes (write_lfn_entry p nlong hash required i vol) p =
    lfn_image (of_nat (required - i) + (if i = 1 then 0x40 else 0)) hash (take 26 (drop ((required - i - 1) * 26) nlong))"
proof -
  let ?q = "drop ((required - i - 1) * 26) nlong"
  have "(required - i - 1) * 26 + 26 \<le> length nlong" using assms(2,3) by (cases "required - i") auto
  then have len: "length (take 26 ?q) = 26" by simp
  have parts: "take 10 ?q = take 10 (take 26 ?q)" "take 12 (drop 10 ?q) = take 12 (drop 10 (take 26 ?q))"
    "take 4 (drop 22 ?q) = take 4 (drop 22 (take 26 ?q))"
    by (simp_all add: take_drop)
  show ?thesis
    unfolding write_lfn_entry_def Let_def parts patch_zero_image [OF len entry_bytes_length [OF assms(1)], symmetric]
    using assms(1) by (simp add: write_entry_bytes set_entry_byte_bytes entry_bytes_length)
qed

subsection \<open>Reading the entries back\<close>

text \<open>The entries of a long name, one after the other; the flag collects the accesses outside \<open>uni\<close>.\<close>

fun lfn_entries :: "bytes list \<Rightarrow> uint32 \<Rightarrow> lfn_state \<Rightarrow> lfn_state \<times> bool" where
  "lfn_entries [] index s = (s, False)"
| "lfn_entries (e # es) index s =
     (let (s, outside) = lfn_entry e index s; (s, outside') = lfn_entries es (index + 1) s
      in (s, outside \<or> outside'))"

lemma image_unit:
  assumes "length q = 26" "j < 13"
  shows "unit_at (lfn_image n hash q) (lfn_offsets ! j) = [q ! (2 * j), q ! (2 * j + 1)]"
proof -
  have "j = 0 \<or> j = 1 \<or> j = 2 \<or> j = 3 \<or> j = 4 \<or> j = 5 \<or> j = 6 \<or> j = 7 \<or> j = 8 \<or> j = 9 \<or> j = 10 \<or> j = 11 \<or> j = 12"
    using assms(2) by presburger
  then show ?thesis
    using assms(1) by (elim disjE) (simp_all add: unit_at_def lfn_image_def lfn_offsets_def nth_append nth_Cons')
qed

lemma image_head:
  assumes "length q = 26"
  shows "lfn_image n hash q ! 0 = n" "lfn_image n hash q ! 0xc = 0" "lfn_image n hash q ! 0xd = hash"
    "lfn_image n hash q ! 0x1a = 0" "lfn_image n hash q ! 0x1b = 0"
  using assms by (simp_all add: lfn_image_def nth_append nth_Cons')

lemma concat_units:
  assumes "2 * r \<le> length q" "\<And>j. j < r \<Longrightarrow> f j = [q ! (2 * j), q ! (2 * j + 1)]"
  shows "concat (map f [0..<r]) = take (2 * r) q"
  using assms by (induction r) (auto simp: take_Suc_conv_app_nth)

text \<open>Copying from an entry whose first \<open>r\<close> units are not padding and whose next one, if any, is.\<close>

lemma lfn_copy_image:
  assumes "length q = 26" "r \<le> 13" "pos + 26 \<le> length u"
    "\<And>j. j < r \<Longrightarrow> [q ! (2 * j), q ! (2 * j + 1)] \<noteq> [0xff, 0xff]"
    "r < 13 \<Longrightarrow> [q ! (2 * r), q ! (2 * r + 1)] = [0xff, 0xff]"
  shows "lfn_copy (lfn_image n hash q) lfn_offsets pos u = (patch pos (take (2 * r) q) u, pos + 2 * r, r < 13)"
proof -
  have js: "takeWhile (\<lambda>i. \<not> padding_at (lfn_image n hash q) i) lfn_offsets = take r lfn_offsets"
    using assms by (intro takeWhile_eq_take_P_nth) (auto simp: padding_at_def image_unit)
  have "take r lfn_offsets = map ((!) lfn_offsets) [0..<r]"
    using assms(2) by (simp add: list_eq_iff_nth_eq)
  then have "concat (map (unit_at (lfn_image n hash q)) (take r lfn_offsets)) = take (2 * r) q"
    using concat_units [of r q "\<lambda>j. unit_at (lfn_image n hash q) (lfn_offsets ! j)"] assms(1,2)
    by (simp add: image_unit comp_def)
  moreover have "take r lfn_offsets \<noteq> lfn_offsets \<longleftrightarrow> r < 13"
  proof (cases "r = 13")
    case False
    then have "length (take r lfn_offsets) \<noteq> length lfn_offsets" using assms(2) by simp
    then show ?thesis using False assms(2) by force
  qed simp
  ultimately show ?thesis
    using assms(2,3) by (subst lfn_copy_eq) (simp_all add: js Let_def min_def)
qed

lemma number_bits:
  assumes "0 < n" "n \<le> 31"
  shows "(of_nat n + 0x40 :: uint8) AND 0x40 \<noteq> 0" "(of_nat n + 0x40 :: uint8) AND 0x1f = of_nat n"
proof -
  have "\<forall>n \<in> set [1..<32]. (of_nat n + 0x40 :: uint8) AND 0x40 \<noteq> 0 \<and> (of_nat n + 0x40 :: uint8) AND 0x1f = of_nat n"
    by code_simp
  moreover have "n \<in> set [1..<32]" using assms by simp
  ultimately show "(of_nat n + 0x40 :: uint8) AND 0x40 \<noteq> 0" "(of_nat n + 0x40 :: uint8) AND 0x1f = of_nat n"
    by blast+
qed

lemma number_position:
  assumes "k < 31"
  shows "lfn_position (of_nat (Suc k)) = 26 * k" "(ucast (of_nat (Suc k) :: uint8) :: uint32) = of_nat (Suc k)"
    "(of_nat (Suc k) :: uint32) \<noteq> 0"
proof -
  have u: "unat (of_nat (Suc k) :: uint32) = Suc k" using assms by (intro unat_of_nat_32) simp
  then show nz: "(of_nat (Suc k) :: uint32) \<noteq> 0" by (metis unat_0 nat.distinct(1))
  have "(of_nat (Suc k) :: uint32) \<le> 31" unfolding word_le_nat_alt u using assms by simp
  then show "lfn_position (of_nat (Suc k)) = 26 * k" using lfn_position_eq [OF nz] u by simp
  show "(ucast (of_nat (Suc k) :: uint8) :: uint32) = of_nat (Suc k)"
    unfolding word_unat_eq_iff u using assms by (simp add: unat_of_nat del: of_nat_Suc)
qed

lemma patch_snoc:
  "k + length xs < length e \<Longrightarrow> (patch k xs e)[k + length xs := a] = patch k (xs @ [a]) e"
  by (rule nth_equalityI) (auto simp: patch_nth nth_list_update nth_append)

lemma patch_0: "patch 0 xs e = xs @ drop (length xs) e"
  by (simp add: patch_def)

lemma patch_0_join:
  "length xs = k \<Longrightarrow> k \<le> length e \<Longrightarrow> patch 0 xs (patch k ys e) = patch 0 (xs @ ys) e"
  by (simp add: patch_0 drop_patch)

text \<open>The first entry that is read, and a later one.\<close>

lemma lfn_first_image:
  assumes "length q = 26" "r \<le> 13" "n < 31" "length (uni s) = 1024" "start_index s = 0xffff"
    "\<And>j. j < r \<Longrightarrow> [q ! (2 * j), q ! (2 * j + 1)] \<noteq> [0xff, 0xff]"
    "r < 13 \<Longrightarrow> [q ! (2 * r), q ! (2 * r + 1)] = [0xff, 0xff]"
  shows "lfn_entry (lfn_image (of_nat (Suc n) + 0x40) hash q) index s =
    (s\<lparr>lfn_hash := hash, lfn_count := of_nat (Suc n), start_index := index,
       uni := patch (26 * n) (take (2 * r) q @ [0, 0]) (uni s), filename_len := 26 * n + 2 * r + 2\<rparr>, False)"
proof -
  note copy = lfn_copy_image [OF assms(1,2) _ assms(6,7), of "26 * n" "uni s"]
  have "patch (26 * n) (take (2 * r) q @ [0, 0]) (uni s) =
      (patch (26 * n) (take (2 * r) q) (uni s))[26 * n + 2 * r := 0, 26 * n + 2 * r + 1 := 0]"
    using assms(1-4) patch_snoc [of "26 * n" "take (2 * r) q" "uni s" 0]
      patch_snoc [of "26 * n" "take (2 * r) q @ [0]" "uni s" 0] by simp
  moreover have "ucast ((of_nat (Suc n) + 0x40 :: uint8) AND 0x1f) = (of_nat (Suc n) :: uint32)"
    using number_bits(2) [of "Suc n"] number_position(2) [OF assms(3)] assms(3) by simp
  ultimately show ?thesis
    using assms(2-5) number_bits(1) [of "Suc n"] number_position(1) [OF assms(3)]
    by (simp add: lfn_entry_def image_head [OF assms(1)] Let_def copy del: of_nat_Suc)
qed

lemma lfn_next_image:
  assumes "length q = 26" "k < 30" "length (uni s) = 1024" "start_index s \<noteq> 0xffff"
    "lfn_hash s = hash" "lfn_count s = of_nat (Suc (Suc k))"
    "\<And>j. j < 13 \<Longrightarrow> [q ! (2 * j), q ! (2 * j + 1)] \<noteq> [0xff, 0xff]"
  shows "lfn_entry (lfn_image (of_nat (Suc k)) hash q) index s =
    (s\<lparr>lfn_count := of_nat (Suc k), uni := patch (26 * k) q (uni s)\<rparr>, False)"
proof -
  have "lfn_copy (lfn_image (of_nat (Suc k)) hash q) lfn_offsets (26 * k) (uni s) = (patch (26 * k) q (uni s), 26 * k + 26, False)"
    using lfn_copy_image [OF assms(1) order_refl _ assms(7), of "26 * k" "uni s"] assms(1-3) by simp
  moreover have "lfn_count s - 1 = of_nat (Suc k)" using assms(6) by simp
  ultimately show ?thesis
    using assms(2-5) number_position [of k]
    by (simp add: lfn_entry_def image_head [OF assms(1)] Let_def del: of_nat_Suc)
qed

text \<open>The entries with the numbers \<open>k\<close> down to 1.\<close>

fun lfn_tail :: "bytes \<Rightarrow> uint8 \<Rightarrow> nat \<Rightarrow> bytes list" where
  "lfn_tail nlong hash 0 = []"
| "lfn_tail nlong hash (Suc k) =
     lfn_image (of_nat (Suc k)) hash (take 26 (drop (26 * k) nlong)) # lfn_tail nlong hash k"

lemma lfn_tail_read:
  assumes "26 * k \<le> length nlong" "k < 31" "length (uni s) = 1024" "start_index s \<noteq> 0xffff"
    "lfn_hash s = hash" "lfn_count s = of_nat (Suc k)"
    "\<And>j. j < 13 * k \<Longrightarrow> [nlong ! (2 * j), nlong ! (2 * j + 1)] \<noteq> [0xff, 0xff]"
  shows "lfn_entries (lfn_tail nlong hash k) index s =
    (s\<lparr>lfn_count := 1, uni := patch 0 (take (26 * k) nlong) (uni s)\<rparr>, False)"
  using assms
proof (induction k arbitrary: s index)
  case (Suc k)
  let ?q = "take 26 (drop (26 * k) nlong)"
  let ?s = "s\<lparr>lfn_count := of_nat (Suc k), uni := patch (26 * k) ?q (uni s)\<rparr>"
  have len: "length ?q = 26" using Suc.prems(1) by simp
  have "[?q ! (2 * j), ?q ! (2 * j + 1)] \<noteq> [0xff, 0xff]" if "j < 13" for j
    using Suc.prems(7) [of "13 * k + j"] Suc.prems(1) that by (simp add: algebra_simps)
  then have first: "lfn_entry (lfn_image (of_nat (Suc k)) hash ?q) index s = (?s, False)"
    using Suc.prems len by (intro lfn_next_image) simp_all
  have "patch 0 (take (26 * k) nlong) (patch (26 * k) ?q (uni s)) = patch 0 (take (26 * Suc k) nlong) (uni s)"
    using Suc.prems(1-3) take_add [of "26 * k" 26 nlong]
    by (subst patch_0_join) (simp_all add: add.commute)
  moreover have "lfn_entries (lfn_tail nlong hash k) (index + 1) ?s =
      (?s\<lparr>lfn_count := 1, uni := patch 0 (take (26 * k) nlong) (uni ?s)\<rparr>, False)"
    using Suc.prems len by (intro Suc.IH) (simp_all)
  ultimately show ?case by (simp add: first del: of_nat_Suc)
qed (simp add: patch_0)

lemma written_entries:
  assumes "\<And>i. entry_in (vol i) (p i)" "26 * Suc n \<le> length nlong"
  shows "map (\<lambda>i. entry_bytes (write_lfn_entry (p i) nlong hash (Suc (Suc n)) i (vol i)) (p i)) [1..<Suc (Suc n)] =
    lfn_image (of_nat (Suc n) + 0x40) hash (take 26 (drop (26 * n) nlong)) # lfn_tail nlong hash n"
proof -
  let ?f = "\<lambda>i. entry_bytes (write_lfn_entry (p i) nlong hash (Suc (Suc n)) i (vol i)) (p i)"
  have one: "?f i = lfn_image (of_nat (Suc (Suc n) - i) + (if i = 1 then 0x40 else 0)) hash (take 26 (drop (26 * (Suc n - i)) nlong))"
    if "0 < i" "i \<le> Suc n" for i
    using that assms by (subst write_lfn_entry_bytes) (auto simp: algebra_simps diff_mult_distrib)
  have "map ?f [Suc n - k + 1..<Suc (Suc n)] = lfn_tail nlong hash k" if "k \<le> n" for k
    using that
  proof (induction k)
    case (Suc k)
    have "[Suc n - Suc k + 1..<Suc (Suc n)] = (Suc n - k) # [Suc n - k + 1..<Suc (Suc n)]"
      using Suc.prems upt_conv_Cons [of "Suc n - k" "Suc (Suc n)"] by (simp add: Suc_diff_le del: upt_Suc)
    moreover have "?f (Suc n - k) = lfn_image (of_nat (Suc k)) hash (take 26 (drop (26 * k) nlong))"
      using one [of "Suc n - k"] Suc.prems by (simp add: Suc_diff_le)
    ultimately show ?case using Suc by simp
  qed simp
  from this [of n] have "map ?f [2..<Suc (Suc n)] = lfn_tail nlong hash n" by (simp add: numeral_2_eq_2)
  moreover have "[1..<Suc (Suc n)] = 1 # [2..<Suc (Suc n)]" by (simp add: upt_conv_Cons numeral_2_eq_2)
  ultimately show ?thesis using one [of 1] by simp
qed

lemma entry_count:
  assumes "0 < m" "m \<le> 247" "Suc n = (2 * m + 24) div 26"
  shows "13 * n < m" "m \<le> 13 * n + 13" "n < 19"
  using assms by linarith+

lemma padded_unit:
  assumes "length name = 2 * m" "nlong = name @ replicate (512 - 2 * m) 0xff" "m < 256"
  shows "[nlong ! (2 * m), nlong ! (2 * m + 1)] = [0xff, 0xff]"
  using assms by (simp add: nth_append)

text \<open>
  C27. A long name survives: the entries that \<open>_create_dir_entry_\<close> writes for a name of \<open>m\<close> units (the
  final zero included, at most 247, none of them the padding \<open>0xffff\<close>), in the order in which it
  writes them and wherever it writes them, are assembled by \<open>_next_dirent_\<close> to that name, with the
  checksum, the number 1 and the index of the first entry, and without leaving the array.
\<close>

theorem long_name_roundtrip:
  assumes "0 < m" "m \<le> 247" "length name = 2 * m"
    "\<And>j. j < m \<Longrightarrow> [name ! (2 * j), name ! (2 * j + 1)] \<noteq> [0xff, 0xff]"
    "nlong = name @ replicate (512 - 2 * m) 0xff" "N = (2 * m + 24) div 26"
    "\<And>i. entry_in (vol i) (p i)" "index \<noteq> 0xffff"
  shows "\<exists>s. lfn_entries (map (\<lambda>i. entry_bytes (write_lfn_entry (p i) nlong hash (N + 1) i (vol i)) (p i)) [1..<N + 1])
      index no_lfn = (s, False) \<and> start_index s = index \<and> lfn_count s = 1 \<and> lfn_hash s = hash \<and>
    take (filename_len s) (uni s) = name @ [0, 0]"
proof -
  have "0 < N" using assms(1,6) by (simp add: div_greater_zero_iff)
  then obtain n where N: "N = Suc n" using gr0_implies_Suc by blast
  have n: "13 * n < m" "m \<le> 13 * n + 13" "n < 19" using entry_count [OF assms(1,2)] assms(6) N by auto
  let ?q = "take 26 (drop (26 * n) nlong)" and ?r = "m - 13 * n"
  have len: "length nlong = 512" using assms(2,3,5) by simp
  have unit: "[nlong ! (2 * j), nlong ! (2 * j + 1)] \<noteq> [0xff, 0xff]" if "j < m" for j
    using assms(3,5) assms(4) [OF that] that by (simp add: nth_append)
  have q: "?q ! (2 * j) = nlong ! (2 * (13 * n + j))" "?q ! (2 * j + 1) = nlong ! (2 * (13 * n + j) + 1)" if "j < 13" for j
    using that len n by (simp_all add: algebra_simps)
  have len26: "length ?q = 26" using len n(3) by (simp add: min_def)
  have name_units: "[?q ! (2 * j), ?q ! (2 * j + 1)] \<noteq> [0xff, 0xff]" if "j < ?r" for j
    using unit [of "13 * n + j"] q [of j] that n by simp
  have "13 * n + ?r = m" using n by simp
  then have padding: "[?q ! (2 * ?r), ?q ! (2 * ?r + 1)] = [0xff, 0xff]" if "?r < 13"
    using q [OF that] padded_unit [OF assms(3,5)] assms(2) by simp
  let ?s = "no_lfn\<lparr>lfn_hash := hash, lfn_count := of_nat (Suc n), start_index := index,
       uni := patch (26 * n) (take (2 * ?r) ?q @ [0, 0]) (uni no_lfn), filename_len := 26 * n + 2 * ?r + 2\<rparr>"
  have "lfn_entry (lfn_image (of_nat (Suc n) + 0x40) hash ?q) index no_lfn = (?s, False)"
    using n by (intro lfn_first_image len26 name_units padding) (auto simp: no_lfn_def)
  moreover have "lfn_entries (lfn_tail nlong hash n) (index + 1) ?s =
      (?s\<lparr>lfn_count := 1, uni := patch 0 (take (26 * n) nlong) (uni ?s)\<rparr>, False)"
    using n len unit assms(8) by (intro lfn_tail_read) (simp_all add: no_lfn_def)
  moreover have "take (26 * n) nlong @ take (2 * ?r) ?q = name"
  proof -
    have "take (26 * n + 2 * ?r) nlong = take (26 * n) nlong @ take (2 * ?r) (drop (26 * n) nlong)" by (rule take_add)
    moreover have "26 * n + 2 * ?r = length name" "2 * ?r \<le> 26" using n assms(3) by auto
    ultimately show ?thesis using assms(5) by simp
  qed
  then have "take (26 * n + 2 * ?r + 2) (patch 0 (take (26 * n) nlong) (uni ?s)) = name @ [0, 0]"
    using n len assms(3) by (simp add: patch_0_join no_lfn_def) (simp add: patch_0)
  ultimately show ?thesis
    unfolding N using written_entries [where n = n and nlong = nlong and hash = hash, OF assms(7)] n len by (simp del: of_nat_Suc upt_Suc)
qed

theorem long_name_roundtrip_witness:
  "\<exists>s. lfn_entries (map (\<lambda>i. entry_bytes (write_lfn_entry (3, 0) ([0x41, 0, 0, 0] @ replicate 508 0xff) 7 (1 + 1) i sample_volume) (3, 0))
      [1..<1 + 1]) 5 no_lfn = (s, False) \<and> start_index s = 5 \<and> lfn_count s = 1 \<and> lfn_hash s = 7 \<and>
    take (filename_len s) (uni s) = [0x41, 0, 0, 0] @ [0, 0]"
  by (intro long_name_roundtrip [of 2 "[0x41, 0, 0, 0]" "[0x41, 0, 0, 0] @ replicate 508 0xff" 1 "\<lambda>_. sample_volume" "\<lambda>_. (3, 0)" 5 7])
    (auto simp: entry_in_def dest: less_2_cases)

text \<open>
  C28. A name of 496 bytes or more makes \<open>_create_dir_entry_\<close> read outside the array of 512 bytes
  that holds the name: its entries take 26 bytes each, and 20 of them do not fit.
\<close>

theorem long_name_read_out_of_bounds:
  assumes "length nlong = 512" "496 \<le> len" "len \<le> 512" "fault vol = None"
  shows "fault (write_lfn_entry p nlong hash ((len + 24) div 26 + 1) 1 vol) = Some Out_of_bounds"
proof -
  have "19 < (len + 24) div 26" using assms(2) by linarith
  then have "512 < ((len + 24) div 26 + 1 - 1) * 26" by linarith
  moreover have "fault (set_entry_byte p k x v) = fault v" for k x v
    by (simp add: set_entry_byte_def update_byte_eq set_blocks_def)
  ultimately show ?thesis using assms(1,4) by (simp add: write_lfn_entry_def Let_def raise_fault_def)
qed

theorem long_name_read_out_of_bounds_witness:
  "fault (write_lfn_entry (3, 0) (replicate 512 0x41) 7 ((500 + 24) div 26 + 1) 1 sample_volume) = Some Out_of_bounds"
  using long_name_read_out_of_bounds [of "replicate 512 0x41" 500 sample_volume "(3, 0)" 7] by (simp add: sample_volume_def)

end
