(* ===== verification/Chain_Length.thy ===== *)
theory Chain_Length
  imports Environment Sample_Volume
begin

section \<open>The length of a chain: set_fat_chain_length\<close>

text \<open>
  Growing and shrinking the chain of a file that has one. Both are shown to do to the table what
  their name says: the chain is extended by clusters that were free, or cut, with the rest of it
  free again; all other chains are as before.
\<close>

subsection \<open>Chains\<close>

lemma chain_take_end:
  assumes "chain data link is_end cs" "0 < n" "n \<le> length cs"
    "\<And>c. c \<in> set (take (n - 1) cs) \<Longrightarrow> link' c = link c" "is_end (link' (cs ! (n - 1)))"
  shows "chain data link' is_end (take n cs)"
  using assms
proof (induction cs arbitrary: n)
  case (Cons c cs)
  obtain m where n: "n = Suc m" using Cons.prems(2) by (cases n) auto
  have c: "data c" using Cons.prems(1) by (simp add: chain_Cons)
  show ?case
  proof (cases m)
    case 0
    then show ?thesis using Cons.prems(5) c n by simp
  next
    case (Suc l)
    then have "cs \<noteq> []" using Cons.prems(3) n by auto
    then have "chain data link is_end cs" "link c = hd cs" using Cons.prems(1) by (auto simp: chain_Cons)
    moreover have "link' c = link c" using Cons.prems(4) n Suc by simp
    moreover have "chain data link' is_end (take m cs)"
      using Cons.prems n Suc calculation(1) by (intro Cons.IH) auto
    ultimately show ?thesis using c n Suc \<open>cs \<noteq> []\<close> by (cases cs) (auto simp: chain_Cons)
  qed
qed simp

lemma chain_append:
  assumes "chain data link is_end cs" "chain data link' is_end ds"
    "\<And>c. c \<in> set (butlast cs) \<Longrightarrow> link' c = link c" "link' (last cs) = hd ds"
  shows "chain data link' is_end (cs @ ds)"
  using assms
proof (induction cs)
  case (Cons c cs)
  have ds: "ds \<noteq> []" using Cons.prems(2) by (cases ds) auto
  show ?case
  proof (cases "cs = []")
    case False
    then have "link c = hd cs" "chain data link' is_end (cs @ ds)" "data c" "link' c = link c"
      using Cons by (auto simp: chain_Cons)
    then show ?thesis using False by (simp add: chain_Cons)
  qed (use Cons.prems ds in \<open>auto simp: chain_Cons\<close>)
qed simp

lemma chain_link:
  "chain data link is_end cs \<Longrightarrow> c \<in> set cs \<Longrightarrow> data (link c) \<or> is_end (link c)"
  by (induction data link is_end cs rule: chain.induct) (auto simp: chain_Cons split: if_splits)

lemma fat_chain_used:
  assumes "fat_chain v cs" "c \<in> set cs"
  shows "fat_entry v c \<noteq> 0"
  using chain_link [OF assms] by (auto simp: IS_DATA_CLUSTER_def is_eoc_def)

text \<open>The links of a chain, as \<open>get_fat_entry\<close> returns them.\<close>

definition after :: "uint32 list \<Rightarrow> nat \<Rightarrow> int" where
  "after cs k = (if k + 1 < length cs then uint (cs ! (k + 1)) else END_FAT_ENTRY)"

lemma get_fat_entry_chain:
  assumes "fat_ok v" "fat_chain v cs" "k < length cs"
  shows "get_fat_entry v (cs ! k) = (after cs k, v)"
proof -
  have "fat_chain v (drop k cs)" using chain_suffix [of _ _ _ "take k cs" "drop k cs"] assms(2,3) by simp
  moreover have "drop k cs = cs ! k # drop (Suc k) cs" using assms(3) by (simp add: Cons_nth_drop_Suc)
  ultimately have ch: "fat_chain v (cs ! k # drop (Suc k) cs)" by simp
  have "link_of v (cs ! k) = after cs k" "IS_DATA_CLUSTER v (cs ! k)"
    using link_of_chain [OF assms(1) ch] ch by (auto simp: after_def hd_drop_conv_nth chain_Cons)
  then show ?thesis using get_fat_entry_eq [OF assms(1)] by simp
qed

lemma chain_walk_chain:
  assumes "fat_ok v" "fat_chain v cs"
  shows "j + k < length cs \<Longrightarrow>
    chain_walk k v (uint (cs ! j)) (after cs j) = (uint (cs ! (j + k)), after cs (j + k), True, v)"
proof (induction k arbitrary: j)
  case (Suc k)
  then have "IS_DATA_CLUSTER v (cs ! Suc j)" by (intro chain_data [OF assms(2)]) simp
  moreover have "after cs j = uint (cs ! Suc j)" using Suc.prems by (simp add: after_def)
  ultimately show ?case
    using Suc.IH [of "Suc j"] Suc.prems get_fat_entry_chain [OF assms, of "Suc j"]
    by (simp add: IS_DATA_CLUSTER_int32_uint)
qed simp

text \<open>Cutting a chain in the table: the first \<open>n\<close> clusters stay, the others form a chain of their own.\<close>

lemma fat_cut:
  assumes "fat_ok v" "fat_chain v cs" "0 < n" "n < length cs"
  shows "fat_chain (fat_store v (cs ! (n - 1)) 0x0fffffff) (take n cs)"
    "fat_chain (fat_store v (cs ! (n - 1)) 0x0fffffff) (drop n cs)"
proof -
  let ?c = "cs ! (n - 1)" and ?w = "fat_store v (cs ! (n - 1)) 0x0fffffff"
  have data: "x \<in> set cs \<Longrightarrow> IS_DATA_CLUSTER v x" for x by (rule chain_data [OF assms(2)])
  have c: "IS_DATA_CLUSTER v ?c" using assms(3,4) by (intro data) simp
  have w: "IS_DATA_CLUSTER ?w = IS_DATA_CLUSTER v"
    "\<And>d. IS_DATA_CLUSTER v d \<Longrightarrow> fat_entry ?w d = (if d = ?c then 0x0fffffff else fat_entry v d)"
    using fat.store_data [OF assms(1) c] fat.link_store [OF assms(1) c] by auto
  have dist: "distinct cs" by (rule fat_chain_distinct [OF assms(1,2)])
  have split: "cs = take (n - 1) cs @ ?c # drop n cs"
    using assms(3,4) id_take_nth_drop [of "n - 1" cs] by simp
  have notin: "?c \<notin> set (take (n - 1) cs)" "?c \<notin> set (drop n cs)"
    using dist by (subst (asm) split, simp)+
  show "fat_chain ?w (take n cs)"
    unfolding w(1)
  proof (rule chain_take_end [OF assms(2,3)])
    show "fat_entry ?w x = fat_entry v x" if "x \<in> set (take (n - 1) cs)" for x
      using w(2) [OF data [OF in_set_takeD [OF that]]] that notin(1) by auto
    show "is_eoc (fat_entry ?w ?c)" using w(2) [OF c] by (simp add: is_eoc_def)
  qed (use assms(4) in simp)
  have "fat_chain v (drop n cs)"
    using chain_suffix [of _ _ _ "take n cs" "drop n cs"] assms(2,4) by simp
  then show "fat_chain ?w (drop n cs)"
    unfolding w(1) by (rule chain_cong) (metis w(2) data in_set_dropD notin(2))
qed

lemma set_chain_shrink_chain:
  assumes "fat_ok v" "fat_chain v cs" "vn_cluster node = hd cs" "0 < unat clusters" "unat clusters < length cs"
  shows "\<exists>w. set_chain_shrink v node clusters discard = (B_OK, node\<lparr>vn_end_cluster := cs ! (unat clusters - 1)\<rparr>, w) \<and>
    fat_chain w (take (unat clusters) cs) \<and>
    (\<forall>d. IS_DATA_CLUSTER v d \<longrightarrow> d \<notin> set (take (unat clusters) cs) \<longrightarrow>
       fat_entry w d = (if d \<in> set cs then 0 else fat_entry v d)) \<and>
    free_clusters w = free_clusters v + of_nat (length cs - unat clusters) \<and> only_table v w \<and> fat_ok w"
proof -
  let ?n = "unat clusters"
  let ?c = "cs ! (?n - 1)" and ?v = "fat_store v (cs ! (?n - 1)) 0x0fffffff"
  have data: "x \<in> set cs \<Longrightarrow> IS_DATA_CLUSTER v x" for x by (rule chain_data [OF assms(2)])
  have c: "IS_DATA_CLUSTER v ?c" "IS_DATA_CLUSTER v (cs ! ?n)" using assms(4,5) by (auto intro!: data)
  have hd: "hd cs = cs ! 0" "sint (hd cs) = uint (hd cs)"
    using assms(5) uint_data_cluster(1) [OF assms(1) chain_hd_data [OF assms(2)]] by (cases cs, auto)
  have after: "after cs (?n - 1) = uint (cs ! ?n)" using assms(4,5) by (simp add: after_def)
  have "uint (cs ! ?n) \<noteq> END_FAT_ENTRY" "0 \<le> uint (cs ! ?n)"
    using IS_DATA_CLUSTER_int32_uint [of v "cs ! ?n"] c(2) END_not_data [OF assms(1)] by auto
  moreover have "chain_walk (?n - 1) v (uint (hd cs)) (after cs 0) = (uint ?c, uint (cs ! ?n), True, v)"
    using chain_walk_chain [OF assms(1,2), of 0 "?n - 1"] assms(4,5) after hd(1) by simp
  moreover have "set_fat_entry v ?c 0x0fffffff = (B_OK, ?v)" using set_fat_entry_eq [OF assms(1) c(1)] by simp
  moreover have "get_fat_entry v (hd cs) = (after cs 0, v)"
    using get_fat_entry_chain [OF assms(1,2), of 0] assms(4,5) hd(1) by (cases cs) auto
  ultimately have run: "set_chain_shrink v node clusters discard =
      (let (result, w) = clear_fat_chain ?v (cs ! ?n) discard in (result, node\<lparr>vn_end_cluster := ?c\<rparr>, w))"
    using assms(3) hd(2) c(2) by (simp add: set_chain_shrink_def IS_DATA_CLUSTER_int32_uint)
  note cut = fat_cut [OF assms(1,2,4,5)]
  have v: "fat_ok ?v" "IS_DATA_CLUSTER ?v = IS_DATA_CLUSTER v" "only_table v ?v"
    "free_clusters ?v = free_clusters v"
    using fat.store_ok [OF assms(1) c(1)] fat.store_data [OF assms(1) c(1)] only_table_store [OF assms(1) c(1)]
      contents_only_sel [OF fat_store_contents_only [OF assms(1) c(1)]] by auto
  have entry: "\<And>d. IS_DATA_CLUSTER v d \<Longrightarrow> fat_entry ?v d = (if d = ?c then 0x0fffffff else fat_entry v d)"
    using fat.link_store [OF assms(1) c(1)] by auto
  obtain w where w: "clear_fat_chain ?v (hd (drop ?n cs)) discard = (B_OK, w)" "fat_ok w" "only_table ?v w"
    "\<And>d. IS_DATA_CLUSTER v d \<Longrightarrow> fat_entry w d = (if d \<in> set (drop ?n cs) then 0 else fat_entry ?v d)"
    "free_clusters w = free_clusters ?v + of_nat (length (drop ?n cs))"
    using clear_chain [OF v(1) cut(2), of discard] v(2) by metis
  have disj: "x \<in> set (take ?n cs) \<Longrightarrow> x \<notin> set (drop ?n cs)" for x
    using fat_chain_distinct [OF assms(1,2)] set_take_disj_set_drop_if_distinct [of cs ?n ?n] by auto
  have dw: "IS_DATA_CLUSTER w = IS_DATA_CLUSTER v"
    using only_table_geometry(8) [OF w(3)] v(2) by simp
  have "fat_chain w (take ?n cs)"
    unfolding dw by (rule chain_cong [OF cut(1) [unfolded v(2)]]) (metis w(4) data in_set_takeD disj)
  moreover have "fat_entry w d = (if d \<in> set cs then 0 else fat_entry v d)"
    if "IS_DATA_CLUSTER v d" "d \<notin> set (take ?n cs)" for d
  proof -
    have "?c \<in> set (take ?n cs)" using assms(4,5) nth_mem [of "?n - 1" "take ?n cs"] by simp
    moreover have "set cs = set (take ?n cs) \<union> set (drop ?n cs)" by (simp flip: set_append)
    ultimately show ?thesis using w(4) [OF that(1)] entry [OF that(1)] that(2) by auto
  qed
  ultimately show ?thesis
    using run w only_table_trans [OF v(3) w(3)] v(4) assms(5) by (simp add: hd_drop_conv_nth)
qed

lemma sint_small:
  assumes "unat (x :: uint32) < 2 ^ 31"
  shows "sint x = int (unat x)"
proof -
  have u: "uint x = int (unat x)" by simp
  have "int (unat x) < int (2 ^ 31)" using assms by (simp only: of_nat_less_iff)
  then have "uint x < 2 ^ 31" unfolding u by simp
  moreover have "- (2 ^ 31) \<le> uint x" by (rule order_trans [OF _ uint_ge_0]) simp
  ultimately have "sint x = uint x" by (simp add: sint_uint signed_take_bit_int_eq_self)
  then show ?thesis unfolding u .
qed

lemma set_chain_grow_chain:
  assumes "fat_ok v" "fat_chain v cs" "vn_end_cluster node = last cs" "IS_DATA_CLUSTER v (last_allocated v)"
    "0 < extra" "unat extra < 2 ^ 31" "unat extra \<le> card (free_set v)"
  shows "\<exists>ds w. set_chain_grow v node extra = (B_OK, node\<lparr>vn_end_cluster := last ds\<rparr>, w) \<and>
    length ds = unat extra \<and> set ds \<subseteq> free_set v \<and> fat_chain w (cs @ ds) \<and>
    (\<forall>d. IS_DATA_CLUSTER v d \<longrightarrow> d \<notin> set (last cs # ds) \<longrightarrow> fat_entry w d = fat_entry v d) \<and>
    free_clusters w = free_clusters v - extra \<and> only_table v w \<and> fat_ok w"
proof -
  have n: "0 < unat extra" using assms(5) by (simp add: word_less_nat_alt)
  have sint: "sint extra = int (unat extra)" by (rule sint_small [OF assms(6)])
  obtain ds v1 where al: "allocate_n_fat_entries v (int (unat extra)) = (B_OK, Some (uint (hd ds)), v1)"
    "length ds = unat extra" "set ds \<subseteq> free_set v" "fat_chain v1 ds"
    "\<And>d. IS_DATA_CLUSTER v d \<Longrightarrow> d \<notin> set ds \<Longrightarrow> fat_entry v1 d = fat_entry v d"
    "free_clusters v1 = free_clusters v - of_nat (unat extra)" "only_table v v1" "fat_ok v1"
    using allocate_free [OF assms(1,4) n assms(6,7)] by blast
  have d1: "IS_DATA_CLUSTER v1 = IS_DATA_CLUSTER v" by (rule only_table_geometry(8) [OF al(7)])
  have csne: "cs \<noteq> []" using assms(2) by (cases cs) auto
  have data: "x \<in> set cs \<Longrightarrow> IS_DATA_CLUSTER v x" for x by (rule chain_data [OF assms(2)])
  have used: "x \<in> set cs \<Longrightarrow> x \<notin> set ds" for x
    using fat_chain_used [OF assms(2)] al(3) by (auto simp: free_set_def)
  have last: "IS_DATA_CLUSTER v1 (last cs)" using data csne by (simp add: d1)
  have hd: "IS_DATA_CLUSTER v1 (hd ds)" by (rule chain_hd_data [OF al(4)])
  let ?w = "fat_store v1 (last cs) (hd ds)"
  have w: "fat_ok ?w" "IS_DATA_CLUSTER ?w = IS_DATA_CLUSTER v" "only_table v1 ?w" "free_clusters ?w = free_clusters v1"
    using fat.store_ok [OF al(8) last] fat.store_data [OF al(8) last] only_table_store [OF al(8) last] d1
      contents_only_sel [OF fat_store_contents_only [OF al(8) last]] by auto
  have entry: "\<And>d. IS_DATA_CLUSTER v d \<Longrightarrow> fat_entry ?w d = (if d = last cs then hd ds else fat_entry v1 d)"
    using fat.link_store [OF al(8) last] hd d1 by auto
  have set: "set_fat_entry v1 (last cs) (uint (hd ds)) = (B_OK, ?w)" using set_fat_entry_eq [OF al(8) last] by simp
  have dchain: "fat_chain ?w ds"
    unfolding w(2) using al(4) [unfolded d1]
    by (rule chain_cong) (use entry used csne chain_data [OF al(4)] d1 in \<open>metis last_in_set\<close>)
  have "fat_chain ?w (cs @ ds)"
    unfolding w(2)
  proof (rule chain_append [OF assms(2) dchain [unfolded w(2)]])
    show "fat_entry ?w c = fat_entry v c" if "c \<in> set (butlast cs)" for c
    proof -
      have "distinct (butlast cs @ [last cs])" using fat_chain_distinct [OF assms(1,2)] csne by simp
      then have "c \<noteq> last cs" using that by auto
      then show ?thesis using entry [OF data [OF in_set_butlastD [OF that]]] al(5) [OF data [OF in_set_butlastD [OF that]]]
          used [OF in_set_butlastD [OF that]] by simp
    qed
    show "fat_entry ?w (last cs) = hd ds" using entry [of "last cs"] data csne by simp
  qed
  moreover have "get_nth_fat_entry ?w (uint (hd ds)) (unat (extra - 1)) = (uint (last ds), ?w)"
  proof -
    have "extra \<noteq> 0" using assms(5) by auto
    then have "unat (extra - 1) = length ds - 1" "ds \<noteq> []" using al(2) n by (auto simp: unat_minus_one)
    then show ?thesis
      using get_nth_fat_entry_chain [OF w(1) dchain, of "unat (extra - 1)"] by (simp add: last_conv_nth)
  qed
  then have "set_chain_grow v node extra = (B_OK, node\<lparr>vn_end_cluster := last ds\<rparr>, ?w)"
    using al(1) sint set assms(3) by (simp add: set_chain_grow_def)
  moreover have "fat_entry ?w d = fat_entry v d" if "IS_DATA_CLUSTER v d" "d \<notin> set (last cs # ds)" for d
    using entry [OF that(1)] al(5) [OF that(1)] that(2) by simp
  ultimately show ?thesis
    using al(2,3,6) w only_table_trans [OF al(7) w(3)] by (intro exI [of _ ds] exI [of _ ?w]) auto
qed

subsection \<open>Properties\<close>

lemma set_fat_chain_length_cases:
  assumes "fat_ok v" "fat_chain v cs" "vn_cluster node = hd cs" "clusters \<noteq> 0"
    "word_of_int (clusters_of_size v (vn_st_size node)) = (of_nat (length cs) :: uint32)"
  shows "set_fat_chain_length E v node clusters discard =
    (if unat clusters = length cs then (B_OK, node, v)
     else if unat clusters > length cs then set_chain_grow v node (clusters - of_nat (length cs))
     else set_chain_shrink v node clusters discard)"
    "unat (of_nat (length cs) :: uint32) = length cs"
proof -
  have "length cs < 2 ^ 32"
    using fat_chain_length [OF assms(1,2)] unsigned_less [of "total_clusters v", where ?'a = nat] by simp
  then show len: "unat (of_nat (length cs) :: uint32) = length cs" by (rule unat_of_nat_32)
  have cmp: "of_nat (length cs) = clusters \<longleftrightarrow> unat clusters = length cs" "of_nat (length cs) < clusters \<longleftrightarrow> length cs < unat clusters"
    using len by (auto simp: word_unat_eq_iff word_less_nat_alt)
  have "IS_DATA_CLUSTER v (hd cs)" by (rule chain_hd_data [OF assms(2)])
  moreover have "\<not> IS_FIXED_ROOT (hd cs)" "hd cs \<noteq> 0"
    using calculation by (auto simp: IS_DATA_CLUSTER_def IS_FIXED_ROOT_def word_le_nat_alt)
  ultimately show "set_fat_chain_length E v node clusters discard =
    (if unat clusters = length cs then (B_OK, node, v)
     else if unat clusters > length cs then set_chain_grow v node (clusters - of_nat (length cs))
     else set_chain_shrink v node clusters discard)"
    using assms(3-5) cmp by (simp add: set_fat_chain_length_def Let_def)
qed

text \<open>
  C29. Shortening a file whose size agrees with its chain keeps the first clusters of the chain,
  properly ended, frees the others and leaves all other entries of the table alone; the vnode
  records the new last cluster.
\<close>

theorem set_fat_chain_length_shrinks:
  assumes "fat_ok v" "fat_chain v cs" "vn_cluster node = hd cs"
    "word_of_int (clusters_of_size v (vn_st_size node)) = (of_nat (length cs) :: uint32)"
    "0 < unat clusters" "unat clusters < length cs"
  shows "\<exists>w. set_fat_chain_length E v node clusters discard =
      (B_OK, node\<lparr>vn_end_cluster := cs ! (unat clusters - 1)\<rparr>, w) \<and>
    fat_chain w (take (unat clusters) cs) \<and>
    (\<forall>d. IS_DATA_CLUSTER v d \<longrightarrow> d \<notin> set (take (unat clusters) cs) \<longrightarrow>
       fat_entry w d = (if d \<in> set cs then 0 else fat_entry v d)) \<and>
    free_clusters w = free_clusters v + of_nat (length cs - unat clusters) \<and> only_table v w \<and> fat_ok w"
proof -
  have "clusters \<noteq> 0" using assms(5) by auto
  from set_fat_chain_length_cases(1) [OF assms(1-3) this assms(4)]
  have "set_fat_chain_length E v node clusters discard = set_chain_shrink v node clusters discard"
    using assms(6) by simp
  then show ?thesis using set_chain_shrink_chain [OF assms(1-3,5,6), of discard] by simp
qed

theorem set_fat_chain_length_shrinks_witness:
  "\<forall>E. \<exists>w. set_fat_chain_length E sample_volume (sample_vnode\<lparr>vn_cluster := 2, vn_st_size := 3000\<rparr>) 1 True =
      (B_OK, sample_vnode\<lparr>vn_cluster := 2, vn_st_size := 3000, vn_end_cluster := 2\<rparr>, w) \<and>
     fat_chain w [2] \<and> free_clusters w = 4"
proof
  fix E
  have "clusters_of_size sample_volume 3000 = 3"
    by (simp add: clusters_of_size_def sample_volume_def signed_divide_int_def)
  then show "\<exists>w. set_fat_chain_length E sample_volume (sample_vnode\<lparr>vn_cluster := 2, vn_st_size := 3000\<rparr>) 1 True =
      (B_OK, sample_vnode\<lparr>vn_cluster := 2, vn_st_size := 3000, vn_end_cluster := 2\<rparr>, w) \<and>
     fat_chain w [2] \<and> free_clusters w = 4"
    using set_fat_chain_length_shrinks [OF sample_ok sample_chain,
        of "sample_vnode\<lparr>vn_cluster := 2, vn_st_size := 3000\<rparr>" 1 E True] by auto
qed

text \<open>
  C30. Lengthening a file whose size agrees with its chain appends clusters that were free to the
  chain, which then has the length asked for, and changes no entry but those of the new clusters
  and of the last old one.
\<close>

theorem set_fat_chain_length_grows:
  assumes "fat_ok v" "fat_chain v cs" "vn_cluster node = hd cs" "vn_end_cluster node = last cs"
    "word_of_int (clusters_of_size v (vn_st_size node)) = (of_nat (length cs) :: uint32)"
    "IS_DATA_CLUSTER v (last_allocated v)" "length cs < unat clusters" "unat clusters - length cs < 2 ^ 31"
    "unat clusters - length cs \<le> card (free_set v)"
  shows "\<exists>ds w. set_fat_chain_length E v node clusters discard = (B_OK, node\<lparr>vn_end_cluster := last ds\<rparr>, w) \<and>
    fat_chain w (cs @ ds) \<and> length (cs @ ds) = unat clusters \<and> set ds \<subseteq> free_set v \<and>
    (\<forall>d. IS_DATA_CLUSTER v d \<longrightarrow> d \<notin> set (last cs # ds) \<longrightarrow> fat_entry w d = fat_entry v d) \<and>
    free_clusters w = free_clusters v - of_nat (length ds) \<and> only_table v w \<and> fat_ok w"
proof -
  let ?x = "clusters - of_nat (length cs)"
  have "clusters \<noteq> 0" using assms(7) by auto
  note c = set_fat_chain_length_cases [OF assms(1-3) this assms(5)]
  have x: "unat ?x = unat clusters - length cs"
    using assms(7) c(2) by (subst unat_sub) (simp_all add: word_le_nat_alt)
  then have "0 < ?x" using assms(7) by (simp add: word_less_nat_alt)
  from set_chain_grow_chain [OF assms(1,2,4,6) this] obtain ds w where
    "set_chain_grow v node ?x = (B_OK, node\<lparr>vn_end_cluster := last ds\<rparr>, w)" "length ds = unat ?x"
    "set ds \<subseteq> free_set v" "fat_chain w (cs @ ds)"
    "\<forall>d. IS_DATA_CLUSTER v d \<longrightarrow> d \<notin> set (last cs # ds) \<longrightarrow> fat_entry w d = fat_entry v d"
    "free_clusters w = free_clusters v - ?x" "only_table v w" "fat_ok w"
    using x assms(8,9) by (metis (no_types, lifting))
  then show ?thesis
    using c(1) [of E discard] x assms(7) by (intro exI [of _ ds] exI [of _ w]) (auto simp: word_unat_eq_iff)
qed

theorem set_fat_chain_length_grows_witness:
  "\<forall>E. \<exists>ds w. set_fat_chain_length E sample_volume (sample_vnode\<lparr>vn_cluster := 2, vn_end_cluster := 4, vn_st_size := 3000\<rparr>) 5 False =
      (B_OK, sample_vnode\<lparr>vn_cluster := 2, vn_end_cluster := last ds, vn_st_size := 3000\<rparr>, w) \<and>
     fat_chain w ([2, 3, 4] @ ds) \<and> set ds \<subseteq> {5, 6}"
proof
  fix E
  let ?node = "sample_vnode\<lparr>vn_cluster := 2, vn_end_cluster := 4, vn_st_size := 3000\<rparr>"
  have "clusters_of_size sample_volume 3000 = 3"
    by (simp add: clusters_of_size_def sample_volume_def signed_divide_int_def)
  then have "\<exists>ds w. set_fat_chain_length E sample_volume ?node 5 False = (B_OK, ?node\<lparr>vn_end_cluster := last ds\<rparr>, w) \<and>
    fat_chain w ([2, 3, 4] @ ds) \<and> length ([2, 3, 4] @ ds) = unat (5 :: uint32) \<and> set ds \<subseteq> free_set sample_volume \<and>
    (\<forall>d. IS_DATA_CLUSTER sample_volume d \<longrightarrow> d \<notin> set (last [2, 3, 4] # ds) \<longrightarrow> fat_entry w d = fat_entry sample_volume d) \<and>
    free_clusters w = free_clusters sample_volume - of_nat (length ds) \<and> only_table sample_volume w \<and> fat_ok w"
    by (intro set_fat_chain_length_grows [OF sample_ok sample_chain]) simp_all
  then show "\<exists>ds w. set_fat_chain_length E sample_volume (sample_vnode\<lparr>vn_cluster := 2, vn_end_cluster := 4, vn_st_size := 3000\<rparr>) 5 False =
      (B_OK, sample_vnode\<lparr>vn_cluster := 2, vn_end_cluster := last ds, vn_st_size := 3000\<rparr>, w) \<and>
     fat_chain w ([2, 3, 4] @ ds) \<and> set ds \<subseteq> {5, 6}"
    by (elim ex_forward) simp
qed

end
