(* ===== verification/File_Map.thy ===== *)
theory File_Map
  imports Chain_Length File_Ops
begin

section \<open>Where the bytes of a file are: iter.c and dosfs_get_file_map\<close>

text \<open>
  A file is a chain of clusters, each of \<open>sectors_per_cluster\<close> sectors. Moving the sector iterator
  along the chain is shown to be division with remainder, and the vectors of the file map to name
  the bytes of the file in order.
\<close>

text \<open>The iterator on sector \<open>g\<close> of a file, counted from 0.\<close>

definition csi_at :: "nspace \<Rightarrow> uint32 list \<Rightarrow> nat \<Rightarrow> csi" where
  "csi_at v cs g =
     \<lparr>csi_cluster = cs ! (g div unat (sectors_per_cluster v)), csi_sector = of_nat (g mod unat (sectors_per_cluster v))\<rparr>"

definition file_sectors :: "nspace \<Rightarrow> uint32 list \<Rightarrow> nat" where
  "file_sectors v cs = length cs * unat (sectors_per_cluster v)"

text \<open>What the iterator relies on: a power of two of at most 128 sectors in a cluster, as the mount code checks.\<close>

definition spc_ok :: "nspace \<Rightarrow> bool" where
  "spc_ok v \<longleftrightarrow> 0 < sectors_per_cluster v \<and> sectors_per_cluster v \<le> 128"

lemma spc_nat: "spc_ok v \<Longrightarrow> 0 < unat (sectors_per_cluster v) \<and> unat (sectors_per_cluster v) \<le> 128"
  by (simp add: spc_ok_def word_less_nat_alt word_le_nat_alt)

lemma file_sector_cluster:
  assumes "spc_ok v" "g < file_sectors v cs"
  shows "g div unat (sectors_per_cluster v) < length cs"
  using assms spc_nat [OF assms(1)] by (simp add: file_sectors_def less_mult_imp_div_less)

lemma csi_at_sector:
  assumes "spc_ok v"
  shows "unat (csi_sector (csi_at v cs g)) = g mod unat (sectors_per_cluster v)"
    "csi_sector (csi_at v cs g) < sectors_per_cluster v" "csi_sector (csi_at v cs g) \<noteq> 0xffff"
proof -
  have "g mod unat (sectors_per_cluster v) < 128"
    using spc_nat [OF assms] mod_less_divisor [of "unat (sectors_per_cluster v)" g] by linarith
  then show u: "unat (csi_sector (csi_at v cs g)) = g mod unat (sectors_per_cluster v)"
    by (simp add: csi_at_def unat_of_nat_32)
  then show "csi_sector (csi_at v cs g) < sectors_per_cluster v" "csi_sector (csi_at v cs g) \<noteq> 0xffff"
    using spc_nat [OF assms] \<open>g mod unat (sectors_per_cluster v) < 128\<close>
    by (auto simp: word_less_nat_alt word_unat_eq_iff)
qed

lemma get_nth_from:
  assumes "fat_ok v" "fat_chain v cs" "k < length cs"
  shows "get_nth_fat_entry v (uint (cs ! k)) m = (if k + m < length cs then uint (cs ! (k + m)) else END_FAT_ENTRY, v)"
proof -
  have "fat_chain v (drop k cs)" using chain_suffix [of _ _ _ "take k cs" "drop k cs"] assms(2,3) by simp
  from get_nth_fat_entry_chain [OF assms(1) this, of m] show ?thesis
    using assms(3) by (auto simp: hd_drop_conv_nth)
qed

lemma data_cluster_props:
  assumes "fat_ok v" "fat_chain v cs" "k < length cs"
  shows "IS_DATA_CLUSTER v (cs ! k)" "\<not> IS_FIXED_ROOT (cs ! k)" "sint (cs ! k) = uint (cs ! k)" "\<not> sint (cs ! k) < 0"
proof -
  show d: "IS_DATA_CLUSTER v (cs ! k)" using chain_data [OF assms(2)] assms(3) by simp
  then show "\<not> IS_FIXED_ROOT (cs ! k)" by (auto simp: IS_DATA_CLUSTER_def IS_FIXED_ROOT_def word_le_nat_alt)
  show "sint (cs ! k) = uint (cs ! k)" "\<not> sint (cs ! k) < 0" using uint_data_cluster [OF assms(1) d] by auto
qed

lemma END_word: "word_of_int END_FAT_ENTRY = (0x0fffffff :: uint32)" "\<not> sint (0x0fffffff :: uint32) < 0"
  by (simp_all add: END_FAT_ENTRY_def)

lemma iter_csi_chain:
  assumes "fat_ok v" "fat_chain v cs" "spc_ok v" "g < file_sectors v cs" "0 < n" "n < 2 ^ 31"
  shows "if g + n < file_sectors v cs then iter_csi v (csi_at v cs g) (int n) = (0, csi_at v cs (g + n), v)
    else \<exists>csi. iter_csi v (csi_at v cs g) (int n) = (-1, csi, v) \<and> csi_sector csi = 0xffff"
proof -
  let ?s = "unat (sectors_per_cluster v)" and ?c = "csi_at v cs g"
  let ?x = "csi_sector ?c + word_of_int (int n)"
  have s: "0 < ?s" "?s \<le> 128" using spc_nat [OF assms(3)] by auto
  note at = csi_at_sector [OF assms(3), of cs g]
  have k: "g div ?s < length cs" by (rule file_sector_cluster [OF assms(3,4)])
  note cl = data_cluster_props [OF assms(1,2) k]
  have "g mod ?s < 128" using s mod_less_divisor [of ?s g] by linarith
  then have x: "unat ?x = g mod ?s + n"
    using at(1) assms(6) by (simp add: unat_word_ariths(1) unat_of_nat)
  have div: "(g + n) div ?s = g div ?s + (g mod ?s + n) div ?s" "(g + n) mod ?s = (g mod ?s + n) mod ?s"
    by (metis div_mult_mod_eq div_mult_self3 add.assoc mult.commute s(1) less_not_refl2) (simp add: mod_add_left_eq)
  have lt: "g + n < file_sectors v cs \<longleftrightarrow> g div ?s + (g mod ?s + n) div ?s < length cs"
    using s(1) unfolding div(1) [symmetric] by (simp add: file_sectors_def div_less_iff_less_mult)
  show ?thesis
  proof (cases "?x < sectors_per_cluster v")
    case True
    then have "(g mod ?s + n) div ?s = 0" "(g mod ?s + n) mod ?s = g mod ?s + n" using x by (simp_all add: word_less_nat_alt)
    then have "csi_at v cs (g + n) = ?c\<lparr>csi_sector := ?x\<rparr>" "g + n < file_sectors v cs"
      using div lt k x by (simp_all add: csi_at_def word_unat_eq_iff)
    then show ?thesis
      using True at(3) cl(2) assms(5) by (simp add: iter_csi_def csi_at_def Let_def)
  next
    case False
    have "(g mod ?s + n) mod ?s \<le> 128" using s mod_less_divisor [of ?s "g mod ?s + n"] by linarith
    then have q: "unat (?x div sectors_per_cluster v) = (g mod ?s + n) div ?s" "?x mod sectors_per_cluster v = of_nat ((g mod ?s + n) mod ?s)"
      using x by (simp_all add: unat_div word_unat_eq_iff unat_mod unat_of_nat_32)
    note nth = get_nth_from [OF assms(1,2) k, of "(g mod ?s + n) div ?s"]
    have it: "iter_csi v ?c (int n) =
        (let (cluster, v) = get_nth_fat_entry v (uint (cs ! (g div ?s))) ((g mod ?s + n) div ?s);
             csi = \<lparr>csi_cluster = word_of_int cluster, csi_sector = ?x\<rparr>
         in if sint (csi_cluster csi) < 0 then (sint (csi_cluster csi), csi\<lparr>csi_sector := 0xffff\<rparr>, v)
            else if IS_DATA_CLUSTER v (csi_cluster csi) then (0, csi\<lparr>csi_sector := of_nat ((g mod ?s + n) mod ?s)\<rparr>, v)
            else (-1, csi\<lparr>csi_sector := 0xffff\<rparr>, v))"
      using False at(3) cl(2,3) assms(5) q nth by (simp add: iter_csi_def csi_at_def Let_def)
    show ?thesis
    proof (cases "g + n < file_sectors v cs")
      case True
      then have "g div ?s + (g mod ?s + n) div ?s < length cs" using lt by blast
      then show ?thesis
        using True it nth data_cluster_props [OF assms(1,2)] div by (simp add: csi_at_def)
    next
      case False
      then show ?thesis
        using it nth lt is_eoc_not_data [OF assms(1)] END_word by (simp add: is_eoc_def)
    qed
  qed
qed

subsection \<open>The file map\<close>

text \<open>The block of a sector of the file, and the place of a byte of the file on the disk.\<close>

definition sector_block :: "nspace \<Rightarrow> uint32 list \<Rightarrow> nat \<Rightarrow> int" where
  "sector_block v cs g =
     uint (data_start v) + (uint (cs ! (g div unat (sectors_per_cluster v))) - 2) * uint (sectors_per_cluster v)
       + int (g mod unat (sectors_per_cluster v))"

definition byte_at :: "nspace \<Rightarrow> uint32 list \<Rightarrow> nat \<Rightarrow> int" where
  "byte_at v cs i = sector_block v cs (i div bps v) * int (bps v) + int (i mod bps v)"

text \<open>The places that a list of vectors names, one after the other.\<close>

definition vec_bytes :: "(int \<times> int) list \<Rightarrow> int list" where
  "vec_bytes vecs = concat (map (\<lambda>(start, len). map (\<lambda>i. start + int i) [0..<nat len]) vecs)"

text \<open>Vectors that name places on a device, a byte at least each.\<close>

definition good_vecs :: "(int \<times> int) list \<Rightarrow> bool" where
  "good_vecs vecs \<longleftrightarrow> (\<forall>vec \<in> set vecs. 0 \<le> fst vec \<and> 0 < snd vec)"

definition consecutive :: "nspace \<Rightarrow> uint32 list \<Rightarrow> nat \<Rightarrow> nat \<Rightarrow> bool" where
  "consecutive v cs g m \<longleftrightarrow> (\<forall>i<m. sector_block v cs (g + i) = sector_block v cs g + int i)"

lemma csi_to_block_at:
  assumes "fat_ok v" "fat_chain v cs" "spc_ok v" "g < file_sectors v cs"
  shows "csi_to_block v (csi_at v cs g) = sector_block v cs g"
proof -
  let ?c = "cs ! (g div unat (sectors_per_cluster v))"
  note cl = data_cluster_props [OF assms(1,2) file_sector_cluster [OF assms(3,4)]]
  note at = csi_at_sector [OF assms(3), of cs g]
  have "2 \<le> ?c" using cl(1) by (simp add: IS_DATA_CLUSTER_def)
  then have "uint (?c - 2) = uint ?c - uint (2 :: uint32)" unfolding word_le_def by (rule uint_sub_lem [THEN iffD1])
  then have "uint (?c - 2) = uint ?c - 2" by simp
  moreover have "uint (csi_sector (csi_at v cs g)) = int (g mod unat (sectors_per_cluster v))"
    unfolding at(1) [symmetric] by simp
  ultimately show ?thesis
    using cl(1,2) at(2)
    by (simp add: csi_to_block_def validate_cs_def sector_block_def csi_at_def flip: not_le)
qed

lemma sector_block_nonneg:
  assumes "fat_ok v" "fat_chain v cs" "spc_ok v" "g < file_sectors v cs"
  shows "0 \<le> sector_block v cs g"
proof -
  have "2 \<le> cs ! (g div unat (sectors_per_cluster v))"
    using data_cluster_props(1) [OF assms(1,2) file_sector_cluster [OF assms(3,4)]] by (simp add: IS_DATA_CLUSTER_def)
  then have "2 \<le> uint (cs ! (g div unat (sectors_per_cluster v)))" by (simp add: word_le_def)
  then show ?thesis by (simp add: sector_block_def)
qed

text \<open>The inner loop extends a run of consecutive sectors.\<close>

definition left_over :: "nspace \<Rightarrow> nat \<Rightarrow> nat \<Rightarrow> nat \<Rightarrow> nat" where
  "left_over v len m m' = len - (m' - m) * bps v"

definition run_ends :: "nspace \<Rightarrow> uint32 list \<Rightarrow> nat \<Rightarrow> nat \<Rightarrow> nat \<Rightarrow> nat \<Rightarrow> nat \<Rightarrow> bool" where
  "run_ends v cs k g m len m' \<longleftrightarrow>
     consecutive v cs g m' \<and> m \<le> m' \<and> g + m' \<le> file_sectors v cs \<and>
     (0 < left_over v len m m' \<longrightarrow> g + m' < file_sectors v cs) \<and>
     map_run k v (csi_at v cs (g + m - 1)) (sector_block v cs g) m len =
       (B_OK, csi_at v cs (if 0 < left_over v len m m' then g + m' else g + m' - 1), m', left_over v len m m', v)"

lemma map_run_correct:
  assumes "fat_ok v" "fat_chain v cs" "spc_ok v" "0 < bps v"
  shows "consecutive v cs g m \<Longrightarrow> 0 < m \<Longrightarrow> g + m \<le> file_sectors v cs \<Longrightarrow>
      len \<le> (file_sectors v cs - (g + m)) * bps v \<Longrightarrow> len < k \<Longrightarrow> \<exists>m'. run_ends v cs k g m len m'"
proof (induction k arbitrary: m len)
  case (Suc k)
  show ?case
  proof (cases "0 < len")
    case False
    then have "run_ends v cs (Suc k) g m len m" using Suc.prems by (simp add: run_ends_def left_over_def)
    then show ?thesis by blast
  next
    case True
    then have more: "g + m < file_sectors v cs" using Suc.prems(4) by (cases "file_sectors v cs - (g + m)") auto
    have it: "iter_csi v (csi_at v cs (g + m - 1)) 1 = (0, csi_at v cs (g + m), v)"
      using iter_csi_chain [OF assms(1-3), of "g + m - 1" 1] more Suc.prems(2) by simp
    have blk: "csi_to_block v (csi_at v cs (g + m)) = sector_block v cs (g + m)"
      by (rule csi_to_block_at [OF assms(1-3) more])
    show ?thesis
    proof (cases "sector_block v cs (g + m) = sector_block v cs g + int m")
      case False
      then have "run_ends v cs (Suc k) g m len m"
        using it blk True more Suc.prems by (simp add: run_ends_def left_over_def B_OK_def)
      then show ?thesis by blast
    next
      case step: True
      let ?len = "len - min len (bps v)"
      have "consecutive v cs g (m + 1)"
        using Suc.prems(1) step by (auto simp: consecutive_def less_Suc_eq)
      moreover have "?len \<le> (file_sectors v cs - (g + (m + 1))) * bps v"
        using Suc.prems(4) by (auto simp: diff_mult_distrib)
      moreover have "?len < k" using True Suc.prems(5) assms(4) by auto
      ultimately obtain m' where m': "run_ends v cs k g (m + 1) ?len m'"
        using Suc.IH [of "m + 1" ?len] more by auto
      then have le: "m + 1 \<le> m'" by (simp add: run_ends_def)
      then have "(m' - m) * bps v = bps v + (m' - (m + 1)) * bps v"
        by (metis Suc_diff_Suc Suc_eq_plus1 Suc_le_lessD mult_Suc)
      then have "left_over v ?len (m + 1) m' = left_over v len m m'" by (simp add: left_over_def)
      moreover have "map_run (Suc k) v (csi_at v cs (g + m - 1)) (sector_block v cs g) m len =
          map_run k v (csi_at v cs (g + (m + 1) - 1)) (sector_block v cs g) (m + 1) ?len"
        using it blk True step by (simp add: bps_def B_OK_def)
      ultimately have "run_ends v cs (Suc k) g m len m'" using m' le by (simp add: run_ends_def del: map_run.simps)
      then show ?thesis by blast
    qed
  qed
qed simp

text \<open>The bytes of a run of sectors, from an offset in the first one.\<close>

lemma run_bytes:
  assumes "consecutive v cs g m" "off < bps v" "0 < m"
  shows "map (\<lambda>i. sector_block v cs g * int (bps v) + int off + int i) [0..<m * bps v - off] =
    map (byte_at v cs) [g * bps v + off..<(g + m) * bps v]"
proof (rule nth_equalityI)
  fix i assume "i < length (map (\<lambda>i. sector_block v cs g * int (bps v) + int off + int i) [0..<m * bps v - off])"
  then have i: "off + i < m * bps v" "i < m * bps v - off" by simp_all
  from i(1) have "(off + i) div bps v < m" using assms(2) by (simp add: div_less_iff_less_mult)
  then have sb: "sector_block v cs (g + (off + i) div bps v) = sector_block v cs g + int ((off + i) div bps v)"
    using assms(1) by (simp add: consecutive_def)
  have dm: "(g * bps v + (off + i)) div bps v = g + (off + i) div bps v" "(g * bps v + (off + i)) mod bps v = (off + i) mod bps v"
    using assms(2) by simp_all
  have "byte_at v cs (g * bps v + (off + i)) = sector_block v cs g * int (bps v) + (int ((off + i) div bps v) * int (bps v) + int ((off + i) mod bps v))"
    by (simp only: byte_at_def dm sb distrib_right add.assoc)
  also have "int ((off + i) div bps v) * int (bps v) + int ((off + i) mod bps v) = int (off + i)"
    by (simp only: div_mult_mod_eq flip: of_nat_mult of_nat_add)
  finally have "byte_at v cs (g * bps v + (off + i)) = sector_block v cs g * int (bps v) + int (off + i)" .
  then show "map (\<lambda>i. sector_block v cs g * int (bps v) + int off + int i) [0..<m * bps v - off] ! i =
      map (byte_at v cs) [g * bps v + off..<(g + m) * bps v] ! i"
    using i by (simp add: add.assoc add_mult_distrib)
qed (simp add: algebra_simps)

lemma vec_bytes_simps [simp]:
  "vec_bytes [] = []" "vec_bytes (x # xs) = vec_bytes [x] @ vec_bytes xs"
  "vec_bytes [(a, l)] = map (\<lambda>i. a + int i) [0..<nat l]"
  by (simp_all add: vec_bytes_def)

lemma vec_bytes_range:
  assumes "vec_bytes vs = map P [a..<q]" "vs \<noteq> []" "good_vecs vs"
  shows "a < q"
proof (rule ccontr)
  assume "\<not> a < q"
  then have "vec_bytes vs = []" using assms(1) by simp
  moreover obtain x xs where "vs = x # xs" using assms(2) by (cases vs) auto
  moreover obtain s l where "x = (s, l)" by (cases x)
  ultimately have "nat l = 0" "0 < l" using assms(3) by (simp_all add: vec_bytes_def good_vecs_def)
  then show False by simp
qed

lemma uint_sectors:
  assumes "0 < bps v" "m * bps v < 2 ^ 32"
  shows "uint (of_nat m * bytes_per_sector v) = int (m * bps v)"
proof -
  have "m \<le> m * bps v" using assms(1) by simp
  then have "m < 2 ^ 32" using assms(2) by (rule order.strict_trans1)
  then have "unat (of_nat m :: uint32) = m" by (rule unat_of_nat_32)
  then have "unat (of_nat m * bytes_per_sector v) = (m * bps v) mod 2 ^ 32"
    by (simp only: unat_word_ariths(2) bps_def) simp
  then have "unat (of_nat m * bytes_per_sector v) = m * bps v" using assms(2) by simp
  then show ?thesis by (metis uint_nat)
qed

text \<open>The outer loop, from byte \<open>off\<close> of sector \<open>g\<close> on.\<close>

lemma map_loop_correct:
  assumes "fat_ok v" "fat_chain v cs" "spc_ok v" "0 < bps v" "file_sectors v cs * bps v < 2 ^ 32"
  shows "g < file_sectors v cs \<Longrightarrow> off < bps v \<Longrightarrow> 0 < len \<Longrightarrow> len < k \<Longrightarrow>
      g * bps v + off + len \<le> file_sectors v cs * bps v \<Longrightarrow> length vecs < max_vecs \<Longrightarrow>
    \<exists>r vs q. map_loop k v (csi_at v cs g) off len max_vecs vecs = (r, vecs @ vs, v) \<and>
      vec_bytes vs = map (byte_at v cs) [g * bps v + off..<q] \<and> g * bps v + off \<le> q \<and>
      q \<le> file_sectors v cs * bps v \<and> good_vecs vs \<and>
      (r = B_OK \<and> g * bps v + off + len \<le> q \<or>
       r = B_BUFFER_OVERFLOW \<and> length (vecs @ vs) = max_vecs \<and> q < g * bps v + off + len)"
proof (induction k arbitrary: g off len vecs)
  case (Suc k)
  let ?B = "bps v" and ?F = "file_sectors v cs"
  let ?l = "len - min len (?B - off)"
  have blk: "csi_to_block v (csi_at v cs g) = sector_block v cs g" by (rule csi_to_block_at [OF assms(1-3) Suc.prems(1)])
  have "?l \<le> (?F - (g + 1)) * ?B"
    using Suc.prems(2,5) by (auto simp: diff_mult_distrib algebra_simps)
  moreover have "consecutive v cs g 1" by (simp add: consecutive_def)
  ultimately obtain m where m': "run_ends v cs (Suc ?l) g 1 ?l m"
    using map_run_correct [OF assms(1-4), of g 1 ?l "Suc ?l"] Suc.prems(1) by auto
  define len' where "len' = left_over v ?l 1 m"
  have m: "consecutive v cs g m" "1 \<le> m" "g + m \<le> ?F" and more: "0 < len' \<Longrightarrow> g + m < ?F"
    and run: "map_run (Suc ?l) v (csi_at v cs g) (sector_block v cs g) 1 ?l =
      (B_OK, csi_at v cs (if 0 < len' then g + m else g + m - 1), m, len', v)"
    using m' by (simp_all add: run_ends_def len'_def)
  let ?vec = "(sector_block v cs g * uint (bytes_per_sector v) + int off, uint (of_nat m * bytes_per_sector v) - int off)"
  have mB: "m * ?B = (m - 1) * ?B + ?B" using m(2) by (cases m) auto
  have "m * ?B \<le> ?F * ?B" using m(3) by simp
  then have "m * ?B < 2 ^ 32" using assms(5) by linarith
  then have uint_vec: "uint (of_nat m * bytes_per_sector v) = int (m * ?B)" by (rule uint_sectors [OF assms(4)])
  moreover have "off \<le> m * ?B" using Suc.prems(2) mB by linarith
  then have "nat (int (m * ?B) - int off) = m * ?B - off" by (simp only: nat_int flip: of_nat_diff)
  moreover have "uint (bytes_per_sector v) = int ?B" by (simp add: bps_def)
  ultimately have vec: "vec_bytes [?vec] = map (byte_at v cs) [g * ?B + off..<(g + m) * ?B]"
    using run_bytes [OF m(1) Suc.prems(2)] m(2) by (simp only: vec_bytes_simps(3))
  have "off < m * ?B" using Suc.prems(2) mB by linarith
  then have "int off < int (m * ?B)" by (simp only: of_nat_less_iff)
  then have good: "good_vecs [?vec]"
    using sector_block_nonneg [OF assms(1-3) Suc.prems(1)] uint_vec by (simp add: good_vecs_def del: of_nat_mult)
  let ?V = "vecs @ [?vec]" and ?P = "g * ?B + off"
  have "?l = len - (?B - off)" by (simp add: min_def)
  then have fin: "?P + len \<le> (g + m) * ?B" if "len' = 0"
    using that mB Suc.prems(2) by (simp add: len'_def left_over_def add_mult_distrib)
  have rest: "?P + len = (g + m) * ?B + len'" "len' < len" if "0 < len'"
    using that \<open>?l = len - (?B - off)\<close> mB Suc.prems(2) by (simp_all add: len'_def left_over_def add_mult_distrib)
  have P: "?P \<le> (g + m) * ?B" using mB Suc.prems(2) by (simp add: add_mult_distrib)
  have loop: "map_loop (Suc k) v (csi_at v cs g) off len max_vecs vecs =
      (if len' = 0 then (B_OK, ?V, v)
       else if length ?V \<ge> max_vecs then (B_BUFFER_OVERFLOW, ?V, v)
       else map_loop k v (csi_at v cs (g + m)) 0 len' max_vecs ?V)"
    using Suc.prems(3,6) blk run [unfolded bps_def] by (simp add: Let_def)
  show ?case
  proof (cases "len' = 0 \<or> length ?V \<ge> max_vecs")
    case True
    let ?r = "if len' = 0 then B_OK else B_BUFFER_OVERFLOW"
    have "?r = B_OK \<and> ?P + len \<le> (g + m) * ?B \<or>
        ?r = B_BUFFER_OVERFLOW \<and> length ?V = max_vecs \<and> (g + m) * ?B < ?P + len"
    proof (cases "len' = 0")
      case False
      then show ?thesis using rest(1) True Suc.prems(6) by simp
    qed (use fin in simp)
    moreover have "map_loop (Suc k) v (csi_at v cs g) off len max_vecs vecs = (?r, ?V, v)"
      unfolding loop using True by (simp only: if_True if_False split: if_split) blast
    moreover have "(g + m) * ?B \<le> ?F * ?B" using m(3) by simp
    ultimately show ?thesis using vec P good by blast
  next
    case False
    then have pos: "0 < len'" by simp
    have "\<exists>r vs q. map_loop k v (csi_at v cs (g + m)) 0 len' max_vecs ?V = (r, ?V @ vs, v) \<and>
        vec_bytes vs = map (byte_at v cs) [(g + m) * ?B + 0..<q] \<and> (g + m) * ?B + 0 \<le> q \<and> q \<le> ?F * ?B \<and> good_vecs vs \<and>
        (r = B_OK \<and> (g + m) * ?B + 0 + len' \<le> q \<or>
         r = B_BUFFER_OVERFLOW \<and> length (?V @ vs) = max_vecs \<and> q < (g + m) * ?B + 0 + len')"
      using more [OF pos] assms(4) pos rest [OF pos] Suc.prems(4,5) False by (intro Suc.IH) simp_all
    then obtain r vs q where rec: "map_loop k v (csi_at v cs (g + m)) 0 len' max_vecs ?V = (r, ?V @ vs, v)"
      "vec_bytes vs = map (byte_at v cs) [(g + m) * ?B..<q]" "(g + m) * ?B \<le> q" "good_vecs vs" "q \<le> ?F * ?B"
      "r = B_OK \<and> (g + m) * ?B + len' \<le> q \<or> r = B_BUFFER_OVERFLOW \<and> length (?V @ vs) = max_vecs \<and> q < (g + m) * ?B + len'"
      by auto
    have "[?P..<q] = [?P..<(g + m) * ?B] @ [(g + m) * ?B..<q]"
      using P rec(3) upt_add_eq_append [of ?P "(g + m) * ?B" "q - (g + m) * ?B"] by simp
    then have "vec_bytes (?vec # vs) = map (byte_at v cs) [?P..<q]"
      using vec rec(2) by (simp only: vec_bytes_simps(2) [of ?vec vs] map_append)
    moreover have "map_loop (Suc k) v (csi_at v cs g) off len max_vecs vecs = (r, vecs @ (?vec # vs), v)"
      unfolding loop using False rec(1) by simp
    moreover have "?P \<le> q" using P rec(3) by (rule order_trans)
    moreover have "r = B_OK \<and> ?P + len \<le> q \<or>
        r = B_BUFFER_OVERFLOW \<and> length (vecs @ (?vec # vs)) = max_vecs \<and> q < ?P + len"
      using rec(6) unfolding rest(1) [OF pos] by simp
    moreover have "good_vecs (?vec # vs)" using good rec(4) by (simp add: good_vecs_def)
    ultimately show ?thesis using rec(5) by blast
  qed
qed simp

subsection \<open>The whole operation\<close>

lemma map_length_eq:
  assumes "pos < n" "n < 2 ^ 32"
  shows "map_length (int n) (int pos) len = min (unat len) (n - pos)"
proof -
  have u: "unat (of_nat pos :: 64 word) = pos" "unat (of_nat n :: 64 word) = n"
    using assms by (simp_all add: unat_of_nat)
  have s: "unat (of_nat pos + len :: 64 word) = (pos + unat len) mod 2 ^ 64"
    by (simp add: unat_word_ariths(1) u)
  have l: "unat len < 2 ^ 64" using unsigned_less [of len, where ?'a = nat] by simp
  show ?thesis
  proof (cases "pos + unat len < 2 ^ 64")
    case True
    then have "unat (of_nat pos + len :: 64 word) = pos + unat len" using s by simp
    then show ?thesis
      using assms(1) u by (auto simp: map_length_def word_le_nat_alt word_less_nat_alt min_def simp flip: of_nat_diff)
  next
    case False
    then have "(pos + unat len) mod 2 ^ 64 = pos + unat len - 2 ^ 64"
      using l assms by (subst mod_if) simp
    then have "unat (of_nat pos + len :: 64 word) < pos" using s l False by linarith
    then have "(of_nat pos + len :: 64 word) < of_nat pos" using u by (simp add: word_less_nat_alt)
    moreover have "n - pos \<le> unat len" using False assms by simp
    ultimately show ?thesis by (simp add: map_length_def flip: of_nat_diff)
  qed
qed

lemma init_csi_start:
  assumes "fat_ok v" "fat_chain v cs" "spc_ok v"
  shows "init_csi v (hd cs) 0 = (0, Some (csi_at v cs 0))"
proof -
  have ne: "cs \<noteq> []" using assms(2) by (cases cs) auto
  then have hd: "hd cs = cs ! 0" by (rule hd_conv_nth)
  show ?thesis
    using data_cluster_props [OF assms(1,2), of 0] ne assms(3)
    by (auto simp: init_csi_def validate_cs_def hd csi_at_def spc_ok_def not_le)
qed

lemma dosfs_get_file_map_maps:
  assumes "fat_ok v" "fat_chain v cs" "spc_ok v" "0 < bps v" "file_sectors v cs * bps v < 2 ^ 32"
    "vn_cluster (deref v p) = hd cs" "vn_mode (deref v p) AND FAT_SUBDIR = 0"
    "vn_st_size (deref v p) \<le> int (file_sectors v cs * bps v)"
    "int pos < vn_st_size (deref v p)" "len \<noteq> 0" "0 < max_vecs"
  shows "\<exists>r vs q. dosfs_get_file_map v p (int pos) len max_vecs = (r, vs, v) \<and>
    vec_bytes vs = map (byte_at v cs) [pos..<q] \<and> good_vecs vs \<and> pos < q \<and> q \<le> file_sectors v cs * bps v \<and>
    (r = B_OK \<and> min (pos + unat len) (nat (vn_st_size (deref v p))) \<le> q \<or>
     r = B_BUFFER_OVERFLOW \<and> length vs = max_vecs \<and> q < min (pos + unat len) (nat (vn_st_size (deref v p))))"
proof -
  define S where "S = nat (vn_st_size (deref v p))"
  let ?B = "bps v" and ?F = "file_sectors v cs"
  let ?g = "pos div ?B" and ?n = "min (unat len) (S - pos)"
  have size: "vn_st_size (deref v p) = int S" using assms(9) by (simp add: S_def)
  have sz: "pos < S" "S \<le> ?F * ?B" "S < 2 ^ 32"
    using assms(5,8,9) unfolding size of_nat_less_iff of_nat_le_iff by linarith+
  then have "pos < ?F * ?B" by linarith
  then have g: "?g < ?F" by (simp add: less_mult_imp_div_less)
  have "512 \<le> ?B" using wf_fat_bps(1) [of v] assms(1) by (simp add: fat_ok_def)
  then have "?g \<le> pos div 512" by (intro div_le_mono2) simp_all
  then have g31: "?g < 2 ^ 31" using sz(1,3) by simp
  let ?k = "word_of_int (int pos div uint (bytes_per_sector v)) :: uint32"
  have "int pos div uint (bytes_per_sector v) = int ?g" by (simp add: bps_def zdiv_int)
  then have "?k = of_nat ?g" by simp
  then have k: "unat ?k = ?g" using g31 by (simp add: unat_of_nat_32)
  have seek: "(if 0 < ?k then iter_csi v (csi_at v cs 0) (sint ?k) else (B_OK, csi_at v cs 0, v)) = (B_OK, csi_at v cs ?g, v)"
  proof (cases "?g = 0")
    case False
    then show ?thesis
      using iter_csi_chain [OF assms(1-3), of 0 ?g] g g31 k sint_small [of ?k] by (simp add: word_less_nat_alt B_OK_def)
  qed (use k in \<open>simp add: word_less_nat_alt\<close>)
  have "0 < unat len" using assms(10) by (simp add: unat_gt_0)
  then have n: "0 < ?n" "pos + ?n \<le> ?F * ?B" using sz by auto
  have pos: "?g * ?B + pos mod ?B = pos" by simp
  obtain r vs q where loop: "map_loop (Suc ?n) v (csi_at v cs ?g) (pos mod ?B) ?n max_vecs [] = (r, vs, v)"
    "vec_bytes vs = map (byte_at v cs) [pos..<q]" "good_vecs vs" "q \<le> ?F * ?B"
    "r = B_OK \<and> pos + ?n \<le> q \<or> r = B_BUFFER_OVERFLOW \<and> length vs = max_vecs \<and> q < pos + ?n"
    using map_loop_correct [OF assms(1-4), of ?g "pos mod ?B" ?n "Suc ?n" "[]" max_vecs] g n assms(4,5,11)
    unfolding pos by auto
  have "int pos mod uint (bytes_per_sector v) = int (pos mod ?B)" by (simp add: bps_def zmod_int)
  then have "nat (int pos mod uint (bytes_per_sector v)) = pos mod ?B" by (simp only: nat_int)
  then have "dosfs_get_file_map v p (int pos) len max_vecs = (r, vs, v)"
    using assms(4,6,7,9,10) size map_length_eq [OF sz(1,3), of len] init_csi_start [OF assms(1-3)] seek loop(1)
    by (simp add: dosfs_get_file_map_def Let_def bps_def zmod_int del: map_loop.simps)
  moreover have "pos + ?n = min (pos + unat len) S" using sz(1) by linarith
  moreover have "pos < q"
  proof (cases "vs = []")
    case True
    then show ?thesis using loop(5) n(1) assms(11) by auto
  qed (rule vec_bytes_range [OF loop(2) _ loop(3)])
  ultimately show ?thesis using loop(2-5) unfolding S_def [symmetric] by (intro exI [of _ r] exI [of _ vs] exI [of _ q]) simp
qed

text \<open>
  The length of a vector is computed in 32 bits. The bound of 4 GB is needed: of a run of sectors that together have
  4 GB nothing is left, and the vector has no bytes, or fewer.
\<close>

lemma vector_length_wraps:
  assumes "m * bps v = 2 ^ 32" "m < 2 ^ 32"
  shows "uint (of_nat m * bytes_per_sector v) - int off = - int off"
proof -
  have "unat (of_nat m * bytes_per_sector v) = (m * bps v) mod 2 ^ 32"
    using assms(2) by (simp only: unat_word_ariths(2) bps_def unat_of_nat_32) simp
  then have "unat (of_nat m * bytes_per_sector v) = 0" by (simp add: assms(1))
  then have "of_nat m * bytes_per_sector v = 0" by (metis unat_eq_zero)
  then show ?thesis by simp
qed

text \<open>
  C32. The file map is right: for a file whose chain holds it and has less than 4 GB, the vectors that
  \<open>dosfs_get_file_map\<close> returns, none of them empty, name the places of its bytes on the disk, in order and
  without a gap, from the position asked for on, and nothing behind the chain. With \<open>B_OK\<close> they reach the end of the range
  asked for (or of the file); with \<open>B_BUFFER_OVERFLOW\<close> they name the bytes of a proper beginning of that range, one byte at
  least, and as many vectors are returned as fit into the array. The volume is not changed.
\<close>

theorem dosfs_get_file_map_correct:
  assumes "fat_ok v" "fat_chain v cs" "spc_ok v" "0 < bps v" "file_sectors v cs * bps v < 2 ^ 32"
    "vn_cluster (deref v p) = hd cs" "vn_mode (deref v p) AND FAT_SUBDIR = 0"
    "vn_st_size (deref v p) \<le> int (file_sectors v cs * bps v)"
    "int pos < vn_st_size (deref v p)" "len \<noteq> 0" "0 < max_vecs"
  shows "\<exists>r vs q. dosfs_get_file_map v p (int pos) len max_vecs = (r, vs, v) \<and>
    vec_bytes vs = map (byte_at v cs) [pos..<q] \<and> good_vecs vs \<and> pos < q \<and> q \<le> file_sectors v cs * bps v \<and>
    (r = B_OK \<and> min (pos + unat len) (nat (vn_st_size (deref v p))) \<le> q \<or>
     r = B_BUFFER_OVERFLOW \<and> length vs = max_vecs \<and> q < min (pos + unat len) (nat (vn_st_size (deref v p))))"
  by (rule dosfs_get_file_map_maps [OF assms])

theorem dosfs_get_file_map_correct_witness:
  "\<exists>r vs q. dosfs_get_file_map (sample_volume\<lparr>nodes := [7 \<mapsto> sample_vnode\<lparr>vn_vnid := 7, vn_cluster := 2, vn_mode := 0, vn_st_size := 3000\<rparr>]\<rparr>)
      7 (int 600) 1000 4 = (r, vs, sample_volume\<lparr>nodes := [7 \<mapsto> sample_vnode\<lparr>vn_vnid := 7, vn_cluster := 2, vn_mode := 0, vn_st_size := 3000\<rparr>]\<rparr>) \<and>
    vec_bytes vs = map (byte_at (sample_volume\<lparr>nodes := [7 \<mapsto> sample_vnode\<lparr>vn_vnid := 7, vn_cluster := 2, vn_mode := 0, vn_st_size := 3000\<rparr>]\<rparr>) [2, 3, 4]) [600..<q] \<and>
    good_vecs vs \<and> 600 < q \<and> q \<le> 3072 \<and> (r = B_OK \<and> 1600 \<le> q \<or> r = B_BUFFER_OVERFLOW \<and> length vs = 4 \<and> q < 1600)"
proof -
  let ?n = "sample_vnode\<lparr>vn_vnid := 7, vn_cluster := 2, vn_mode := 0, vn_st_size := 3000\<rparr>"
  let ?v = "sample_volume\<lparr>nodes := [7 \<mapsto> ?n]\<rparr>"
  have same: "same_fat sample_volume ?v" by (simp add: same_fat_def)
  have "fat_ok ?v" "fat_chain ?v [2, 3, 4]" using same_fat_laws [OF same] sample_chain by simp_all
  moreover have "spc_ok ?v" "file_sectors ?v [2, 3, 4] = 6" "bps ?v = 512"
    by (simp_all add: spc_ok_def file_sectors_def bps_def sample_volume_def)
  moreover have "deref ?v 7 = ?n" by (simp add: deref_def vnode_at_def sample_volume_def sample_vnode_def)
  ultimately show ?thesis
    using dosfs_get_file_map_correct [of ?v "[2, 3, 4]" 7 600 1000 4] by simp
qed

end
