(* ===== verification/Extent_Properties.thy ===== *)
theory Extent_Properties
  imports Extent_Map File_Map
begin

section \<open>Properties of file maps\<close>

text \<open>
  A file map as the list of its extents: the array operations, the search, and what the extents say about the
  places of the bytes of a file.
\<close>

declare vec_bytes_simps(2) [simp del]

subsection \<open>The array as a list\<close>

definition live :: "file_map \<Rightarrow> file_extent list" where
  "live m = take (fCount m) (extents m)"

definition store_ok :: "file_map \<Rightarrow> bool" where
  "store_ok m \<longleftrightarrow>
     (case fStore m of
        Direct array \<Rightarrow> fCount m \<le> 2 \<and> length array = 2
      | Indirect array n \<Rightarrow> 2 < fCount m \<and> length array = n \<and> fCount m \<le> n)"

lemmas map_defs = live_def store_ok_def extents_def CACHED_FILE_EXTENTS_def

lemma live_length [simp]: "store_ok m \<Longrightarrow> length (live m) = fCount m"
  by (auto simp: map_defs split: extent_store.splits)

lemma live_nth: "store_ok m \<Longrightarrow> i < fCount m \<Longrightarrow> extent m i = live m ! i"
  by (simp add: live_def)

lemma put_extent_live:
  assumes "store_ok m" "i < fCount m"
  shows "store_ok (put_extent i e m)" "live (put_extent i e m) = (live m)[i := e]" "fCount (put_extent i e m) = fCount m"
  using assms by (auto simp: map_defs put_extent_def take_update_swap split: extent_store.splits)

lemma put_extent_other [simp]:
  "fSize (put_extent i e m) = fSize m" "fCacheAll (put_extent i e m) = fCacheAll m" "fRealloc (put_extent i e m) = fRealloc m"
  by (simp_all add: put_extent_def)

lemma grow_count_ge: "0 < n \<Longrightarrow> count \<le> grow_count n count"
  by (induction n count rule: grow_count.induct) (subst grow_count.simps, auto)

text \<open>Making the array shorter never fails; making it longer may, and adds cells with unknown contents.\<close>

lemma MakeSpace_shorter:
  assumes "store_ok m" "c \<le> fCount m"
  shows "\<exists>m'. MakeSpace c m = (B_OK, m') \<and> store_ok m' \<and> fCount m' = c \<and> live m' = take c (live m) \<and>
    fSize m' = fSize m \<and> fCacheAll m' = fCacheAll m \<and> fRealloc m' = fRealloc m"
proof (cases "c \<le> 2")
  case True
  then show ?thesis using assms by (auto simp: MakeSpace_def map_defs Let_def min_def split: extent_store.splits)
next
  case False
  then obtain array n where "fStore m = Indirect array n" using assms by (auto simp: map_defs split: extent_store.splits)
  then show ?thesis using assms False by (auto simp: MakeSpace_def map_defs max_count_def Let_def min_def)
qed

lemma MakeSpace_longer:
  assumes "store_ok m" "fCount m \<le> c"
  shows "case MakeSpace c m of (st, m') \<Rightarrow> store_ok m' \<and> fSize m' = fSize m \<and> fCacheAll m' = fCacheAll m \<and>
    (if st = B_OK then fCount m' = c \<and> take (fCount m) (live m') = live m \<and> (fRealloc m = [] \<longrightarrow> fRealloc m' = [])
     else st = ENOMEM \<and> fRealloc m \<noteq> [] \<and> live m' = live m)"
proof (cases "c \<le> 2")
  case True
  then show ?thesis using assms by (auto simp: MakeSpace_def map_defs Let_def min_def split: extent_store.splits)
next
  case big: False
  let ?old = "if fCount m > 2 then extents m else []" and ?max = "if fCount m > 2 then max_count m else 2"
  show ?thesis
  proof (cases "c > ?max")
    case False
    then obtain array n where "fStore m = Indirect array n" "fCount m > 2"
      using assms big by (auto simp: map_defs max_count_def split: extent_store.splits if_split_asm)
    then show ?thesis using assms False big by (auto simp: MakeSpace_def map_defs max_count_def Let_def min_def)
  next
    case True
    obtain ok m1 where r: "realloc m = (ok, m1)" by (cases "realloc m")
    have m1: "fStore m1 = fStore m" "fCount m1 = fCount m" "fSize m1 = fSize m" "fCacheAll m1 = fCacheAll m"
      "fRealloc m = [] \<longrightarrow> ok \<and> fRealloc m1 = []"
      using r by (auto simp: realloc_def split: list.splits)
    have same: "extents m1 = extents m" "live m1 = live m" "store_ok m1 = store_ok m"
      by (simp_all only: live_def extents_def store_ok_def m1(1,2))
    let ?n = "grow_count ?max c"
    let ?array = "?old @ replicate (?n - length ?old) no_extent"
    let ?new = "if fCount m > 0 \<and> fCount m \<le> 2 then take (fCount m) (extents m) @ drop (fCount m) ?array else ?array"
    have "0 < ?max" using assms(1) by (auto simp: map_defs max_count_def split: extent_store.splits)
    then have n: "c \<le> ?n" by (rule grow_count_ge)
    have old: "length ?old \<le> c" using assms True by (auto simp: map_defs max_count_def split: extent_store.splits)
    have d: "fCount m \<le> 2 \<Longrightarrow> length (extents m) = 2" using assms(1) by (auto simp: map_defs split: extent_store.splits)
    have len: "length ?new = ?n" using n old assms(2) d by (auto simp: min_def)
    have "fCount m > 2 \<Longrightarrow> fCount m \<le> length (extents m)" using assms(1) by (auto simp: map_defs split: extent_store.splits)
    then have pre: "take (fCount m) ?new = live m" using d by (auto simp: live_def min_def)
    have "MakeSpace c m = (if \<not> ok then (ENOMEM, m1) else (B_OK, m1\<lparr>fStore := Indirect ?new ?n, fCount := c\<rparr>))"
      using big True r by (cases "fCount m > 2") (simp_all add: MakeSpace_def Let_def CACHED_FILE_EXTENTS_def m1 same)
    then show ?thesis
      using m1 same assms len pre n big by (cases ok) (auto simp: map_defs min_def status)
  qed
qed

subsection \<open>The extents of a file\<close>

text \<open>Extents that cover a file from \<open>off\<close> on without a gap, and where they end.\<close>

fun chained :: "int \<Rightarrow> file_extent list \<Rightarrow> bool" where
  "chained off [] \<longleftrightarrow> True"
| "chained off (e # es) \<longleftrightarrow> ext_offset e = off \<and> 0 < snd (ext_disk e) \<and> 0 \<le> fst (ext_disk e) \<and> chained (ext_end e) es"

definition chain_end :: "file_extent list \<Rightarrow> int" where
  "chain_end es = (if es = [] then 0 else ext_end (last es))"

lemma chained_append: "chained off (es @ fs) \<longleftrightarrow> chained off es \<and> chained (if es = [] then off else ext_end (last es)) fs"
  by (induction es arbitrary: off) auto

lemma chained_take: "chained off es \<Longrightarrow> chained off (take n es)"
  by (metis append_take_drop_id chained_append)

text \<open>Taking in one more vector, as \<open>_Add\<close> does.\<close>

definition absorb :: "file_extent list \<Rightarrow> file_io_vec \<Rightarrow> file_extent list" where
  "absorb es vec =
     (if es \<noteq> [] \<and> continues (last es) vec
      then butlast es @ [(last es)\<lparr>ext_disk := (fst (ext_disk (last es)), snd (ext_disk (last es)) + snd vec)\<rparr>]
      else es @ [\<lparr>ext_offset = chain_end es, ext_disk = vec\<rparr>])"

lemma absorb_end: "chain_end (absorb es vec) = chain_end es + snd vec"
  by (simp add: absorb_def chain_end_def ext_end_def)

lemma absorb_ne: "absorb es vec \<noteq> []"
  by (simp add: absorb_def)

lemma absorb_chained:
  assumes "chained 0 es" "0 < snd vec" "0 \<le> fst vec"
  shows "chained 0 (absorb es vec)"
proof (cases es rule: rev_cases)
  case (snoc fs e)
  then show ?thesis using assms by (auto simp: absorb_def chained_append chain_end_def)
qed (use assms in \<open>simp add: absorb_def chain_end_def\<close>)

text \<open>The places of the bytes that extents cover.\<close>

definition extent_places :: "file_extent list \<Rightarrow> int list" where
  "extent_places es = vec_bytes (map ext_disk es)"

lemma vec_bytes_append: "vec_bytes (xs @ ys) = vec_bytes xs @ vec_bytes ys"
  by (simp add: vec_bytes_def)

lemma vec_bytes_joined:
  assumes "0 \<le> k" "0 \<le> l"
  shows "vec_bytes [(a, k + l)] = vec_bytes [(a, k)] @ vec_bytes [(a + k, l)]"
proof -
  have "[0..<nat (k + l)] = [0..<nat k] @ map (\<lambda>i. i + nat k) [0..<nat l]"
    using assms upt_add_eq_append [of 0 "nat k" "nat l"] by (simp add: nat_add_distrib map_add_upt add.commute)
  then show ?thesis using assms(1) by (simp add: comp_def add.assoc add.commute)
qed

lemma absorb_places:
  assumes "chained 0 es" "0 < snd vec" "0 \<le> fst vec"
  shows "extent_places (absorb es vec) = extent_places es @ vec_bytes [vec]"
proof (cases "es \<noteq> [] \<and> continues (last es) vec")
  case True
  obtain fs e where es: "es = fs @ [e]" using True by (cases es rule: rev_cases) auto
  obtain a k where d: "ext_disk e = (a, k)" by (cases "ext_disk e")
  have k: "0 < k" "0 \<le> a" using assms(1) by (auto simp: es chained_append d)
  then have v: "vec = (a + k, snd vec)" using True assms(3) by (cases vec) (auto simp: es d continues_def)
  have "vec_bytes [(a, k + snd vec)] = vec_bytes [(a, k)] @ vec_bytes [vec]"
    using vec_bytes_joined [of k "snd vec" a] k assms(2) by (subst v) simp
  then show ?thesis
    using True by (simp add: absorb_def extent_places_def es d vec_bytes_append del: vec_bytes_simps(3))
next
  case False
  then have "absorb es vec = es @ [\<lparr>ext_offset = chain_end es, ext_disk = vec\<rparr>]" by (simp only: absorb_def if_False)
  then show ?thesis by (simp add: extent_places_def vec_bytes_append del: vec_bytes_simps(3))
qed

definition absorb_all :: "file_extent list \<Rightarrow> file_io_vec list \<Rightarrow> file_extent list" where
  "absorb_all es vecs = fold (\<lambda>vec es. absorb es vec) vecs es"

lemma absorb_all_simps [simp]: "absorb_all es [] = es" "absorb_all es (vec # vecs) = absorb_all (absorb es vec) vecs"
  by (simp_all add: absorb_all_def)

lemma absorb_all_correct:
  "chained 0 es \<Longrightarrow> good_vecs vecs \<Longrightarrow>
     chained 0 (absorb_all es vecs) \<and> extent_places (absorb_all es vecs) = extent_places es @ vec_bytes vecs \<and>
     chain_end (absorb_all es vecs) = chain_end es + sum_list (map snd vecs)"
proof (induction vecs arbitrary: es)
  case (Cons vec vecs)
  have v: "0 < snd vec" "0 \<le> fst vec" "good_vecs vecs" using Cons.prems(2) by (simp_all add: good_vecs_def)
  show ?case
    using Cons.IH [OF absorb_chained [OF Cons.prems(1) v(1,2)] v(3)] absorb_places [OF Cons.prems(1) v(1,2)]
    by (simp add: absorb_end vec_bytes_simps(2) [of vec vecs] del: vec_bytes_simps(3))
qed simp

lemma extent_places_length: "chained off es \<Longrightarrow> int (length (extent_places es)) = (if es = [] then 0 else ext_end (last es) - off)"
  by (induction es arbitrary: off) (auto simp: extent_places_def vec_bytes_def ext_end_def case_prod_beta)

subsection \<open>Adding vectors\<close>

lemma add_loop_absorbs:
  assumes "store_ok m" "fCount m = start + length vecs" "last' = (if start = 0 then None else Some (start - 1))"
    "offset = chain_end (take start (live m))"
  shows "\<exists>m'. add_loop m start last' offset vecs = (m', chain_end (live m')) \<and> store_ok m' \<and>
    live m' = absorb_all (take start (live m)) vecs \<and> fSize m' = fSize m \<and> fCacheAll m' = fCacheAll m \<and>
    fRealloc m' = fRealloc m"
  using assms
proof (induction vecs arbitrary: m start last' offset)
  case Nil
  then show ?case by simp
next
  case (Cons vec vecs)
  let ?es = "take start (live m)"
  have n: "start < fCount m" "length ?es = start" using Cons.prems by simp_all
  show ?case
  proof (cases "start \<noteq> 0 \<and> continues (last ?es) vec")
    case True
    let ?i = "start - 1"
    let ?e = "last ?es"
    have ne: "?es \<noteq> []" using True n(2) by fastforce
    then have "last ?es = live m ! ?i" using True n(2) last_conv_nth [OF ne] by (simp only: nth_take diff_less) (simp?)
    then have i: "?i < fCount m" "extent m ?i = ?e" "?es \<noteq> []"
      using n(1) ne live_nth [OF Cons.prems(1), of ?i] by simp_all
    let ?m1 = "put_extent ?i (?e\<lparr>ext_disk := (fst (ext_disk ?e), snd (ext_disk ?e) + snd vec)\<rparr>) m"
    note m1 = put_extent_live [OF Cons.prems(1) i(1)]
    have "fCount m - 1 \<le> fCount ?m1" using m1(3) by simp
    then obtain m2 where m2: "MakeSpace (fCount m - 1) ?m1 = (B_OK, m2)" "store_ok m2" "fCount m2 = fCount m - 1"
      "live m2 = take (fCount m - 1) (live ?m1)" "fSize m2 = fSize m" "fCacheAll m2 = fCacheAll m" "fRealloc m2 = fRealloc m"
      using MakeSpace_shorter [OF m1(1)] by fastforce
    let ?e' = "?e\<lparr>ext_disk := (fst (ext_disk ?e), snd (ext_disk ?e) + snd vec)\<rparr>"
    have "?es = butlast ?es @ [?e]" "length (butlast ?es) = ?i" using ne n(2) by simp_all
    then have "?es[?i := ?e'] = butlast ?es @ [?e']" by (metis list_update_length)
    moreover have "take start (live m2) = ?es[?i := ?e']"
      using Cons.prems(2) m1(2) m2(4) by (simp add: take_update_swap min_def)
    ultimately have "take start (live m2) = butlast ?es @ [?e']" by simp
    then have es: "take start (live m2) = absorb ?es vec" using True i(3) by (simp add: absorb_def)
    have last2: "ExtentAt m2 (start - 1) = Some (start - 1)" using Cons.prems(2) True m2(3) by (auto simp: ExtentAt_def)
    have "add_loop m start last' offset (vec # vecs) = add_loop m2 start (Some (start - 1)) (offset + snd vec) vecs"
      using True Cons.prems(3) i(2) m2(1) last2 m1(3) by (simp add: Let_def)
    then show ?thesis
      using Cons.IH [of m2 start "Some (start - 1)" "offset + snd vec"] m2 Cons.prems es True absorb_end [of ?es vec] by simp
  next
    case False
    let ?m1 = "put_extent start \<lparr>ext_offset = offset, ext_disk = vec\<rparr> m"
    note m1 = put_extent_live [OF Cons.prems(1) n(1)]
    have es: "take (start + 1) (live ?m1) = absorb ?es vec"
      using False n live_length [OF Cons.prems(1)] Cons.prems(4) unfolding m1(2)
      by (auto simp: absorb_def take_Suc_conv_app_nth simp flip: Suc_eq_plus1)
    have "add_loop m start last' offset (vec # vecs) = add_loop ?m1 (start + 1) (Some start) (offset + snd vec) vecs"
    proof (cases "start = 0")
      case pos: False
      then have ne: "?es \<noteq> []" using n(2) by fastforce
      then have "last ?es = live m ! (start - 1)" using pos n(2) last_conv_nth [OF ne] by (simp only: nth_take diff_less) (simp?)
      then have "extent m (start - 1) = last ?es" using n(1) live_nth [OF Cons.prems(1), of "start - 1"] by simp
      then show ?thesis using False pos Cons.prems(3) by simp
    qed (use Cons.prems(3) in simp)
    then show ?thesis
      using Cons.IH [of ?m1 "start + 1" "Some start" "offset + snd vec"] m1 Cons.prems es absorb_end [of ?es vec] by simp
  qed
qed

text \<open>What a file map says about a file whose bytes are at \<open>P 0\<close>, \<open>P 1\<close> and so on.\<close>

definition map_ok :: "(nat \<Rightarrow> int) \<Rightarrow> file_map \<Rightarrow> bool" where
  "map_ok P m \<longleftrightarrow> store_ok m \<and> chained 0 (live m) \<and> extent_places (live m) = map P [0..<nat (map_end m)]"

lemma map_end_live:
  assumes "store_ok m"
  shows "map_end m = chain_end (live m)"
proof (cases "fCount m = 0")
  case True
  then show ?thesis by (simp add: map_end_def chain_end_def live_def)
next
  case False
  then have "live m \<noteq> []" using live_length [OF assms] by fastforce
  then show ?thesis
    using False live_nth [OF assms, of "fCount m - 1"] live_length [OF assms] by (simp add: map_end_def chain_end_def last_conv_nth)
qed

lemma chain_end_length:
  assumes "chained 0 es"
  shows "chain_end es = int (length (extent_places es))"
  unfolding extent_places_length [OF assms] by (simp add: chain_end_def)

lemma map_end_nonneg:
  assumes "map_ok P m"
  shows "0 \<le> map_end m"
proof -
  have "store_ok m" "chained 0 (live m)" using assms by (simp_all add: map_ok_def)
  then show ?thesis unfolding map_end_live [OF \<open>store_ok m\<close>] chain_end_length [OF \<open>chained 0 (live m)\<close>] by simp
qed

lemma Add_correct:
  assumes "map_ok P m" "good_vecs vecs" "vec_bytes vecs = map P [nat (map_end m)..<q]" "nat (map_end m) \<le> q"
  shows "case Add m vecs l of (st, l', m') \<Rightarrow> map_ok P m' \<and> fSize m' = fSize m \<and> fCacheAll m' = fCacheAll m \<and>
    (if st = B_OK then l' = map_end m' \<and> map_end m' = int q \<and> (fRealloc m = [] \<longrightarrow> fRealloc m' = [])
     else st = ENOMEM \<and> fRealloc m \<noteq> [])"
proof -
  have ok: "store_ok m" "chained 0 (live m)" "extent_places (live m) = map P [0..<nat (map_end m)]"
    using assms(1) by (simp_all add: map_ok_def)
  obtain st m1 where ms: "MakeSpace (fCount m + length vecs) m = (st, m1)" by (cases "MakeSpace (fCount m + length vecs) m")
  note m1 = MakeSpace_longer [OF ok(1), of "fCount m + length vecs", unfolded ms, simplified]
  show ?thesis
  proof (cases "st = B_OK")
    case False
    then have "map_ok P m1" using m1 ok by (simp add: map_ok_def map_end_live)
    then show ?thesis using False m1 by (simp add: Add_def ms Let_def)
  next
    case True
    let ?n = "fCount m"
    have c: "fCount m1 = ?n + length vecs" "take ?n (live m1) = live m" using m1 True by simp_all
    let ?last = "if ?n = 0 then None else Some (?n - 1)"
    have "0 < ?n \<Longrightarrow> extent m1 (?n - 1) = live m ! (?n - 1)"
      using live_nth [of m1 "?n - 1"] m1 c by (metis add.commute diff_less less_numeral_extra(1) nth_take trans_less_add2)
    then have off: "(case ?last of None \<Rightarrow> 0 | Some i \<Rightarrow> ext_end (extent m1 i)) = chain_end (take ?n (live m1))"
      using live_length [OF ok(1)] by (auto simp: c(2) chain_end_def last_conv_nth)
    have last: "(if ?n \<noteq> 0 then ExtentAt m1 (?n - 1) else None) = ?last" by (auto simp: ExtentAt_def c)
    obtain m2 where m2: "add_loop m1 ?n ?last (chain_end (take ?n (live m1))) vecs = (m2, chain_end (live m2))" "store_ok m2"
      "live m2 = absorb_all (live m) vecs" "fSize m2 = fSize m" "fCacheAll m2 = fCacheAll m" "fRealloc m2 = fRealloc m1"
      using add_loop_absorbs [of m1 ?n vecs ?last] m1 c by auto
    have add: "Add m vecs l = (B_OK, chain_end (live m2), m2)" by (simp only: Add_def ms True Let_def prod.case last off m2(1)) simp
    note abs = absorb_all_correct [OF ok(2) assms(2)]
    have places: "extent_places (live m2) = map P [0..<q]"
      using abs assms(3,4) ok(3) upt_add_eq_append [of 0 "nat (map_end m)" "q - nat (map_end m)"] by (simp add: m2(3))
    have "chain_end (live m2) = int q" using abs places chain_end_length [of "live m2"] by (simp add: m2(3))
    then show ?thesis using abs places m1 m2 True by (simp add: add map_ok_def map_end_live)
  qed
qed

subsection \<open>Searching\<close>

lemma chained_nth:
  "chained off es \<Longrightarrow> i < length es \<Longrightarrow> 0 < snd (ext_disk (es ! i)) \<and> 0 \<le> fst (ext_disk (es ! i)) \<and> off \<le> ext_offset (es ! i)"
  by (induction es arbitrary: off i) (force simp: nth_Cons ext_end_def split: nat.splits)+

lemma chained_before: "chained off es \<Longrightarrow> i < j \<Longrightarrow> j < length es \<Longrightarrow> ext_end (es ! i) \<le> ext_offset (es ! j)"
proof (induction es arbitrary: off i j)
  case (Cons e es)
  then show ?case using chained_nth [of "ext_end e" es "j - 1"] by (cases i; cases j) auto
qed simp

lemma chained_next: "chained off es \<Longrightarrow> Suc i < length es \<Longrightarrow> ext_offset (es ! Suc i) = ext_end (es ! i)"
proof (induction es arbitrary: off i)
  case (Cons e es)
  then show ?case using Cons.IH [of "ext_end e" "i - 1"] by (cases i; cases es) auto
qed simp

definition contains :: "file_extent \<Rightarrow> int \<Rightarrow> bool" where
  "contains e x \<longleftrightarrow> ext_offset e \<le> x \<and> x < ext_end e"

lemma chained_covers: "chained off es \<Longrightarrow> es \<noteq> [] \<Longrightarrow> off \<le> x \<Longrightarrow> x < ext_end (last es) \<Longrightarrow> \<exists>i<length es. contains (es ! i) x"
proof (induction es arbitrary: off)
  case (Cons e es)
  show ?case
  proof (cases "x < ext_end e")
    case True
    then show ?thesis using Cons.prems by (intro exI [of _ 0]) (simp add: contains_def)
  next
    case False
    then have "es \<noteq> []" using Cons.prems(4) by auto
    then obtain i where "i < length es" "contains (es ! i) x" using Cons.IH [of "ext_end e"] Cons.prems False by auto
    then show ?thesis by (intro exI [of _ "Suc i"]) simp
  qed
qed simp

lemma find_loop_correct:
  "store_ok m \<Longrightarrow> chained 0 (live m) \<Longrightarrow> 0 \<le> left \<Longrightarrow> right < int (fCount m) \<Longrightarrow>
    (\<And>i. i < fCount m \<Longrightarrow> contains (live m ! i) x \<Longrightarrow> left \<le> int i \<and> int i \<le> right) \<Longrightarrow>
    (case find_loop m x left right of
       Some i \<Rightarrow> i < fCount m \<and> contains (live m ! i) x
     | None \<Rightarrow> \<forall>i<fCount m. \<not> contains (live m ! i) x)"
proof (induction m x left right rule: find_loop.induct)
  case (1 m x left right)
  show ?case
  proof (cases "left \<le> right")
    case True
    define i where "i = nat ((left + right) div 2)"
    have i: "left \<le> int i" "int i \<le> right" "i < fCount m" "(left + right) div 2 = int i" using True "1.prems"(3,4) by (auto simp: i_def)
    have e: "extent m i = live m ! i" by (rule live_nth [OF "1.prems"(1) i(3)])
    have len: "length (live m) = fCount m" using "1.prems"(1) by simp
    have before: "j < k \<Longrightarrow> k < fCount m \<Longrightarrow> ext_end (live m ! j) \<le> ext_offset (live m ! k)" for j k
      using chained_before [OF "1.prems"(2), of j k] len by simp
    have pos: "j < fCount m \<Longrightarrow> ext_offset (live m ! j) < ext_end (live m ! j)" for j
      using chained_nth [OF "1.prems"(2), of j] len by (simp add: ext_end_def)
    consider "x < ext_offset (extent m i)" | "ext_end (extent m i) \<le> x" | "contains (extent m i) x" unfolding contains_def by linarith
    then show ?thesis
    proof cases
      case 1
      have "left \<le> int j \<and> int j \<le> int i - 1" if j: "j < fCount m" "contains (live m ! j) x" for j
      proof -
        have "j \<noteq> i" using j 1 e by (auto simp: contains_def)
        moreover have "\<not> i < j" using before [of i j] pos [OF i(3)] j 1 e by (auto simp: contains_def)
        ultimately show ?thesis using "1.prems"(5) [OF j] by linarith
      qed
      then show ?thesis
        using "1.IH"(1) [OF True i(4) [symmetric], of "extent m i"] "1.prems"(1-4) 1 True i
        by (subst find_loop.simps) (simp add: Let_def)
    next
      case 2
      have "int i + 1 \<le> int j \<and> int j \<le> right" if j: "j < fCount m" "contains (live m ! j) x" for j
      proof -
        have "j \<noteq> i" using j 2 e by (auto simp: contains_def)
        moreover have "\<not> j < i" using before [of j i] pos [OF i(3)] i(3) j 2 e by (auto simp: contains_def)
        ultimately show ?thesis using "1.prems"(5) [OF j] by linarith
      qed
      moreover have "\<not> ext_offset (extent m i) > x" using 2 pos [OF i(3)] e by simp
      ultimately show ?thesis
        using "1.IH"(2) [OF True i(4) [symmetric], of "extent m i"] "1.prems"(1-4) 2 True i
        by (subst find_loop.simps) (simp add: Let_def)
    next
      case 3
      then have "find_loop m x left right = Some i"
        using True i by (subst find_loop.simps) (simp add: Let_def contains_def)
      then show ?thesis using 3 e i(3) by simp
    qed
  next
    case False
    then show ?thesis using "1.prems"(5) by (subst find_loop.simps) force
  qed
qed

lemma FindExtent_correct:
  assumes "store_ok m" "chained 0 (live m)"
  shows "case FindExtent m x of Some i \<Rightarrow> i < fCount m \<and> contains (live m ! i) x | None \<Rightarrow> \<forall>i<fCount m. \<not> contains (live m ! i) x"
  unfolding FindExtent_def by (rule find_loop_correct [OF assms]) auto

lemma FindExtent_covered:
  assumes "map_ok P m" "0 \<le> x" "x < map_end m"
  obtains i where "FindExtent m x = Some i" "i < fCount m" "contains (live m ! i) x"
proof -
  have ok: "store_ok m" "chained 0 (live m)" using assms(1) by (simp_all add: map_ok_def)
  have "live m \<noteq> []" "x < ext_end (last (live m))" using assms(2,3) ok(1) by (auto simp: map_end_live chain_end_def split: if_split_asm)
  then obtain i where "i < fCount m" "contains (live m ! i) x" using chained_covers [OF ok(2) _ assms(2)] ok(1) by auto
  then show ?thesis using FindExtent_correct [OF ok, of x] that by (cases "FindExtent m x") auto
qed

subsection \<open>The places of a part of the file\<close>

text \<open>Where the bytes of one extent are.\<close>

lemma extent_place:
  assumes "chained off es" "i < length es" "extent_places es = map P [nat off..<nat off + length (extent_places es)]" "0 \<le> off"
    "j < nat (snd (ext_disk (es ! i)))"
  shows "P (nat (ext_offset (es ! i)) + j) = fst (ext_disk (es ! i)) + int j"
  using assms
proof (induction es arbitrary: off i)
  case (Cons e es)
  let ?l = "nat (snd (ext_disk e))"
  have e: "ext_offset e = off" "0 < snd (ext_disk e)" "chained (ext_end e) es" "nat (ext_end e) = nat off + ?l" "0 \<le> ext_end e"
    using Cons.prems(1,4) by (auto simp: ext_end_def nat_add_distrib)
  have v: "extent_places (e # es) = vec_bytes [ext_disk e] @ extent_places es"
    unfolding extent_places_def list.map by (rule vec_bytes_simps(2))
  have d: "vec_bytes [ext_disk e] = map (\<lambda>j. fst (ext_disk e) + int j) [0..<?l]" by (cases "ext_disk e") simp
  have "map P [nat off..<nat off + length (extent_places (e # es))] =
      map P [nat off..<nat off + ?l] @ map P [nat off + ?l..<nat off + ?l + length (extent_places es)]"
    using upt_add_eq_append [of "nat off" "nat off + ?l" "length (extent_places es)"] unfolding v d by (simp add: add.assoc)
  then have parts: "vec_bytes [ext_disk e] = map P [nat off..<nat off + ?l]"
    "extent_places es = map P [nat (ext_end e)..<nat (ext_end e) + length (extent_places es)]"
    using Cons.prems(3) unfolding v e(4) by (simp_all add: d)
  show ?case
  proof (cases i)
    case 0
    have "vec_bytes [ext_disk e] ! j = map P [nat off..<nat off + ?l] ! j" using parts(1) by simp
    then show ?thesis using Cons.prems(5) 0 e(1) by (simp add: d)
  next
    case (Suc k)
    then show ?thesis using Cons.IH [OF e(3) _ parts(2) e(5), of k] Cons.prems(2,5) by simp
  qed
qed simp

lemma map_ok_place:
  assumes "map_ok P m" "i < fCount m" "e = live m ! i" "0 \<le> x" "0 \<le> k" "x + k \<le> snd (ext_disk e)"
  shows "vec_bytes [(fst (ext_disk e) + x, k)] = map P [nat (ext_offset e + x)..<nat (ext_offset e + x + k)]"
proof -
  have ok: "store_ok m" "chained 0 (live m)" "extent_places (live m) = map P [0..<nat (map_end m)]"
    using assms(1) by (simp_all add: map_ok_def)
  have "length (extent_places (live m)) = nat (map_end m)" using ok(3) by simp
  then have all: "extent_places (live m) = map P [nat 0..<nat 0 + length (extent_places (live m))]" using ok(3) by simp
  have i: "i < length (live m)" using assms(2) ok(1) by simp
  have "0 \<le> ext_offset e" using chained_nth [OF ok(2) i] assms(3) by simp
  then have n: "nat (ext_offset e + x) = nat (ext_offset e) + nat x" "nat (ext_offset e + x + k) = nat (ext_offset e) + nat x + nat k"
    using assms(4,5) by (simp_all add: nat_add_distrib)
  have "P (nat (ext_offset e) + (nat x + j)) = fst (ext_disk e) + int (nat x + j)" if "j < nat k" for j
    unfolding assms(3) by (rule extent_place [OF ok(2) i all]) (use that assms(3-6) in auto)
  then show ?thesis
    using assms(4) unfolding n by (auto intro!: nth_equalityI simp: add.assoc)
qed

lemma extent_range:
  assumes "map_ok P m" "i < fCount m"
  shows "0 \<le> ext_offset (live m ! i)" "0 < snd (ext_disk (live m ! i))" "0 \<le> fst (ext_disk (live m ! i))"
    "ext_end (live m ! i) \<le> map_end m" "ext_end (live m ! i) < map_end m \<Longrightarrow> i + 1 < fCount m"
    "i + 1 < fCount m \<Longrightarrow> ext_offset (live m ! (i + 1)) = ext_end (live m ! i)"
proof -
  have ok: "store_ok m" "chained 0 (live m)" using assms(1) by (simp_all add: map_ok_def)
  have len: "length (live m) = fCount m" using ok(1) by simp
  show pos: "0 \<le> ext_offset (live m ! i)" "0 < snd (ext_disk (live m ! i))" "0 \<le> fst (ext_disk (live m ! i))"
    using chained_nth [OF ok(2), of i] assms(2) len by simp_all
  show next': "ext_offset (live m ! (i + 1)) = ext_end (live m ! i)" if "i + 1 < fCount m"
    using chained_next [OF ok(2), of i] that len by simp
  have last: "map_end m = ext_end (live m ! (fCount m - 1))"
    using live_nth [OF ok(1), of "fCount m - 1"] assms(2) by (simp add: map_end_def)
  then show "i + 1 < fCount m" if "ext_end (live m ! i) < map_end m" using that assms(2) by (cases "i = fCount m - 1") auto
  show "ext_end (live m ! i) \<le> map_end m"
  proof (cases "i = fCount m - 1")
    case False
    then have "ext_end (live m ! i) \<le> ext_offset (live m ! (fCount m - 1))"
      using chained_before [OF ok(2), of i "fCount m - 1"] assms(2) len by simp
    moreover have "0 < snd (ext_disk (live m ! (fCount m - 1)))" using chained_nth [OF ok(2), of "fCount m - 1"] assms(2) len by simp
    ultimately show ?thesis unfolding last by (simp add: ext_end_def)
  qed (simp add: last)
qed

text \<open>
  Vectors that name the bytes from \<open>a\<close> to \<open>c\<close>, or, when the array is full, a part of them from \<open>a\<close> on.
\<close>

definition names :: "(nat \<Rightarrow> int) \<Rightarrow> nat \<Rightarrow> nat \<Rightarrow> bool \<Rightarrow> status_t \<Rightarrow> file_io_vec list \<Rightarrow> bool" where
  "names P a c full st vecs \<longleftrightarrow> good_vecs vecs \<and>
     (st = B_OK \<and> vec_bytes vecs = map P [a..<c] \<or>
      st = B_BUFFER_OVERFLOW \<and> full \<and> (\<exists>q. a < q \<and> q < c \<and> vec_bytes vecs = map P [a..<q]))"

lemma names_Cons:
  assumes "names P b c full st vs" "vec_bytes [vec] = map P [a..<b]" "a < b" "b \<le> c" "good_vecs [vec]"
  shows "names P a c full st (vec # vs)"
proof -
  have cat: "vec_bytes (vec # vs) = map P [a..<q]" if "vec_bytes vs = map P [b..<q]" "b \<le> q" for q
    using assms(2,3) that upt_add_eq_append [of a b "q - b"] unfolding vec_bytes_simps(2) [of vec vs] by simp
  have good: "good_vecs (vec # vs)" using assms(1,5) by (simp add: names_def good_vecs_def)
  from assms(1) consider "st = B_OK" "vec_bytes vs = map P [b..<c]"
    | q where "st = B_BUFFER_OVERFLOW" full "b < q" "q < c" "vec_bytes vs = map P [b..<q]" by (auto simp: names_def)
  then show ?thesis
  proof cases
    case 1
    then show ?thesis using cat [of c] good assms(4) by (simp add: names_def)
  next
    case 2
    then have "vec_bytes (vec # vs) = map P [a..<q]" "a < q" using cat [of q] assms(3) by simp_all
    then show ?thesis using good 2 unfolding names_def by blast
  qed
qed

text \<open>The loop that copies the extents behind the first one.\<close>

lemma copy_loop_correct:
  assumes "map_ok P m"
  shows "index < fCount m \<Longrightarrow> 0 < sz \<Longrightarrow> x = ext_end (live m ! index) \<Longrightarrow> x + sz \<le> map_end m \<Longrightarrow> length vecs < maxVecs \<Longrightarrow>
    \<exists>st vs. copy_loop m index sz 0 maxVecs vecs = Inr (st, vecs @ vs) \<and>
      names P (nat x) (nat (x + sz)) (length (vecs @ vs) = maxVecs) st vs"
proof (induction "fCount m - index" arbitrary: index sz x vecs rule: less_induct)
  case less
  have ok: "store_ok m" using assms by (simp add: map_ok_def)
  note r = extent_range [OF assms less.prems(1)]
  have n: "index + 1 < fCount m" using r(5) less.prems by simp
  let ?e = "live m ! (index + 1)"
  note r' = extent_range [OF assms n]
  have e: "extent m (index + 1) = ?e" "ext_offset ?e = x" using live_nth [OF ok n] r(6) [OF n] less.prems(3) by simp_all
  obtain a l where d: "ext_disk ?e = (a, l)" by (cases "ext_disk ?e")
  have l: "0 < l" "0 \<le> a" "0 \<le> x" "ext_end ?e = x + l" using r' d e(2) by (simp_all add: ext_end_def)
  have part: "vec_bytes [(a, k)] = map P [nat x..<nat (x + k)]" if "0 \<le> k" "k \<le> l" for k
    using map_ok_place [OF assms n refl, of 0 k] that d e(2) by simp
  have loop: "copy_loop m index sz 0 maxVecs vecs =
      (if sz \<le> l then Inr (B_OK, vecs @ [(a, sz)])
       else if length vecs + 1 \<ge> maxVecs then Inr (B_BUFFER_OVERFLOW, vecs @ [(a, l)])
       else copy_loop m (index + 1) (sz - l) 0 maxVecs (vecs @ [(a, l)]))"
    using n less.prems(5) e(1) d by (subst copy_loop.simps) (simp add: Let_def)
  consider "sz \<le> l" | "l < sz" "length vecs + 1 \<ge> maxVecs" | "l < sz" "length vecs + 1 < maxVecs" by linarith
  then show ?case
  proof cases
    case 1
    then show ?thesis using part [of sz] less.prems(2) l
      by (intro exI [of _ B_OK] exI [of _ "[(a, sz)]"]) (simp add: loop names_def good_vecs_def)
  next
    case 2
    then show ?thesis using part [of l] less.prems(5) l
      by (intro exI [of _ B_BUFFER_OVERFLOW] exI [of _ "[(a, l)]"])
        (auto simp: loop names_def good_vecs_def intro!: exI [of _ "nat (x + l)"])
  next
    case 3
    have "\<exists>st vs. copy_loop m (index + 1) (sz - l) 0 maxVecs (vecs @ [(a, l)]) = Inr (st, (vecs @ [(a, l)]) @ vs) \<and>
        names P (nat (x + l)) (nat (x + l + (sz - l))) (length ((vecs @ [(a, l)]) @ vs) = maxVecs) st vs"
      by (rule less.hyps) (use n 3 l(4) less.prems(4) in auto)
    then obtain st vs where rec: "copy_loop m (index + 1) (sz - l) 0 maxVecs (vecs @ [(a, l)]) = Inr (st, vecs @ (a, l) # vs)"
      "names P (nat (x + l)) (nat (x + sz)) (length (vecs @ (a, l) # vs) = maxVecs) st vs"
      by auto
    have "names P (nat x) (nat (x + sz)) (length (vecs @ (a, l) # vs) = maxVecs) st ((a, l) # vs)"
      by (rule names_Cons [OF rec(2) part [of l]]) (use l 3 in \<open>auto simp: good_vecs_def\<close>)
    moreover have "copy_loop m index sz 0 maxVecs vecs = Inr (st, vecs @ (a, l) # vs)" using 3 rec(1) by (simp add: loop)
    ultimately show ?thesis by blast
  qed
qed

lemma sint64: "- (2 ^ 63) \<le> x \<Longrightarrow> x < 2 ^ 63 \<Longrightarrow> sint (word_of_int x :: 64 word) = x"
  by (simp add: int_word_sint)

text \<open>The sizes that \<open>Translate\<close> works with.\<close>

definition mapped_size :: "file_map \<Rightarrow> int \<Rightarrow> 64 word \<Rightarrow> nat" where
  "mapped_size m offset sz = min (unat sz) (nat (fSize m - offset))"

lemma translate_sizes:
  assumes "0 \<le> offset" "offset < fSize m" "0 < unat sz" "offset + int (unat sz) < 2 ^ 63" "n = mapped_size m offset sz"
  shows "sint (if past_size m offset sz then word_of_int (fSize m - offset) else sz) = int n" "0 < n" "offset + int n \<le> fSize m"
proof -
  have sum: "sint (word_of_int offset + sz) = offset + int (unat sz)"
    using assms(1,4) sint64 [of "offset + int (unat sz)"] uint_ge_0 [of sz] by simp
  let ?sz = "if past_size m offset sz then word_of_int (fSize m - offset) else sz"
  have past: "past_size m offset sz \<longleftrightarrow> fSize m < offset + int (unat sz)" by (simp add: past_size_def sum)
  show n: "0 < n" "offset + int n \<le> fSize m" using assms(2,3,5) by (auto simp: mapped_size_def)
  have "sint sz = int (unat sz)" if "int (unat sz) < 2 ^ 63" using sint64 [of "int (unat sz)"] uint_ge_0 [of sz] that by simp
  note small = this
  show "sint ?sz = int n"
  proof (cases "fSize m < offset + int (unat sz)")
    case True
    then have "nat (fSize m - offset) \<le> unat sz" by linarith
    then have "int n = fSize m - offset" using assms(2,5) by (simp add: mapped_size_def min_def)
    moreover have "sint (word_of_int (fSize m - offset) :: 64 word) = fSize m - offset"
      using sint64 [of "fSize m - offset"] True assms(1,2,4) by linarith
    ultimately show ?thesis using True past by (simp del: of_int_diff)
  next
    case False
    then have "unat sz \<le> nat (fSize m - offset)" by linarith
    then have "n = unat sz" using assms(5) by (simp add: mapped_size_def min_def)
    moreover have "int (unat sz) < 2 ^ 63" using assms(1,4) by linarith
    ultimately show ?thesis using small False past by simp
  qed
qed

text \<open>The result, when the part of the file is in the map.\<close>

lemma Translate_mapped:
  assumes "0 \<le> offset" "offset < fSize m" "0 < unat sz" "offset + int (unat sz) < 2 ^ 63" "n = mapped_size m offset sz"
    "2 \<le> maxVecs" "align \<le> 1" "Cache get_map offset (int n) m s = Inr (B_OK, m', s')" "map_ok P m'" "offset + int n \<le> map_end m'"
  shows "\<exists>st vecs. Translate get_map m offset sz maxVecs align s = Inr (st, vecs, m', s') \<and>
    names P (nat offset) (nat offset + n) (length vecs = maxVecs) st vecs"
proof -
  note sizes = translate_sizes [OF assms(1-5)]
  have pad: "pad_last m offset sz align = 0" using assms(7) by (simp add: pad_last_def)
  obtain i where i: "FindExtent m' offset = Some i" "i < fCount m'" "contains (live m' ! i) offset"
    using FindExtent_covered [OF assms(9,1)] assms(10) sizes(2) by auto
  let ?e = "live m' ! i"
  let ?d = "offset - ext_offset ?e"
  let ?k = "snd (ext_disk ?e) - ?d"
  have ext: "extent m' i = ?e" using assms(9) by (intro live_nth [OF _ i(2)]) (simp add: map_ok_def)
  note r = extent_range [OF assms(9) i(2)]
  have d: "0 \<le> ?d" "0 < ?k" using i(3) by (auto simp: contains_def ext_end_def)
  have vec: "first_vec ?e offset = (fst (ext_disk ?e) + ?d, ?k)" using r(3) by (simp add: first_vec_def)
  have part: "vec_bytes [(fst (ext_disk ?e) + ?d, k)] = map P [nat offset..<nat (offset + k)]" if "0 \<le> k" "k \<le> ?k" for k
    using map_ok_place [OF assms(9) i(2) refl d(1) that(1)] that(2) by simp
  have tr: "Translate get_map m offset sz maxVecs align s =
      (if ?k \<ge> int n then Inr (B_OK, [(fst (ext_disk ?e) + ?d, int n)], m', s')
       else case copy_loop m' i (int n - ?k) 0 maxVecs [first_vec ?e offset] of
              Inl f \<Rightarrow> Inl f | Inr (status, vecs) \<Rightarrow> Inr (status, vecs, m', s'))"
    using assms(1,2,6,8) i(1) by (simp add: Translate_def pad Let_def sizes(1) ext vec)
  show ?thesis
  proof (cases "?k \<ge> int n")
    case True
    have "vec_bytes [(fst (ext_disk ?e) + ?d, int n)] = map P [nat offset..<nat offset + n]"
      using part [of "int n"] True assms(1) by (simp add: nat_add_distrib)
    then show ?thesis using True d r(3) sizes(2) by (simp add: tr names_def good_vecs_def del: vec_bytes_simps(3))
  next
    case False
    have e: "ext_end ?e = offset + ?k" "nat (ext_end ?e + (int n - ?k)) = nat offset + n"
      using assms(1) by (auto simp: ext_end_def nat_add_distrib)
    obtain st vs where cl: "copy_loop m' i (int n - ?k) 0 maxVecs [first_vec ?e offset] = Inr (st, [first_vec ?e offset] @ vs)"
      "names P (nat (ext_end ?e)) (nat offset + n) (length ([first_vec ?e offset] @ vs) = maxVecs) st vs"
      using copy_loop_correct [OF assms(9) i(2), of "int n - ?k" "ext_end ?e" "[first_vec ?e offset]" maxVecs] False assms(6,10) e by auto
    have "names P (nat offset) (nat offset + n) (length (first_vec ?e offset # vs) = maxVecs) st (first_vec ?e offset # vs)"
    proof (rule names_Cons)
      show "names P (nat (ext_end ?e)) (nat offset + n) (length (first_vec ?e offset # vs) = maxVecs) st vs" using cl(2) by simp
      show "vec_bytes [first_vec ?e offset] = map P [nat offset..<nat (ext_end ?e)]" using part [of ?k] d unfolding vec e(1) by simp
      show "nat offset < nat (ext_end ?e)" "nat (ext_end ?e) \<le> nat offset + n" using False d assms(1) unfolding e(1) by linarith+
      show "good_vecs [first_vec ?e offset]" using d r(3) by (simp add: good_vecs_def vec)
    qed
    then show ?thesis using False cl(1) by (simp add: tr)
  qed
qed

text \<open>What is in the map is translated without asking the file system, whatever the file looks like now.\<close>

lemma Cache_mapped: "offset + sz \<le> map_end m \<Longrightarrow> Cache get_map offset sz m s = Inr (B_OK, m, s)"
  by (simp add: Cache_def)

subsection \<open>The interface to the file system\<close>

text \<open>
  What a file map expects of the operation \<open>get_file_map\<close> of a file system: for a position in the file it returns vectors
  that name the places of the bytes from there on, one at least. \<open>ready\<close> is the invariant of the file system.
\<close>

locale map_provider =
  fixes get_map :: "'s get_map" and place :: "nat \<Rightarrow> int" and limit :: nat and ready :: "'s \<Rightarrow> bool"
  assumes answers: "ready s \<Longrightarrow> pos < limit \<Longrightarrow>
    (case get_map (int pos) 8 s of (r, vecs, s') \<Rightarrow> ready s' \<and> (r = B_OK \<or> r = B_BUFFER_OVERFLOW) \<and> good_vecs vecs \<and>
      (\<exists>q>pos. vec_bytes vecs = map place [pos..<q]))"
begin

lemma cache_loop_correct:
  "ready s \<Longrightarrow> map_ok place m \<Longrightarrow> fin \<le> int limit \<Longrightarrow> nat (fin - map_end m) \<le> k \<Longrightarrow>
     \<exists>st m' s'. cache_loop k get_map (map_end m) fin m s = Inr (st, m', s') \<and> ready s' \<and> map_ok place m' \<and>
       fSize m' = fSize m \<and> fCacheAll m' = fCacheAll m \<and> (fRealloc m = [] \<longrightarrow> fRealloc m' = []) \<and>
       (st = B_OK \<and> fin \<le> map_end m' \<or> st = ENOMEM \<and> fRealloc m \<noteq> [])"
proof (induction k arbitrary: m s)
  case (Suc k)
  show ?case
  proof (cases "map_end m < fin")
    case True
    define pos where "pos = nat (map_end m)"
    have pos: "map_end m = int pos" "pos < limit" using map_end_nonneg [OF Suc.prems(2)] True Suc.prems(3) by (auto simp: pos_def)
    obtain r vecs s' where g: "get_map (int pos) 8 s = (r, vecs, s')" by (cases "get_map (int pos) 8 s")
    then obtain q where q: "ready s'" "r = B_OK \<or> r = B_BUFFER_OVERFLOW" "good_vecs vecs" "pos < q" "vec_bytes vecs = map place [pos..<q]"
      using answers [OF Suc.prems(1) pos(2)] by auto
    obtain st l m' where a: "Add m vecs (int pos) = (st, l, m')" by (cases "Add m vecs (int pos)")
    note add = Add_correct [OF Suc.prems(2) q(3), of q "int pos", folded pos_def, OF q(5), unfolded a, simplified]
    have loop: "cache_loop (Suc k) get_map (map_end m) fin m s = (if st = B_OK then cache_loop k get_map l fin m' s' else Inr (st, m', s'))"
      using True q(2) by (simp add: pos(1) g a)
    show ?thesis
    proof (cases "st = B_OK")
      case ok: True
      then have m': "map_ok place m'" "l = map_end m'" "map_end m' = int q" "fRealloc m = [] \<longrightarrow> fRealloc m' = []"
        "fSize m' = fSize m" "fCacheAll m' = fCacheAll m"
        using add q(4) by auto
      have "nat (fin - map_end m') \<le> k" using Suc.prems(4) q(4) pos(1) True by (simp add: m'(3))
      then show ?thesis using Suc.IH [OF q(1) m'(1) Suc.prems(3)] m' unfolding loop ok by fastforce
    next
      case False
      then show ?thesis using add q(1,4) unfolding loop by fastforce
    qed
  next
    case False
    then show ?thesis using Suc.prems by simp
  qed
qed auto

lemma Cache_correct:
  assumes "ready s" "map_ok place m" "offset + sz \<le> int limit"
  shows "\<exists>st m' s'. Cache get_map offset sz m s = Inr (st, m', s') \<and> ready s' \<and> map_ok place m' \<and> fSize m' = fSize m \<and>
    fCacheAll m' = fCacheAll m \<and> (fRealloc m = [] \<longrightarrow> fRealloc m' = []) \<and>
    (st = B_OK \<and> offset + sz \<le> map_end m' \<or> st = ENOMEM \<and> fRealloc m \<noteq> [] \<or> st = B_ERROR \<and> fCacheAll m)"
  using cache_loop_correct [OF assms order.refl] assms(1,2) by (fastforce simp: Cache_def)

lemma Translate_correct:
  assumes "ready s" "map_ok place m" "0 \<le> offset" "offset < fSize m" "fSize m \<le> int limit" "0 < unat sz" "offset + int (unat sz) < 2 ^ 63"
    "2 \<le> maxVecs" "align \<le> 1" "n = mapped_size m offset sz"
  shows "\<exists>st vecs m' s'. Translate get_map m offset sz maxVecs align s = Inr (st, vecs, m', s') \<and> ready s' \<and> map_ok place m' \<and>
    fSize m' = fSize m \<and> fCacheAll m' = fCacheAll m \<and> (fRealloc m = [] \<longrightarrow> fRealloc m' = []) \<and>
    (names place (nat offset) (nat offset + n) (length vecs = maxVecs) st vecs \<or> st = ENOMEM \<and> fRealloc m \<noteq> [] \<or> st = B_ERROR \<and> fCacheAll m)"
proof -
  note sizes = translate_sizes [OF assms(3,4,6,7,10)]
  obtain st m' s' where c: "Cache get_map offset (int n) m s = Inr (st, m', s')" "ready s'" "map_ok place m'" "fSize m' = fSize m"
    "fCacheAll m' = fCacheAll m" "fRealloc m = [] \<longrightarrow> fRealloc m' = []"
    "st = B_OK \<and> offset + int n \<le> map_end m' \<or> st = ENOMEM \<and> fRealloc m \<noteq> [] \<or> st = B_ERROR \<and> fCacheAll m"
    using Cache_correct [OF assms(1,2), of offset "int n"] sizes(3) assms(5) by auto
  show ?thesis
  proof (cases "st = B_OK")
    case False
    then show ?thesis using c assms(3,4) by (auto simp: Translate_def Let_def sizes(1))
  next
    case True
    then have "offset + int n \<le> map_end m'" using c(7) by (auto simp: status)
    then show ?thesis using Translate_mapped [OF assms(3,4,6,7,10,8,9), of get_map s m' s' place] c True by fastforce
  qed
qed

end

subsection \<open>Invalidating\<close>

lemma map_ok_take:
  assumes "map_ok P m" "i < fCount m"
  shows "extent_places (take i (live m)) = map P [0..<nat (ext_offset (live m ! i))]" "chained 0 (take i (live m))"
    "chain_end (take i (live m)) = ext_offset (live m ! i)"
proof -
  have ok: "store_ok m" "chained 0 (live m)" "extent_places (live m) = map P [0..<nat (map_end m)]"
    using assms(1) by (simp_all add: map_ok_def)
  have i: "i < length (live m)" using ok(1) assms(2) by simp
  show ch: "chained 0 (take i (live m))" by (rule chained_take [OF ok(2)])
  show fin: "chain_end (take i (live m)) = ext_offset (live m ! i)"
  proof (cases i)
    case 0
    then show ?thesis using ok(2) i by (cases "live m") (auto simp: chain_end_def)
  next
    case (Suc j)
    then have "last (take i (live m)) = live m ! j" using i by (simp add: take_Suc_conv_app_nth)
    then show ?thesis using chained_next [OF ok(2), of j] i Suc by (auto simp: chain_end_def)
  qed
  have "extent_places (live m) = extent_places (take i (live m)) @ extent_places (drop i (live m))"
    by (simp add: extent_places_def flip: vec_bytes_append map_append)
  then have "extent_places (take i (live m)) = take (length (extent_places (take i (live m)))) (map P [0..<nat (map_end m)])"
    using ok(3) by (metis append_eq_conv_conj)
  moreover have "int (length (extent_places (take i (live m)))) = ext_offset (live m ! i)" using chain_end_length [OF ch] fin by simp
  moreover have "nat (ext_offset (live m ! i)) \<le> nat (map_end m)"
    using extent_range(2,4) [OF assms] by (simp add: ext_end_def)
  ultimately show "extent_places (take i (live m)) = map P [0..<nat (ext_offset (live m ! i))]"
    by (metis nat_int take_map take_upt add_0)
qed

lemma InvalidateAfter_correct:
  assumes "map_ok P m" "0 \<le> k"
  shows "map_ok P (InvalidateAfter k m) \<and> map_end (InvalidateAfter k m) = min k (map_end m) \<and>
    fSize (InvalidateAfter k m) = fSize m \<and> fCacheAll (InvalidateAfter k m) = fCacheAll m"
proof (cases "k < map_end m")
  case False
  have ok: "store_ok m" "chained 0 (live m)" using assms(1) by (simp_all add: map_ok_def)
  have "FindExtent m k = None"
  proof (cases "FindExtent m k")
    case (Some i)
    then have "i < fCount m" "contains (live m ! i) k" using FindExtent_correct [OF ok, of k] by simp_all
    then show ?thesis using extent_range(4) [OF assms(1), of i] False by (simp add: contains_def)
  qed
  then show ?thesis using assms(1) False by (simp add: InvalidateAfter_def)
next
  case True
  have ok: "store_ok m" "chained 0 (live m)" using assms(1) by (simp_all add: map_ok_def)
  obtain i where i: "FindExtent m k = Some i" "i < fCount m" "contains (live m ! i) k"
    using FindExtent_covered [OF assms True] by auto
  let ?e = "live m ! i"
  let ?l = "k - ext_offset ?e"
  let ?e' = "?e\<lparr>ext_disk := (fst (ext_disk ?e), ?l)\<rparr>"
  let ?m1 = "put_extent i ?e' m" and ?n = "if ?l = 0 then i else i + 1"
  have ext: "extent m i = ?e" by (rule live_nth [OF ok(1) i(2)])
  have l: "0 \<le> ?l" "?l < snd (ext_disk ?e)" "k < ext_end ?e" using i(3) by (auto simp: contains_def ext_end_def)
  note m1 = put_extent_live [OF ok(1) i(2)]
  have "?n \<le> fCount ?m1" using i(2) m1(3) by simp
  then obtain m2 where m2: "MakeSpace ?n ?m1 = (B_OK, m2)" "store_ok m2" "live m2 = take ?n (live ?m1)" "fSize m2 = fSize m" "fCacheAll m2 = fCacheAll m"
    using MakeSpace_shorter [OF m1(1)] by fastforce
  have inv: "InvalidateAfter k m = m2" using i(1) l(3) m2(1) by (simp add: InvalidateAfter_def ext Let_def)
  note t = map_ok_take [OF assms(1) i(2)]
  have len: "i < length (live m)" using i(2) ok(1) by simp
  note r = extent_range [OF assms(1) i(2)]
  have live2: "live m2 = take i (live m) @ (if ?l = 0 then [] else [?e'])"
    using len m1(2) m2(3) by (simp add: take_Suc_conv_app_nth)
  have "vec_bytes [(fst (ext_disk ?e), ?l)] = map P [nat (ext_offset ?e)..<nat k]"
    using map_ok_place [OF assms(1) i(2) refl, of 0 ?l] l by simp
  moreover have "[0..<nat k] = [0..<nat (ext_offset ?e)] @ [nat (ext_offset ?e)..<nat k]"
    using upt_add_eq_append [of 0 "nat (ext_offset ?e)" "nat ?l"] r(1) l(1) by (simp add: nat_diff_distrib)
  ultimately have "extent_places (live m2) = map P [0..<nat k]"
    using t(1) l(1) by (auto simp: live2 extent_places_def vec_bytes_append simp del: vec_bytes_simps(3))
  moreover have "chain_end (live m2) = k" using t(3) by (auto simp: live2 chain_end_def ext_end_def)
  moreover have "chained 0 (live m2)"
    using t(2,3) l(1) r(3) by (auto simp: live2 chained_append chain_end_def split: if_split_asm)
  ultimately show ?thesis using m2 True by (simp add: inv map_ok_def map_end_live)
qed

lemma SetSize_correct:
  assumes "map_ok P m" "0 \<le> k"
  shows "map_ok P (SetSize k m) \<and> fSize (SetSize k m) = k \<and> fCacheAll (SetSize k m) = fCacheAll m \<and>
    map_end (SetSize k m) = (if k < fSize m then min k (map_end m) else map_end m)"
proof -
  have extents_size: "extents (u\<lparr>fSize := k\<rparr>) = extents u" "store_ok (u\<lparr>fSize := k\<rparr>) = store_ok u" for u :: file_map
    by (cases "fStore u"; simp add: extents_def store_ok_def)+
  have upd: "map_ok P (u\<lparr>fSize := k\<rparr>) = map_ok P u" "map_end (u\<lparr>fSize := k\<rparr>) = map_end u" for u
    using extents_size by (simp_all add: map_ok_def live_def map_end_def)
  show ?thesis using InvalidateAfter_correct [OF assms] assms(1) by (simp add: SetSize_def upd)
qed

end
