(* ===== verification/Page_Moves.thy ===== *)
theory Page_Moves
  imports Page_IO Extent_Properties
begin

section \<open>Moving bytes between memory and a device\<close>

text \<open>
  What the loops of \<open>Page_IO\<close> do when no transfer fails: they move bytes between the addresses that the
  \<open>iovec\<close>s name and the places that the file vectors name, both in their order.
\<close>

subsection \<open>Moving\<close>

definition moved :: "bool \<Rightarrow> int list \<Rightarrow> nat list \<Rightarrow> io \<Rightarrow> io" where
  "moved doWrite ps addrs s =
     (if doWrite then s\<lparr>io_device := store_all ps (map (io_memory s) addrs) (io_device s)\<rparr>
      else s\<lparr>io_memory := store_all addrs (map (io_device s) ps) (io_memory s)\<rparr>)"

lemma store_all_append: "length xs = length ys \<Longrightarrow> store_all (xs @ xs') (ys @ ys') f = store_all xs' ys' (store_all xs ys f)"
  by (simp add: store_all_def)

lemma moved_nil [simp]: "moved w [] [] s = s"
  by (simp add: moved_def store_all_def)

lemma moved_append: "length ps = length as \<Longrightarrow> moved w (ps @ qs) (as @ bs) s = moved w qs bs (moved w ps as s)"
  by (simp add: moved_def store_all_append)

lemma moved_transfers [simp]: "io_transfers (moved w ps as s) = io_transfers s"
  by (simp add: moved_def)

lemma places_length [simp]: "length (places pos n) = n"
  by (simp add: places_def)

lemma places_split: "i \<le> n \<Longrightarrow> places pos n = places pos i @ places (pos + int i) (n - i)"
  by (rule nth_equalityI) (auto simp: places_def nth_append)

lemma device_moves:
  assumes "io_transfers s = []" "n \<le> length (vec_addrs vecs)"
  shows "device_read pos vecs n s = (B_OK, n, moved False (places pos n) (take n (vec_addrs vecs)) s)"
    "device_write pos vecs n s = (B_OK, n, moved True (places pos n) (take n (vec_addrs vecs)) s)"
  using assms by (simp_all add: device_read_def device_write_def transfer_def moved_def)

subsection \<open>The memory that is left\<close>

definition mem_rest :: "iovec list \<Rightarrow> nat \<Rightarrow> nat \<Rightarrow> nat list" where
  "mem_rest vecs i off = drop off (vec_addrs (drop i vecs))"

definition at_mem :: "iovec list \<Rightarrow> nat \<Rightarrow> nat \<Rightarrow> bool" where
  "at_mem vecs i off \<longleftrightarrow> (i < length vecs \<longrightarrow> off \<le> snd (vecs ! i))"

lemma vec_addrs_Cons [simp]: "vec_addrs [] = []" "vec_addrs ((b, l) # vecs) = [b..<b + l] @ vec_addrs vecs"
  by (simp_all add: vec_addrs_def)

lemma vec_addrs_append: "vec_addrs (xs @ ys) = vec_addrs xs @ vec_addrs ys"
  by (simp add: vec_addrs_def)

lemma mem_rest_start [simp]: "mem_rest vecs 0 0 = vec_addrs vecs" "at_mem vecs i 0"
  by (simp_all add: mem_rest_def at_mem_def)

lemma mem_rest_past: "length vecs \<le> i \<Longrightarrow> mem_rest vecs i off = []"
  by (simp add: mem_rest_def)

lemma mem_rest_Cons:
  assumes "i < length vecs"
  shows "mem_rest vecs i off = drop off ([fst (vecs ! i)..<fst (vecs ! i) + snd (vecs ! i)] @ vec_addrs (drop (i + 1) vecs))"
  using assms by (cases "vecs ! i") (simp add: mem_rest_def flip: Cons_nth_drop_Suc)

lemma mem_rest_skip:
  assumes "i < length vecs" "at_mem vecs i off" "snd (vecs ! i) \<le> off"
  shows "mem_rest vecs i off = mem_rest vecs (i + 1) 0"
proof -
  have "off = snd (vecs ! i)" using assms by (simp add: at_mem_def)
  then show ?thesis unfolding mem_rest_Cons [OF assms(1)] by (simp add: mem_rest_def)
qed

lemma mem_rest_take:
  assumes "i < length vecs" "n \<le> snd (vecs ! i) - off" "off < snd (vecs ! i)"
  shows "vec_addrs [(fst (vecs ! i) + off, n)] = take n (mem_rest vecs i off)" "mem_rest vecs i (off + n) = drop n (mem_rest vecs i off)"
    "n \<le> length (mem_rest vecs i off)" "at_mem vecs i (off + n)"
  using assms unfolding mem_rest_Cons [OF assms(1)] by (simp_all add: at_mem_def take_upt drop_upt ac_simps)

lemma skip_vecs_at:
  "skip_vecs (drop j vecs) j n = (i, off) \<Longrightarrow> at_mem vecs i off \<and> mem_rest vecs i off = drop n (vec_addrs (drop j vecs)) \<and> off \<le> n"
proof (induction "length vecs - j" arbitrary: j n)
  case 0
  then show ?case by (auto simp: mem_rest_def at_mem_def)
next
  case (Suc k)
  then have j: "j < length vecs" by simp
  obtain b l where v: "vecs ! j = (b, l)" by (cases "vecs ! j")
  have d: "drop j vecs = (b, l) # drop (Suc j) vecs" using j v by (simp flip: Cons_nth_drop_Suc)
  show ?case
  proof (cases "n < l")
    case True
    then have "i = j" "off = n" using Suc.prems unfolding d by simp_all
    then show ?thesis using True v by (simp add: mem_rest_def at_mem_def)
  next
    case False
    then have "skip_vecs (drop (Suc j) vecs) (Suc j) (n - l) = (i, off)" using Suc.prems unfolding d by simp
    moreover have "k = length vecs - Suc j" using Suc.hyps(2) by simp
    ultimately have "at_mem vecs i off \<and> mem_rest vecs i off = drop (n - l) (vec_addrs (drop (Suc j) vecs)) \<and> off \<le> n - l"
      by (intro Suc.hyps(1))
    then show ?thesis using False unfolding d by auto
  qed
qed

lemma fill_temp_takes:
  "sz \<le> left \<longrightarrow> at_mem vecs i off \<longrightarrow> (case fill_temp vecs left sz i off temp of (sz', i', off', temp') \<Rightarrow>
     sz \<le> sz' \<and> sz' \<le> left \<and> at_mem vecs i' off' \<and> sz' - sz \<le> length (mem_rest vecs i off) \<and>
     vec_addrs temp' = vec_addrs temp @ take (sz' - sz) (mem_rest vecs i off) \<and>
     mem_rest vecs i' off' = drop (sz' - sz) (mem_rest vecs i off))"
  (is "?P sz i off temp (fill_temp vecs left sz i off temp)")
proof (rule fill_temp_induct [where P = ?P])
  fix sz i off and temp :: "iovec list"
  assume i: "sz < left \<and> i < length vecs \<and> length temp < MAX_TEMP_IO_VECS" and off: "snd (vecs ! i) \<le> off"
    and IH: "?P sz (i + 1) 0 temp (fill_temp vecs left sz (i + 1) 0 temp)"
  have "at_mem vecs i off \<Longrightarrow> mem_rest vecs i off = mem_rest vecs (i + 1) 0" by (rule mem_rest_skip) (use i off in auto)
  then show "?P sz i off temp (fill_temp vecs left sz (i + 1) 0 temp)"
    using IH by (auto split: prod.splits)
next
  fix sz i off n and temp :: "iovec list"
  let ?r = "fill_temp vecs left (sz + n) i (off + n) (temp @ [(fst (vecs ! i) + off, n)])"
  assume i: "sz < left \<and> i < length vecs \<and> length temp < MAX_TEMP_IO_VECS" and off: "off < snd (vecs ! i)"
    and n: "n = min (snd (vecs ! i) - off) (left - sz)"
    and IH: "?P (sz + n) i (off + n) (temp @ [(fst (vecs ! i) + off, n)]) ?r"
  obtain sz' i' off' temp' where r: "?r = (sz', i', off', temp')" by (cases ?r)
  have n': "n \<le> snd (vecs ! i) - off" "sz + n \<le> left" using n i by auto
  note m = mem_rest_take [OF conjunct1 [OF conjunct2 [OF i]] n'(1) off]
  have IH': "sz + n \<le> sz'" "sz' \<le> left" "at_mem vecs i' off'" "sz' - (sz + n) \<le> length (mem_rest vecs i off) - n"
    "vec_addrs temp' = vec_addrs temp @ take n (mem_rest vecs i off) @ take (sz' - (sz + n)) (drop n (mem_rest vecs i off))"
    "mem_rest vecs i' off' = drop (sz' - (sz + n)) (drop n (mem_rest vecs i off))"
    using IH n'(2) m unfolding r by (simp_all add: vec_addrs_append del: vec_addrs_Cons(2))
  obtain k where k: "sz' = sz + n + k" using IH'(1) le_Suc_ex by blast
  show "?P sz i off temp ?r"
    unfolding r prod.case using IH'(2-4) m(3) unfolding k IH'(5,6) by (simp add: take_add k add.assoc add.commute [of k n] le_diff_conv2)
qed simp

lemma fill_temp_inside:
  "sz < left \<longrightarrow> fst (fill_temp vecs left sz i off temp) = left \<longrightarrow> fst (snd (fill_temp vecs left sz i off temp)) < length vecs"
proof (rule fill_temp_induct [where P = "\<lambda>sz i off temp r. sz < left \<longrightarrow> fst r = left \<longrightarrow> fst (snd r) < length vecs"])
  fix sz i off n and temp :: "iovec list"
  let ?r = "fill_temp vecs left (sz + n) i (off + n) (temp @ [(fst (vecs ! i) + off, n)])"
  assume i: "sz < left \<and> i < length vecs \<and> length temp < MAX_TEMP_IO_VECS" and n: "n = min (snd (vecs ! i) - off) (left - sz)"
    and IH: "sz + n < left \<longrightarrow> fst ?r = left \<longrightarrow> fst (snd ?r) < length vecs"
  show "sz < left \<longrightarrow> fst ?r = left \<longrightarrow> fst (snd ?r) < length vecs"
  proof (cases "sz + n < left")
    case False
    then have r: "?r = (sz + n, i, off + n, temp @ [(fst (vecs ! i) + off, n)])" by (intro fill_temp_stop) simp
    show ?thesis unfolding r using i by simp
  qed (use IH in blast)
qed auto

text \<open>With enough memory left the temporary vectors are not empty, and do not use up the memory.\<close>

lemma fill_temp_some:
  assumes "fill_temp vecs left 0 i off [] = (sz, i', off', temp)" "0 < left" "left \<le> length (mem_rest vecs i off)" "at_mem vecs i off"
  shows "0 < sz" "sz \<le> left" "at_mem vecs i' off'" "vec_addrs temp = take sz (mem_rest vecs i off)"
    "mem_rest vecs i' off' = drop sz (mem_rest vecs i off)" "i' < length vecs"
proof -
  note f = fill_temp_takes [of 0 left vecs i off "[]", unfolded assms(1)]
  show "sz \<le> left" "at_mem vecs i' off'" "vec_addrs temp = take sz (mem_rest vecs i off)"
    and rest: "mem_rest vecs i' off' = drop sz (mem_rest vecs i off)"
    using f assms(4) by simp_all
  show inside: "i' < length vecs"
  proof (cases "sz = left")
    case True
    then show ?thesis using fill_temp_inside [of 0 left vecs i off "[]", unfolded assms(1)] assms(2) by simp
  next
    case False
    then have "sz < length (mem_rest vecs i off)" using f assms(3,4) by simp
    then have "mem_rest vecs i' off' \<noteq> []" unfolding rest by simp
    then show ?thesis using mem_rest_past [of vecs i' off'] by fastforce
  qed
  show "0 < sz"
    using fill_temp_stuck [of vecs left 0 i off "[]", unfolded assms(1)] inside assms(2) by (auto simp: MAX_TEMP_IO_VECS_def)
qed

subsection \<open>One file vector, all file vectors\<close>

lemma file_vec_loop_moves:
  "io_transfers s = [] \<Longrightarrow> 0 \<le> pos \<Longrightarrow> left \<le> length (mem_rest vecs i off) \<Longrightarrow> at_mem vecs i off \<Longrightarrow>
   \<exists>i' off'. file_vec_loop w vecs pos left (i, off, tot, bl, s) =
       Inr (i', off', tot + left, bl - left, moved w (places pos left) (take left (mem_rest vecs i off)) s) \<and>
     at_mem vecs i' off' \<and> mem_rest vecs i' off' = drop left (mem_rest vecs i off)"
proof (induction left arbitrary: pos i off tot bl s rule: less_induct)
  case (less left)
  show ?case
  proof (cases "left = 0")
    case True
    then show ?thesis using less.prems(4) by (subst file_vec_loop.simps) (simp add: places_def)
  next
    case False
    obtain n j o' temp where f: "fill_temp vecs left 0 i off [] = (n, j, o', temp)" by (cases "fill_temp vecs left 0 i off []")
    have "0 < left" using False by simp
    note t = fill_temp_some [OF f this less.prems(3,4)]
    define s1 where "s1 = moved w (places pos n) (take n (mem_rest vecs i off)) s"
    have dev: "(if w then device_write pos temp n s else device_read pos temp n s) = (B_OK, n, s1)"
      using device_moves [OF less.prems(1), of n temp pos] t(2,4) less.prems(3) by (simp add: s1_def)
    have loop: "file_vec_loop w vecs pos left (i, off, tot, bl, s) =
        file_vec_loop w vecs (pos + int n) (left - n) (j, o', tot + n, bl - n, s1)"
      using False less.prems(2) t(6) f dev by (subst file_vec_loop.simps) (simp add: Let_def)
    have "left - n < left" "io_transfers s1 = []" "0 \<le> pos + int n" "left - n \<le> length (mem_rest vecs j o')"
      using t less.prems(1-3) by (simp_all add: s1_def)
    from less.IH [OF this t(3), of "tot + n" "bl - n"]
    obtain i' off' where r: "file_vec_loop w vecs (pos + int n) (left - n) (j, o', tot + n, bl - n, s1) =
        Inr (i', off', tot + n + (left - n), bl - n - (left - n), moved w (places (pos + int n) (left - n)) (take (left - n) (mem_rest vecs j o')) s1)"
      "at_mem vecs i' off'" "mem_rest vecs i' off' = drop (left - n) (mem_rest vecs j o')"
      by blast
    have "moved w (places (pos + int n) (left - n)) (take (left - n) (mem_rest vecs j o')) s1 =
        moved w (places pos left) (take left (mem_rest vecs i off)) s"
      using t(2) less.prems(3) moved_append [of "places pos n" "take n (mem_rest vecs i off)" w] take_add [of n "left - n" "mem_rest vecs i off"]
        places_split [OF t(2), of pos]
      by (simp add: s1_def t(5))
    then show ?thesis using r t(2) unfolding loop by (simp add: t(5))
  qed
qed


lemma vec_bytes_places: "vec_bytes [vec] = places (fst vec) (nat (snd vec))"
  by (cases vec) (simp add: places_def)

lemma file_vecs_loop_moves:
  "good_vecs fvs \<Longrightarrow> io_transfers s = [] \<Longrightarrow> k = length (vec_bytes fvs) \<Longrightarrow> k \<le> length (mem_rest vecs i off) \<Longrightarrow> at_mem vecs i off \<Longrightarrow>
   k \<le> bl \<Longrightarrow>
   \<exists>i' off'. file_vecs_loop w vecs fvs (i, off, tot, bl, s) =
       Inr (i', off', tot + k, bl - k, moved w (vec_bytes fvs) (take k (mem_rest vecs i off)) s) \<and>
     at_mem vecs i' off' \<and> mem_rest vecs i' off' = drop k (mem_rest vecs i off)"
proof (induction fvs arbitrary: i off tot bl s k)
  case Nil
  then show ?case by simp
next
  case (Cons vec fvs)
  let ?n = "nat (snd vec)" and ?M = "mem_rest vecs i off"
  have vec: "0 < snd vec" "0 \<le> fst vec" "good_vecs fvs" using Cons.prems(1) by (simp_all add: good_vecs_def)
  have b: "vec_bytes (vec # fvs) = places (fst vec) ?n @ vec_bytes fvs"
    by (simp only: vec_bytes_simps(2) [of vec fvs] vec_bytes_places)
  define k' where "k' = length (vec_bytes fvs)"
  have k: "k = ?n + k'" using Cons.prems(3) by (simp add: b k'_def)
  have n: "nat (min (snd vec) (int bl)) = ?n" using Cons.prems(6) vec(1) k by simp
  define s1 where "s1 = moved w (places (fst vec) ?n) (take ?n ?M) s"
  obtain i1 off1 where one: "file_vec_loop w vecs (fst vec) ?n (i, off, tot, bl, s) = Inr (i1, off1, tot + ?n, bl - ?n, s1)"
    "at_mem vecs i1 off1" "mem_rest vecs i1 off1 = drop ?n ?M"
    using file_vec_loop_moves [OF Cons.prems(2) vec(2) _ Cons.prems(5), of ?n w tot bl] Cons.prems(4) k unfolding s1_def by auto
  have "k' \<le> length (mem_rest vecs i1 off1)" "k' \<le> bl - ?n" "io_transfers s1 = []"
    using Cons.prems(2,4,6) k by (simp_all add: one(3) s1_def)
  from Cons.IH [OF vec(3) this(3) k'_def this(1) one(2) this(2), of "tot + ?n"]
  obtain i2 off2 where two: "file_vecs_loop w vecs fvs (i1, off1, tot + ?n, bl - ?n, s1) =
      Inr (i2, off2, tot + ?n + k', bl - ?n - k', moved w (vec_bytes fvs) (take k' (mem_rest vecs i1 off1)) s1)"
    "at_mem vecs i2 off2" "mem_rest vecs i2 off2 = drop k' (mem_rest vecs i1 off1)"
    by blast
  have "moved w (vec_bytes fvs) (take k' (drop ?n ?M)) s1 = moved w (vec_bytes (vec # fvs)) (take k ?M) s"
    using moved_append [of "places (fst vec) ?n" "take ?n ?M" w "vec_bytes fvs" "take k' (drop ?n ?M)" s] Cons.prems(4)
    by (simp add: s1_def b k take_add)
  then have "file_vecs_loop w vecs (vec # fvs) (i, off, tot, bl, s) =
      Inr (i2, off2, tot + k, bl - k, moved w (vec_bytes (vec # fvs)) (take k ?M) s)"
    using one(1) two(1) by (simp add: n one(3) k add.assoc)
  moreover have "mem_rest vecs i2 off2 = drop k ?M" by (simp add: two(3) one(3) k add.commute)
  ultimately show ?case using two(2) by blast
qed

text \<open>
  A list of vectors that is long enough for the memory is carried out completely. The number of bytes is right for a
  write; for a read that starts with a new \<open>iovec\<close> it lacks what the first file vector put into whole \<open>iovec\<close>s.
\<close>

lemma rest_vec_pages_moves:
  assumes "good_vecs fvs" "io_transfers s = []" "k = length (vec_bytes fvs)" "k \<le> length (mem_rest vecs i off)" "at_mem vecs i off" "k \<le> bl"
  shows "\<exists>i' off'. rest_vec_pages w fvs vecs i0 off0 n (i, off, tot, bl, s) =
      (B_OK, i', off', tot + k, moved w (vec_bytes fvs) (take k (mem_rest vecs i off)) s) \<and>
    at_mem vecs i' off' \<and> mem_rest vecs i' off' = drop k (mem_rest vecs i off)"
  using file_vecs_loop_moves [OF assms, of w tot] by (auto simp: rest_vec_pages_def)

lemma common_write_moves:
  assumes "good_vecs fvs" "fvs \<noteq> []" "io_transfers s = []" "k = length (vec_bytes fvs)" "k \<le> length (mem_rest vecs i off)" "at_mem vecs i off" "k \<le> n"
  shows "\<exists>i' off'. common_file_io_vec_pages True fvs vecs i off n s =
      (B_OK, i', off', k, moved True (vec_bytes fvs) (take k (mem_rest vecs i off)) s) \<and>
    at_mem vecs i' off' \<and> mem_rest vecs i' off' = drop k (mem_rest vecs i off)"
  using rest_vec_pages_moves [OF assms(1,3-7), of True i off n 0] assms(2)
  by (cases fvs) (simp_all add: common_file_io_vec_pages_def)

text \<open>What the read reports.\<close>

definition reported :: "iovec list \<Rightarrow> nat \<Rightarrow> nat \<Rightarrow> nat \<Rightarrow> nat" where
  "reported vecs first k n = (if first = n then n else k - (first - snd (skip_vecs vecs 0 first)))"

lemma common_read_moves:
  assumes "good_vecs (vec # fvs)" "io_transfers s = []" "k = length (vec_bytes (vec # fvs))" "k \<le> length (vec_addrs vecs)" "k \<le> n"
  shows "\<exists>i' off'. common_file_io_vec_pages False (vec # fvs) vecs 0 0 n s =
      (B_OK, i', off', reported vecs (nat (snd vec)) k n, moved False (vec_bytes (vec # fvs)) (take k (vec_addrs vecs)) s) \<and>
    (nat (snd vec) \<noteq> n \<longrightarrow> mem_rest vecs i' off' = drop k (vec_addrs vecs))"
proof -
  let ?n = "nat (snd vec)" and ?M = "vec_addrs vecs"
  have vec: "0 < snd vec" "0 \<le> fst vec" "good_vecs fvs" using assms(1) by (simp_all add: good_vecs_def)
  have b: "vec_bytes (vec # fvs) = places (fst vec) ?n @ vec_bytes fvs"
    by (simp only: vec_bytes_simps(2) [of vec fvs] vec_bytes_places)
  define k' where "k' = length (vec_bytes fvs)"
  have k: "k = ?n + k'" using assms(3) by (simp add: b k'_def)
  define s1 where "s1 = moved False (places (fst vec) ?n) (take ?n ?M) s"
  have dev: "device_read (fst vec) (drop 0 vecs) ?n s = (B_OK, ?n, s1)"
    using device_moves(1) [OF assms(2), of ?n vecs "fst vec"] assms(4) k by (simp add: s1_def)
  have sz: "(if snd vec < int n then ?n else n) = ?n" using assms(5) k vec(1) by auto
  obtain i off where sk: "skip_vecs vecs 0 ?n = (i, off)" by (cases "skip_vecs vecs 0 ?n")
  have at: "at_mem vecs i off" "mem_rest vecs i off = drop ?n ?M" "off \<le> ?n" using skip_vecs_at [of 0 vecs ?n i off] sk by simp_all
  have io: "common_file_io_vec_pages False (vec # fvs) vecs 0 0 n s =
      (if ?n = n then (B_OK, 0, 0, n, s1) else rest_vec_pages False fvs vecs 0 0 n (i, off, off, n - off, s1))"
    using vec dev sz sk by (simp add: common_file_io_vec_pages_def Let_def status)
  show ?thesis
  proof (cases "?n = n")
    case True
    then have "k' = 0" using assms(5) k by simp
    then show ?thesis using True assms(4) k by (auto simp: io reported_def s1_def b k'_def)
  next
    case False
    have "k' \<le> length (mem_rest vecs i off)" "k' \<le> n - off" "io_transfers s1 = []" using assms(2,4,5) k at by (simp_all add: s1_def)
    from rest_vec_pages_moves [OF vec(3) this(3) k'_def this(1) at(1) this(2), of False 0 0 n off]
    obtain i' off' where r: "rest_vec_pages False fvs vecs 0 0 n (i, off, off, n - off, s1) =
        (B_OK, i', off', off + k', moved False (vec_bytes fvs) (take k' (mem_rest vecs i off)) s1)"
      "mem_rest vecs i' off' = drop k' (mem_rest vecs i off)" by blast
    have "moved False (vec_bytes fvs) (take k' (drop ?n ?M)) s1 = moved False (vec_bytes (vec # fvs)) (take k ?M) s"
      using moved_append [of "places (fst vec) ?n" "take ?n ?M" False "vec_bytes fvs" "take k' (drop ?n ?M)" s] assms(4)
      by (simp add: s1_def b k take_add)
    moreover have "reported vecs ?n k n = off + k'" using False at(3) by (simp add: reported_def sk k)
    ultimately show ?thesis using r False by (simp add: io at(2) k add.commute)
  qed
qed

end
