(* ===== verification/Page_Properties.thy ===== *)
theory Page_Properties
  imports Page_Moves
begin

section \<open>Properties of file maps and page transfers\<close>

subsection \<open>Page writes over any file system\<close>

text \<open>The rounds of a page write, each with the vectors of one translation.\<close>

lemma mapped_size_nat:
  assumes "n < 2 ^ 63"
  shows "mapped_size m pos (of_nat n) = min n (nat (fSize m - pos))"
  using assms by (simp add: mapped_size_def unat_of_nat)

context map_provider
begin

lemma file_map_translate_names:
  assumes "ready s" "map_ok place m" "0 \<le> offset" "offset < fSize m" "fSize m \<le> int limit" "0 < unat sz" "offset + int (unat sz) < 2 ^ 63"
    "2 \<le> maxVecs" "align \<le> 1" "n = mapped_size m offset sz" "fRealloc m = []" "\<not> fCacheAll m"
  shows "\<exists>st vecs m' s'. file_map_translate get_map (Some m) offset sz maxVecs align s = Inr (st, vecs, Some m', s') \<and> ready s' \<and>
    map_ok place m' \<and> fSize m' = fSize m \<and> fRealloc m' = [] \<and> \<not> fCacheAll m' \<and>
    names place (nat offset) (nat offset + n) (length vecs = maxVecs) st vecs"
  using Translate_correct [OF assms(1-10)] assms(11,12) by (fastforce simp: file_map_translate_def)

lemma pages_loop_writes:
  "ready vol \<Longrightarrow> map_ok place m \<Longrightarrow> fSize m \<le> int limit \<Longrightarrow> int pos < fSize m \<Longrightarrow> 0 < bl \<Longrightarrow> int pos + int bl < 2 ^ 63 \<Longrightarrow>
   j = min bl (nat (fSize m - int pos)) \<Longrightarrow> j < K \<Longrightarrow> j \<le> length (mem_rest vecs i off) \<Longrightarrow> at_mem vecs i off \<Longrightarrow>
   io_transfers s = [] \<Longrightarrow> fRealloc m = [] \<Longrightarrow> \<not> fCacheAll m \<Longrightarrow>
   \<exists>m' vol'. pages_loop K True True get_map (Some m) (int pos) vecs i off bl s vol =
       Inr (B_OK, Some m', moved True (map place [pos..<pos + j]) (take j (mem_rest vecs i off)) s, vol') \<and>
     ready vol' \<and> map_ok place m' \<and> fSize m' = fSize m"
proof (induction K arbitrary: m pos i off bl j s vol)
  case (Suc K)
  have sz: "unat (of_nat bl :: 64 word) = bl" "mapped_size m (int pos) (of_nat bl) = j"
    using mapped_size_nat [of bl m "int pos"] Suc.prems(6,7) by (simp_all add: unat_of_nat)
  obtain st fvs m' vol' where t: "file_map_translate get_map (Some m) (int pos) (of_nat bl) 8 0 vol = Inr (st, fvs, Some m', vol')"
    "ready vol'" "map_ok place m'" "fSize m' = fSize m" "fRealloc m' = []" "\<not> fCacheAll m'"
    "names place pos (pos + j) (length fvs = 8) st fvs"
    using file_map_translate_names [of vol m "int pos" "of_nat bl" 8 0 j] Suc.prems sz by auto
  have good: "good_vecs fvs" using t(7) by (simp add: names_def)
  have j: "0 < j" "j \<le> bl" using Suc.prems(4,5,7) by auto
  from t(7) consider "st = B_OK" "vec_bytes fvs = map place [pos..<pos + j]"
    | q where "st = B_BUFFER_OVERFLOW" "pos < q" "q < pos + j" "vec_bytes fvs = map place [pos..<q]" by (auto simp: names_def)
  then show ?case
  proof cases
    case 1
    have "fvs \<noteq> []" using 1(2) j(1) by auto
    moreover have "j = length (vec_bytes fvs)" using 1(2) by simp
    ultimately obtain i' off' where
      "common_file_io_vec_pages True fvs vecs i off bl s = (B_OK, i', off', j, moved True (vec_bytes fvs) (take j (mem_rest vecs i off)) s)"
      using common_write_moves [OF good _ Suc.prems(11) _ Suc.prems(9,10) j(2)] by blast
    then show ?thesis using t 1 by (simp add: write_file_io_vec_pages_def status)
  next
    case 2
    define k where "k = q - pos"
    have k: "k = length (vec_bytes fvs)" "0 < k" "k < j" "q = pos + k" using 2 by (simp_all add: k_def)
    have "fvs \<noteq> []" using 2(2,4) by auto
    moreover have "k \<le> length (mem_rest vecs i off)" "k \<le> bl" using k(3) j(2) Suc.prems(9) by simp_all
    ultimately obtain i' off' where io:
      "common_file_io_vec_pages True fvs vecs i off bl s = (B_OK, i', off', k, moved True (vec_bytes fvs) (take k (mem_rest vecs i off)) s)"
      "at_mem vecs i' off'" "mem_rest vecs i' off' = drop k (mem_rest vecs i off)"
      using common_write_moves [OF good _ Suc.prems(11) k(1) _ Suc.prems(10)] by blast
    let ?s = "moved True (vec_bytes fvs) (take k (mem_rest vecs i off)) s"
    have loop: "pages_loop (Suc K) True True get_map (Some m) (int pos) vecs i off bl s vol =
        pages_loop K True True get_map (Some m') (int (pos + k)) vecs i' off' (bl - k) ?s vol'"
      using t(1) 2(1) io(1) by (simp add: write_file_io_vec_pages_def status)
    have "nat (fSize m' - int (pos + k)) = nat (fSize m - int pos) - k" using t(4) by linarith
    then have left: "j - k = min (bl - k) (nat (fSize m' - int (pos + k)))" by (auto simp: Suc.prems(7) min_def)
    have "int k < fSize m - int pos" using k(3) unfolding Suc.prems(7) by linarith
    then have a: "int (pos + k) < fSize m'" "0 < bl - k" "fSize m' \<le> int limit" "int (pos + k) + int (bl - k) < 2 ^ 63"
      using Suc.prems(3,6) t(4) k(3) j(2) by (simp_all add: of_nat_diff)
    have b: "j - k < K" "j - k \<le> length (mem_rest vecs i' off')" "io_transfers ?s = []"
      using Suc.prems(8,9,11) k(2) j(1) by (simp_all add: io(3) diff_le_mono)
    from Suc.IH [OF t(2,3) a(3,1,2,4) left b(1,2) io(2) b(3) t(5,6)]
    obtain m2 vol2 where r: "pages_loop K True True get_map (Some m') (int (pos + k)) vecs i' off' (bl - k) ?s vol' =
        Inr (B_OK, Some m2, moved True (map place [pos + k..<pos + k + (j - k)]) (take (j - k) (mem_rest vecs i' off')) ?s, vol2)"
      "ready vol2" "map_ok place m2" "fSize m2 = fSize m'" by blast
    have upt: "[pos..<pos + j] = [pos..<pos + k] @ [pos + k..<pos + k + (j - k)]"
      using k(3) upt_add_eq_append [of pos "pos + k" "j - k"] by simp
    have tk: "take j (mem_rest vecs i off) = take k (mem_rest vecs i off) @ take (j - k) (mem_rest vecs i' off')"
      using k(3) take_add [of k "j - k" "mem_rest vecs i off"] by (simp add: io(3))
    have v: "map place [pos..<pos + k] = vec_bytes fvs" by (simp only: 2(4) k(4))
    have len: "length (vec_bytes fvs) = length (take k (mem_rest vecs i off))" using k(1,3) Suc.prems(9) by simp
    have m: "moved True (map place [pos..<pos + j]) (take j (mem_rest vecs i off)) s =
        moved True (map place [pos + k..<pos + k + (j - k)]) (take (j - k) (mem_rest vecs i' off')) ?s"
      by (simp only: upt tk map_append v moved_append [OF len])
    have "fSize m2 = fSize m" by (simp only: r(4) t(4))
    then show ?thesis unfolding loop r(1) m using r(2,3) by blast
  qed
qed simp

end

text \<open>The first round of a page read.\<close>

lemma first_read:
  assumes "good_vecs fvs" "fvs \<noteq> []" "io_transfers s = []" "k = length (vec_bytes fvs)" "k \<le> length (vec_addrs vecs)" "k \<le> n"
    "file_map_translate get_map fm pos (of_nat n) 8 0 vol = Inr (st, fvs, fm', vol')" "st = B_OK \<or> st = B_BUFFER_OVERFLOW"
    "r = reported vecs (nat (snd (hd fvs))) k n"
  shows "\<exists>i off. pages_loop (Suc K) False True get_map fm pos vecs 0 0 n s vol =
      (if st = B_OK then Inr (B_OK, fm', moved False (vec_bytes fvs) (take k (vec_addrs vecs)) s, vol')
       else pages_loop K False True get_map fm' (pos + int r) vecs i off (n - r) (moved False (vec_bytes fvs) (take k (vec_addrs vecs)) s) vol') \<and>
    (nat (snd (hd fvs)) \<noteq> n \<longrightarrow> mem_rest vecs i off = drop k (vec_addrs vecs))"
proof -
  obtain vec gvs where f: "fvs = vec # gvs" using assms(2) by (cases fvs) auto
  obtain i off where
    "common_file_io_vec_pages False fvs vecs 0 0 n s = (B_OK, i, off, r, moved False (vec_bytes fvs) (take k (vec_addrs vecs)) s)"
    "nat (snd (hd fvs)) \<noteq> n \<longrightarrow> mem_rest vecs i off = drop k (vec_addrs vecs)"
    using common_read_moves [of vec gvs s k vecs n] assms(1,3-6,9) unfolding f by auto
  then show ?thesis using assms(7,8) by (auto simp: read_file_io_vec_pages_def status)
qed

subsection \<open>The files of the driver\<close>

text \<open>
  What a vnode needs so that its file can be mapped: a chain that holds it and has less than 4 GB (a longer run of
  sectors has no vector, see \<open>vector_length_wraps\<close>). The driver is then the provider that a file map expects.
\<close>

definition file_ok :: "nspace \<Rightarrow> ino_t \<Rightarrow> uint32 list \<Rightarrow> bool" where
  "file_ok v p cs \<longleftrightarrow> fat_ok v \<and> fat_chain v cs \<and> spc_ok v \<and> 0 < bps v \<and> file_sectors v cs * bps v < 2 ^ 32 \<and>
     vn_cluster (deref v p) = hd cs \<and> vn_mode (deref v p) AND FAT_SUBDIR = 0 \<and>
     vn_st_size (deref v p) \<le> int (file_sectors v cs * bps v)"

interpretation fat: map_provider "vfs_get_file_map p" "byte_at v cs" "nat (vn_st_size (deref v p))" "\<lambda>s. s = v \<and> file_ok v p cs"
  for v p cs
proof
  fix s pos
  assume s: "s = v \<and> file_ok v p cs" and pos: "pos < nat (vn_st_size (deref v p))"
  then have "int pos < vn_st_size (deref v p)" by linarith
  then obtain r vs q where m: "dosfs_get_file_map v p (int pos) (- 1) 8 = (r, vs, v)" "vec_bytes vs = map (byte_at v cs) [pos..<q]"
    "good_vecs vs" "pos < q" "r = B_OK \<or> r = B_BUFFER_OVERFLOW"
    using dosfs_get_file_map_maps [of v cs p pos "- 1" 8] s by (auto simp: file_ok_def)
  then show "case vfs_get_file_map p (int pos) 8 s of (r, vecs, s') \<Rightarrow> (s' = v \<and> file_ok v p cs) \<and> (r = B_OK \<or> r = B_BUFFER_OVERFLOW) \<and>
      good_vecs vecs \<and> (\<exists>q>pos. vec_bytes vecs = map (byte_at v cs) [pos..<q])"
    using m s by (auto simp: vfs_get_file_map_def)
qed

text \<open>A file of 3000 bytes on the small volume, with a file map that knows nothing yet, to discharge hypotheses.\<close>

definition paged_sample :: nspace where
  "paged_sample = sample_volume\<lparr>nodes := [7 \<mapsto> sample_vnode\<lparr>vn_vnid := 7, vn_cluster := 2, vn_mode := 0, vn_st_size := 3000\<rparr>]\<rparr>"

lemma paged_sample_ok: "file_ok paged_sample 7 [2, 3, 4]" "vn_st_size (deref paged_sample 7) = 3000" "\<not> read_only paged_sample"
proof -
  have same: "same_fat sample_volume paged_sample" by (simp add: same_fat_def paged_sample_def)
  have "fat_ok paged_sample" "fat_chain paged_sample [2, 3, 4]" using same_fat_laws [OF same] sample_chain by simp_all
  moreover have "spc_ok paged_sample" "file_sectors paged_sample [2, 3, 4] = 6" "bps paged_sample = 512"
    by (simp_all add: spc_ok_def file_sectors_def bps_def sample_volume_def paged_sample_def)
  moreover have d: "deref paged_sample 7 = sample_vnode\<lparr>vn_vnid := 7, vn_cluster := 2, vn_mode := 0, vn_st_size := 3000\<rparr>"
    by (simp add: deref_def vnode_at_def sample_volume_def sample_vnode_def paged_sample_def)
  ultimately show "file_ok paged_sample 7 [2, 3, 4]" by (simp add: file_ok_def)
  show "vn_st_size (deref paged_sample 7) = 3000" by (simp add: d)
  show "\<not> read_only paged_sample" by (simp add: paged_sample_def sample_volume_def)
qed

lemma new_file_map_ok: "map_ok P (new_file_map sz [])" "fSize (new_file_map sz []) = sz" "\<not> fCacheAll (new_file_map sz [])"
  "fRealloc (new_file_map sz []) = []"
  by (simp_all add: new_file_map_def map_ok_def map_defs map_end_def extent_places_def)

subsection \<open>Translating\<close>

text \<open>
  C12. The file map of the kernel and the driver together implement the contract of \<open>file_map_translate\<close>, for a file
  whose chain has less than 4 GB: however much of the file the map knows already, with \<open>B_OK\<close> the vectors that are returned name
  the places of the bytes asked for (up to the end of the file) on the disk, in order and without a gap; with
  \<open>B_BUFFER_OVERFLOW\<close> all the vectors there is room for, two at least, are used and name those of a proper beginning of the range. The
  only other results are \<open>ENOMEM\<close>, when an allocation may fail, and \<open>B_ERROR\<close>, when the map is in the mode in which
  it holds the whole file already. In every case the map stays a description of the file, so that the next
  translation is right too, and the volume is as before.
\<close>

theorem file_map_translate_correct:
  assumes "file_ok v p cs" "map_ok (byte_at v cs) m" "fSize m = vn_st_size (deref v p)"
    "int pos < fSize m" "0 < n" "int pos + int n < 2 ^ 63" "2 \<le> max_vecs" "align \<le> 1"
  shows "\<exists>st vecs m'. file_map_translate (vfs_get_file_map p) (Some m) (int pos) (of_nat n) max_vecs align v = Inr (st, vecs, Some m', v) \<and>
    map_ok (byte_at v cs) m' \<and> fSize m' = fSize m \<and>
    (st = B_OK \<and> vec_bytes vecs = map (byte_at v cs) [pos..<min (pos + n) (nat (fSize m))] \<or>
     st = B_BUFFER_OVERFLOW \<and> length vecs = max_vecs \<and>
       (\<exists>q. pos < q \<and> q < min (pos + n) (nat (fSize m)) \<and> vec_bytes vecs = map (byte_at v cs) [pos..<q]) \<or>
     st = ENOMEM \<and> fRealloc m \<noteq> [] \<or> st = B_ERROR \<and> fCacheAll m)"
proof -
  have n: "unat (of_nat n :: 64 word) = n" using assms(6) by (simp add: unat_of_nat)
  have lim: "fSize m \<le> int (nat (vn_st_size (deref v p)))" using assms(3) by simp
  have sz: "0 < unat (of_nat n :: 64 word)" "int pos + int (unat (of_nat n :: 64 word)) < 2 ^ 63" using n assms(5,6) by simp_all
  note tr = fat.Translate_correct [OF conjI [OF refl assms(1)] assms(2) of_nat_0_le_iff assms(4) lim sz assms(7,8) refl]
  then obtain st vecs m' where t: "Translate (vfs_get_file_map p) m (int pos) (of_nat n) max_vecs align v = Inr (st, vecs, m', v)"
    "map_ok (byte_at v cs) m'" "fSize m' = fSize m"
    "names (byte_at v cs) pos (pos + mapped_size m (int pos) (of_nat n)) (length vecs = max_vecs) st vecs \<or>
     st = ENOMEM \<and> fRealloc m \<noteq> [] \<or> st = B_ERROR \<and> fCacheAll m"
    by auto
  have "pos + mapped_size m (int pos) (of_nat n) = min (pos + n) (nat (fSize m))"
    using mapped_size_nat [of n m "int pos"] assms(4,6) by auto
  then show ?thesis using t unfolding names_def by (auto simp: file_map_translate_def)
qed

theorem file_map_translate_correct_witness:
  "\<exists>st vecs m'. file_map_translate (vfs_get_file_map 7) (Some (new_file_map 3000 [])) (int 600) (of_nat 1000) 4 0 paged_sample =
      Inr (st, vecs, Some m', paged_sample) \<and>
    map_ok (byte_at paged_sample [2, 3, 4]) m' \<and> fSize m' = 3000 \<and>
    (st = B_OK \<and> vec_bytes vecs = map (byte_at paged_sample [2, 3, 4]) [600..<1600] \<or>
     st = B_BUFFER_OVERFLOW \<and> length vecs = 4 \<and> (\<exists>q. 600 < q \<and> q < 1600 \<and> vec_bytes vecs = map (byte_at paged_sample [2, 3, 4]) [600..<q]))"
  using file_map_translate_correct [OF paged_sample_ok(1) new_file_map_ok(1), of 3000 600 1000 4 0]
  by (simp add: paged_sample_ok(2) new_file_map_ok)

subsection \<open>Page writes and page reads\<close>

text \<open>
  C13. A page write stores the bytes of the memory, in the order of its \<open>iovec\<close>s, at the places of the
  bytes of the file from the given position on, up to the end of the file, however many extents the file has and
  however they are cut into rounds of eight vectors; nothing else on the device or in the volume changes. The chain of
  the file has less than 4 GB (\<open>file_ok\<close>), the allocations of the map succeed, it is not in the mode that holds the whole file, and
  the transfers are complete and without error (\<open>io_transfers\<close> is empty).
\<close>

theorem dosfs_write_pages_correct:
  assumes "file_ok v p cs" "map_ok (byte_at v cs) m" "fSize m = vn_st_size (deref v p)" "fRealloc m = []" "\<not> fCacheAll m" "\<not> read_only v"
    "int pos < fSize m" "0 < n" "int pos + int n < 2 ^ 63" "n \<le> length (vec_addrs vecs)" "io_transfers s = []"
    "k = min n (nat (fSize m) - pos)"
  shows "\<exists>m'. dosfs_write_pages v p \<lparr>pf_cache = True, pf_map = Some m\<rparr> (int pos) vecs n True s =
      Inr (B_OK, Some m', s\<lparr>io_device := store_all (map (byte_at v cs) [pos..<pos + k]) (map (io_memory s) (take k (vec_addrs vecs))) (io_device s)\<rparr>, v) \<and>
    map_ok (byte_at v cs) m'"
proof -
  have k: "k = min n (nat (fSize m - int pos))" using assms(12) by (simp add: nat_diff_distrib')
  have r: "k < n + 1" "k \<le> length (mem_rest vecs 0 0)" using k assms(10) by auto
  have lim: "fSize m \<le> int (nat (vn_st_size (deref v p)))" using assms(3) by simp
  obtain m' where "pages_loop (n + 1) True True (vfs_get_file_map p) (Some m) (int pos) vecs 0 0 n s v =
      Inr (B_OK, Some m', moved True (map (byte_at v cs) [pos..<pos + k]) (take k (mem_rest vecs 0 0)) s, v)" "map_ok (byte_at v cs) m'"
    using fat.pages_loop_writes [OF conjI [OF refl assms(1)] assms(2) lim assms(7-9) k r mem_rest_start(2) assms(11,4,5)] by auto
  then show ?thesis using assms(6) by (simp add: dosfs_write_pages_def moved_def)
qed

theorem dosfs_write_pages_correct_witness:
  "\<exists>m'. dosfs_write_pages paged_sample 7 \<lparr>pf_cache = True, pf_map = Some (new_file_map 3000 [])\<rparr> (int 600) [(0, 512), (4096, 512)] 1000 True
      \<lparr>io_memory = of_nat, io_device = (\<lambda>_. 0), io_transfers = []\<rparr> =
      Inr (B_OK, Some m', \<lparr>io_memory = of_nat, io_device = store_all (map (byte_at paged_sample [2, 3, 4]) [600..<1600])
        (map of_nat (take 1000 ([0..<512] @ [4096..<4608]))) (\<lambda>_. 0), io_transfers = []\<rparr>, paged_sample) \<and>
    map_ok (byte_at paged_sample [2, 3, 4]) m'"
  using dosfs_write_pages_correct [OF paged_sample_ok(1) new_file_map_ok(1), of 3000 600 1000 "[(0, 512), (4096, 512)]"
      "\<lparr>io_memory = of_nat, io_device = (\<lambda>_. 0), io_transfers = []\<rparr>" 1000]
  by (simp add: paged_sample_ok(2,3) new_file_map_ok del: take_append)

text \<open>
  C17. A page read stores the bytes of the file from the given position on, up to its end, in the memory, in the order
  of the \<open>iovec\<close>s, whenever the translation of the whole request fits into its eight vectors; otherwise
  all eight vectors are in use. The conditions are those of C13: a chain of less than 4 GB, no failing allocation,
  a map on demand, and transfers that are complete and without error.
\<close>

theorem dosfs_read_pages_correct:
  assumes "file_ok v p cs" "map_ok (byte_at v cs) m" "fSize m = vn_st_size (deref v p)" "fRealloc m = []" "\<not> fCacheAll m"
    "int pos < fSize m" "0 < n" "int pos + int n < 2 ^ 63" "n \<le> length (vec_addrs vecs)" "io_transfers s = []"
    "k = min n (nat (fSize m) - pos)"
  shows "\<exists>st fvs m'. file_map_translate (vfs_get_file_map p) (Some m) (int pos) (of_nat n) 8 0 v = Inr (st, fvs, Some m', v) \<and>
    (st = B_OK \<and>
       dosfs_read_pages v p \<lparr>pf_cache = True, pf_map = Some m\<rparr> (int pos) vecs n True s =
         Inr (B_OK, Some m', s\<lparr>io_memory := store_all (take k (vec_addrs vecs)) (map (\<lambda>q. io_device s (byte_at v cs q)) [pos..<pos + k]) (io_memory s)\<rparr>, v) \<or>
     st = B_BUFFER_OVERFLOW \<and> length fvs = 8)"
proof -
  have "unat (of_nat n :: 64 word) = n" using assms(8) by (simp add: unat_of_nat)
  then obtain st fvs m' where t: "file_map_translate (vfs_get_file_map p) (Some m) (int pos) (of_nat n) 8 0 v = Inr (st, fvs, Some m', v)"
    "names (byte_at v cs) pos (pos + mapped_size m (int pos) (of_nat n)) (length fvs = 8) st fvs"
    using fat.file_map_translate_names [of v v p cs m "int pos" "of_nat n" 8 0] assms by auto
  have k: "mapped_size m (int pos) (of_nat n) = k" "0 < k" "k \<le> n"
    using mapped_size_nat [of n m "int pos"] assms(6-8,11) by (auto simp: nat_diff_distrib')
  show ?thesis
  proof (cases "st = B_OK")
    case False
    then show ?thesis using t by (auto simp: names_def)
  next
    case True
    then have v: "vec_bytes fvs = map (byte_at v cs) [pos..<pos + k]" "good_vecs fvs"
      using t(2) unfolding k(1) by (auto simp: names_def status)
    have "fvs \<noteq> []" using v(1) k(2) by auto
    then have "pages_loop (Suc n) False True (vfs_get_file_map p) (Some m) (int pos) vecs 0 0 n s v =
        Inr (B_OK, Some m', moved False (vec_bytes fvs) (take k (vec_addrs vecs)) s, v)"
      using first_read [OF v(2) _ assms(10) _ _ k(3) t(1) disjI1 [OF True] refl, of vecs n] True v(1) assms(9) k(3) by auto
    then show ?thesis using t(1) True by (simp add: dosfs_read_pages_def moved_def v(1) comp_def)
  qed
qed

theorem dosfs_read_pages_correct_witness:
  "\<exists>st fvs m'. file_map_translate (vfs_get_file_map 7) (Some (new_file_map 3000 [])) (int 600) (of_nat 1000) 8 0 paged_sample = Inr (st, fvs, Some m', paged_sample) \<and>
    (st = B_OK \<and>
       dosfs_read_pages paged_sample 7 \<lparr>pf_cache = True, pf_map = Some (new_file_map 3000 [])\<rparr> (int 600) [(0, 512), (4096, 512)] 1000 True
         \<lparr>io_memory = (\<lambda>_. 0), io_device = word_of_int, io_transfers = []\<rparr> =
         Inr (B_OK, Some m', \<lparr>io_memory = store_all (take 1000 ([0..<512] @ [4096..<4608])) (map (\<lambda>q. word_of_int (byte_at paged_sample [2, 3, 4] q)) [600..<1600]) (\<lambda>_. 0),
           io_device = word_of_int, io_transfers = []\<rparr>, paged_sample) \<or>
     st = B_BUFFER_OVERFLOW \<and> length fvs = 8)"
  using dosfs_read_pages_correct [OF paged_sample_ok(1) new_file_map_ok(1), of 3000 600 1000 "[(0, 512), (4096, 512)]"
      "\<lparr>io_memory = (\<lambda>_. 0), io_device = word_of_int, io_transfers = []\<rparr>" 1000]
  by (simp add: paged_sample_ok(2,3) new_file_map_ok del: take_append)

subsection \<open>Two errors\<close>

lemma reported_less:
  assumes "vecs \<noteq> []" "0 < snd (hd vecs)" "snd (hd vecs) \<le> first" "first \<le> k" "first \<noteq> n"
  shows "reported vecs first k n < k"
proof -
  obtain b l rest where v: "vecs = (b, l) # rest" using assms(1) by (cases vecs) auto
  obtain i off where sk: "skip_vecs rest 1 (first - l) = (i, off)" by (cases "skip_vecs rest 1 (first - l)")
  have "off \<le> first - l" using skip_vecs_at [of 1 vecs "first - l" i off] sk by (simp add: v)
  moreover have "snd (skip_vecs vecs 0 first) = off" using sk assms(3) by (simp add: v)
  ultimately show ?thesis using assms(2-5) by (simp add: reported_def v)
qed

lemma first_vec_bytes:
  assumes "fvs \<noteq> []"
  shows "nat (snd (hd fvs)) \<le> length (vec_bytes fvs)"
proof -
  obtain vec gvs where "fvs = vec # gvs" using assms by (cases fvs) auto
  then show ?thesis by (simp add: vec_bytes_simps(2) [of vec gvs] vec_bytes_places del: vec_bytes_simps(3))
qed

text \<open>
  C39. A page read of a file whose extents do not fit into eight vectors goes wrong when the first extent fills the
  first \<open>iovec\<close>: the first round stores \<open>k\<close> bytes, but counts fewer, so that the next one reads the file from
  a position that has been read already and stores what it reads behind the \<open>k\<close> bytes.
\<close>

theorem dosfs_read_pages_goes_back:
  assumes "file_map_translate (vfs_get_file_map p) fm pos (of_nat n) 8 0 v = Inr (B_BUFFER_OVERFLOW, fvs, fm', v')"
    "good_vecs fvs" "fvs \<noteq> []" "k = length (vec_bytes fvs)" "k < n" "k \<le> length (vec_addrs vecs)" "io_transfers s = []"
    "vecs \<noteq> []" "0 < snd (hd vecs)" "int (snd (hd vecs)) \<le> snd (hd fvs)"
  shows "\<exists>r i off. r < k \<and> mem_rest vecs i off = drop k (vec_addrs vecs) \<and>
    dosfs_read_pages v p \<lparr>pf_cache = True, pf_map = fm\<rparr> pos vecs n True s =
      pages_loop n False True (vfs_get_file_map p) fm' (pos + int r) vecs i off (n - r)
        (s\<lparr>io_memory := store_all (take k (vec_addrs vecs)) (map (io_device s) (vec_bytes fvs)) (io_memory s)\<rparr>) v'"
proof -
  define r where "r = reported vecs (nat (snd (hd fvs))) k n"
  have first: "nat (snd (hd fvs)) \<le> k" unfolding assms(4) by (rule first_vec_bytes [OF assms(3)])
  have "snd (hd vecs) \<le> nat (snd (hd fvs))" using assms(10) by linarith
  then have "r < k" unfolding r_def by (rule reported_less [OF assms(8,9)]) (use first assms(5) in auto)
  moreover obtain i off where "pages_loop (Suc n) False True (vfs_get_file_map p) fm pos vecs 0 0 n s v =
      pages_loop n False True (vfs_get_file_map p) fm' (pos + int r) vecs i off (n - r) (moved False (vec_bytes fvs) (take k (vec_addrs vecs)) s) v'"
    "mem_rest vecs i off = drop k (vec_addrs vecs)"
    using first_read [OF assms(2,3,7,4,6) less_imp_le [OF assms(5)] assms(1) disjI2 [OF refl] r_def, of n] first assms(5)
    by (auto simp: status)
  ultimately show ?thesis by (auto simp: dosfs_read_pages_def moved_def)
qed

text \<open>A file of nine extents of a page each, and a memory of one page and eight pages.\<close>

definition scattered_map :: file_map where
  "scattered_map = \<lparr>fStore = Indirect (map (\<lambda>i. \<lparr>ext_offset = 4096 * i, ext_disk = (8192 * i, 4096)\<rparr>) [0, 1, 2, 3, 4, 5, 6, 7, 8]) 9,
     fCount = 9, fSize = 36864, fCacheAll = False, fRealloc = []\<rparr>"

lemma scattered_translate:
  "file_map_translate get_map (Some scattered_map) 0 (of_nat 36864) 8 0 w =
     Inr (B_BUFFER_OVERFLOW, map (\<lambda>i. (8192 * i, 4096)) [0, 1, 2, 3, 4, 5, 6, 7], Some scattered_map, w)"
proof -
  have e: "extents scattered_map = map (\<lambda>i. \<lparr>ext_offset = 4096 * i, ext_disk = (8192 * i, 4096)\<rparr>) [0, 1, 2, 3, 4, 5, 6, 7, 8]"
    "fCount scattered_map = 9" "fSize scattered_map = 36864"
    by (simp_all add: scattered_map_def extents_def CACHED_FILE_EXTENTS_def)
  have c: "Cache get_map 0 36864 scattered_map w = Inr (B_OK, scattered_map, w)" by (rule Cache_mapped) (simp add: map_end_def e ext_end_def)
  have f: "FindExtent scattered_map 0 = Some 0" by (simp add: FindExtent_def e find_loop.simps Let_def ext_end_def)
  have l: "copy_loop scattered_map 0 32768 0 8 [(0, 4096)] =
      Inr (B_BUFFER_OVERFLOW, map (\<lambda>i. (8192 * i, 4096)) [0, 1, 2, 3, 4, 5, 6, 7])"
    by (simp add: copy_loop.simps e)
  show ?thesis
    by (simp add: file_map_translate_def Translate_def e c f l past_size_def pad_last_def first_vec_def Let_def)
qed

theorem dosfs_read_pages_goes_back_witness:
  "\<exists>r i off. r < 32768 \<and> mem_rest [(0, 4096), (4096, 32768)] i off = drop 32768 (vec_addrs [(0, 4096), (4096, 32768)]) \<and>
    dosfs_read_pages paged_sample 7 \<lparr>pf_cache = True, pf_map = Some scattered_map\<rparr> 0 [(0, 4096), (4096, 32768)] 36864 True
        \<lparr>io_memory = (\<lambda>_. 0), io_device = word_of_int, io_transfers = []\<rparr> =
      pages_loop 36864 False True (vfs_get_file_map 7) (Some scattered_map) (0 + int r) [(0, 4096), (4096, 32768)] i off (36864 - r)
        \<lparr>io_memory = store_all (take 32768 (vec_addrs [(0, 4096), (4096, 32768)]))
           (map word_of_int (vec_bytes (map (\<lambda>i. (8192 * i, 4096)) [0, 1, 2, 3, 4, 5, 6, 7]))) (\<lambda>_. 0),
          io_device = word_of_int, io_transfers = []\<rparr> paged_sample"
proof -
  let ?fvs = "map (\<lambda>i. (8192 * i, 4096)) [0, 1, 2, 3, 4, 5, 6, 7] :: file_io_vec list"
  have "good_vecs ?fvs" by (simp add: good_vecs_def)
  moreover have "32768 = length (vec_bytes ?fvs)" by (simp add: vec_bytes_def)
  moreover have "4096 \<le> snd (hd ?fvs)" by simp
  ultimately show ?thesis
    using dosfs_read_pages_goes_back [OF scattered_translate [of "vfs_get_file_map 7" paged_sample], of 32768 "[(0, 4096), (4096, 32768)]"
        "\<lparr>io_memory = (\<lambda>_. 0), io_device = word_of_int, io_transfers = []\<rparr>"] by (simp del: upt_rec_numeral list.map)
qed

text \<open>
  C34. A file map is not told that \<open>dosfs_open\<close> with \<open>O_TRUNC\<close> has released the clusters of a file: nothing but
  \<open>file_map_set_size\<close>, which a later write calls, reaches it. Whatever has happened to the volume since then, the part of the file
  that the map knows and that is still inside the new size is translated to the places it was at before, without asking the
  driver, so that the data is written to clusters that are not the file's any more.
\<close>

theorem file_map_keeps_places:
  assumes "map_ok (byte_at v cs) m" "0 < n" "int pos + int n \<le> k" "int pos + int n \<le> map_end m" "k < 2 ^ 63" "2 \<le> max_vecs"
  shows "\<exists>st vecs. file_map_translate (vfs_get_file_map p) (file_map_set_size k (Some m)) (int pos) (of_nat n) max_vecs 0 w =
      Inr (st, vecs, file_map_set_size k (Some m), w) \<and>
    names (byte_at v cs) pos (pos + n) (length vecs = max_vecs) st vecs"
proof -
  let ?m = "SetSize k m"
  have m: "map_ok (byte_at v cs) ?m" "fSize ?m = k" "int pos + int n \<le> map_end ?m"
    using SetSize_correct [OF assms(1), of k] assms(2-4) by auto
  have n: "unat (of_nat n :: 64 word) = n" "mapped_size ?m (int pos) (of_nat n) = n"
    using mapped_size_nat [of n ?m "int pos"] assms(2,3,5) m(2) by (simp_all add: unat_of_nat)
  have sz: "int pos < fSize ?m" "0 < unat (of_nat n :: 64 word)" "int pos + int (unat (of_nat n :: 64 word)) < 2 ^ 63"
    using assms(2,3,5) m(2) n(1) by simp_all
  obtain st vecs where "Translate (vfs_get_file_map p) ?m (int pos) (of_nat n) max_vecs 0 w = Inr (st, vecs, ?m, w)"
    "names (byte_at v cs) pos (pos + n) (length vecs = max_vecs) st vecs"
    using Translate_mapped [OF of_nat_0_le_iff sz n(2) [symmetric] assms(6) _ Cache_mapped [OF m(3), of "vfs_get_file_map p" w] m(1,3), of 0]
    by auto
  then show ?thesis by (simp add: file_map_translate_def file_map_set_size_def)
qed

text \<open>The first sector of the sample, as an extent.\<close>

definition sample_map :: file_map where
  "sample_map = \<lparr>fStore = Direct [\<lparr>ext_offset = 0, ext_disk = (2560, 512)\<rparr>, no_extent], fCount = 1, fSize = 3000, fCacheAll = False, fRealloc = []\<rparr>"

lemma sample_map_ok: "map_ok (byte_at paged_sample [2, 3, 4]) sample_map" "map_end sample_map = 512"
proof -
  show e: "map_end sample_map = 512" by (simp add: map_end_def sample_map_def extents_def CACHED_FILE_EXTENTS_def ext_end_def)
  have "byte_at paged_sample [2, 3, 4] q = 2560 + int q" if "q < 512" for q
    using that by (simp add: byte_at_def sector_block_def paged_sample_def sample_volume_def bps_def)
  then show "map_ok (byte_at paged_sample [2, 3, 4]) sample_map"
    by (simp add: map_ok_def e) (simp add: map_defs sample_map_def extent_places_def ext_end_def)
qed

theorem file_map_keeps_places_witness:
  "\<forall>w. \<exists>st vecs. file_map_translate (vfs_get_file_map 7) (file_map_set_size 100 (Some sample_map)) (int 10) (of_nat 50) 8 0 w =
      Inr (st, vecs, file_map_set_size 100 (Some sample_map), w) \<and>
    names (byte_at paged_sample [2, 3, 4]) 10 60 (length vecs = 8) st vecs"
  using file_map_keeps_places [OF sample_map_ok(1), of 50 10 100 8 7] by (simp add: sample_map_ok(2))

end
