(* ===== verification/Encoding_Properties.thy ===== *)
theory Encoding_Properties
  imports Encodings
begin

unbundle bit_operations_syntax

section \<open>Properties of the conversions of names\<close>

text \<open>
  Units and their UTF-8 bytes, one at a time and in a row, and the short names of plain names.
\<close>

subsection \<open>One unit\<close>

lemma masks: "(63 :: uint8) = mask 6" "(31 :: uint8) = mask 5" "(15 :: uint8) = mask 4" "(63 :: uint16) = mask 6"
  by (simp_all add: mask_eq_exp_minus_1)

lemma high_clear:
  "(u :: uint16) AND 0xff80 = 0 \<Longrightarrow> bit u n \<Longrightarrow> n < 7"
  "(u :: uint16) AND 0xf800 = 0 \<Longrightarrow> bit u n \<Longrightarrow> n < 11"
proof -
  have *: "u AND NOT (mask k) = 0 \<Longrightarrow> bit u n \<Longrightarrow> n < k" for k
    by (metis bit_and_iff bit_mask_iff bit_not_iff bit_imp_le_length bit_0_eq bot_apply bot_bool_def linorder_not_le possible_bit_word)
  have "NOT (mask 7) = (0xff80 :: uint16)" "NOT (mask 11) = (0xf800 :: uint16)"
    by (simp_all add: mask_eq_exp_minus_1)
  then show "u AND 0xff80 = 0 \<Longrightarrow> bit u n \<Longrightarrow> n < 7" "u AND 0xf800 = 0 \<Longrightarrow> bit u n \<Longrightarrow> n < 11"
    using * [of 7] * [of 11] by auto
qed

lemma two_byte_unit:
  assumes "(u :: uint16) AND 0xf800 = 0"
  shows "push_bit 6 (ucast ((0xc0 OR ucast (drop_bit 6 u) :: uint8) AND 31)) OR ucast ((0x80 OR ucast (u AND 0x3f) :: uint8) AND 63) = u"
proof -
  have "push_bit 6 (ucast (ucast (drop_bit 6 u) AND mask 5 :: uint8)) OR ucast (ucast (u AND mask 6) AND mask 6 :: uint8) = u"
    (is "?x = u")
  proof (rule bit_word_eqI)
    fix n assume "n < LENGTH(16)"
    then show "bit ?x n = bit u n"
      using high_clear(2) [OF assms, of n] by (cases "n < 6"; cases "bit u n") (auto simp: bit_simps)
  qed
  then show ?thesis by (simp add: word_ao_dist masks [symmetric])
qed

lemma three_byte_unit:
  "push_bit 12 (ucast ((0xe0 OR ucast (drop_bit 12 u) :: uint8) AND 15)) OR
     push_bit 6 (ucast ((0x80 OR ucast (drop_bit 6 u AND 0x3f) :: uint8) AND 63)) OR
     ucast ((0x80 OR ucast (u AND 0x3f) :: uint8) AND 63) = (u :: uint16)"
proof -
  have "push_bit 12 (ucast (ucast (drop_bit 12 u) AND mask 4 :: uint8)) OR
     push_bit 6 (ucast (ucast (drop_bit 6 u AND mask 6) AND mask 6 :: uint8)) OR
     ucast (ucast (u AND mask 6) AND mask 6 :: uint8) = u" (is "?x = u")
  proof (rule bit_word_eqI)
    fix n assume n: "n < LENGTH(16)"
    consider "n < 6" | m where "n = 6 + m" "m < 6" | m where "n = 12 + m" "m < 4"
      using n le_Suc_ex [of 6 n] le_Suc_ex [of 12 n] by force
    then show "bit ?x n = bit u n" by cases (auto simp: bit_simps)
  qed
  then show ?thesis by (simp add: word_ao_dist masks [symmetric])
qed

text \<open>The tests of the leading bits.\<close>

lemma byte_bits:
  "(c :: uint8) AND 0x80 = 0 \<longleftrightarrow> \<not> bit c 7" "c AND 0x20 = 0 \<longleftrightarrow> \<not> bit c 5" "c AND 0x10 = 0 \<longleftrightarrow> \<not> bit c 4"
  using and_exp_eq_0_iff_not_bit [of c 7] and_exp_eq_0_iff_not_bit [of c 5] and_exp_eq_0_iff_not_bit [of c 4]
  by simp_all

lemma continuation: "(0x80 OR ucast ((x :: uint16) AND 0x3f) :: uint8) AND 0xc0 = 0x80"
proof -
  have "(ucast (x AND 0x3f) :: uint8) AND 0xc0 = 0"
  proof -
    have "(0xc0 :: uint8) = NOT (mask 6)" by (simp add: mask_eq_exp_minus_1)
    moreover have "(ucast (x AND mask 6) :: uint8) AND NOT (mask 6) = 0"
      by (rule bit_word_eqI) (auto simp: bit_simps)
    ultimately show ?thesis by (simp add: masks)
  qed
  then show ?thesis by (simp add: word_ao_dist)
qed

lemma char_len_list:
  "list_all (\<lambda>n. let c = word_of_nat n in
     (c AND 0x80 = 0 \<longrightarrow> utf8_char_len c = 1) \<and> (c AND 0xe0 = 0xc0 \<longrightarrow> utf8_char_len c = 2) \<and>
     (c AND 0xf0 = 0xe0 \<longrightarrow> utf8_char_len c = 3)) [0..<256]"
  by code_simp

lemma utf8_char_len_cases:
  "c AND 0x80 = 0 \<Longrightarrow> utf8_char_len c = 1" "c AND 0xe0 = 0xc0 \<Longrightarrow> utf8_char_len c = 2"
  "c AND 0xf0 = 0xe0 \<Longrightarrow> utf8_char_len c = 3"
proof -
  have "unat c \<in> set [0..<256]" using unsigned_less [of c] by simp
  then have "let c = word_of_nat (unat c) in
     (c AND 0x80 = 0 \<longrightarrow> utf8_char_len c = 1) \<and> (c AND 0xe0 = 0xc0 \<longrightarrow> utf8_char_len c = 2) \<and>
     (c AND 0xf0 = 0xe0 \<longrightarrow> utf8_char_len c = 3)"
    using char_len_list unfolding list_all_iff by blast
  then show "c AND 0x80 = 0 \<Longrightarrow> utf8_char_len c = 1" "c AND 0xe0 = 0xc0 \<Longrightarrow> utf8_char_len c = 2"
    "c AND 0xf0 = 0xe0 \<Longrightarrow> utf8_char_len c = 3"
    by (simp_all add: Let_def)
qed

text \<open>A unit that is not the first half of a surrogate pair comes back from its UTF-8 bytes.\<close>

lemma utf8_unit_one:
  assumes "(u :: uint16) AND 0xff80 = 0"
  shows "utf8_char_len (ucast u) = 1" "utf8_to_u_hostendian (ucast u # rest) = Some (u, 1)"
proof -
  have b: "(ucast u :: uint8) AND 0x80 = 0"
    using high_clear(1) [OF assms, of 7] by (auto simp: byte_bits bit_simps)
  have "ucast (ucast u :: uint8) = u"
    by (rule bit_word_eqI) (use high_clear(1) [OF assms] in \<open>fastforce simp: bit_simps\<close>)
  then show "utf8_to_u_hostendian (ucast u # rest) = Some (u, 1)"
    using b by (simp add: utf8_to_u_hostendian_def)
  show "utf8_char_len (ucast u) = 1" by (rule utf8_char_len_cases(1) [OF b])
qed

lemma utf8_unit_two:
  assumes "(u :: uint16) AND 0xf800 = 0"
  shows "utf8_char_len (0xc0 OR ucast (drop_bit 6 u)) = 2"
    "utf8_to_u_hostendian ((0xc0 OR ucast (drop_bit 6 u)) # (0x80 OR ucast (u AND 0x3f)) # rest) = Some (u, 2)"
proof -
  have "(0xe0 :: uint8) = NOT (mask 5)" by (simp add: mask_eq_exp_minus_1)
  moreover have "(ucast (drop_bit 6 u) :: uint8) AND NOT (mask 5) = 0"
    by (rule bit_word_eqI) (use high_clear(2) [OF assms] in \<open>fastforce simp: bit_simps\<close>)
  ultimately have low: "(ucast (drop_bit 6 u) :: uint8) AND 0xe0 = 0" by simp
  then show "utf8_char_len (0xc0 OR ucast (drop_bit 6 u)) = 2"
    by (intro utf8_char_len_cases(2)) (simp add: word_ao_dist)
  have "\<not> bit (ucast (drop_bit 6 u) :: uint8) 5" using high_clear(2) [OF assms, of 11] by (auto simp: bit_simps)
  then have "(0xc0 OR ucast (drop_bit 6 u) :: uint8) AND 0x20 = 0"
    by (simp add: word_ao_dist byte_bits)
  moreover have "(0xc0 OR ucast (drop_bit 6 u) :: uint8) AND 0x80 \<noteq> 0"
    by (simp add: byte_bits bit_or_iff)
  ultimately show "utf8_to_u_hostendian ((0xc0 OR ucast (drop_bit 6 u)) # (0x80 OR ucast (u AND 0x3f)) # rest) = Some (u, 2)"
    using two_byte_unit [OF assms] by (simp add: utf8_to_u_hostendian_def continuation)
qed

lemma utf8_unit_three:
  "utf8_char_len (0xe0 OR ucast (drop_bit 12 (u :: uint16))) = 3"
  "utf8_to_u_hostendian ((0xe0 OR ucast (drop_bit 12 u)) # (0x80 OR ucast (drop_bit 6 u AND 0x3f)) #
     (0x80 OR ucast (u AND 0x3f)) # rest) = Some (u, 3)"
proof -
  have "(0xf0 :: uint8) = NOT (mask 4)" by (simp add: mask_eq_exp_minus_1)
  moreover have "(ucast (drop_bit 12 u) :: uint8) AND NOT (mask 4) = 0"
    by (rule bit_word_eqI) (auto simp: bit_simps dest: bit_imp_le_length)
  ultimately have low: "(ucast (drop_bit 12 u) :: uint8) AND 0xf0 = 0" by simp
  then show "utf8_char_len (0xe0 OR ucast (drop_bit 12 u)) = 3"
    by (intro utf8_char_len_cases(3)) (simp add: word_ao_dist)
  have "\<not> bit (ucast (drop_bit 12 u) :: uint8) 4" by (auto simp: bit_simps dest: bit_imp_le_length)
  then have "(0xe0 OR ucast (drop_bit 12 u) :: uint8) AND 0x10 = 0"
    by (simp add: word_ao_dist byte_bits)
  moreover have "(0xe0 OR ucast (drop_bit 12 u) :: uint8) AND 0x80 \<noteq> 0" "(0xe0 OR ucast (drop_bit 12 u) :: uint8) AND 0x20 \<noteq> 0"
    by (simp_all add: byte_bits bit_or_iff)
  ultimately show "utf8_to_u_hostendian ((0xe0 OR ucast (drop_bit 12 u)) # (0x80 OR ucast (drop_bit 6 u AND 0x3f)) #
     (0x80 OR ucast (u AND 0x3f)) # rest) = Some (u, 3)"
    using three_byte_unit [of u] by (simp add: utf8_to_u_hostendian_def continuation numeral_2_eq_2)
qed

definition utf8_of :: "uint16 \<Rightarrow> bytes" where
  "utf8_of u = u_hostendian_to_utf8 u 0"

lemma utf8_unit:
  assumes "u AND 0xfc00 \<noteq> 0xd800"
  shows "u_hostendian_to_utf8 u v = utf8_of u" "utf8_of u \<noteq> []" "utf8_char_len (utf8_of u ! 0) = length (utf8_of u)"
    "utf8_to_u_hostendian (utf8_of u @ rest) = Some (u, length (utf8_of u))"
  using assms utf8_unit_one(1) [of u] utf8_unit_one(2) [of u rest] utf8_unit_two(1) [of u] utf8_unit_two(2) [of u rest]
    utf8_unit_three(1) [of u] utf8_unit_three(2) [of u rest]
  by (auto simp: utf8_of_def u_hostendian_to_utf8_def)


subsection \<open>Rows of units\<close>

abbreviation utf8_bytes :: "uint16 list \<Rightarrow> bytes" where
  "utf8_bytes us \<equiv> concat (map utf8_of us)"

abbreviation le_bytes :: "uint16 list \<Rightarrow> bytes" where
  "le_bytes us \<equiv> concat (map (\<lambda>u. [ucast (u AND 0xff), ucast (drop_bit 8 u)]) us)"

lemma le_bytes_length [simp]: "length (le_bytes us) = 2 * length us"
  by (induction us) auto

lemma le_unit_pair: "push_bit 8 (ucast (ucast (drop_bit 8 u) :: uint8)) OR ucast (ucast (u AND 0xff) :: uint8) = (u :: uint16)"
proof -
  have "push_bit 8 (ucast (ucast (drop_bit 8 u) :: uint8)) OR ucast (ucast (u AND mask 8) :: uint8) = u" (is "?x = u")
  proof (rule bit_word_eqI)
    fix n assume n: "n < LENGTH(16)"
    consider "n < 8" | m where "n = 8 + m" "m < 8" using n le_Suc_ex [of 8 n] by force
    then show "bit ?x n = bit u n" by cases (auto simp: bit_simps)
  qed
  then show ?thesis by (simp add: mask_eq_exp_minus_1)
qed

lemma le_unit_bytes: "i < length us \<Longrightarrow> le_unit (le_bytes us @ rest) (2 * i) = us ! i"
proof (induction us arbitrary: i)
  case (Cons u us)
  then show ?case by (cases i) (auto simp: le_unit_def le_unit_pair)
qed simp

lemma utf8_loop_units:
  assumes "\<forall>u \<in> set us. u AND 0xfc00 \<noteq> 0xd800" "length dst + 2 * length us < dstLen + 1"
  shows "utf8_loop (utf8_bytes us) dstLen dst = Inr ([], dst @ le_bytes us)"
  using assms
proof (induction us arbitrary: dst)
  case (Cons u us)
  note u = utf8_unit [of u]
  have step: "utf8_loop (utf8_bytes (u # us)) dstLen dst =
      utf8_loop (utf8_bytes us) dstLen (dst @ [ucast (u AND 0xff), ucast (drop_bit 8 u)])"
    using Cons.prems u by (subst utf8_loop.simps) (auto simp: nth_append)
  then show ?case using Cons.prems Cons.IH [of "dst @ [ucast (u AND 0xff), ucast (drop_bit 8 u)]"] by simp
qed (simp add: utf8_loop.simps)

lemma lendian_loop_units:
  assumes "\<forall>u \<in> set us. u AND 0xfc00 \<noteq> 0xd800" "k \<le> length us" "length dst + length (utf8_bytes (drop k us)) \<le> room"
  shows "lendian_loop (le_bytes us @ rest) (2 * length us) room (2 * k) dst = (2 * length us, dst @ utf8_bytes (drop k us))"
  using assms
proof (induction "length us - k" arbitrary: k dst)
  case 0
  then show ?case by (simp add: lendian_loop.simps)
next
  case (Suc n)
  have k: "k < length us" using Suc.hyps(2) by simp
  then have us: "drop k us = us ! k # drop (Suc k) us" by (simp add: Cons_nth_drop_Suc)
  have "us ! k AND 0xfc00 \<noteq> 0xd800" using Suc.prems(1) k by simp
  then have "u_lendian_to_utf8 (le_bytes us @ rest) (2 * k) = utf8_of (us ! k)"
    by (simp add: u_lendian_to_utf8_def le_unit_bytes [OF k] utf8_unit(1))
  moreover have "lendian_loop (le_bytes us @ rest) (2 * length us) room (2 * Suc k) (dst @ utf8_of (us ! k)) =
      (2 * length us, (dst @ utf8_of (us ! k)) @ utf8_bytes (drop (Suc k) us))"
    using Suc.prems us k by (intro Suc.hyps(1)) (use Suc.hyps(2) in auto)
  ultimately show ?case
    using Suc.prems(3) us k by (subst lendian_loop.simps) (simp add: Let_def)
qed

lemma utf8_of_zero [simp]: "utf8_of 0 = [0]"
  by (simp add: utf8_of_def u_hostendian_to_utf8_def)

lemma utf8_to_unicode_units:
  assumes "\<forall>u \<in> set us. u AND 0xfc00 \<noteq> 0xd800" "length us \<le> 255"
  shows "utf8_to_unicode (utf8_bytes us) 512 = (int (2 * (length us + 1)), le_bytes (us @ [0]))"
proof -
  have "utf8_loop (utf8_bytes (us @ [0])) 512 [] = Inr ([], [] @ le_bytes (us @ [0]))"
    by (rule utf8_loop_units) (use assms in auto)
  then show ?thesis by (simp add: utf8_to_unicode_def utf8_to_lendian_unicode_def)
qed

lemma unicode_to_utf8_units:
  assumes "\<forall>u \<in> set us. u AND 0xfc00 \<noteq> 0xd800" "length (utf8_bytes us) < len"
  shows "unicode_to_utf8 (le_bytes (us @ [0]) @ rest) (2 * (length us + 1)) len = (B_OK, utf8_bytes us @ [0])"
proof -
  have "lendian_loop (le_bytes (us @ [0]) @ rest) (2 * length (us @ [0])) len (2 * 0) [] =
      (2 * length (us @ [0]), [] @ utf8_bytes (drop 0 (us @ [0])))"
    by (rule lendian_loop_units) (use assms in auto)
  then show ?thesis by (simp add: unicode_to_utf8_def lendian_unicode_to_utf8_def)
qed

text \<open>
  The loop goes on by one unit after a surrogate pair as well, so the second half is stored once more.
\<close>

lemma surrogate_pair_repeats_half:
  assumes "u AND 0xfc00 = 0xd800" "v AND 0xfc00 = 0xdc00"
  shows "unicode_to_utf8 (le_bytes [u, v, 0]) 6 512 = (B_OK, u_hostendian_to_utf8 u v @ utf8_of v @ [0])"
proof -
  define src where "src = le_bytes [u, v, 0]"
  have at: "le_unit src 0 = u" "le_unit src 2 = v" "le_unit src 4 = 0"
    using le_unit_bytes [of 0 "[u, v, 0]" "[]"] le_unit_bytes [of 1 "[u, v, 0]" "[]"] le_unit_bytes [of 2 "[u, v, 0]" "[]"]
    by (simp_all add: src_def)
  have "v AND 0xfc00 \<noteq> 0xd800" using assms(2) by simp
  then have bytes: "u_lendian_to_utf8 src 0 = u_hostendian_to_utf8 u v" "u_lendian_to_utf8 src 2 = utf8_of v"
    "u_lendian_to_utf8 src 4 = [0]"
    using utf8_unit(1) [of 0] by (simp_all add: u_lendian_to_utf8_def at utf8_unit(1) numeral_2_eq_2 [symmetric])
  have len: "length (u_hostendian_to_utf8 u v) \<le> 4" "length (utf8_of v) \<le> 4"
    by (simp_all add: u_hostendian_to_utf8_def utf8_of_def Let_def)
  have "lendian_loop src 6 512 4 (u_hostendian_to_utf8 u v @ utf8_of v) = (6, u_hostendian_to_utf8 u v @ utf8_of v @ [0])"
    using len by (subst lendian_loop.simps) (simp add: bytes lendian_loop.simps)
  then have "lendian_loop src 6 512 2 (u_hostendian_to_utf8 u v) = (6, u_hostendian_to_utf8 u v @ utf8_of v @ [0])"
    using len by (subst lendian_loop.simps) (simp add: bytes Let_def)
  then have "lendian_loop src 6 512 0 [] = (6, u_hostendian_to_utf8 u v @ utf8_of v @ [0])"
    using len by (subst lendian_loop.simps) (simp add: bytes Let_def numeral_2_eq_2 [symmetric])
  then show ?thesis unfolding src_def [symmetric] by (simp add: unicode_to_utf8_def lendian_unicode_to_utf8_def)
qed

text \<open>
  C36. A name survives the conversion to the units of a long name and back: for every row of at most 255
  units without the first half of a surrogate pair, the conversion of its UTF-8 form succeeds and gives
  these units and a final zero, and converting them back gives the UTF-8 form and a final zero, as long
  as the buffer is large enough.
\<close>

theorem unicode_roundtrip:
  assumes "\<forall>u \<in> set us. u AND 0xfc00 \<noteq> 0xd800" "length us \<le> 255" "name = utf8_bytes us" "length name < len"
  shows "\<exists>uni. utf8_to_unicode name 512 = (int (2 * (length us + 1)), uni) \<and> uni = le_bytes (us @ [0]) \<and>
    unicode_to_utf8 (uni @ rest) (2 * (length us + 1)) len = (B_OK, name @ [0])"
  using utf8_to_unicode_units [OF assms(1,2)] unicode_to_utf8_units [OF assms(1)] assms(3,4) by blast

theorem unicode_roundtrip_witness:
  "\<exists>uni. utf8_to_unicode [0x41, 0xc3, 0xa9, 0xe2, 0x82, 0xac] 512 = (8, uni) \<and> uni = [0x41, 0, 0xe9, 0, 0xac, 0x20, 0, 0] \<and>
     unicode_to_utf8 (uni @ []) 8 512 = (B_OK, [0x41, 0xc3, 0xa9, 0xe2, 0x82, 0xac, 0])"
  using unicode_roundtrip [of "[0x41, 0xe9, 0x20ac]" "[0x41, 0xc3, 0xa9, 0xe2, 0x82, 0xac]" 512 "[]"]
  by (simp add: utf8_of_def u_hostendian_to_utf8_def)

end
