(* ===== verification/Short_Names.thy ===== *)
theory Short_Names
  imports Encoding_Properties Sample_Volume
begin

unbundle bit_operations_syntax

section \<open>Short names\<close>

text \<open>
  A name that needs no long name is stored as a short name only. It has to come back from it.
\<close>

subsection \<open>Acceptable characters\<close>

lemma msdostou_low: "take 128 msdostou = map word_of_nat [0..<128]"
  by code_simp

lemma msdostou_ascii: "n < 128 \<Longrightarrow> msdostou ! n = word_of_nat n"
  using msdostou_low by (metis add_0 diff_zero length_upt nth_map nth_take nth_upt)

lemma code_page_search_row:
  "k \<le> j \<Longrightarrow> j < k + n \<Longrightarrow> k + n \<le> 128 \<Longrightarrow>
     code_page_search (map word_of_nat [k..<k + n] @ table) (word_of_nat j) k = j"
proof (induction n arbitrary: k)
  case (Suc n)
  have "(word_of_nat k :: uint16) = word_of_nat j \<longleftrightarrow> k = j"
    using Suc.prems by (auto simp: word_unat_eq_iff unat_of_nat)
  then show ?case using Suc.prems Suc.IH [of "Suc k"] by (simp add: upt_rec del: upt_Suc)
qed simp

lemma code_page_search_ascii: "n < 128 \<Longrightarrow> code_page_search msdostou (word_of_nat n) 0 = n"
  using code_page_search_row [of 0 n 128 "drop 128 msdostou"] append_take_drop_id [of 128 msdostou]
  by (simp add: msdostou_low)

lemma acceptable_list:
  "list_all (\<lambda>c. c < 0x80 \<and> c \<notin> set illegal \<and> \<not> (c \<ge> 0x61 \<and> c \<le> 0x7a) \<and> c \<notin> set underbar \<and> c \<notin> set capitalize_from \<and>
     c \<noteq> 0 \<and> c \<noteq> 0x2e \<and> c \<noteq> 0x20 \<and> c \<noteq> 5) acceptable"
  by code_simp

lemma widen: "unat (ucast (c :: uint8) :: uint16) = unat c" "ucast (ucast c :: uint16) = c"
proof -
  have "(unsigned c :: nat) < 2 ^ LENGTH(8)" by (rule unsigned_less)
  then have "unat c < 2 ^ 16" by simp
  then show "unat (ucast c :: uint16) = unat c" by (simp add: unsigned_ucast_eq take_bit_nat_eq_self)
  show "ucast (ucast c :: uint16) = c" by (rule bit_word_eqI) (simp add: bit_simps)
qed

lemma ascii_clear: "(c :: uint8) < 0x80 \<Longrightarrow> (ucast c :: uint16) AND NOT (mask 7) = 0"
proof (rule bit_word_eqI)
  fix n assume "c < 0x80" "n < LENGTH(16)"
  then have "take_bit 7 (unat c) = unat c" by (simp add: word_less_nat_alt take_bit_nat_eq_self)
  then have "bit c n \<Longrightarrow> n < 7" by (metis bit_take_bit_iff bit_unsigned_iff possible_bit_nat)
  then show "bit ((ucast c :: uint16) AND NOT (mask 7)) n = bit (0 :: uint16) n" by (auto simp: bit_simps)
qed

lemma ascii_char:
  assumes "(c :: uint8) < 0x80"
  shows "u_hostendian_to_utf8 (msdostou ! unat c) 0 = [c]" "utf8_of (ucast c) = [c]"
    "(ucast c :: uint16) AND 0xfc00 \<noteq> 0xd800" "\<not> is_unicode_japanese (ucast c)"
    "code_page_search msdostou (ucast c) 0 = unat c"
proof -
  have n: "unat c < 128" using assms by (simp add: word_less_nat_alt)
  have u: "(ucast c :: uint16) = word_of_nat (unat c)" by simp
  have "NOT (mask 7) = (0xff80 :: uint16)" by (simp add: mask_eq_exp_minus_1)
  then have "(ucast c :: uint16) AND 0xff80 = 0" using ascii_clear [OF assms] by simp
  then show utf: "utf8_of (ucast c) = [c]"
    by (simp add: utf8_of_def u_hostendian_to_utf8_def widen)
  then show "u_hostendian_to_utf8 (msdostou ! unat c) 0 = [c]"
    unfolding msdostou_ascii [OF n] by (simp only: u [symmetric] utf8_of_def)
  show "code_page_search msdostou (ucast c) 0 = unat c" unfolding u by (rule code_page_search_ascii [OF n])
  have small: "unat (ucast c :: uint16) < 128" using n by (simp add: widen)
  then show "\<not> is_unicode_japanese (ucast c)" by (auto simp: is_unicode_japanese_def word_le_nat_alt)
  have "\<not> bit ((ucast c :: uint16) AND 0xfc00) 15" by (auto simp: bit_simps dest: bit_imp_le_length)
  moreover have "bit (0xd800 :: uint16) 15" by simp
  ultimately show "(ucast c :: uint16) AND 0xfc00 \<noteq> 0xd800" by metis
qed

lemma acceptable_char:
  assumes "c \<in> set acceptable"
  shows "c < 0x80" "c \<noteq> 0" "c \<noteq> 0x2e" "c \<noteq> 0x20" "c \<noteq> 5" "short_char (ucast c) = Inr (Some c)"
    "(ucast c :: uint16) \<noteq> 0" "(ucast c :: uint16) \<noteq> 0x2e"
proof -
  have c: "c < 0x80" "c \<notin> set illegal" "\<not> (c \<ge> 0x61 \<and> c \<le> 0x7a)" "c \<notin> set underbar" "c \<notin> set capitalize_from"
    "c \<noteq> 0" "c \<noteq> 0x2e" "c \<noteq> 0x20" "c \<noteq> 5"
    using assms acceptable_list by (simp_all add: list_all_iff)
  then show "c < 0x80" "c \<noteq> 0" "c \<noteq> 0x2e" "c \<noteq> 0x20" "c \<noteq> 5" by blast+
  have "unat c < 0x100" using c(1) by (simp add: word_less_nat_alt)
  then show "short_char (ucast c) = Inr (Some c)"
    unfolding short_char_def Let_def ascii_char(5) [OF c(1)] using c assms by auto
  show "(ucast c :: uint16) \<noteq> 0" "(ucast c :: uint16) \<noteq> 0x2e"
    using c(6,7) by (auto simp: word_unat_eq_iff widen)
qed

text \<open>A plain name: acceptable characters and dots.\<close>

definition plain :: "bytes \<Rightarrow> bool" where
  "plain name \<longleftrightarrow> set name \<subseteq> insert 0x2e (set acceptable)"

lemma plain_char:
  assumes "plain name" "c \<in> set name"
  shows "c < 0x80" "c \<noteq> 0"
  using assms acceptable_char(1,2) [of c] by (auto simp: plain_def)

lemma plain_utf8: "plain name \<Longrightarrow> utf8_bytes (map ucast name) = name"
proof (induction name)
  case (Cons c name)
  then have "plain name" by (simp add: plain_def)
  then show ?case using Cons.IH ascii_char(2) [OF plain_char(1) [OF Cons.prems]] by simp
qed simp

lemma plain_unicode:
  assumes "plain name" "length name \<le> 255"
  shows "utf8_to_unicode name 512 = (int (2 * (length name + 1)), le_bytes (map ucast name @ [0]))"
  using utf8_to_unicode_units [of "map ucast name"] ascii_char(3) [OF plain_char(1) [OF assms(1)]] assms(2) plain_utf8 [OF assms(1)]
  by simp

lemma units_of_bytes: "map (\<lambda>i. le_unit (le_bytes us @ rest) (2 * i)) [0..<length us] = us"
  by (rule nth_equalityI) (simp_all add: le_unit_bytes)

lemma even_units: "i < 2 * length us \<Longrightarrow> even i \<Longrightarrow> le_unit (le_bytes us @ rest) i \<in> set us"
  using le_unit_bytes [of "i div 2" us rest] by auto

lemma generate_short_name_english:
  assumes "\<not> (\<exists>i \<in> set [0..<n]. even i \<and> is_unicode_japanese (le_unit uni i))"
    "map (\<lambda>i. le_unit uni (2 * i)) [0..<n div 2] = us"
  shows "generate_short_name vol name uni n =
    (let (result, nshort) = generate_short_name_msdos us (replicate 11 0x20)
     in (result, if result = B_OK \<and> nshort = replicate 11 0x20 then nshort[0 := 0x5f] else nshort, MS_DOS_CONVERSION, vol))"
  unfolding generate_short_name_def assms(2) Let_def using assms(1)
  by (cases "generate_short_name_msdos us (replicate 11 0x20)") (simp only: if_False prod.case)

lemma plain_short_name:
  assumes "plain name"
  shows "generate_short_name vol name (le_bytes (map ucast name @ [0]) @ rest) (2 * (length name + 1)) =
    (let (result, nshort) = generate_short_name_msdos (map ucast name @ [0]) (replicate 11 0x20)
     in (result, if result = B_OK \<and> nshort = replicate 11 0x20 then nshort[0 := 0x5f] else nshort, MS_DOS_CONVERSION, vol))"
proof -
  let ?us = "map ucast name @ [0 :: uint16]"
  have "\<not> is_unicode_japanese u" if "u \<in> set ?us" for u
    using that ascii_char(4) [OF plain_char(1) [OF assms]] by (auto simp: is_unicode_japanese_def)
  then have no: "\<not> (\<exists>i \<in> set [0..<2 * (length name + 1)]. even i \<and> is_unicode_japanese (le_unit (le_bytes ?us @ rest) i))"
    using even_units [of _ ?us rest] by auto
  have "map (\<lambda>i. le_unit (le_bytes ?us @ rest) (2 * i)) [0..<2 * (length name + 1) div 2] = ?us"
    using units_of_bytes [of ?us rest] by simp
  then show ?thesis by (rule generate_short_name_english [OF no])
qed

subsection \<open>The loops\<close>

lemma put_bytes_Cons: "i < length ns \<Longrightarrow> put_bytes (Suc i) cs (ns[i := c]) = put_bytes i (c # cs) ns"
  by (simp add: put_bytes_def take_Suc_conv_app_nth)

lemma put_bytes_Nil [simp]: "put_bytes i [] ns = ns"
  by (simp add: put_bytes_def)

lemma short_base_chars:
  assumes "set base \<subseteq> set acceptable" "i + length base \<le> 8" "length ns = 11"
  shows "short_base (map ucast base @ us) i ns = short_base us (i + length base) (put_bytes i base ns)"
  using assms
proof (induction base arbitrary: i ns)
  case (Cons c base)
  have c: "c \<in> set acceptable" using Cons.prems(1) by simp
  have "short_base (map ucast (c # base) @ us) i ns = short_base (map ucast base @ us) (i + 1) (ns[i := c])"
    using acceptable_char [OF c] Cons.prems(2) by simp
  also have "\<dots> = short_base us (i + 1 + length base) (put_bytes (i + 1) base (ns[i := c]))"
    by (rule Cons.IH) (use Cons.prems in auto)
  finally show ?case using Cons.prems put_bytes_Cons [of i ns base c] by simp
qed simp

lemma short_ext_chars:
  assumes "set ext \<subseteq> set acceptable" "i + length ext \<le> 11" "length ns = 11"
  shows "short_ext (map ucast ext @ [0]) i ns = (B_OK, put_bytes i ext ns)"
  using assms
proof (induction ext arbitrary: i ns)
  case (Cons c ext)
  have c: "c \<in> set acceptable" using Cons.prems(1) by simp
  have "short_ext (map ucast (c # ext) @ [0]) i ns = short_ext (map ucast ext @ [0]) (i + 1) (ns[i := c])"
    using acceptable_char [OF c] Cons.prems(2) by simp
  also have "\<dots> = (B_OK, put_bytes (i + 1) ext (ns[i := c]))"
    by (rule Cons.IH) (use Cons.prems in auto)
  finally show ?case using Cons.prems put_bytes_Cons [of i ns ext c] by simp
qed simp

lemma final_dot_none: "(\<And>m. m < n \<Longrightarrow> us ! m \<noteq> 0x2e) \<Longrightarrow> final_dot us n = None"
  by (induction n) auto

lemma final_dot_some:
  "us ! k = 0x2e \<Longrightarrow> k < n \<Longrightarrow> (\<And>m. k < m \<Longrightarrow> m < n \<Longrightarrow> us ! m \<noteq> 0x2e) \<Longrightarrow> final_dot us n = Some k"
  by (induction n) (auto simp: less_Suc_eq)

subsection \<open>The short name and what is read from it\<close>

definition padded :: "bytes \<Rightarrow> bytes \<Rightarrow> bytes" where
  "padded base ext = base @ replicate (8 - length base) 0x20 @ ext @ replicate (3 - length ext) 0x20"

text \<open>The name that a base and an extension make up.\<close>

definition dotted :: "bytes \<Rightarrow> bytes \<Rightarrow> bytes" where
  "dotted base ext = base @ (if ext = [] then [] else 0x2e # ext)"

lemma put_base: "length base \<le> 8 \<Longrightarrow> put_bytes 0 base (replicate 11 0x20) = padded base []"
  by (simp add: put_bytes_def padded_def replicate_add [symmetric] del: replicate_add)

lemma put_ext: "length base \<le> 8 \<Longrightarrow> length ext \<le> 3 \<Longrightarrow> put_bytes 8 ext (padded base []) = padded base ext"
  by (simp add: put_bytes_def padded_def)

lemma no_dot: "set cs \<subseteq> set acceptable \<Longrightarrow> u \<in> set (map ucast cs @ [0 :: uint16]) \<Longrightarrow> u \<noteq> 0x2e"
  using acceptable_char(8) by auto

lemma generate_short_name_base:
  assumes "set base \<subseteq> set acceptable" "length base \<le> 8"
  shows "generate_short_name_msdos (map ucast base @ [0]) (replicate 11 0x20) = (B_OK, padded base [])"
proof -
  let ?us = "map ucast base @ [0 :: uint16]"
  have "?us ! m \<noteq> 0x2e" if "m < length ?us" for m
    by (rule no_dot [OF assms(1) nth_mem [OF that]])
  then have "final_dot ?us (length ?us) = None" by (rule final_dot_none)
  moreover have "short_base ?us 0 (replicate 11 0x20) = short_base [0] (length base) (padded base [])"
    using short_base_chars [of base 0 "replicate 11 0x20" "[0]"] assms put_base by simp
  ultimately show ?thesis by (simp add: generate_short_name_msdos_def)
qed

lemma generate_short_name_dotted:
  assumes "set base \<subseteq> set acceptable" "length base \<le> 8" "base \<noteq> []" "set ext \<subseteq> set acceptable" "length ext \<le> 3"
  shows "generate_short_name_msdos (map ucast (dotted base ext) @ [0]) (replicate 11 0x20) = (B_OK, padded base ext)"
proof (cases "ext = []")
  case True
  then show ?thesis using generate_short_name_base [OF assms(1,2)] by (simp add: dotted_def)
next
  case False
  let ?us = "map ucast (dotted base ext) @ [0 :: uint16]"
  have us: "?us = map ucast base @ 0x2e # map ucast ext @ [0]" using False by (simp add: dotted_def)
  have "?us ! m \<noteq> 0x2e" if lo: "length base < m" and hi: "m < length ?us" for m
  proof -
    obtain k where k: "m = length base + Suc k" using less_imp_Suc_add [OF lo] by auto
    then have "k < length (map ucast ext @ [0 :: uint16])" using hi unfolding us by simp
    then have "(map ucast ext @ [0 :: uint16]) ! k \<noteq> 0x2e" by (intro no_dot [OF assms(4)] nth_mem)
    moreover have "?us ! m = (map ucast ext @ [0]) ! k"
      unfolding us k using nth_append_length_plus [of "map ucast base" "0x2e # map ucast ext @ [0]" "Suc k"] by simp
    ultimately show ?thesis by simp
  qed
  then have "final_dot ?us (length ?us) = Some (length base)"
    by (intro final_dot_some) (simp_all add: us nth_append)
  moreover have "short_base ?us 0 (replicate 11 0x20) = short_base (0x2e # map ucast ext @ [0]) (length base) (padded base [])"
    unfolding us using short_base_chars [of base 0 "replicate 11 0x20"] assms(1,2) put_base by simp
  moreover have "short_ext (drop (length base + 1) ?us) 8 (padded base []) = (B_OK, padded base ext)"
    unfolding us using short_ext_chars [of ext 8 "padded base []"] put_ext assms by (simp add: padded_def)
  ultimately show ?thesis using assms(3) by (simp add: generate_short_name_msdos_def)
qed

lemma takeWhile_padded:
  "set base \<subseteq> set acceptable \<Longrightarrow> takeWhile (\<lambda>c. c \<noteq> 0x20) (base @ replicate n 0x20) = base"
  using acceptable_char(4) by (induction base) auto

lemma normalized_padded:
  assumes "set base \<subseteq> set acceptable" "length base \<le> 8" "set ext \<subseteq> set acceptable" "length ext \<le> 3"
  shows "normalized_name (padded base ext) 0 = dotted base ext"
proof -
  have parts: "take 8 (padded base ext) = base @ replicate (8 - length base) 0x20"
    "take 3 (drop 8 (padded base ext)) = ext @ replicate (3 - length ext) 0x20"
    using assms(2,4) by (simp_all add: padded_def)
  have "padded base ext ! 8 = (ext @ replicate (3 - length ext) 0x20) ! 0"
    using assms(2) by (simp add: padded_def nth_append)
  then have eight: "padded base ext ! 8 \<noteq> 0x20 \<longleftrightarrow> ext \<noteq> []"
    using acceptable_char(4) assms(3,4) by (cases ext) auto
  have zero: "((0 :: uint8) AND 0x08 \<noteq> 0) = False" "((0 :: uint8) AND 0x10 \<noteq> 0) = False" by simp_all
  have "map (\<lambda>i. if i = 0 \<and> base ! i = 5 then 0xe5 else base ! i) [0..<length base] = base"
    by (rule nth_equalityI) (use acceptable_char(5) assms(1) in \<open>auto simp: subset_iff\<close>)
  then show ?thesis
    unfolding normalized_name_def Let_def parts takeWhile_padded [OF assms(1)] takeWhile_padded [OF assms(3)] eight zero if_False
    by (simp add: dotted_def)
qed

lemma one_loop_plain:
  "plain name \<Longrightarrow> length dst + length name < len \<Longrightarrow> one_loop msdostou (name @ [0]) len dst = dst @ name @ [0]"
proof (induction name arbitrary: dst)
  case Nil
  then show ?case using ascii_char(1) [of 0] by simp
next
  case (Cons c name)
  then show ?case using ascii_char(1) [OF plain_char(1) [OF Cons.prems(1), of c]] Cons.IH [of "dst @ [c]"] by (simp add: plain_def)
qed

lemma dotted_plain: "set base \<subseteq> set acceptable \<Longrightarrow> set ext \<subseteq> set acceptable \<Longrightarrow> plain (dotted base ext)"
  by (auto simp: plain_def dotted_def)

lemma msdos_to_utf8_padded:
  assumes "set base \<subseteq> set acceptable" "length base \<le> 8" "set ext \<subseteq> set acceptable" "length ext \<le> 3" "12 < len"
  shows "msdos_to_utf8 (padded base ext) len 0 = dotted base ext @ [0]"
proof -
  have "length (dotted base ext) \<le> 12" using assms(2,4) by (simp add: dotted_def)
  then show ?thesis
    using one_loop_plain [OF dotted_plain [OF assms(1,3)], of "[]" len] assms(5)
    by (simp add: msdos_to_utf8_def one_to_utf8_def normalized_padded [OF assms(1-4)])
qed

subsection \<open>Which names need no long name\<close>

lemma cchar_in: "cchar s i = c \<Longrightarrow> c \<noteq> 0 \<Longrightarrow> i < length s \<and> s ! i = c"
  by (auto simp: cchar_def split: if_split_asm)

lemma cchar_zero: "0 \<notin> set s \<Longrightarrow> cchar s i = 0 \<longleftrightarrow> length s \<le> i"
  by (auto simp: cchar_def in_set_conv_nth)

definition accepted :: "bytes \<Rightarrow> nat \<Rightarrow> nat \<Rightarrow> bool" where
  "accepted s i j \<longleftrightarrow> (\<forall>m. i \<le> m \<and> m < j \<longrightarrow> s ! m \<in> set acceptable)"

lemma accepted_step:
  assumes "cchar s i \<in> set acceptable" "accepted s (i + 1) j"
  shows "accepted s i j"
proof -
  have "cchar s i \<noteq> 0" using acceptable_char(2) assms(1) by blast
  then have "s ! i \<in> set acceptable" using assms(1) by (simp add: cchar_def split: if_split_asm)
  then show ?thesis using assms(2) by (auto simp: accepted_def) (metis Suc_leI le_neq_implies_less)
qed

lemma acceptable_inside: "cchar s i \<in> set acceptable \<Longrightarrow> i < length s"
  using acceptable_char(2) by (fastforce simp: cchar_def split: if_split_asm)

lemma base_loop_short:
  "base_loop s i k = Inl False \<Longrightarrow> 0 \<notin> set s \<Longrightarrow> i \<le> length s \<Longrightarrow> accepted s i (length s) \<and> length s < i + k"
proof (induction k arbitrary: i)
  case (Suc k)
  then show ?case
  proof (cases "cchar s i = 0")
    case True
    then show ?thesis using Suc.prems cchar_zero [of s i] by (auto simp: accepted_def)
  next
    case False
    then have c: "cchar s i \<in> set acceptable" "base_loop s (i + 1) k = Inl False" using Suc.prems(1) by (auto split: if_split_asm)
    then have "i + 1 \<le> length s" using acceptable_inside [OF c(1)] by simp
    then show ?thesis using Suc.IH [OF c(2)] Suc.prems(2) accepted_step [OF c(1)] by auto
  qed
qed simp

lemma base_loop_stop:
  "base_loop s i k = Inr j \<Longrightarrow> i \<le> length s \<Longrightarrow>
     accepted s i j \<and> i \<le> j \<and> j \<le> length s \<and> j \<le> i + k \<and> (j < i + k \<longrightarrow> j < length s \<and> s ! j = 0x2e)"
proof (induction k arbitrary: i)
  case (Suc k)
  then show ?case
  proof (cases "cchar s i = 0x2e")
    case True
    then show ?thesis using Suc.prems cchar_in [of s i "0x2e"] by (auto simp: accepted_def)
  next
    case False
    then have c: "cchar s i \<in> set acceptable" "base_loop s (i + 1) k = Inr j" using Suc.prems(1) by (auto split: if_split_asm)
    then have "i + 1 \<le> length s" using acceptable_inside [OF c(1)] by simp
    then show ?thesis using Suc.IH [OF c(2)] Suc.prems(2) accepted_step [OF c(1)] by auto
  qed
qed (auto simp: accepted_def)

lemma ext_loop_short:
  "ext_loop s i k = Inl False \<Longrightarrow> 0 \<notin> set s \<Longrightarrow> i \<le> length s \<Longrightarrow> accepted s i (length s) \<and> length s < i + k"
proof (induction k arbitrary: i)
  case (Suc k)
  then show ?case
  proof (cases "cchar s i = 0")
    case True
    then show ?thesis using Suc.prems cchar_zero [of s i] by (auto simp: accepted_def)
  next
    case False
    then have c: "cchar s i \<in> set acceptable" "ext_loop s (i + 1) k = Inl False" using Suc.prems(1) by (auto split: if_split_asm)
    then have "i + 1 \<le> length s" using acceptable_inside [OF c(1)] by simp
    then show ?thesis using Suc.IH [OF c(2)] Suc.prems(2) accepted_step [OF c(1)] by auto
  qed
qed simp

lemma ext_loop_stop:
  "ext_loop s i k = Inr j \<Longrightarrow> i \<le> length s \<Longrightarrow> accepted s i j \<and> j = i + k \<and> j \<le> length s"
proof (induction k arbitrary: i)
  case (Suc k)
  then have c: "cchar s i \<in> set acceptable" "ext_loop s (i + 1) k = Inr j" by (auto split: if_split_asm)
  then have "i + 1 \<le> length s" using acceptable_inside [OF c(1)] by simp
  then show ?case using Suc.IH [OF c(2)] accepted_step [OF c(1)] by auto
qed (auto simp: accepted_def)

lemma accepted_take: "accepted s 0 j \<Longrightarrow> set (take j s) \<subseteq> set acceptable"
  by (auto simp: accepted_def in_set_conv_nth)

lemma accepted_drop: "accepted s i (length s) \<Longrightarrow> set (drop i s) \<subseteq> set acceptable"
  by (auto simp: accepted_def in_set_conv_nth)

text \<open>Exactly the names with up to eight and up to three acceptable characters need no long name.\<close>

lemma needs_no_long_name:
  assumes "\<not> needs_long_name name" "0 \<notin> set name"
  obtains base ext where "name = dotted base ext" "set base \<subseteq> set acceptable" "length base \<le> 8"
    "set ext \<subseteq> set acceptable" "length ext \<le> 3"
proof (cases "base_loop name 0 8")
  case (Inl b)
  then have "b = False" using assms(1) by (simp add: needs_long_name_def)
  then have "accepted name 0 (length name) \<and> length name < 8" using base_loop_short [of name 0 8] Inl assms(2) by simp
  then show ?thesis using that [of name "[]"] accepted_drop [of name 0] by (simp add: dotted_def)
next
  case (Inr i)
  have i: "accepted name 0 i" "i \<le> length name" "i \<le> 8" "i < 8 \<longrightarrow> i < length name \<and> name ! i = 0x2e"
    using base_loop_stop [OF Inr] by auto
  show ?thesis
  proof (cases "cchar name i = 0")
    case True
    then have "i = length name" using cchar_zero [OF assms(2)] i(2) by simp
    then show ?thesis using that [of name "[]"] accepted_take [OF i(1)] i(3) by (simp add: dotted_def)
  next
    case False
    then have "cchar name i = 0x2e" "cchar name (i + 1) \<noteq> 0"
      using assms(1) Inr i by (auto simp: needs_long_name_def cchar_def split: if_split_asm)
    then have at: "i + 1 < length name" "name ! i = 0x2e" using cchar_in [of name i "0x2e"] cchar_zero [OF assms(2), of "i + 1"] by auto
    have "\<not> (case ext_loop name (i + 1) 3 of Inl b \<Rightarrow> b | Inr j \<Rightarrow> cchar name j \<noteq> 0)"
      using assms(1) Inr False \<open>cchar name i = 0x2e\<close> \<open>cchar name (i + 1) \<noteq> 0\<close> by (simp add: needs_long_name_def)
    then have "accepted name (i + 1) (length name) \<and> length name \<le> i + 4"
      using ext_loop_short [of name "i + 1" 3] ext_loop_stop [of name "i + 1" 3] cchar_zero [OF assms(2)] assms(2) at(1)
      by (auto split: sum.splits)
    moreover have "name = take i name @ 0x2e # drop (i + 1) name" using at id_take_nth_drop [of i name] by simp
    ultimately show ?thesis
      using that [of "take i name" "drop (i + 1) name"] accepted_take [OF i(1)] accepted_drop i(3) at by (auto simp: dotted_def)
  qed
qed

subsection \<open>The properties\<close>

lemma japanese_loop_units:
  assumes "\<forall>u \<in> set us. u \<noteq> 0 \<and> \<not> is_unicode_japanese u"
  shows "japanese_loop (le_bytes us @ 0 # 0 # rest) = Some False"
  using assms
proof (induction us)
  case (Cons u us)
  have "\<not> ((ucast (u AND 0xff) :: uint8) = 0 \<and> (ucast (drop_bit 8 u) :: uint8) = 0)"
    using le_unit_pair [of u] Cons.prems by auto
  then show ?case using Cons le_unit_pair [of u] by auto
qed simp

lemma requires_long_name_plain:
  assumes "plain name"
  shows "requires_long_name name (le_bytes (map ucast name @ [0]) @ rest) = Some (needs_long_name name)"
proof -
  have "\<forall>u \<in> set (map ucast name). u \<noteq> (0 :: uint16) \<and> \<not> is_unicode_japanese u"
  proof
    fix u :: uint16 assume "u \<in> set (map ucast name)"
    then obtain c where c: "c \<in> set name" "u = ucast c" by auto
    have "unat c \<noteq> 0" using plain_char(2) [OF assms c(1)] by (simp add: unat_gt_0)
    then show "u \<noteq> 0 \<and> \<not> is_unicode_japanese u"
      using c ascii_char(4) [OF plain_char(1) [OF assms c(1)]] widen(1) [of c] by (metis unsigned_0)
  qed
  then show ?thesis
    using japanese_loop_units [of "map ucast name" rest] by (simp add: requires_long_name_def)
qed

text \<open>What \<open>create_dir_entry\<close> passes on: the units of the name and the padding behind them.\<close>

definition name_units :: "bytes \<Rightarrow> bytes" where
  "name_units name = (let (len, u) = utf8_to_unicode name 512 in take (nat len) u @ replicate (512 - nat len) 0xff)"

lemma name_units_plain:
  assumes "plain name" "length name \<le> 255"
  shows "name_units name = le_bytes (map ucast name @ [0]) @ replicate (512 - 2 * (length name + 1)) 0xff"
    "utf8_to_unicode name 512 = (int (2 * (length name + 1)), le_bytes (map ucast name @ [0]))"
proof -
  let ?u = "le_bytes (map ucast name @ [0])"
  show u: "utf8_to_unicode name 512 = (int (2 * (length name + 1)), ?u)" by (rule plain_unicode [OF assms])
  have "length ?u = 2 * (length name + 1)" by (simp only: le_bytes_length) simp
  then have "take (2 * (length name + 1)) ?u = ?u" by (simp only: take_all order_refl)
  then show "name_units name = ?u @ replicate (512 - 2 * (length name + 1)) 0xff"
    unfolding name_units_def u Let_def prod.case nat_int by simp
qed

text \<open>
  C37. A file that gets no long name keeps its name: for every name (a C string that does not start
  with a dot) for which \<^const>\<open>requires_long_name\<close> says that a short name is enough, the short name is
  generated in the DOS code page without an error, and what \<^const>\<open>msdos_to_utf8\<close> reads from it is
  the name.
\<close>

theorem short_name_roundtrip:
  assumes "0 \<notin> set name" "name \<noteq> []" "hd name \<noteq> 0x2e" "utf8_to_unicode name 512 = (len, uni)"
    "\<not> needs_long_name name"
  shows "requires_long_name name (name_units name) = Some False \<and>
    (\<exists>nshort. generate_short_name vol name (name_units name) (nat len) = (B_OK, nshort, MS_DOS_CONVERSION, vol) \<and>
      length nshort = 11 \<and> msdos_to_utf8 nshort 512 0 = name @ [0])"
proof -
  obtain base ext where n: "name = dotted base ext" and b: "set base \<subseteq> set acceptable" "length base \<le> 8"
    and e: "set ext \<subseteq> set acceptable" "length ext \<le> 3"
    using needs_no_long_name [OF assms(5,1)] .
  have plain: "plain name" unfolding n by (rule dotted_plain [OF b(1) e(1)])
  have "length name \<le> 255" using b(2) e(2) by (simp add: n dotted_def)
  note units = name_units_plain [OF plain this]
  have len: "nat len = 2 * (length name + 1)" using units(2) assms(4) by simp
  have "base \<noteq> []" using assms(2,3) by (auto simp: n dotted_def split: if_split_asm)
  then have "generate_short_name_msdos (map ucast name @ [0]) (replicate 11 0x20) = (B_OK, padded base ext)"
    unfolding n by (intro generate_short_name_dotted b e)
  moreover have "padded base ext \<noteq> replicate 11 0x20"
  proof -
    have "padded base ext ! 0 = base ! 0" using \<open>base \<noteq> []\<close> by (simp add: padded_def nth_append)
    moreover have "base ! 0 \<noteq> 0x20" using acceptable_char(4) b(1) \<open>base \<noteq> []\<close> by (cases base) auto
    ultimately show ?thesis by (metis nth_replicate zero_less_numeral)
  qed
  ultimately have "generate_short_name vol name (name_units name) (nat len) = (B_OK, padded base ext, MS_DOS_CONVERSION, vol)"
    unfolding units(1) len plain_short_name [OF plain] by simp
  moreover have "length (padded base ext) = 11" using b(2) e(2) by (simp add: padded_def)
  moreover have "msdos_to_utf8 (padded base ext) 512 0 = name @ [0]"
    unfolding n by (rule msdos_to_utf8_padded) (use b e in auto)
  moreover have "requires_long_name name (name_units name) = Some False"
    unfolding units(1) requires_long_name_plain [OF plain] using assms(5) by simp
  ultimately show ?thesis by blast
qed

lemma plain_code: "list_all (\<lambda>c. c = 0x2e \<or> c \<in> set acceptable) name \<Longrightarrow> plain name"
  by (auto simp: plain_def list_all_iff)

theorem short_name_roundtrip_witness:
  "\<forall>vol. requires_long_name (chars ''README.TXT'') (name_units (chars ''README.TXT'')) = Some False \<and>
    (\<exists>nshort. generate_short_name vol (chars ''README.TXT'') (name_units (chars ''README.TXT'')) 22 =
        (B_OK, nshort, MS_DOS_CONVERSION, vol) \<and> length nshort = 11 \<and>
      msdos_to_utf8 nshort 512 0 = chars ''README.TXT'' @ [0])"
proof
  fix vol
  have "plain (chars ''README.TXT'')" by (rule plain_code) code_simp
  then have "utf8_to_unicode (chars ''README.TXT'') 512 = (22, le_bytes (map ucast (chars ''README.TXT'') @ [0]))"
    using name_units_plain(2) [of "chars ''README.TXT''"] by (simp add: chars_def)
  moreover have "0 \<notin> set (chars ''README.TXT'')" "chars ''README.TXT'' \<noteq> []" "hd (chars ''README.TXT'') \<noteq> 0x2e"
    by (simp_all add: chars_def)
  moreover have "\<not> needs_long_name (chars ''README.TXT'')" by code_simp
  ultimately show "requires_long_name (chars ''README.TXT'') (name_units (chars ''README.TXT'')) = Some False \<and>
    (\<exists>nshort. generate_short_name vol (chars ''README.TXT'') (name_units (chars ''README.TXT'')) 22 =
        (B_OK, nshort, MS_DOS_CONVERSION, vol) \<and> length nshort = 11 \<and>
      msdos_to_utf8 nshort 512 0 = chars ''README.TXT'' @ [0])"
    using short_name_roundtrip [of "chars ''README.TXT''" 22 _ vol] by simp
qed

lemma ext_loop_dot:
  assumes "set ext \<subseteq> set acceptable"
  shows "i \<le> length ext \<Longrightarrow> ext_loop (0x2e # ext) (Suc i) k = (if i + k \<le> length ext then Inr (Suc i + k) else Inl False)"
proof (induction k arbitrary: i)
  case (Suc k)
  have "cchar ext i \<in> set acceptable \<and> cchar ext i \<noteq> 0" if "i < length ext"
  proof -
    have "ext ! i \<in> set acceptable" using nth_mem [OF that] assms by blast
    then show ?thesis using that acceptable_char(2) by (simp add: cchar_def)
  qed
  moreover have "cchar (0x2e # ext) (Suc i) = cchar ext i" by (simp add: cchar_def)
  ultimately show ?case using Suc.IH [of "Suc i"] Suc.prems by (cases "i < length ext") (auto simp: cchar_def)
qed simp

lemma dot_needs_no_long_name:
  assumes "set ext \<subseteq> set acceptable" "ext \<noteq> []" "length ext \<le> 3"
  shows "\<not> needs_long_name (0x2e # ext)"
proof -
  have "ext_loop (0x2e # ext) 1 3 = (if length ext = 3 then Inr 4 else Inl False)"
    using ext_loop_dot [OF assms(1), of 0 3] assms(3) by auto
  moreover have "base_loop (0x2e # ext) 0 (Suc k) = Inr 0" for k by (simp add: cchar_def)
  moreover have "cchar (0x2e # ext) 1 \<noteq> 0" using assms(1,2) acceptable_char(2) by (cases ext) (auto simp: cchar_def)
  ultimately show ?thesis by (auto simp: needs_long_name_def numeral_eq_Suc cchar_def)
qed

text \<open>
  A file whose name is a dot and one to three acceptable characters loses the dot: no long name is
  written for it, and the short name, which is generated without an error, is read as the name without
  its dot.
\<close>

lemma dot_file_loses_dot:
  assumes "set ext \<subseteq> set acceptable" "ext \<noteq> []" "length ext \<le> 3" "utf8_to_unicode (0x2e # ext) 512 = (len, uni)"
  shows "requires_long_name (0x2e # ext) (name_units (0x2e # ext)) = Some False \<and>
    (\<exists>nshort. generate_short_name vol (0x2e # ext) (name_units (0x2e # ext)) (nat len) = (B_OK, nshort, MS_DOS_CONVERSION, vol) \<and>
      msdos_to_utf8 nshort 512 0 = ext @ [0])"
proof -
  let ?name = "0x2e # ext"
  have plain: "plain ?name" using assms(1) by (auto simp: plain_def)
  note units = name_units_plain [OF plain]
  have len: "nat len = 2 * (length ?name + 1)" using units(2) assms(3,4) by simp
  have "\<not> needs_long_name ?name" by (rule dot_needs_no_long_name [OF assms(1-3)])
  then have long: "requires_long_name ?name (name_units ?name) = Some False"
    using units(1) requires_long_name_plain [OF plain] assms(3) by simp
  have "short_base (map ucast ?name @ [0]) 0 (replicate 11 0x20) = short_base (map ucast ext @ [0]) 0 (replicate 11 0x20)"
    by simp
  also have "\<dots> = short_base [0] (length ext) (padded ext [])"
    using short_base_chars [of ext 0 "replicate 11 0x20" "[0]"] put_base [of ext] assms(1,3) by simp
  finally have "generate_short_name_msdos (map ucast ?name @ [0]) (replicate 11 0x20) = (B_OK, padded ext [])"
    using assms(3) by (simp add: generate_short_name_msdos_def)
  moreover have "padded ext [] \<noteq> replicate 11 0x20"
    using acceptable_char(4) assms(1,2) by (cases ext) (auto simp: padded_def numeral_eq_Suc)
  ultimately have "generate_short_name vol ?name (name_units ?name) (nat len) = (B_OK, padded ext [], MS_DOS_CONVERSION, vol)"
    using units(1) plain_short_name [OF plain] len assms(3) by simp
  moreover have "msdos_to_utf8 (padded ext []) 512 0 = ext @ [0]"
    using msdos_to_utf8_padded [of ext "[]" 512] assms(1,3) by (simp add: dotted_def)
  ultimately show ?thesis using long by blast
qed

lemma dot_file_loses_dot_witness:
  "\<forall>vol. requires_long_name (chars ''.ABC'') (name_units (chars ''.ABC'')) = Some False \<and>
    (\<exists>nshort. generate_short_name vol (chars ''.ABC'') (name_units (chars ''.ABC'')) 10 = (B_OK, nshort, MS_DOS_CONVERSION, vol) \<and>
      msdos_to_utf8 nshort 512 0 = chars ''ABC'' @ [0])"
proof
  fix vol
  have name: "chars ''.ABC'' = 0x2e # chars ''ABC''" by (simp add: chars_def)
  have "list_all (\<lambda>c. c \<in> set acceptable) (chars ''ABC'')" by code_simp
  then have ext: "set (chars ''ABC'') \<subseteq> set acceptable" by (auto simp: list_all_iff)
  then have "plain (0x2e # chars ''ABC'')" by (auto simp: plain_def)
  then have "utf8_to_unicode (0x2e # chars ''ABC'') 512 = (10, le_bytes (map ucast (0x2e # chars ''ABC'') @ [0]))"
    using name_units_plain(2) [of "0x2e # chars ''ABC''"] by (simp add: chars_def)
  then show "requires_long_name (chars ''.ABC'') (name_units (chars ''.ABC'')) = Some False \<and>
    (\<exists>nshort. generate_short_name vol (chars ''.ABC'') (name_units (chars ''.ABC'')) 10 = (B_OK, nshort, MS_DOS_CONVERSION, vol) \<and>
      msdos_to_utf8 nshort 512 0 = chars ''ABC'' @ [0])"
    unfolding name using dot_file_loses_dot [OF ext, of 10 _ vol] by (simp add: chars_def)
qed

subsection \<open>Shift-JIS\<close>

lemma utf8_sjis_loop_units:
  assumes "\<forall>u \<in> set us. u AND 0xfc00 \<noteq> 0xd800" "length dst + length (concat (map sjis_bytes us)) \<le> room"
    "\<forall>u \<in> set us. sjis_bytes u \<noteq> []"
  shows "utf8_sjis_loop (utf8_bytes us) room dst = Inr ([], dst @ concat (map sjis_bytes us))"
  using assms
proof (induction us arbitrary: dst)
  case (Cons u us)
  have "utf8_sjis_loop (utf8_bytes (u # us)) room dst = utf8_sjis_loop (utf8_bytes us) room (dst @ sjis_bytes u)"
    using Cons.prems utf8_unit [of u] by (subst utf8_sjis_loop.simps) (cases "sjis_bytes u", auto simp: nth_append)
  then show ?case using Cons.prems Cons.IH [of "dst @ sjis_bytes u"] by simp
qed (simp add: utf8_sjis_loop.simps)

lemma table_search_append: "table_search xs u i = Some j \<Longrightarrow> table_search (xs @ ys) u i = Some j"
  by (induction xs arbitrary: i) (auto split: if_split_asm)

lemma sjis_sample: "sjis_bytes 0x3000 = [0x81, 0x40]" "sjis_bytes 0xe0 = [0xe0]" "sjis_bytes 0 = [0]"
proof -
  have none: "table_search sjis00tou 0x3000 0 = None" by code_simp
  have "table_search sjis_81 0x3000 0 = Some 0x40" by code_simp
  then have "table_search sjis81tou 0x3000 0 = Some 0x40" unfolding sjis81tou_def by (intro table_search_append)
  then show "sjis_bytes 0x3000 = [0x81, 0x40]" using none by (simp add: sjis_bytes_def sjistables_def)
  have "table_search sjis00tou 0xe0 0 = Some 0xe0" "table_search sjis00tou 0 0 = Some 0" by code_simp+
  then show "sjis_bytes 0xe0 = [0xe0]" "sjis_bytes 0 = [0]" by (simp_all add: sjis_bytes_def sjistables_def)
qed

text \<open>
  A Japanese name can make \<^const>\<open>generate_short_name_sjis\<close> read behind the converted name: for the
  two characters U+3000 and U+00E0 the last byte, which stands for U+00E0, is taken for the first byte of a
  two-byte character, and the loop passes the final zero.
\<close>

lemma sjis_name_read_out_of_bounds:
  assumes "mem vol = []" "fault vol = None"
  shows "\<exists>r nshort e w. generate_short_name vol (utf8_bytes [0x3000, 0xe0]) (le_bytes [0x3000, 0xe0, 0]) 6 = (r, nshort, e, w) \<and>
    fault w = Some Out_of_bounds"
proof -
  have "utf8_sjis_loop (utf8_bytes [0x3000, 0xe0, 0]) 6 [] = Inr ([], [] @ concat (map sjis_bytes [0x3000, 0xe0, 0]))"
    by (rule utf8_sjis_loop_units) (simp_all add: sjis_sample)
  then have loop: "utf8_sjis_loop (utf8_bytes [0x3000, 0xe0] @ [0]) 6 [] = Inr ([], [0x81, 0x40, 0xe0, 0])"
    by (simp add: sjis_sample)
  have "sjis_short_name [0x81, 0x40, 0xe0, 0] (replicate 11 0x20) = None"
    by (simp add: sjis_short_name_def is_initial_sjis_byte_def)
  then have "generate_short_name_sjis vol (utf8_bytes [0x3000, 0xe0]) 6 (replicate 11 0x20) =
      (B_OK, replicate 11 0x20, raise_fault Out_of_bounds vol)"
    unfolding generate_short_name_sjis_def loop using assms(1) by (simp add: malloc_def)
  moreover have "\<exists>i \<in> set [0..<6]. even i \<and> is_unicode_japanese (le_unit (le_bytes [0x3000, 0xe0, 0]) i)"
    using le_unit_bytes [of 0 "[0x3000, 0xe0, 0]" "[]"] by (intro bexI [of _ 0]) (simp_all add: is_unicode_japanese_def)
  ultimately show ?thesis
    unfolding generate_short_name_def Let_def using assms(2) by (simp only: if_True prod.case) (simp add: raise_fault_def)
qed

lemma sjis_name_read_out_of_bounds_witness:
  "\<exists>r nshort e w. generate_short_name sample_volume (utf8_bytes [0x3000, 0xe0]) (le_bytes [0x3000, 0xe0, 0]) 6 = (r, nshort, e, w) \<and>
    fault w = Some Out_of_bounds"
  by (rule sjis_name_read_out_of_bounds) (simp_all add: sample_volume_def)

end
