(* ===== verification/Mkdos.thy ===== *)
theory Mkdos
  imports Mount
begin

section \<open>Formatting: mkdos.cpp\<close>

text \<open>
  A volume is formatted by writing to its device. The device is an \<open>image\<close>: its contents, its capacity in
  bytes, and the outcomes of the next writes: \<open>Some n\<close> for a write that returns an error or at most \<open>n\<close>, for
  another reason than the capacity. What the driver learns from the kernel is in \<open>format_device\<close>: the results of the calls of
  \<open>ioctl\<close> and \<open>fstat\<close>, of \<open>malloc\<close>, \<open>system_time\<close> and \<open>scan_partition\<close>. The parameters of the job are
  read by kernel functions; \<open>fat_setting\<close> is what \<open>strtoul\<close> makes of the parameter \<open>fat\<close>, 0 without it,
  and \<open>None\<close> when the parameters cannot be parsed. Sizes are numbers below \<open>2\<^sup>6\<^sup>4\<close>.
\<close>

subsection \<open>The device\<close>

record image =
  contents :: "nat \<Rightarrow> uint8"
  capacity :: nat
  write_outcomes :: "int option list"

definition overlay :: "nat \<Rightarrow> bytes \<Rightarrow> (nat \<Rightarrow> uint8) \<Rightarrow> nat \<Rightarrow> uint8" where
  "overlay pos bs c i = (if pos \<le> i \<and> i < pos + length bs then bs ! (i - pos) else c i)"

text \<open>The result is the number of bytes written, or an error. An incomplete write stores the first bytes.\<close>

definition write_pos :: "image \<Rightarrow> nat \<Rightarrow> bytes \<Rightarrow> int \<times> image" where
  "write_pos img pos bs =
     (let fits = int (min (length bs) (capacity img - pos));
          written = (case write_outcomes img of Some n # _ \<Rightarrow> min n fits | _ \<Rightarrow> fits)
      in (written, img\<lparr>contents := overlay pos (take (nat written) bs) (contents img),
                       write_outcomes := tl (write_outcomes img)\<rparr>))"

text \<open>Writes one after the other, up to the first that is not complete.\<close>

fun write_all :: "(nat \<times> bytes) list \<Rightarrow> image \<Rightarrow> status_t \<times> image" where
  "write_all [] img = (B_OK, img)"
| "write_all ((pos, bs) # ws) img =
     (let (written, img) = write_pos img pos bs
      in if written \<noteq> int (length bs) then (B_ERROR, img) else write_all ws img)"

record full_geometry = geometry +
  geo_write_once :: bool

record partition_data =
  pi_size :: nat

record format_device =
  bios_geometry :: "geometry option"
  device_geometry :: "full_geometry option"
  partition_info :: "partition_data option"
  file_size :: "nat option"
  bios_drive_id :: "uint8 option"
  format_time :: uint32
  scan_result :: status_t
  zero_buffer :: bool
  cluster_buffer :: bool

subsection \<open>Parameters\<close>

definition check_volume_name :: "bytes option \<Rightarrow> status_t" where
  "check_volume_name name =
     (case name of
        None \<Rightarrow> B_BAD_VALUE
      | Some n \<Rightarrow> if length n \<ge> 11 \<or> 0x2f \<in> set n then B_BAD_VALUE else B_OK)"

definition parse_initialize_parameters :: "uint32 option \<Rightarrow> status_t \<times> uint32" where
  "parse_initialize_parameters fat_setting =
     (case fat_setting of
        None \<Rightarrow> (B_ERROR, 0)
      | Some fatBits \<Rightarrow>
          if fatBits \<noteq> 0 \<and> fatBits \<noteq> 12 \<and> fatBits \<noteq> 16 \<and> fatBits \<noteq> 32 then (B_BAD_VALUE, 0) else (B_OK, fatBits))"

definition FLOPPY_MAX_SIZE :: nat where "FLOPPY_MAX_SIZE = 2 * 80 * 36 * 512"
definition CLUSTER_MAX_SIZE :: nat where "CLUSTER_MAX_SIZE = 32768"
definition FAT12_CLUSTER_MAX_SIZE :: nat where "FAT12_CLUSTER_MAX_SIZE = 1024"
definition FAT12_MAX_CLUSTER_COUNT :: nat where "FAT12_MAX_CLUSTER_COUNT = 4084"
definition FAT16_MAX_CLUSTER_COUNT :: nat where "FAT16_MAX_CLUSTER_COUNT = 65524"
definition FAT32_MAX_CLUSTER_COUNT :: nat where "FAT32_MAX_CLUSTER_COUNT = 0x0fffffff"

definition is_raw_device :: "format_device \<Rightarrow> bool" where
  "is_raw_device D \<longleftrightarrow> bios_geometry D = None \<and> device_geometry D = None \<and> partition_info D = None"

definition geometry_bytes :: "'a geometry_scheme \<Rightarrow> nat" where
  "geometry_bytes g =
     unat (geo_bytes_per_sector g) * unat (sectors_per_track g) * unat (cylinder_count g) * unat (head_count g) mod 2 ^ 64"

text \<open>The checks of the device: \<open>None\<close> for the error \<open>B_ERROR\<close>, otherwise the size.\<close>

definition device_size :: "format_device \<Rightarrow> nat option" where
  "device_size D =
     (if (\<exists>g \<in> set_option (bios_geometry D). geo_bytes_per_sector g \<noteq> 512)
         \<or> (\<exists>g \<in> set_option (device_geometry D). geo_bytes_per_sector g \<noteq> 512) then None
      else if \<exists>g \<in> set_option (device_geometry D). geo_read_only g \<or> geo_write_once g then None
      else case partition_info D of
             Some p \<Rightarrow> Some (pi_size p)
           | None \<Rightarrow>
               (case device_geometry D of
                  Some g \<Rightarrow> Some (geometry_bytes g)
                | None \<Rightarrow> (case bios_geometry D of Some g \<Rightarrow> Some (geometry_bytes g) | None \<Rightarrow> file_size D)))"

definition choose_fatbits :: "bool \<Rightarrow> nat \<Rightarrow> nat \<Rightarrow> nat" where
  "choose_fatbits raw sz fatbits =
     (if fatbits \<noteq> 0 then fatbits
      else if raw \<and> sz \<le> FLOPPY_MAX_SIZE \<and> sz div FAT12_CLUSTER_MAX_SIZE < FAT12_MAX_CLUSTER_COUNT then 12
      else if sz div CLUSTER_MAX_SIZE < FAT16_MAX_CLUSTER_COUNT then 16
      else if sz div CLUSTER_MAX_SIZE < FAT32_MAX_CLUSTER_COUNT then 32
      else 0)"

text \<open>0 when the size does not fit; each test of the code replaces the result of the ones before it.\<close>

definition choose_spc :: "nat \<Rightarrow> nat \<Rightarrow> nat" where
  "choose_spc fatbits sz =
     (if fatbits = 12 then
        if sz \<le> 2091008 then 1 else if sz \<le> 4182016 then 2 else 0
      else if fatbits = 16 then
        if sz \<le> 4182016 then 0
        else if sz \<le> 16 * 1024 * 1024 then 2
        else if sz \<le> 128 * 1024 * 1024 then 4
        else if sz \<le> 256 * 1024 * 1024 then 8
        else if sz \<le> 512 * 1024 * 1024 then 16
        else if sz \<le> 1024 * 1024 * 1024 then 32
        else if sz \<le> 2048 * 1024 * 1024 then 64
        else 0
      else if fatbits = 32 then
        if sz \<le> 66600 * 512 then 0
        else if sz \<le> 532480 * 512 then 1
        else if sz \<le> 8 * 1024 * 1024 * 1024 then 8
        else if sz \<le> 16 * 1024 * 1024 * 1024 then 16
        else if sz \<le> 32 * 1024 * 1024 * 1024 then 32
        else 64
      else 0)"

definition reserved_count :: "nat \<Rightarrow> nat" where
  "reserved_count fatbits = (if fatbits = 32 then 32 else 1)"

definition root_entry_count :: "nat \<Rightarrow> nat" where
  "root_entry_count fatbits = (if fatbits = 12 then 128 else if fatbits = 16 then 512 else 0)"

definition root_dir_sectors :: "nat \<Rightarrow> nat" where
  "root_dir_sectors fatbits = (root_entry_count fatbits * 32 + 511) div 512"

text \<open>The size of one copy of the table in sectors; the sums are in 64 bits, the result in 32.\<close>

definition fat_size :: "nat \<Rightarrow> nat \<Rightarrow> nat \<Rightarrow> nat" where
  "fat_size fatbits spc sz =
     (let dskSize = sz div 512;
          tmpVal1 = (dskSize + 2 ^ 64 - (reserved_count fatbits + root_dir_sectors fatbits)) mod 2 ^ 64;
          tmpVal2 = 256 * spc + 2;
          tmpVal2 = (if fatbits = 32 then tmpVal2 div 2 else tmpVal2)
      in (tmpVal1 + (tmpVal2 - 1)) mod 2 ^ 64 div tmpVal2 mod 2 ^ 32)"

subsection \<open>The boot sector\<close>

definition bootjmp :: bytes where
  "bootjmp = [0xeb, 0x7e, 0x90]"

definition bootcode :: bytes where
  "bootcode = [0x31, 0xc0, 0x8e, 0xd0, 0xbc, 0x00, 0x7c, 0x8e, 0xd8, 0xb4, 0x0e, 0x31, 0xdb, 0xbe, 0x00, 0x7d,
     0xfc, 0xac, 0x08, 0xc0, 0x74, 0x04, 0xcd, 0x10, 0xeb, 0xf7, 0xb4, 0x00, 0xcd, 0x16, 0xcd, 0x19] @ replicate 96 0 @
     [0x53, 0x6f, 0x72, 0x72, 0x79, 0x2c, 0x20, 0x74, 0x68, 0x69, 0x73, 0x20, 0x64, 0x69, 0x73, 0x6b,
     0x20, 0x69, 0x73, 0x20, 0x6e, 0x6f, 0x74, 0x20, 0x62, 0x6f, 0x6f, 0x74, 0x61, 0x62, 0x6c, 0x65,
     0x2e, 0x0d, 0x0a, 0x50, 0x6c, 0x65, 0x61, 0x73, 0x65, 0x20, 0x70, 0x72, 0x65, 0x73, 0x73, 0x20,
     0x61, 0x6e, 0x79, 0x20, 0x6b, 0x65, 0x79, 0x20, 0x74, 0x6f, 0x20, 0x72, 0x65, 0x62, 0x6f, 0x6f,
     0x74, 0x2e, 0x0d, 0x0a, 0x00]"

definition boot_sectors_per_track :: "format_device \<Rightarrow> uint32" where
  "boot_sectors_per_track D = (case bios_geometry D of Some g \<Rightarrow> sectors_per_track g | None \<Rightarrow> 63)"

definition boot_heads :: "format_device \<Rightarrow> uint32" where
  "boot_heads D = (case bios_geometry D of Some g \<Rightarrow> head_count g | None \<Rightarrow> 255)"

definition boot_hidden :: "format_device \<Rightarrow> uint32" where
  "boot_hidden D = (case partition_info D of Some p \<Rightarrow> of_nat (pi_size p div 512) | None \<Rightarrow> 0)"

definition boot_drive :: "format_device \<Rightarrow> uint8" where
  "boot_drive D = (case bios_drive_id D of Some d \<Rightarrow> d | None \<Rightarrow> 0x80)"

text \<open>
  The fields of \<open>bootsector1216\<close> and \<open>bootsector32\<close> up to \<open>BPB_TotSec32\<close>, with the 16-bit and the 32-bit sector
  count and the 16-bit size of the table.
\<close>

definition boot_common :: "format_device \<Rightarrow> nat \<Rightarrow> nat \<Rightarrow> uint32 \<Rightarrow> uint32 \<Rightarrow> uint32 \<Rightarrow> bytes" where
  "boot_common D fatbits spc total16 total32 fatsz16 =
     bootjmp @ chars ''Fegeya  '' @ le16 512 @ [of_nat spc] @ le16 (of_nat (reserved_count fatbits)) @ [2] @
     le16 (of_nat (root_entry_count fatbits)) @ le16 total16 @ [0xf8] @ le16 fatsz16 @
     le16 (boot_sectors_per_track D) @ le16 (boot_heads D) @ le32 (boot_hidden D) @ le32 total32"

definition boot_identity :: "format_device \<Rightarrow> string \<Rightarrow> bytes" where
  "boot_identity D kind = [boot_drive D, 0, 0x29] @ le32 (format_time D) @ chars ''NO NAME    '' @ chars kind"

text \<open>The rest of the sector: zeros, the code at \<open>0x80\<close>, zeros and the signature.\<close>

definition with_code :: "bytes \<Rightarrow> bytes" where
  "with_code fs =
     fs @ replicate (0x80 - length fs) 0 @ bootcode @ replicate (0x1fe - 0x80 - length bootcode) 0 @ le16 0xaa55"

definition bootsector1216 :: "format_device \<Rightarrow> nat \<Rightarrow> nat \<Rightarrow> nat \<Rightarrow> nat \<Rightarrow> bytes" where
  "bootsector1216 D fatbits spc sz fatsz =
     (let sectorcount = of_nat (sz div 512) :: uint32
      in with_code (boot_common D fatbits spc (if sectorcount \<le> 65535 then sectorcount else 0)
             (if sectorcount \<le> 65535 then 0 else sectorcount) (of_nat fatsz) @
           boot_identity D (if fatbits = 12 then ''FAT12   '' else ''FAT16   '')))"

definition bootsector32 :: "format_device \<Rightarrow> nat \<Rightarrow> nat \<Rightarrow> nat \<Rightarrow> bytes" where
  "bootsector32 D spc sz fatsz =
     with_code (boot_common D 32 spc 0 (of_nat (sz div 512)) 0 @
       le32 (of_nat fatsz) @ le16 0 @ le16 0 @ le32 2 @ le16 1 @ le16 6 @ replicate 12 0 @
       boot_identity D ''FAT32   '')"

definition make_bootsector :: "format_device \<Rightarrow> nat \<Rightarrow> nat \<Rightarrow> nat \<Rightarrow> nat \<Rightarrow> bytes" where
  "make_bootsector D fatbits spc sz fatsz =
     (if fatbits = 32 then bootsector32 D spc sz fatsz else bootsector1216 D fatbits spc sz fatsz)"

subsection \<open>The writes\<close>

text \<open>\<open>while (bytes_to_write > 0)\<close>\<close>

function zero_writes :: "nat \<Rightarrow> nat \<Rightarrow> (nat \<times> bytes) list" where
  "zero_writes pos n =
     (if n > 0 then (pos, replicate (min n 65536) 0) # zero_writes (pos + min n 65536) (n - min n 65536) else [])"
  by pat_completeness auto
termination by (relation "measure snd") auto

declare zero_writes.simps [simp del]

definition first_fat_sector :: "nat \<Rightarrow> bytes" where
  "first_fat_sector fatbits =
     (if fatbits = 12 then [0xf8, 0xff, 0xff] @ replicate 509 0
      else if fatbits = 16 then [0xf8, 0xff, 0xff, 0xff] @ replicate 508 0
      else [0xf8, 0xff, 0xff, 0xff, 0xff, 0xff, 0xff, 0x0f, 0xff, 0xff, 0xff, 0x0f] @ replicate 500 0)"

text \<open>Sectors in front of the data area, counted in 32 bits, and positions of sectors, computed in 32 bits.\<close>

definition meta_sectors :: "nat \<Rightarrow> nat \<Rightarrow> uint32" where
  "meta_sectors fatbits fatsz = of_nat (reserved_count fatbits) + 2 * of_nat fatsz + of_nat (root_dir_sectors fatbits)"

definition sector_pos :: "uint32 \<Rightarrow> nat" where
  "sector_pos s = unat (s * 512)"

definition fsinfosector32 :: "nat \<Rightarrow> nat \<Rightarrow> nat \<Rightarrow> bytes" where
  "fsinfosector32 spc sz fatsz =
     (let free_count = (sz div 512 + 2 ^ 64 - unat (meta_sectors 32 fatsz)) mod 2 ^ 64;
          free_count = (free_count div spc + 2 ^ 64 - 1) mod 2 ^ 64
      in le32 0x41615252 @ replicate 480 0 @ le32 0x61417272 @ le32 (of_nat free_count) @ le32 3 @
         replicate 12 0 @ le32 0xaa550000)"

definition CreateVolumeLabel :: "bytes \<Rightarrow> nat \<Rightarrow> bytes" where
  "CreateVolumeLabel label n =
     take 11 label @ replicate (11 - min 11 (length label)) 0x20 @ [0x08] @ replicate (n - 12) 0"

definition root_dir_write :: "nat \<Rightarrow> nat \<Rightarrow> nat \<Rightarrow> bytes \<Rightarrow> nat \<times> bytes" where
  "root_dir_write fatbits spc fatsz label =
     (if fatbits = 32 then (sector_pos (meta_sectors 32 fatsz), CreateVolumeLabel label (512 * spc))
      else (sector_pos (of_nat (reserved_count fatbits) + 2 * of_nat fatsz), CreateVolumeLabel label 512))"

definition format_writes :: "format_device \<Rightarrow> nat \<Rightarrow> nat \<Rightarrow> nat \<Rightarrow> nat \<Rightarrow> bytes \<Rightarrow> (nat \<times> bytes) list" where
  "format_writes D fatbits spc sz fatsz label =
     (let boot = make_bootsector D fatbits spc sz fatsz; sec = first_fat_sector fatbits
      in zero_writes 0 (512 * unat (meta_sectors fatbits fatsz)) @ [(0, boot)] @
         (if fatbits = 32 then [(6 * 512, boot)] else []) @
         [(reserved_count fatbits * 512, sec), (sector_pos (of_nat (reserved_count fatbits) + of_nat fatsz), sec)] @
         (if fatbits = 32 then [(512, fsinfosector32 spc sz fatsz)] else []) @
         [root_dir_write fatbits spc fatsz label])"

text \<open>\<open>None\<close>: the code uses the \<open>NULL\<close> that \<open>malloc\<close> returned.\<close>

definition dosfs_initialize ::
  "format_device \<Rightarrow> bytes option \<Rightarrow> uint32 option \<Rightarrow> image \<Rightarrow> status_t option \<times> image" where
  "dosfs_initialize D name fat_setting img =
     (case name of
        None \<Rightarrow> (Some B_BAD_VALUE, img)
      | Some label \<Rightarrow>
          let (status, setting) = parse_initialize_parameters fat_setting
          in if check_volume_name name \<noteq> B_OK then (Some (check_volume_name name), img)
             else if status \<noteq> B_OK then (Some status, img)
             else case device_size D of
               None \<Rightarrow> (Some B_ERROR, img)
             | Some sz \<Rightarrow>
                 let fatbits = choose_fatbits (is_raw_device D) sz (unat setting);
                     spc = choose_spc fatbits sz;
                     fatsz = fat_size fatbits spc sz
                 in if fatbits = 0 \<or> spc = 0 then (Some B_ERROR, img)
                    else if \<not> zero_buffer D then (None, img)
                    else
                      let ws = format_writes D fatbits spc sz fatsz label;
                          (status, img) = write_all (butlast ws) img
                      in if status \<noteq> B_OK then (Some status, img)
                         else if fatbits = 32 \<and> \<not> cluster_buffer D then (None, img)
                         else
                           let (status, img) = write_all [last ws] img
                           in if status \<noteq> B_OK then (Some status, img) else (Some (scan_result D), img))"

text \<open>\<open>sizeof(512)\<close> is the size of an \<open>int\<close>, 4; \<open>errno\<close> is what a failed write sets.\<close>

definition dosfs_uninitialize :: "uint32 \<Rightarrow> status_t \<Rightarrow> image \<Rightarrow> status_t \<times> image" where
  "dosfs_uninitialize blockSize errno img =
     (if blockSize = 0 then (B_BAD_VALUE, img)
      else let (written, img) = write_pos img 512 (replicate 4 0) in (if written < 0 then errno else B_OK, img))"

end
