(* ===== verification/Mount_Properties.thy ===== *)
theory Mount_Properties
  imports Mount Reader Sample_Volume
begin

section \<open>Properties of mounting\<close>

text \<open>
  What a volume looks like once \<open>volume_init\<close> has accepted its boot sector, and what becomes of its
  label. The search for the label in the root directory only reads, apart from the label itself;
  this is one more instance of the interface of reading operations.
\<close>

locale label_reader = reader +
  assumes R_label: "R v (v\<lparr>vol_entry := e, vol_label := set_label src l\<rparr>)"
begin

lemma label_loop_R: "label_loop k v d b = (d', w) \<Longrightarrow> R u v \<Longrightarrow> R u w"
proof (induction k arbitrary: v d b)
  case (Suc k)
  obtain n d1 v1 where nxt: "diri_next_entry v d = (n, d1, v1)" by (metis prod_cases3)
  have label: "R u (v\<lparr>vol_entry := e, vol_label := set_label src l\<rparr>)" for e src l
    by (rule R_trans [OF Suc.prems(2) R_label])
  have "R u v1" by (rule diri_next_entry_R [OF nxt Suc.prems(2)])
  then show ?case
    using Suc.prems Suc.IH [of v1 d1 n] label
    by (cases b) (auto simp del: label_loop.simps simp: label_loop.simps(2) nxt split: if_split_asm)
qed auto

lemma find_label_R: "R v (find_label v)"
  by (auto simp: find_label_def intro: label_loop_R split: prod.splits)

end

text \<open>What stays of a volume while its label is looked for.\<close>

definition layout :: "nspace \<Rightarrow> nspace" where
  "layout v = v\<lparr>fBlockCache := (fBlockCache v)\<lparr>refs := (\<lambda>_. 0)\<rparr>, vol_entry := 0, vol_label := [], fault := None, mem := []\<rparr>"

definition same_layout :: "nspace \<Rightarrow> nspace \<Rightarrow> bool" where
  "same_layout v w \<longleftrightarrow> layout w = layout v"

interpretation lay: label_reader same_layout
  by unfold_locales
    (auto simp: same_layout_def layout_def block_cache_get_def block_cache_put_def raise_fault_def malloc_def Let_def
      split: option.splits list.splits)

text \<open>The first eleven bytes of the label never end in a space.\<close>

definition trimmed :: "nspace \<Rightarrow> bool" where
  "trimmed v \<longleftrightarrow> length (vol_label v) > 10 \<longrightarrow> vol_label v ! 10 \<noteq> 0x20"

lemma trim_loop_length [simp]: "length (trim_loop i l) = length l"
  by (induction i arbitrary: l) auto

lemma trim_loop_above: "i < j \<Longrightarrow> trim_loop i l ! j = l ! j"
  by (induction i arbitrary: l) auto

lemma trim_loop_last: "Suc n < length l \<Longrightarrow> trim_loop (Suc n) l ! Suc n \<noteq> 0x20"
  by (simp add: trim_loop_above)

lemma set_label_trimmed: "length (set_label src l) > 10 \<Longrightarrow> set_label src l ! 10 \<noteq> 0x20"
  using trim_loop_last [of 9 "take 11 src @ drop 11 l"] by (simp add: set_label_def dosfs_trim_spaces_def)

lemma trimmed_not_ro: "trimmed v \<Longrightarrow> take 11 (vol_label v) \<noteq> ro_label"
proof
  assume "trimmed v" "take 11 (vol_label v) = ro_label"
  moreover have "length ro_label = 11" "ro_label ! 10 = 0x20" by (simp_all add: ro_label_def chars_def)
  ultimately have "length (vol_label v) > 10" "vol_label v ! 10 = 0x20"
    by (metis length_take min_less_iff_conj less_Suc_eq eval_nat_numeral(3), metis nth_take lessI eval_nat_numeral(3))
  then show False using \<open>trimmed v\<close> by (simp add: trimmed_def)
qed

definition keeps_trimmed :: "nspace \<Rightarrow> nspace \<Rightarrow> bool" where
  "keeps_trimmed v w \<longleftrightarrow> (trimmed v \<longrightarrow> trimmed w)"

interpretation trim: label_reader keeps_trimmed
  by unfold_locales
    (auto simp: keeps_trimmed_def trimmed_def set_label_trimmed block_cache_get_def block_cache_put_def raise_fault_def
      malloc_def Let_def split: option.splits list.splits)

lemma with_label_trimmed: "trimmed v \<Longrightarrow> trimmed (with_label (dosfs_read_label f b (vol_label v)) v)"
  by (auto simp: with_label_def dosfs_read_label_def trimmed_def set_label_trimmed Let_def)

lemma no_name_trimmed: "vol_label v = chars ''no name'' @ replicate 5 0 \<Longrightarrow> trimmed v"
  by (simp add: trimmed_def chars_def)

lemma layout_sel:
  "flags (layout v) = flags v" "bytes_per_sector (layout v) = bytes_per_sector v"
  "sectors_per_cluster (layout v) = sectors_per_cluster v" "reserved_sectors (layout v) = reserved_sectors v"
  "fat_count (layout v) = fat_count v" "root_entries_count (layout v) = root_entries_count v"
  "total_sectors (layout v) = total_sectors v" "sectors_per_fat (layout v) = sectors_per_fat v"
  "fat_bits (layout v) = fat_bits v" "total_clusters (layout v) = total_clusters v"
  "root_start (layout v) = root_start v" "root_sectors (layout v) = root_sectors v"
  "data_start (layout v) = data_start v" "root_vnode (layout v) = root_vnode v"
  "last_allocated (layout v) = last_allocated v"
  by (simp_all add: layout_def)

text \<open>What the checks of the boot sector guarantee.\<close>

definition sizes_ok :: "uint32 \<Rightarrow> uint32 \<Rightarrow> uint32 \<Rightarrow> bool" where
  "sizes_ok sector cluster copies \<longleftrightarrow>
     sector \<in> {0x200, 0x400, 0x800, 0x1000} \<and> cluster \<in> {1, 2, 4, 8, 0x10, 0x20, 0x40, 0x80} \<and>
     0 < copies \<and> copies \<le> 8"

definition geometry_ok :: "nspace \<Rightarrow> bool" where
  "geometry_ok v \<longleftrightarrow>
     sizes_ok (bytes_per_sector v) (sectors_per_cluster v) (fat_count v) \<and>
     data_start v = reserved_sectors v + fat_count v * sectors_per_fat v + root_sectors v \<and>
     total_clusters v = (total_sectors v - data_start v) div sectors_per_cluster v \<and>
     (if fat_bits v = 32 then root_sectors v = 0 \<and> vn_cluster (root_vnode v) < total_clusters v
      else fat_count v = 2 \<and> fat_bits v = (if total_clusters v > 0xff1 then 16 else 12) \<and>
        vn_cluster (root_vnode v) = 1 \<and> root_start v + root_sectors v = data_start v \<and>
        unat (reserved_sectors v) < 65536 \<and> unat (sectors_per_fat v) < 65536 \<and> unat (root_sectors v) < 65536)"

lemma geometry_ok_layout: "geometry_ok (layout v) = geometry_ok v"
  by (simp add: geometry_ok_def layout_sel)

lemma ucast_cluster_size:
  "(b :: uint8) \<in> {1, 2, 4, 8, 0x10, 0x20, 0x40, 0x80} \<Longrightarrow> (ucast b :: uint32) \<in> {1, 2, 4, 8, 0x10, 0x20, 0x40, 0x80}"
  by auto

lemma ucast_fat_count: "b \<noteq> 0 \<Longrightarrow> \<not> b > 8 \<Longrightarrow> 0 < (ucast (b :: uint8) :: uint32) \<and> (ucast b :: uint32) \<le> 8"
  by (auto simp: word_less_nat_alt word_le_nat_alt not_less unat_gt_0)

lemma with_label_geometry: "geometry_ok (with_label r v) = geometry_ok v" "flags (with_label r v) = flags v"
  by (simp_all add: geometry_ok_def with_label_def)

lemma with_label_result:
  assumes "trimmed v" "vol_label x = vol_label v" "flags x = flags v" "geometry_ok x"
    "w = with_label (dosfs_read_label f buf (vol_label x)) x"
  shows "geometry_ok w \<and> flags w = flags v \<and> trimmed w"
  using with_label_trimmed [of x f buf] assms by (simp add: with_label_geometry trimmed_def)

lemma read16_small: "unat (read16 buf i) < 65536"
proof -
  have "unat (ucast (b :: uint8) :: uint32) < 256" for b
    using unsigned_less [of b, where ?'a = nat] by (simp add: unsigned_ucast_eq)
  then have "unat (ucast (buf ! i) :: uint32) < 256" "unat (ucast (buf ! (i + 1)) :: uint32) < 256" by blast+
  then show ?thesis by (simp add: read16_def unat_word_ariths)
qed

lemma root_sectors_small:
  assumes "unat (w :: uint32) < 65536" "b \<in> {0x200, 0x400, 0x800, 0x1000}"
  shows "unat (w * 0x20 div b) < 65536"
proof -
  have w: "unat (w * 0x20) = unat w * 32" using assms(1) by (simp add: unat_word_ariths)
  have "unat b \<ge> 512" using assms(2) by auto
  then have "unat w * 32 div unat b \<le> unat w * 32 div 512" by (intro div_le_mono2) simp_all
  then show ?thesis using assms(1) by (simp add: unat_div w)
qed

lemma bpb_fat32_geometry:
  assumes "bpb_fat32 buf v = Some w" "sizes_ok (bytes_per_sector v) (sectors_per_cluster v) (fat_count v)"
    "root_sectors v = 0" "trimmed v"
  shows "geometry_ok w \<and> flags w = flags v \<and> trimmed w"
proof -
  define v1 where "v1 = v\<lparr>fat_bits := 32, sectors_per_fat := read32 buf 0x24, total_sectors := read32 buf 0x20,
                    fsinfo_sector := ucast (read16 buf 0x30), fat_mirrored := (buf ! 0x28 AND 0x80 = 0)\<rparr>"
  define v2 where "v2 = v1\<lparr>active_fat := (if \<not> fat_mirrored v1 then buf ! 0x28 AND 0xf else 0),
                         data_start := reserved_sectors v1 + fat_count v1 * sectors_per_fat v1\<rparr>"
  define v3 where "v3 = v2\<lparr>total_clusters := (total_sectors v2 - data_start v2) div sectors_per_cluster v2,
                         root_vnode := (root_vnode v2)\<lparr>vn_cluster := read32 buf 0x2c\<rparr>\<rparr>"
  have "bpb_fat32 buf v = (if fsinfo_sector v1 \<noteq> 0xffff \<and> ucast (fsinfo_sector v1) \<ge> reserved_sectors v1 then None
     else if vn_cluster (root_vnode v3) \<ge> total_clusters v3 then None
     else Some (with_label (dosfs_read_label True buf (vol_label v3)) v3))"
    by (simp add: bpb_fat32_def Let_def v1_def v2_def v3_def)
  then have w: "w = with_label (dosfs_read_label True buf (vol_label v3)) v3" "\<not> vn_cluster (root_vnode v3) \<ge> total_clusters v3"
    using assms(1) by (auto split: if_split_asm)
  have sel: "bytes_per_sector v3 = bytes_per_sector v" "sectors_per_cluster v3 = sectors_per_cluster v" "fat_count v3 = fat_count v"
    "root_sectors v3 = root_sectors v" "fat_bits v3 = 32" "vol_label v3 = vol_label v" "flags v3 = flags v"
    "data_start v3 = reserved_sectors v3 + fat_count v3 * sectors_per_fat v3"
    "total_clusters v3 = (total_sectors v3 - data_start v3) div sectors_per_cluster v3"
    by (simp_all add: v1_def v2_def v3_def)
  have "geometry_ok v3"
    unfolding geometry_ok_def using sel assms(2,3) w(2) by simp
  then show ?thesis by (rule with_label_result [OF assms(4) sel(6,7) _ w(1)])
qed

lemma bpb_fat16_geometry:
  assumes "bpb_fat16 buf geo v = Some w" "sizes_ok (bytes_per_sector v) (sectors_per_cluster v) (fat_count v)" "trimmed v"
    "unat (reserved_sectors v) < 65536" "unat (sectors_per_fat v) < 65536"
  shows "geometry_ok w \<and> flags w = flags v \<and> trimmed w"
proof -
  define v1 where "v1 = v\<lparr>root_entries_count := read16 buf 0x11, fsinfo_sector := 0xffff,
       total_sectors := bpb_total_sectors buf geo, fat_mirrored := True, active_fat := 0,
       root_start := reserved_sectors v + fat_count v * sectors_per_fat v,
       root_sectors := read16 buf 0x11 * 0x20 div bytes_per_sector v\<rparr>"
  define v2 where "v2 = v1\<lparr>root_vnode := (root_vnode v1)\<lparr>vn_cluster := 1, vn_end_cluster := 1,
       vn_st_size := uint (root_sectors v1 * bytes_per_sector v1)\<rparr>, data_start := root_start v1 + root_sectors v1\<rparr>"
  define v3 where "v3 = v2\<lparr>total_clusters := (total_sectors v2 - data_start v2) div sectors_per_cluster v2\<rparr>"
  define v4 where "v4 = v3\<lparr>fat_bits := (if total_clusters v3 > 0xff1 then 16 else 12)\<rparr>"
  have "bpb_fat16 buf geo v = (if fat_count v \<noteq> 2 then None
     else if root_entries_count v1 mod (bytes_per_sector v div 0x20) \<noteq> 0 then None
     else Some (with_label (dosfs_read_label False buf (vol_label v4)) v4))"
    by (simp add: bpb_fat16_def Let_def v1_def v2_def v3_def v4_def)
  then have w: "w = with_label (dosfs_read_label False buf (vol_label v4)) v4" "fat_count v = 2"
    using assms(1) by (auto split: if_split_asm)
  have sel: "bytes_per_sector v4 = bytes_per_sector v" "sectors_per_cluster v4 = sectors_per_cluster v" "fat_count v4 = fat_count v"
    "vol_label v4 = vol_label v" "flags v4 = flags v"
    "root_start v4 = reserved_sectors v4 + fat_count v4 * sectors_per_fat v4" "data_start v4 = root_start v4 + root_sectors v4"
    "total_clusters v4 = (total_sectors v4 - data_start v4) div sectors_per_cluster v4"
    "fat_bits v4 = (if total_clusters v4 > 0xff1 then 16 else 12)" "vn_cluster (root_vnode v4) = 1"
    "reserved_sectors v4 = reserved_sectors v" "sectors_per_fat v4 = sectors_per_fat v"
    "root_sectors v4 = read16 buf 0x11 * 0x20 div bytes_per_sector v"
    by (simp_all add: v1_def v2_def v3_def v4_def)
  have "unat (root_sectors v4) < 65536"
    unfolding sel(13) using assms(2) by (intro root_sectors_small [OF read16_small]) (simp add: sizes_ok_def)
  then have "geometry_ok v4"
    unfolding geometry_ok_def using sel assms(2,4,5) w(2) by simp
  then show ?thesis by (rule with_label_result [OF assms(3) sel(4,5) _ w(1)])
qed

lemma bpb_geometry:
  assumes "bpb_valid buf" "root_sectors v = 0"
    "(if sectors_per_fat (bpb_common buf v) = 0 then bpb_fat32 buf (bpb_common buf v) else bpb_fat16 buf geo (bpb_common buf v)) = Some w"
  shows "geometry_ok w \<and> flags w = flags v \<and> trimmed w"
proof -
  let ?v = "bpb_common buf v"
  have sizes: "sizes_ok (bytes_per_sector ?v) (sectors_per_cluster ?v) (fat_count ?v)"
    using assms(1) ucast_cluster_size [of "buf ! 0xd"] ucast_fat_count [of "buf ! 0x10"]
    by (auto simp: bpb_valid_def bpb_common_def sizes_ok_def)
  have lab: "trimmed ?v" by (rule no_name_trimmed) (simp add: bpb_common_def)
  have "root_sectors ?v = 0" "flags ?v = flags v" "unat (reserved_sectors ?v) < 65536" "unat (sectors_per_fat ?v) < 65536"
    using assms(2) by (simp_all add: bpb_common_def read16_small)
  then show ?thesis
    using assms(3) bpb_fat32_geometry [OF _ sizes _ lab] bpb_fat16_geometry [OF _ sizes lab] by (auto split: if_split_asm)
qed

lemma malloc_fields: "malloc v = (ok, w) \<Longrightarrow> \<exists>m. w = v\<lparr>mem := m\<rparr>"
  by (auto simp: malloc_def split: list.splits) (metis nspace.surjective nspace.update_convs(32))+

lemma geometry_ok_updates:
  "geometry_ok (v\<lparr>flags := f\<rparr>) = geometry_ok v" "geometry_ok (v\<lparr>last_allocated := c\<rparr>) = geometry_ok v"
  "geometry_ok (v\<lparr>beos_vnid := i\<rparr>) = geometry_ok v" "geometry_ok (v\<lparr>mem := m\<rparr>) = geometry_ok v"
  "geometry_ok (v\<lparr>fBlockCache := b\<rparr>) = geometry_ok v"
  by (simp_all add: geometry_ok_def)

lemma trimmed_updates:
  "trimmed (v\<lparr>flags := f\<rparr>) = trimmed v" "trimmed (v\<lparr>last_allocated := c\<rparr>) = trimmed v"
  "trimmed (v\<lparr>beos_vnid := i\<rparr>) = trimmed v" "trimmed (v\<lparr>mem := m\<rparr>) = trimmed v"
  "trimmed (v\<lparr>fBlockCache := b\<rparr>) = trimmed v"
  by (simp_all add: trimmed_def)

lemma volume_init_result:
  assumes "volume_init dev buf vflags fsflags geo outcomes = Some v"
  shows "geometry_ok v \<and> trimmed v \<and> last_allocated v = 2 \<and>
    flags v = (if past_end v geo then vflags OR B_FS_IS_READONLY else vflags)"
proof -
  obtain v0 where m0: "malloc (zero_nspace outcomes) = (True, v0)" and valid: "bpb_valid buf"
    using assms by (auto simp: volume_init_def split: prod.splits bool.splits if_split_asm)
  obtain m where v0: "v0 = (zero_nspace outcomes)\<lparr>mem := m\<rparr>" using malloc_fields [OF m0] by blast
  let ?v1 = "v0\<lparr>flags := vflags, fs_flags := fsflags\<rparr>"
  obtain w where bpb: "(if sectors_per_fat (bpb_common buf ?v1) = 0 then bpb_fat32 buf (bpb_common buf ?v1)
      else bpb_fat16 buf geo (bpb_common buf ?v1)) = Some w"
    using assms m0 valid by (auto simp: volume_init_def Let_def split: option.splits)
  have w: "geometry_ok w" "flags w = vflags" "trimmed w"
    using bpb_geometry [OF valid _ bpb] v0 by (auto simp: zero_nspace_def)
  define x where "x = (if past_end w geo then w\<lparr>flags := flags w OR B_FS_IS_READONLY\<rparr> else w)\<lparr>last_allocated := 2, beos_vnid := INVALID_VNID_BITS_MASK\<rparr>"
  obtain y where my: "malloc x = (True, y)"
    and v: "v = ro_trick (find_label (y\<lparr>fBlockCache := create_cache dev y\<rparr>))"
    using assms m0 valid bpb unfolding volume_init_def x_def
    by (auto simp: Let_def split: if_split_asm prod.splits)
  obtain m' where y: "y = x\<lparr>mem := m'\<rparr>" using malloc_fields [OF my] by blast
  let ?y = "y\<lparr>fBlockCache := create_cache dev y\<rparr>"
  have "geometry_ok ?y" "trimmed ?y" using w by (simp_all add: y x_def geometry_ok_updates trimmed_updates)
  moreover have "last_allocated ?y = 2" "total_sectors ?y = total_sectors w"
    "flags ?y = (if past_end w geo then vflags OR B_FS_IS_READONLY else vflags)"
    using w(2) by (simp_all add: y x_def)
  ultimately have g: "geometry_ok ?y" "trimmed ?y" "last_allocated ?y = 2" "total_sectors ?y = total_sectors w"
    "flags ?y = (if past_end w geo then vflags OR B_FS_IS_READONLY else vflags)" .
  have lay: "layout (find_label ?y) = layout ?y" using lay.find_label_R [of ?y] by (simp add: same_layout_def)
  have "trimmed (find_label ?y)" using trim.find_label_R [of ?y] g(2) by (simp add: keeps_trimmed_def)
  then have "v = find_label ?y" "trimmed v" using v trimmed_not_ro by (auto simp: ro_trick_def)
  moreover have "geometry_ok (find_label ?y)" using geometry_ok_layout lay g(1) by metis
  moreover have "last_allocated (find_label ?y) = 2" "total_sectors (find_label ?y) = total_sectors w"
    "flags (find_label ?y) = flags ?y"
    using layout_sel lay g(3,4) by metis+
  moreover have "past_end (find_label ?y) geo = past_end w geo" using calculation(5) by (simp add: past_end_def split: option.split)
  ultimately show ?thesis using g(5) by simp
qed


subsection \<open>A boot sector\<close>

text \<open>
  A FAT12 volume of 40 sectors of 512 bytes with a root directory of 16 entries, on a device whose
  sectors all start with the media descriptor.
\<close>

definition sample_boot :: bytes where
  "sample_boot = (replicate 512 0)[0x0c := 2, 0x0d := 1, 0x0e := 1, 0x10 := 2, 0x11 := 16, 0x13 := 40, 0x15 := 0xf8,
     0x16 := 1, 0x1fe := 0x55, 0x1ff := 0xaa]"

definition sample_device :: device where
  "sample_device pos n = Inr (0xf8 # replicate (n - 1) 0)"

lemma sample_boot_bytes:
  "read16 sample_boot 0xb = 512" "sample_boot ! 0xd = 1" "read16 sample_boot 0xe = 1" "sample_boot ! 0x10 = 2"
  "read16 sample_boot 0x11 = 16" "read16 sample_boot 0x13 = 40" "sample_boot ! 0x15 = 0xf8" "read16 sample_boot 0x16 = 1"
  "sample_boot ! 0x1fe = 0x55" "sample_boot ! 0x1ff = 0xaa" "sample_boot ! 3 = 0"
  by (simp_all add: sample_boot_def read16_def)

lemma sample_boot_valid: "bpb_valid sample_boot"
proof -
  have "take 8 (drop 3 sample_boot) ! 0 = 0"
    using sample_boot_bytes(11) by (simp add: sample_boot_def)
  then have "take 8 (drop 3 sample_boot) \<noteq> chars ''NTFS    ''" "take 8 (drop 3 sample_boot) \<noteq> chars ''HPFS    ''"
    by (auto simp: chars_def simp del: nth_take)
  then show ?thesis by (simp add: bpb_valid_def sample_boot_bytes)
qed

lemma bpb_fat16_kept:
  "bpb_fat16 buf geo v = Some w \<Longrightarrow> media_descriptor w = media_descriptor v \<and> mem w = mem v"
  by (auto simp: bpb_fat16_def with_label_def Let_def split: if_split_asm)

lemma bpb_fat16_accepts:
  "fat_count v = 2 \<Longrightarrow> read16 buf 0x11 mod (bytes_per_sector v div 0x20) = 0 \<Longrightarrow> \<exists>w. bpb_fat16 buf geo v = Some w"
  by (simp add: bpb_fat16_def Let_def)

lemma malloc_plenty: "mem v = [] \<Longrightarrow> malloc v = (True, v)"
  by (simp add: malloc_def)

lemma sample_device_media: "check_media sample_device v \<longleftrightarrow> media_descriptor v = 0xf8"
  by (auto simp: check_media_def media_ok_def sample_device_def)

lemma sample_boot_mounts: "\<exists>v. volume_init sample_device sample_boot 0 0 None [] = Some v"
proof -
  let ?v = "bpb_common sample_boot ((zero_nspace [])\<lparr>flags := 0, fs_flags := 0\<rparr>)"
  have sel: "fat_count ?v = 2" "bytes_per_sector ?v = 512" "sectors_per_fat ?v = 1" "media_descriptor ?v = 0xf8" "mem ?v = []"
    "mem (zero_nspace []) = []"
    by (simp_all add: bpb_common_def sample_boot_bytes zero_nspace_def)
  then obtain w where w: "bpb_fat16 sample_boot None ?v = Some w"
    using bpb_fat16_accepts [of ?v sample_boot None] by (auto simp: sample_boot_bytes)
  have "media_descriptor w = 0xf8" "mem w = []" using bpb_fat16_kept [OF w] sel by simp_all
  then show ?thesis
    using sel w by (simp add: volume_init_def malloc_plenty sample_boot_valid sample_device_media Let_def past_end_def)
qed

subsection \<open>The properties\<close>

text \<open>The sectors of a cluster, counted without wrapping.\<close>

definition cluster_sectors :: "nspace \<Rightarrow> uint32 \<Rightarrow> nat set" where
  "cluster_sectors v c =
     (let first = unat (data_start v) + (unat c - 2) * unat (sectors_per_cluster v)
      in {first..<first + unat (sectors_per_cluster v)})"

lemma clusters_inside:
  assumes "unat (total_clusters v) = (unat (total_sectors v) - unat (data_start v)) div unat (sectors_per_cluster v)"
    "unat (data_start v) \<le> unat (total_sectors v)" "IS_DATA_CLUSTER v c"
  shows "cluster_sectors v c \<subseteq> {unat (data_start v)..<unat (total_sectors v)}"
proof -
  let ?s = "unat (sectors_per_cluster v)" and ?t = "unat (total_clusters v)"
  have c: "2 \<le> unat c" "unat c < ?t + 2"
    using assms(3) unat_plus_if' [of "total_clusters v" 2]
    by (auto simp: IS_DATA_CLUSTER_def word_le_nat_alt word_less_nat_alt split: if_split_asm)
  then have "(unat c - 2) * ?s + ?s \<le> ?t * ?s" by (metis Suc_leI add.commute less_diff_conv2 mult_Suc mult_le_mono1)
  also have "\<dots> \<le> unat (total_sectors v) - unat (data_start v)" unfolding assms(1) by (rule div_times_less_eq_dividend)
  finally show ?thesis using assms(2) by (auto simp: cluster_sectors_def Let_def)
qed

lemma wrapped_difference:
  assumes "(t :: uint32) < d"
  shows "unat (t - d) = 2 ^ 32 - (unat d - unat t)"
proof -
  have "unat t < unat d" "unat d < 2 ^ 32" using assms unsigned_less [of d, where ?'a = nat] by (simp_all add: word_less_nat_alt)
  then show ?thesis by (simp add: unat_sub_if')
qed

lemma data_area_exact:
  assumes "geometry_ok v" "fat_bits v \<noteq> 32"
  shows "unat (data_start v) = unat (reserved_sectors v) + 2 * unat (sectors_per_fat v) + unat (root_sectors v)"
proof -
  have g: "data_start v = reserved_sectors v + 2 * sectors_per_fat v + root_sectors v"
    "unat (reserved_sectors v) < 65536" "unat (sectors_per_fat v) < 65536" "unat (root_sectors v) < 65536"
    using assms by (simp_all add: geometry_ok_def)
  show ?thesis using g(2-4) by (simp add: g(1) unat_word_ariths)
qed

text \<open>
  C33. What \<^const>\<open>volume_init\<close> guarantees about a volume it accepts, and what it does not. The sizes of sectors
  and clusters are powers of two in their ranges, there are one to eight copies of the table (two, on a volume with 12- or 16-bit
  entries, whose data area starts exactly behind the tables and the root directory, and whose width follows from the number of
  clusters), the number of a FAT32 root cluster is less than the number of clusters, and the search for a free
  cluster starts at cluster 2. If the data area starts inside the volume, all the sectors of every data cluster lie
  between its start and the end of the volume. But nothing checks that it does: if it starts
  behind the end, the volume is accepted all the same, and its number of clusters is what fits into
  the rest of the 2^32 sectors.
\<close>

theorem volume_init_geometry:
  assumes "volume_init dev buf vflags fsflags geo outcomes = Some v"
  shows "sizes_ok (bytes_per_sector v) (sectors_per_cluster v) (fat_count v) \<and> last_allocated v = 2 \<and>
    (if fat_bits v = 32 then vn_cluster (root_vnode v) < total_clusters v
     else fat_count v = 2 \<and> fat_bits v = (if total_clusters v > 0xff1 then 16 else 12) \<and> vn_cluster (root_vnode v) = 1 \<and>
       unat (data_start v) = unat (reserved_sectors v) + 2 * unat (sectors_per_fat v) + unat (root_sectors v)) \<and>
    (if data_start v \<le> total_sectors v
     then \<forall>c. IS_DATA_CLUSTER v c \<longrightarrow> cluster_sectors v c \<subseteq> {unat (data_start v)..<unat (total_sectors v)}
     else unat (total_clusters v) =
       (2 ^ 32 - (unat (data_start v) - unat (total_sectors v))) div unat (sectors_per_cluster v))"
proof -
  have g: "geometry_ok v" "last_allocated v = 2" using volume_init_result [OF assms] by simp_all
  then have t: "total_clusters v = (total_sectors v - data_start v) div sectors_per_cluster v"
    "sizes_ok (bytes_per_sector v) (sectors_per_cluster v) (fat_count v)"
    and bits: "if fat_bits v = 32 then vn_cluster (root_vnode v) < total_clusters v
      else fat_count v = 2 \<and> fat_bits v = (if total_clusters v > 0xff1 then 16 else 12) \<and> vn_cluster (root_vnode v) = 1"
    by (auto simp: geometry_ok_def)
  have inside: "cluster_sectors v c \<subseteq> {unat (data_start v)..<unat (total_sectors v)}"
    if "data_start v \<le> total_sectors v" "IS_DATA_CLUSTER v c" for c
    by (rule clusters_inside [OF _ _ that(2)]) (use that(1) in \<open>simp_all add: t(1) unat_div unat_sub word_le_nat_alt\<close>)
  have wraps: "unat (total_clusters v) = (2 ^ 32 - (unat (data_start v) - unat (total_sectors v))) div unat (sectors_per_cluster v)"
    if "\<not> data_start v \<le> total_sectors v"
    using that wrapped_difference [of "total_sectors v" "data_start v"] by (simp only: t(1) unat_div not_le)
  show ?thesis
    using g t(2) bits data_area_exact [OF g(1)] inside wraps by auto
qed

text \<open>A boot sector for a volume of two sectors, whose data area starts at sector 4.\<close>

definition tiny_boot :: bytes where
  "tiny_boot = sample_boot[0x13 := 2]"

lemma tiny_boot_mounts:
  "\<exists>v. volume_init sample_device tiny_boot 0 0 None [] = Some v \<and> total_sectors v = 2 \<and> data_start v = 4 \<and> sectors_per_cluster v = 1"
proof -
  have other: "tiny_boot ! i = sample_boot ! i" if "i \<noteq> 0x13" for i using that by (simp add: tiny_boot_def)
  have bytes: "read16 tiny_boot 0xb = 512" "tiny_boot ! 0xd = 1" "read16 tiny_boot 0xe = 1" "tiny_boot ! 0x10 = 2"
    "read16 tiny_boot 0x11 = 16" "read16 tiny_boot 0x13 = 2" "tiny_boot ! 0x15 = 0xf8" "read16 tiny_boot 0x16 = 1"
    using sample_boot_bytes by (simp_all add: read16_def other) (simp_all add: tiny_boot_def sample_boot_def)
  have "take 8 (drop 3 tiny_boot) = take 8 (drop 3 sample_boot)" by (simp add: tiny_boot_def drop_update_swap take_update_swap list_update_beyond)
  then have valid: "bpb_valid tiny_boot"
    using sample_boot_valid by (simp add: bpb_valid_def sample_boot_bytes bytes other)
  let ?v = "bpb_common tiny_boot ((zero_nspace [])\<lparr>flags := 0, fs_flags := 0\<rparr>)"
  have sel: "fat_count ?v = 2" "bytes_per_sector ?v = 512" "sectors_per_fat ?v = 1" "media_descriptor ?v = 0xf8" "mem ?v = []"
    "mem (zero_nspace []) = []" "reserved_sectors ?v = 1" "sectors_per_cluster ?v = 1"
    by (simp_all add: bpb_common_def bytes zero_nspace_def)
  then obtain w where w: "bpb_fat16 tiny_boot None ?v = Some w"
    using bpb_fat16_accepts [of ?v tiny_boot None] by (auto simp: bytes)
  have "media_descriptor w = 0xf8" "mem w = []" using bpb_fat16_kept [OF w] sel by simp_all
  moreover have "total_sectors w = 2 \<and> data_start w = 4 \<and> sectors_per_cluster w = 1"
    using w sel by (auto simp: bpb_fat16_def with_label_def bpb_total_sectors_def bytes Let_def split: if_split_asm)
  moreover have "total_sectors (ro_trick (find_label u)) = total_sectors u \<and> data_start (ro_trick (find_label u)) = data_start u \<and>
      sectors_per_cluster (ro_trick (find_label u)) = sectors_per_cluster u" for u
  proof -
    have "layout (find_label u) = layout u" using lay.find_label_R [of u] by (simp add: same_layout_def)
    then have "total_sectors (find_label u) = total_sectors u \<and> data_start (find_label u) = data_start u \<and>
        sectors_per_cluster (find_label u) = sectors_per_cluster u" using layout_sel by metis
    then show ?thesis by (simp add: ro_trick_def)
  qed
  ultimately show ?thesis
    using sel w by (simp add: volume_init_def malloc_plenty valid sample_device_media Let_def past_end_def)
qed

theorem volume_init_geometry_witness:
  "(\<exists>v. volume_init sample_device sample_boot 0 0 None [] = Some v \<and> last_allocated v = 2 \<and>
     sizes_ok (bytes_per_sector v) (sectors_per_cluster v) (fat_count v)) \<and>
   (\<exists>v. volume_init sample_device tiny_boot 0 0 None [] = Some v \<and> total_sectors v = 2 \<and> data_start v = 4 \<and>
     unat (total_clusters v) = 0xfffffffe)"
proof -
  obtain v where "volume_init sample_device sample_boot 0 0 None [] = Some v" using sample_boot_mounts by blast
  moreover obtain w where "volume_init sample_device tiny_boot 0 0 None [] = Some w" "total_sectors w = 2" "data_start w = 4"
    "sectors_per_cluster w = 1" using tiny_boot_mounts by blast
  ultimately show ?thesis using volume_init_geometry [of sample_device] by fastforce
qed

text \<open>
  The label \<open>__RO__\<close>, which is meant to make a volume read-only, never does: whatever the boot
  sector and the root directory hold, the label of an initialised volume is not the one that is
  compared with, because its trailing spaces have been replaced. The volume is read-only exactly
  when the flags say so or when it extends past the end of the device.
\<close>

lemma ro_label_has_no_effect:
  assumes "volume_init dev buf vflags fsflags geo outcomes = Some v"
  shows "take 11 (vol_label v) \<noteq> ro_label \<and>
    flags v = (if past_end v geo then vflags OR B_FS_IS_READONLY else vflags)"
  using volume_init_result [OF assms] trimmed_not_ro by blast

lemma ro_label_has_no_effect_witness:
  "\<exists>v. volume_init sample_device sample_boot 0 0 None [] = Some v \<and> take 11 (vol_label v) \<noteq> ro_label \<and> flags v = 0"
proof -
  obtain v where v: "volume_init sample_device sample_boot 0 0 None [] = Some v" using sample_boot_mounts by blast
  have "\<not> past_end v None" by (simp add: past_end_def)
  then show ?thesis using ro_label_has_no_effect [OF v] v by simp
qed

text \<open>
  The label in the boot sector of a FAT12 or FAT16 volume cannot be changed when it is the label
  the driver knows: the comparison that is meant to detect a mismatch is inverted, and the request
  ends with \<open>B_ERROR\<close> and the old label.
\<close>

lemma write_fs_stat_refuses_matching_label:
  assumes "\<not> read_only v" "vol_entry v = -1" "sectors_per_fat v \<noteq> 0" "blk v 0 = Some b"
    "strncmp_eq 11 (drop 0x2b b) (vol_label v)" "label_chars 11 name \<noteq> []" "fs_flags v AND FS_FLAGS_OP_SYNC = 0"
  shows "\<exists>w. dosfs_write_fs_stat E v name True = (B_ERROR, w) \<and> vol_label w = vol_label v \<and> blk w = blk v"
  using assms
  by (auto simp: dosfs_write_fs_stat_def write_label_def write_bpb_label_def block_cache_get_def block_cache_put_def
      block_data_def op_sync_def Let_def status)

definition labelled_volume :: nspace where
  "labelled_volume = sample_volume\<lparr>
     fBlockCache := sample_cache\<lparr>blocks := (blocks sample_cache)
       (0 \<mapsto> replicate 43 0 @ chars ''ABCDEFGHIJK'' @ replicate 458 0)\<rparr>,
     vol_label := chars ''ABCDEFGHIJK'' @ [0]\<rparr>"

lemma strncmp_eq_same: "strncmp_eq n (xs @ a) (xs @ b)" if "n \<le> length xs"
  using that by (induction n arbitrary: xs) (auto simp: neq_Nil_conv Suc_le_length_iff)

lemma write_fs_stat_refuses_matching_label_witness:
  "\<forall>E. \<exists>w. dosfs_write_fs_stat E labelled_volume (chars ''A'') True = (B_ERROR, w) \<and>
     vol_label w = vol_label labelled_volume \<and> blk w = blk labelled_volume"
proof (intro allI, rule write_fs_stat_refuses_matching_label)
  have "drop 0x2b (replicate 43 0 @ chars ''ABCDEFGHIJK'' @ replicate 458 0) = chars ''ABCDEFGHIJK'' @ replicate 458 0"
    by simp
  then show "strncmp_eq 11 (drop 0x2b (replicate 43 0 @ chars ''ABCDEFGHIJK'' @ replicate 458 0)) (vol_label labelled_volume)"
    using strncmp_eq_same [of 11 "chars ''ABCDEFGHIJK''" "replicate 458 0" "[0]"] by (simp add: labelled_volume_def chars_def)
  have "label_chars (Suc n) (chars ''A'') \<noteq> []" for n
    by (simp add: chars_def acceptable_def upper_case_def Let_def)
  then show "label_chars 11 (chars ''A'') \<noteq> []" by (metis numeral_eq_Suc)
qed (simp_all add: labelled_volume_def sample_volume_def)

end
