(* ===== verification/Mkdos_Properties.thy ===== *)
theory Mkdos_Properties
  imports Mkdos Mount_Properties
begin

section \<open>Properties of formatting\<close>

text \<open>
  The size of the table that is written, the contents of the device after formatting, and what the driver makes of
  it when the volume is mounted.
\<close>

subsection \<open>The size of the table\<close>

text \<open>The sizes for which the computation stays within its ranges.\<close>

definition format_ok :: "nat \<Rightarrow> nat \<Rightarrow> bool" where
  "format_ok fatbits sz \<longleftrightarrow> fatbits \<in> {12, 16, 32} \<and> choose_spc fatbits sz \<noteq> 0 \<and> 16 * 512 \<le> sz \<and> sz < 2 ^ 41"

definition meta_count :: "nat \<Rightarrow> nat" where
  "meta_count fatbits = (if fatbits = 12 then 9 else if fatbits = 16 then 33 else 32)"

lemma meta_count_eq: "fatbits \<in> {12, 16, 32} \<Longrightarrow> reserved_count fatbits + root_dir_sectors fatbits = meta_count fatbits"
  by (auto simp: meta_count_def reserved_count_def root_dir_sectors_def root_entry_count_def)

definition table_step :: "nat \<Rightarrow> nat \<Rightarrow> nat" where
  "table_step fatbits spc = (if fatbits = 32 then 128 * spc + 1 else 256 * spc + 2)"

lemma ceil_bounds:
  assumes "0 < (t :: nat)"
  shows "a \<le> (a + (t - 1)) div t * t" "(a + (t - 1)) div t * t < a + t"
proof -
  let ?x = "a + (t - 1)"
  have "?x = ?x div t * t + ?x mod t" "?x mod t < t" using assms by simp_all
  then show "a \<le> ?x div t * t" "?x div t * t < a + t" by linarith+
qed

text \<open>How the sectors, the cluster size and the width of the table go together.\<close>

lemma choose_spc_cases:
  assumes "format_ok fatbits sz" "d = sz div 512"
  obtains "fatbits = 12" "choose_spc fatbits sz = 1" "d \<le> 4084" "16 \<le> d"
    | "fatbits = 12" "choose_spc fatbits sz = 2" "d \<le> 8168" "4084 \<le> d"
    | s where "fatbits = 16" "choose_spc fatbits sz = s" "s \<in> {2, 4, 8, 16, 32, 64}" "8168 \<le> d" "d \<le> 2 ^ 22"
    | "fatbits = 32" "choose_spc fatbits sz = 1" "66600 \<le> d" "d \<le> 532480"
    | "fatbits = 32" "choose_spc fatbits sz = 8" "532480 \<le> d" "d \<le> 2 ^ 24"
    | "fatbits = 32" "choose_spc fatbits sz = 16" "2 ^ 24 \<le> d" "d \<le> 2 ^ 25"
    | "fatbits = 32" "choose_spc fatbits sz = 32" "2 ^ 25 \<le> d" "d \<le> 2 ^ 26"
    | "fatbits = 32" "choose_spc fatbits sz = 64" "2 ^ 26 \<le> d" "d < 2 ^ 32"
proof -
  have div: "a * 512 \<le> sz \<Longrightarrow> a \<le> sz div 512" "sz \<le> a * 512 \<Longrightarrow> sz div 512 \<le> a"
    "sz < a * 512 \<Longrightarrow> sz div 512 < a" for a
    by (simp_all add: less_eq_div_iff_mult_less_eq div_le_mono [of sz "a * 512" 512, simplified] div_less_iff_less_mult)
  have t: "16 * 512 \<le> sz" "sz < 2 ^ 32 * 512" using assms(1) by (simp_all add: format_ok_def)
  note d = div(1) [of 16] div(1) [of 4084] div(1) [of 8168] div(1) [of 66600] div(1) [of 532480] div(1) [of "2 ^ 24"]
    div(1) [of "2 ^ 25"] div(1) [of "2 ^ 26"] div(2) [of 4084] div(2) [of 8168] div(2) [of "2 ^ 22"] div(2) [of 532480]
    div(2) [of "2 ^ 24"] div(2) [of "2 ^ 25"] div(2) [of "2 ^ 26"] div(3) [of "2 ^ 32"]
  consider "fatbits = 12" | "fatbits = 16" | "fatbits = 32" using assms(1) by (auto simp: format_ok_def)
  then show ?thesis
  proof cases
    case 1
    then show ?thesis using that(1,2) assms(1) d t unfolding assms(2) by (auto simp: format_ok_def choose_spc_def split: if_split_asm)
  next
    case 2
    then show ?thesis using that(3) assms(1) d t unfolding assms(2) by (auto simp: format_ok_def choose_spc_def split: if_split_asm)
  next
    case 3
    then show ?thesis using that(4-8) assms(1) d t unfolding assms(2) by (auto simp: format_ok_def choose_spc_def split: if_split_asm)
  qed
qed

abbreviation spc_of :: "nat \<Rightarrow> nat \<Rightarrow> nat" where
  "spc_of fatbits sz \<equiv> choose_spc fatbits sz"

abbreviation table_of :: "nat \<Rightarrow> nat \<Rightarrow> nat" where
  "table_of fatbits sz \<equiv> fat_size fatbits (choose_spc fatbits sz) sz"

lemma format_range:
  assumes "format_ok fatbits sz"
  shows "meta_count fatbits < sz div 512" "sz div 512 < 2 ^ 32" "0 < spc_of fatbits sz" "spc_of fatbits sz \<le> 64"
    "sz div 512 \<le> 2 ^ 19 * table_step fatbits (spc_of fatbits sz)"
proof -
  define d where "d = sz div 512"
  have "meta_count fatbits < d \<and> d < 2 ^ 32 \<and> 0 < spc_of fatbits sz \<and> spc_of fatbits sz \<le> 64 \<and>
      d \<le> 2 ^ 19 * table_step fatbits (spc_of fatbits sz)"
    using assms d_def by (cases rule: choose_spc_cases) (simp_all add: meta_count_def table_step_def, fastforce)
  then show "meta_count fatbits < sz div 512" "sz div 512 < 2 ^ 32" "0 < spc_of fatbits sz" "spc_of fatbits sz \<le> 64"
    "sz div 512 \<le> 2 ^ 19 * table_step fatbits (spc_of fatbits sz)"
    unfolding d_def by blast+
qed

lemma wrap_diff:
  assumes "(m :: nat) \<le> d" "d < w"
  shows "(d + w - m) mod w = d - m"
proof -
  have "d + w - m = (d - m) + w" "d - m < w" using assms by simp_all
  then show ?thesis by (metis mod_add_self2 mod_less)
qed

lemma quotient_bound: "F * t < D + t \<Longrightarrow> D \<le> c * t \<Longrightarrow> F \<le> (c :: nat)"
proof (rule ccontr)
  assume F: "F * t < D + t" "D \<le> c * t" "\<not> F \<le> c"
  then have "Suc c * t \<le> F * t" by (intro mult_le_mono1) simp
  then show False using F by simp
qed

lemma cluster_arith: "s < F \<Longrightarrow> 0 < s \<Longrightarrow> D \<le> F * (128 * s + 1) \<Longrightarrow> D - 2 * F < (128 * F - 1) * (s :: nat)"
proof -
  assume a: "s < F" "0 < s" "D \<le> F * (128 * s + 1)"
  define P where "P = F * s"
  have "D \<le> 128 * P + F" using a(3) by (simp add: P_def algebra_simps)
  moreover have "F \<le> P" using a(2) by (simp add: P_def)
  moreover have "(128 * F - 1) * s = 128 * P - s" by (simp add: P_def diff_mult_distrib)
  moreover have "D - 2 * F + s < 128 * P"
  proof (cases "D \<le> 2 * F")
    case True
    then show ?thesis using a(1) \<open>F \<le> P\<close> by simp
  next
    case False
    then have "D = 2 * F + (D - 2 * F)" by simp
    then obtain e where "D = 2 * F + e" ..
    then show ?thesis using a(1) \<open>D \<le> 128 * P + F\<close> by simp
  qed
  ultimately show ?thesis by (simp add: less_diff_conv)
qed

lemma fat_size_eq:
  assumes "format_ok fatbits sz"
  shows "table_of fatbits sz =
    (sz div 512 - meta_count fatbits + (table_step fatbits (spc_of fatbits sz) - 1)) div table_step fatbits (spc_of fatbits sz)"
proof -
  let ?d = "sz div 512" and ?m = "meta_count fatbits" and ?s = "spc_of fatbits sz" and ?t = "table_step fatbits (spc_of fatbits sz)"
  note r = format_range [OF assms]
  have "fatbits \<in> {12, 16, 32}" using assms by (simp add: format_ok_def)
  then have m: "reserved_count fatbits + root_dir_sectors fatbits = ?m" by (rule meta_count_eq)
  have "(?d + 2 ^ 64 - ?m) mod 2 ^ 64 = ?d - ?m"
    by (rule wrap_diff) (use r(1,2) in simp_all)
  moreover have t: "(if fatbits = 32 then (256 * ?s + 2) div 2 else 256 * ?s + 2) = ?t" by (simp add: table_step_def)
  moreover have "?t \<le> 256 * 64 + 2" using r(4) by (auto simp: table_step_def)
  moreover have "?d - ?m + (?t - 1) < 2 ^ 64" using r(2) \<open>?t \<le> 256 * 64 + 2\<close> by simp
  moreover have "(?d - ?m + (?t - 1)) div ?t < 2 ^ 32"
  proof -
    have "(?d - ?m + (?t - 1)) div ?t * ?t < ?d - ?m + ?t" by (rule ceil_bounds) (simp add: table_step_def)
    then have "(?d - ?m + (?t - 1)) div ?t * ?t < ?d + ?t" by linarith
    then have "(?d - ?m + (?t - 1)) div ?t \<le> 2 ^ 19" by (rule quotient_bound [OF _ r(5)])
    then show ?thesis by (rule le_less_trans) simp
  qed
  ultimately show ?thesis unfolding fat_size_def Let_def m by simp
qed

text \<open>The table covers what the code divides by, and not much more.\<close>

lemma fat_size_bounds:
  assumes "format_ok fatbits sz"
  shows "sz div 512 - meta_count fatbits \<le> table_of fatbits sz * table_step fatbits (spc_of fatbits sz)"
    "table_of fatbits sz * table_step fatbits (spc_of fatbits sz) < sz div 512 - meta_count fatbits + table_step fatbits (spc_of fatbits sz)"
    "1 \<le> table_of fatbits sz" "table_of fatbits sz \<le> 2 ^ 19 + 1"
proof -
  let ?t = "table_step fatbits (spc_of fatbits sz)"
  have t: "0 < ?t" by (simp add: table_step_def)
  show le: "sz div 512 - meta_count fatbits \<le> table_of fatbits sz * ?t"
    unfolding fat_size_eq [OF assms] by (rule ceil_bounds(1) [OF t])
  show less: "table_of fatbits sz * ?t < sz div 512 - meta_count fatbits + ?t"
    unfolding fat_size_eq [OF assms] by (rule ceil_bounds(2) [OF t])
  show "1 \<le> table_of fatbits sz"
    using le format_range(1) [OF assms] by (cases "table_of fatbits sz") auto
  have "table_of fatbits sz \<le> 2 ^ 19"
    by (rule quotient_bound [of _ ?t "sz div 512"]) (use less format_range(5) [OF assms] in linarith)+
  then show "table_of fatbits sz \<le> 2 ^ 19 + 1" by simp
qed

text \<open>The number of clusters the driver finds behind the tables and the root directory.\<close>

definition cluster_count :: "nat \<Rightarrow> nat \<Rightarrow> nat" where
  "cluster_count fatbits sz = (sz div 512 - meta_count fatbits - 2 * table_of fatbits sz) div spc_of fatbits sz"

lemma table_entries_32:
  assumes "format_ok 32 sz"
  shows "cluster_count 32 sz + 2 \<le> 128 * table_of 32 sz"
proof -
  let ?F = "table_of 32 sz" and ?s = "spc_of 32 sz" and ?D = "sz div 512 - meta_count 32"
  have "?s < ?F"
  proof (rule ccontr)
    assume "\<not> ?s < ?F"
    then have D: "?D \<le> ?s * (128 * ?s + 1)"
      using fat_size_bounds(1) [OF assms] mult_le_mono1 [of ?F ?s "128 * ?s + 1"] by (simp add: table_step_def)
    define d where "d = sz div 512"
    show False
      by (rule choose_spc_cases [OF assms d_def]) (use D in \<open>simp_all add: meta_count_def flip: d_def\<close>)
  qed
  moreover have "0 < ?s" by (rule format_range(3) [OF assms])
  moreover have "?D \<le> ?F * (128 * ?s + 1)" using fat_size_bounds(1) [OF assms] by (simp add: table_step_def)
  ultimately have "?D - 2 * ?F < (128 * ?F - 1) * ?s" by (rule cluster_arith)
  then have "(?D - 2 * ?F) div ?s < 128 * ?F - 1" by (simp add: less_mult_imp_div_less)
  then show ?thesis by (simp add: cluster_count_def)
qed

lemma table_entries_1216:
  assumes "format_ok fatbits sz" "fatbits \<noteq> 32"
  shows "cluster_count fatbits sz \<le> 256 * table_of fatbits sz"
proof -
  let ?F = "table_of fatbits sz" and ?s = "spc_of fatbits sz"
  have "sz div 512 - meta_count fatbits \<le> ?F * (256 * ?s + 2)"
    using fat_size_bounds(1) [OF assms(1)] assms(2) by (simp add: table_step_def)
  then have "sz div 512 - meta_count fatbits - 2 * ?F \<le> 256 * ?F * ?s" by (simp add: algebra_simps)
  then show ?thesis unfolding cluster_count_def
    using format_range(3) [OF assms(1)] div_le_mono [of _ "256 * ?F * ?s" ?s] by (metis div_mult_self_is_m)
qed

subsection \<open>The boot sector\<close>

lemma le_sizes [simp]: "length (le16 v) = 2" "length (le32 v) = 4"
  by (simp_all add: le16_def le32_def)

lemma boot_lengths [simp]:
  "length (boot_common D fatbits spc a b c) = 36" "length bootcode = 197"
  "length kind = 8 \<Longrightarrow> length (boot_identity D kind) = 26"
  by (simp_all add: boot_common_def boot_identity_def bootjmp_def bootcode_def chars_def)

lemma with_code_length: "length fs \<le> 128 \<Longrightarrow> length (with_code fs) = 512"
  by (simp add: with_code_def)

lemma with_code_nth: "i < length fs \<Longrightarrow> with_code fs ! i = fs ! i"
  by (simp add: with_code_def nth_append)

lemma with_code_signature:
  assumes "length fs \<le> 128"
  shows "with_code fs ! 0x1fe = 0x55" "with_code fs ! 0x1ff = 0xaa"
proof -
  define p where "p = fs @ replicate (0x80 - length fs) 0 @ bootcode @ replicate (0x1fe - 0x80 - length bootcode) 0"
  have "with_code fs = p @ le16 0xaa55" "length p = 510" using assms by (simp_all add: with_code_def p_def)
  then show "with_code fs ! 0x1fe = 0x55" "with_code fs ! 0x1ff = 0xaa"
    by (simp_all add: nth_append le16_def byte_of_def)
qed

text \<open>The fields that both kinds of boot sectors have.\<close>

lemma boot_common_bytes:
  "boot_common D fatbits spc a b c ! 3 = 0x46"
  "boot_common D fatbits spc a b c ! 0xb = 0" "boot_common D fatbits spc a b c ! 0xc = 2"
  "boot_common D fatbits spc a b c ! 0xd = of_nat spc"
  "boot_common D fatbits spc a b c ! 0xe = of_nat (reserved_count fatbits)" "boot_common D fatbits spc a b c ! 0xf = 0"
  "boot_common D fatbits spc a b c ! 0x10 = 2" "boot_common D fatbits spc a b c ! 0x15 = 0xf8"
  "boot_common D fatbits spc a b c ! 0x11 = byte_of (of_nat (root_entry_count fatbits)) 0"
  "boot_common D fatbits spc a b c ! 0x12 = byte_of (of_nat (root_entry_count fatbits)) 1"
  "boot_common D fatbits spc a b c ! 0x13 = byte_of a 0" "boot_common D fatbits spc a b c ! 0x14 = byte_of a 1"
  "boot_common D fatbits spc a b c ! 0x16 = byte_of c 0" "boot_common D fatbits spc a b c ! 0x17 = byte_of c 1"
  "boot_common D fatbits spc a b c ! 0x20 = byte_of b 0" "boot_common D fatbits spc a b c ! 0x21 = byte_of b 1"
  "boot_common D fatbits spc a b c ! 0x22 = byte_of b 2" "boot_common D fatbits spc a b c ! 0x23 = byte_of b 3"
  by (simp_all add: boot_common_def bootjmp_def chars_def le16_def le32_def reserved_count_def byte_of_def)

definition total16 :: "nat \<Rightarrow> nat \<Rightarrow> uint32" where
  "total16 fatbits sz = (if fatbits = 32 \<or> (of_nat (sz div 512) :: uint32) > 65535 then 0 else of_nat (sz div 512))"

definition total32 :: "nat \<Rightarrow> nat \<Rightarrow> uint32" where
  "total32 fatbits sz = (if fatbits = 32 \<or> (of_nat (sz div 512) :: uint32) > 65535 then of_nat (sz div 512) else 0)"

lemma make_bootsector_head:
  assumes "i < 36"
  shows "make_bootsector D fatbits spc sz F ! i =
    boot_common D fatbits spc (total16 fatbits sz) (total32 fatbits sz) (if fatbits = 32 then 0 else of_nat F) ! i"
  using assms
  by (auto simp: make_bootsector_def bootsector32_def bootsector1216_def with_code_nth nth_append total16_def total32_def Let_def not_le)

lemma make_bootsector_length: "length (make_bootsector D fatbits spc sz F) = 512"
  by (simp add: make_bootsector_def bootsector32_def bootsector1216_def with_code_length Let_def)

lemma make_bootsector_signature: "make_bootsector D fatbits spc sz F ! 0x1fe = 0x55" "make_bootsector D fatbits spc sz F ! 0x1ff = 0xaa"
  by (simp_all add: make_bootsector_def bootsector32_def bootsector1216_def with_code_signature Let_def)

lemma make_bootsector_valid:
  assumes "spc \<in> {1, 2, 4, 8, 16, 32, 64}"
  shows "bpb_valid (make_bootsector D fatbits spc sz F)"
proof -
  let ?B = "make_bootsector D fatbits spc sz F"
  note h = make_bootsector_head [of _ D fatbits spc sz F] boot_common_bytes
  have "take 8 (drop 3 ?B) ! 0 = 0x46" using h(1) [of 3] h(2) make_bootsector_length [of D fatbits spc sz F] by simp
  then have "take 8 (drop 3 ?B) \<noteq> chars ''NTFS    ''" "take 8 (drop 3 ?B) \<noteq> chars ''HPFS    ''"
    by (auto simp: chars_def simp del: nth_take)
  then show ?thesis
    using assms by (auto simp: bpb_valid_def h(1) boot_common_bytes make_bootsector_signature read16_def)
qed

lemma make_bootsector_32:
  "read32 (make_bootsector D 32 spc sz F) 0x24 = of_nat F" "make_bootsector D 32 spc sz F ! 0x28 = 0"
  "read32 (make_bootsector D 32 spc sz F) 0x2c = 2" "read16 (make_bootsector D 32 spc sz F) 0x30 = 1"
proof -
  have "i < 50 \<Longrightarrow> 36 \<le> i \<Longrightarrow> make_bootsector D 32 spc sz F ! i =
      (le32 (of_nat F) @ le16 0 @ le16 0 @ le32 2 @ le16 1) ! (i - 36)" for i
    by (simp add: make_bootsector_def bootsector32_def with_code_nth nth_append)
  note b = this [of 36] this [of 37] this [of 38] this [of 39] this [of 40] this [of 44] this [of 45] this [of 46] this [of 47]
    this [of 48] this [of 49]
  show "read32 (make_bootsector D 32 spc sz F) 0x24 = of_nat F" "make_bootsector D 32 spc sz F ! 0x28 = 0"
    "read32 (make_bootsector D 32 spc sz F) 0x2c = 2" "read16 (make_bootsector D 32 spc sz F) 0x30 = 1"
    using b le32_byte_of [of "of_nat F"] by (simp_all add: read32_def read16_def le32_def le16_def byte_of_def [of _ 0, simplified] byte_of_def)
qed

subsection \<open>The contents of the device\<close>

definition covers :: "nat \<Rightarrow> nat \<times> bytes \<Rightarrow> bool" where
  "covers i w \<longleftrightarrow> fst w \<le> i \<and> i < fst w + length (snd w)"

definition after_writes :: "(nat \<times> bytes) list \<Rightarrow> (nat \<Rightarrow> uint8) \<Rightarrow> nat \<Rightarrow> uint8" where
  "after_writes ws c = fold (\<lambda>(pos, bs). overlay pos bs) ws c"

lemma after_writes_other: "(\<And>w. w \<in> set ws \<Longrightarrow> \<not> covers i w) \<Longrightarrow> after_writes ws c i = c i"
proof (induction ws arbitrary: c)
  case (Cons w ws)
  obtain pos bs where w: "w = (pos, bs)" by (cases w)
  have "\<not> covers i w" using Cons.prems by simp
  then have "overlay pos bs c i = c i" by (auto simp: w covers_def overlay_def)
  then show ?case using Cons.IH [of "overlay pos bs c"] Cons.prems by (simp add: after_writes_def w)
qed (simp add: after_writes_def)

text \<open>The last write that covers a byte determines it.\<close>

lemma after_writes_last:
  assumes "ws = earlier @ (pos, bs) # later" "pos \<le> i" "i < pos + length bs" "\<And>w. w \<in> set later \<Longrightarrow> \<not> covers i w"
  shows "after_writes ws c i = bs ! (i - pos)"
proof -
  have "after_writes ws c i = after_writes later (overlay pos bs (after_writes earlier c)) i"
    by (simp add: assms(1) after_writes_def)
  also have "\<dots> = overlay pos bs (after_writes earlier c) i" by (rule after_writes_other [OF assms(4)])
  finally show ?thesis using assms(2,3) by (simp add: overlay_def)
qed

text \<open>Bytes that only zeros are written to.\<close>

lemma after_writes_zeros:
  "(\<And>w. w \<in> set ws \<Longrightarrow> set (snd w) \<subseteq> {0}) \<Longrightarrow> c i = 0 \<or> (\<exists>w \<in> set ws. covers i w) \<Longrightarrow> after_writes ws c i = 0"
proof (induction ws arbitrary: c)
  case (Cons w ws)
  obtain pos bs where w: "w = (pos, bs)" by (cases w)
  have "set bs \<subseteq> {0}" using Cons.prems(1) [of w] by (simp add: w)
  moreover have "covers i w \<Longrightarrow> bs ! (i - pos) \<in> set bs" by (auto simp: w covers_def)
  ultimately have "overlay pos bs c i = 0 \<or> (\<exists>w \<in> set ws. covers i w)"
    using Cons.prems(2) by (auto simp: w covers_def overlay_def)
  then show ?case using Cons.IH [of "overlay pos bs c"] Cons.prems(1) by (simp add: after_writes_def w)
qed (simp add: after_writes_def)

lemma zero_writes_zero: "w \<in> set (zero_writes pos n) \<Longrightarrow> set (snd w) \<subseteq> {0}"
  by (induction pos n rule: zero_writes.induct) (subst (asm) zero_writes.simps, auto split: if_split_asm)

lemma zero_writes_cover: "pos \<le> i \<Longrightarrow> i < pos + n \<Longrightarrow> \<exists>w \<in> set (zero_writes pos n). covers i w"
proof (induction pos n rule: zero_writes.induct)
  case (1 pos n)
  have n: "0 < n" using "1.prems" by simp
  show ?case
  proof (cases "i < pos + min n 65536")
    case True
    then show ?thesis using "1.prems" n by (subst zero_writes.simps) (simp add: covers_def)
  next
    case False
    then have "\<exists>w \<in> set (zero_writes (pos + min n 65536) (n - min n 65536)). covers i w"
      using "1.prems" by (intro "1.IH" [OF n]) auto
    then show ?thesis using n by (subst zero_writes.simps) auto
  qed
qed

lemma overlay_Nil [simp]: "overlay pos [] c = c"
  by (rule ext) (auto simp: overlay_def)

lemma write_pos_complete:
  assumes "write_pos img pos bs = (int (length bs), img')"
  shows "contents img' = overlay pos bs (contents img) \<and> capacity img' = capacity img \<and> (bs \<noteq> [] \<longrightarrow> pos + length bs \<le> capacity img)"
proof -
  have "nat (int (length bs)) = length bs" "int (length bs) \<le> int (min (length bs) (capacity img - pos))"
    using assms by (auto simp: write_pos_def Let_def split: list.splits option.splits)
  then have "length bs \<le> capacity img - pos" by simp
  moreover have "contents img' = overlay pos (take (nat (int (length bs))) bs) (contents img)" "capacity img' = capacity img"
    using assms by (auto simp: write_pos_def Let_def)
  ultimately show ?thesis by (cases bs) auto
qed

lemma write_all_complete:
  "write_all ws img = (B_OK, img') \<Longrightarrow> contents img' = after_writes ws (contents img) \<and> capacity img' = capacity img \<and>
     (\<forall>(pos, bs) \<in> set ws. bs \<noteq> [] \<longrightarrow> pos + length bs \<le> capacity img)"
proof (induction ws arbitrary: img)
  case (Cons w ws)
  obtain pos bs where w: "w = (pos, bs)" by (cases w)
  obtain n i1 where wr: "write_pos img pos bs = (n, i1)" by (cases "write_pos img pos bs")
  have n: "n = int (length bs)" "write_all ws i1 = (B_OK, img')"
    using Cons.prems by (simp_all add: w wr B_OK_def B_ERROR_def split: if_split_asm)
  show ?case
    using Cons.IH [OF n(2)] write_pos_complete [OF wr [unfolded n(1)]] by (auto simp: w after_writes_def)
qed (simp add: after_writes_def)

lemma write_all_append: "write_all (us @ ws) img = (let (s, i1) = write_all us img in if s = B_OK then write_all ws i1 else (s, i1))"
proof (induction us arbitrary: img)
  case (Cons u us)
  then show ?case by (cases u) (auto simp: Let_def B_OK_def B_ERROR_def split: prod.split)
qed simp

text \<open>The image as the device that is mounted.\<close>

definition image_device :: "image \<Rightarrow> device" where
  "image_device img pos n =
     (if 0 \<le> pos \<and> nat pos + n \<le> capacity img then Inr (map (contents img) [nat pos..<nat pos + n]) else Inl B_IO_ERROR)"

lemma sector_pos_eq: "n < 2 ^ 23 \<Longrightarrow> sector_pos (of_nat n) = n * 512"
proof -
  assume "n < 2 ^ 23"
  moreover have "(of_nat n :: uint32) * 512 = of_nat (n * 512)" by simp
  ultimately show ?thesis by (simp only: sector_pos_def) (simp add: unat_of_nat del: of_nat_mult)
qed

lemma reserved_range: "1 \<le> reserved_count fatbits" "reserved_count fatbits \<le> 32"
  by (simp_all add: reserved_count_def)

lemma format_positions:
  assumes "format_ok fatbits sz" "F = table_of fatbits sz" "r = reserved_count fatbits"
  shows "sector_pos (of_nat r + of_nat F) = (r + F) * 512"
    "fst (root_dir_write fatbits spc F label) = (r + 2 * F) * 512"
proof -
  have F: "F \<le> 2 ^ 19 + 1" using fat_size_bounds(4) [OF assms(1)] assms(2) by simp
  have r: "r \<le> 32" using reserved_range assms(3) by simp
  show "sector_pos (of_nat r + of_nat F) = (r + F) * 512"
    using sector_pos_eq [of "r + F"] F r by simp
  have "sector_pos (of_nat r + 2 * of_nat F) = (r + 2 * F) * 512"
    using sector_pos_eq [of "r + 2 * F"] F r by simp
  moreover have "meta_sectors 32 F = 32 + 2 * of_nat F"
    by (simp add: meta_sectors_def reserved_count_def root_dir_sectors_def root_entry_count_def)
  ultimately show "fst (root_dir_write fatbits spc F label) = (r + 2 * F) * 512"
    using assms(3) by (auto simp: root_dir_write_def reserved_count_def)
qed

lemma fsinfosector32_length: "length (fsinfosector32 spc sz F) = 512"
  by (simp add: fsinfosector32_def Let_def)

lemma fsinfosector32_valid: "valid_fsinfo (fsinfosector32 spc sz F)"
  by (simp add: valid_fsinfo_def fsinfosector32_def Let_def read32_def read16_def nth_append le32_def byte_of_def)

lemma first_fat_sector_start: "length (first_fat_sector fatbits) = 512" "first_fat_sector fatbits ! 0 = 0xf8"
  by (simp_all add: first_fat_sector_def)

lemma formatted_contents:
  assumes "format_ok fatbits sz" "F = table_of fatbits sz" "r = reserved_count fatbits"
    "write_all (format_writes D fatbits spc sz F label) img = (B_OK, img')"
  shows "map (contents img') [0..<512] = make_bootsector D fatbits spc sz F"
    "contents img' (r * 512) = 0xf8" "contents img' ((r + F) * 512) = 0xf8" "(r + F) * 512 + 512 \<le> capacity img'"
    "fatbits = 32 \<Longrightarrow> map (contents img') [512..<1024] = fsinfosector32 spc sz F"
proof -
  define boot where "boot = make_bootsector D fatbits spc sz F"
  define sec where "sec = first_fat_sector fatbits"
  define root where "root = root_dir_write fatbits spc F label"
  define zeros where "zeros = zero_writes 0 (512 * unat (meta_sectors fatbits F))"
  define A :: "(nat \<times> bytes) list" where "A = (if fatbits = 32 then [(6 * 512, boot)] else [])"
  define B :: "(nat \<times> bytes) list" where "B = (if fatbits = 32 then [(512, fsinfosector32 spc sz F)] else [])"
  note pos = format_positions [OF assms(1-3)]
  have ws: "format_writes D fatbits spc sz F label =
      zeros @ (0, boot) # A @ (r * 512, sec) # ((r + F) * 512, sec) # B @ [root]"
    unfolding pos(1) [symmetric]
    by (simp add: format_writes_def Let_def boot_def sec_def root_def zeros_def A_def B_def assms(3))
  have root: "fst root = (r + 2 * F) * 512" unfolding root_def by (rule pos(2))
  have F: "1 \<le> F" using fat_size_bounds(3) [OF assms(1)] assms(2) by simp
  have r: "1 \<le> r" "fatbits = 32 \<Longrightarrow> r = 32" using assms(3) by (simp_all add: reserved_count_def)
  have len: "length boot = 512" "length sec = 512" "sec ! 0 = 0xf8"
    by (simp_all add: boot_def sec_def make_bootsector_length first_fat_sector_start)
  have c: "contents img' = after_writes (zeros @ (0, boot) # A @ (r * 512, sec) # ((r + F) * 512, sec) # B @ [root]) (contents img)"
    and cap: "(r + F) * 512 + 512 \<le> capacity img'"
    using write_all_complete [OF assms(4)] len(2) unfolding ws by (force simp: sec_def)+
  show "(r + F) * 512 + 512 \<le> capacity img'" by (rule cap)
  have B: "\<not> covers i w" if "w \<in> set (B @ [root])" "1024 \<le> i" "i < (r + 2 * F) * 512" for w i
    using that root by (auto simp: covers_def B_def fsinfosector32_length split: if_split_asm)
  have "contents img' i = boot ! (i - 0)" if "i < 512" for i
    unfolding c
  proof (rule after_writes_last [of _ zeros 0 boot "A @ (r * 512, sec) # ((r + F) * 512, sec) # B @ [root]"])
    fix w assume "w \<in> set (A @ (r * 512, sec) # ((r + F) * 512, sec) # B @ [root])"
    then show "\<not> covers i w" using that root r(1) by (auto simp: covers_def A_def B_def split: if_split_asm)
  qed (use that len in auto)
  then show "map (contents img') [0..<512] = make_bootsector D fatbits spc sz F"
    unfolding boot_def [symmetric] by (intro nth_equalityI) (simp_all add: len)
  have "contents img' (r * 512) = sec ! (r * 512 - r * 512)"
    unfolding c
  proof (rule after_writes_last [of _ "zeros @ (0, boot) # A" _ sec "((r + F) * 512, sec) # B @ [root]"])
    fix w assume "w \<in> set (((r + F) * 512, sec) # B @ [root])"
    then consider "w = ((r + F) * 512, sec)" | "w \<in> set B" | "w = root" by auto
    then show "\<not> covers (r * 512) w"
      using root F r by cases (auto simp: covers_def B_def fsinfosector32_length split: if_split_asm)
  qed (use len in auto)
  then show "contents img' (r * 512) = 0xf8" using len by simp
  have "contents img' ((r + F) * 512) = sec ! ((r + F) * 512 - (r + F) * 512)"
    unfolding c
  proof (rule after_writes_last [of _ "zeros @ (0, boot) # A @ [(r * 512, sec)]" _ sec "B @ [root]"])
    fix w assume "w \<in> set (B @ [root])"
    then show "\<not> covers ((r + F) * 512) w" by (rule B) (use F r in auto)
  qed (use len in auto)
  then show "contents img' ((r + F) * 512) = 0xf8" using len by simp
  show "map (contents img') [512..<1024] = fsinfosector32 spc sz F" if b: "fatbits = 32"
  proof -
    let ?I = "fsinfosector32 spc sz F"
    have "contents img' i = ?I ! (i - 512)" if "512 \<le> i" "i < 1024" for i
      unfolding c
    proof (rule after_writes_last [of _ "zeros @ (0, boot) # A @ [(r * 512, sec), ((r + F) * 512, sec)]" _ ?I "[root]"])
      show "\<not> covers i w" if "w \<in> set [root]" for w
        using that \<open>i < 1024\<close> root r(2) [OF b] by (auto simp: covers_def)
    qed (use that b in \<open>simp_all add: B_def fsinfosector32_length\<close>)
    then show ?thesis by (intro nth_equalityI) (simp_all add: fsinfosector32_length del: upt_rec_numeral)
  qed
qed

subsection \<open>Mounting the result\<close>

text \<open>
  What the driver should find on a formatted volume: the layout that formatting chose. The width is that of the
  entries, except that the driver takes a table of 16-bit entries with 0xff1 clusters or fewer for one of 12-bit entries.
\<close>

definition found_bits :: "nat \<Rightarrow> nat \<Rightarrow> nat" where
  "found_bits fatbits sz = (if fatbits = 16 \<and> cluster_count 16 sz \<le> 0xff1 then 12 else fatbits)"

definition laid_out :: "nat \<Rightarrow> nat \<Rightarrow> nspace \<Rightarrow> bool" where
  "laid_out fatbits sz v \<longleftrightarrow>
     bytes_per_sector v = 512 \<and> sectors_per_cluster v = of_nat (spc_of fatbits sz) \<and>
     reserved_sectors v = of_nat (reserved_count fatbits) \<and> fat_count v = 2 \<and>
     sectors_per_fat v = of_nat (table_of fatbits sz) \<and> total_sectors v = of_nat (sz div 512) \<and>
     data_start v = of_nat (meta_count fatbits + 2 * table_of fatbits sz) \<and>
     total_clusters v = of_nat (cluster_count fatbits sz) \<and> fat_bits v = of_nat (found_bits fatbits sz) \<and>
     fat_mirrored v \<and> active_fat v = 0 \<and> root_sectors v = of_nat (root_dir_sectors fatbits) \<and>
     vn_cluster (root_vnode v) = (if fatbits = 32 then 2 else 1) \<and> fsinfo_sector v = (if fatbits = 32 then 1 else 0xffff)"

lemma laid_out_layout: "laid_out fatbits sz (layout v) = laid_out fatbits sz v"
  by (simp add: laid_out_def layout_def)

lemma laid_out_updates:
  "laid_out fatbits sz (v\<lparr>flags := f\<rparr>) = laid_out fatbits sz v"
  "laid_out fatbits sz (v\<lparr>last_allocated := c\<rparr>) = laid_out fatbits sz v"
  "laid_out fatbits sz (v\<lparr>beos_vnid := i\<rparr>) = laid_out fatbits sz v"
  "laid_out fatbits sz (v\<lparr>fBlockCache := b\<rparr>) = laid_out fatbits sz v"
  by (simp_all add: laid_out_def)

lemma laid_out_find_label: "laid_out fatbits sz (find_label v) = laid_out fatbits sz v"
  using lay.find_label_R [of v] laid_out_layout unfolding same_layout_def by metis

lemma laid_out_ro_trick: "laid_out fatbits sz (ro_trick v) = laid_out fatbits sz v"
  by (auto simp: ro_trick_def laid_out_def)

lemma blocks_find_label: "blk (ro_trick (find_label v)) = blk v"
proof -
  have "layout (find_label v) = layout v" using lay.find_label_R [of v] by (simp add: same_layout_def)
  moreover have "blk (layout u) = blk u" "blk (ro_trick u) = blk u" for u by (simp_all add: layout_def ro_trick_def)
  ultimately show ?thesis by metis
qed

lemma create_cache_cong: "total_sectors u = total_sectors v \<Longrightarrow> bytes_per_sector u = bytes_per_sector v \<Longrightarrow> create_cache dev u = create_cache dev v"
  by (simp only: create_cache_def)

lemma create_cache_updates:
  "create_cache dev (v\<lparr>flags := f\<rparr>) = create_cache dev v" "create_cache dev (v\<lparr>last_allocated := c\<rparr>) = create_cache dev v"
  "create_cache dev (v\<lparr>beos_vnid := i\<rparr>) = create_cache dev v"
  by (rule create_cache_cong; simp)+

lemma volume_init_some:
  assumes "bpb_valid buf" "v = bpb_common buf ((zero_nspace [])\<lparr>flags := vflags, fs_flags := fsflags\<rparr>)"
    "(if sectors_per_fat v = 0 then bpb_fat32 buf v else bpb_fat16 buf geo v) = Some w"
    "check_media dev w" "mem w = []" "laid_out fatbits sz w"
  shows "\<exists>x. volume_init dev buf vflags fsflags geo [] = Some x \<and> laid_out fatbits sz x \<and> blk x = blocks (create_cache dev w)"
proof -
  have mem: "mem (zero_nspace []) = []" by (simp add: zero_nspace_def)
  show ?thesis
    using assms(1,3-6)
    by (auto simp: volume_init_def malloc_plenty mem assms(2) Let_def laid_out_ro_trick laid_out_find_label laid_out_updates
        blocks_find_label create_cache_updates)
qed

text \<open>What the driver makes of the boot sector.\<close>

lemma bpb_fat32_some:
  assumes "read16 buf 0x30 = 1" "reserved_sectors v = 32" "buf ! 0x28 = 0" "read32 buf 0x2c = 2"
    "2 < (read32 buf 0x20 - (32 + fat_count v * read32 buf 0x24)) div sectors_per_cluster v"
  shows "\<exists>w. bpb_fat32 buf v = Some w \<and> bytes_per_sector w = bytes_per_sector v \<and> sectors_per_cluster w = sectors_per_cluster v \<and>
    reserved_sectors w = 32 \<and> fat_count w = fat_count v \<and> sectors_per_fat w = read32 buf 0x24 \<and>
    total_sectors w = read32 buf 0x20 \<and> data_start w = 32 + fat_count v * read32 buf 0x24 \<and>
    total_clusters w = (read32 buf 0x20 - (32 + fat_count v * read32 buf 0x24)) div sectors_per_cluster v \<and>
    fat_bits w = 32 \<and> fat_mirrored w \<and> active_fat w = 0 \<and> media_descriptor w = media_descriptor v \<and> mem w = mem v \<and>
    root_sectors w = root_sectors v \<and> vn_cluster (root_vnode w) = 2 \<and> fsinfo_sector w = 1"
  using assms by (simp add: bpb_fat32_def Let_def with_label_def not_le)

lemma bpb_fat16_some:
  assumes "fat_count v = 2" "read16 buf 0x11 mod (bytes_per_sector v div 0x20) = 0"
    "start = reserved_sectors v + 2 * sectors_per_fat v + read16 buf 0x11 * 0x20 div bytes_per_sector v"
  shows "\<exists>w. bpb_fat16 buf geo v = Some w \<and> bytes_per_sector w = bytes_per_sector v \<and> sectors_per_cluster w = sectors_per_cluster v \<and>
    reserved_sectors w = reserved_sectors v \<and> fat_count w = 2 \<and> sectors_per_fat w = sectors_per_fat v \<and>
    total_sectors w = bpb_total_sectors buf geo \<and> data_start w = start \<and>
    total_clusters w = (bpb_total_sectors buf geo - start) div sectors_per_cluster v \<and>
    fat_bits w = (if total_clusters w > 0xff1 then 16 else 12) \<and> fat_mirrored w \<and> active_fat w = 0 \<and>
    media_descriptor w = media_descriptor v \<and> mem w = mem v \<and>
    root_sectors w = read16 buf 0x11 * 0x20 div bytes_per_sector v \<and> vn_cluster (root_vnode w) = 1 \<and> fsinfo_sector w = 0xffff"
  using assms by (simp add: bpb_fat16_def Let_def with_label_def)

text \<open>The two media descriptors are where the driver looks for them.\<close>

lemma formatted_media:
  assumes "contents img (r * 512) = 0xf8" "contents img ((r + F) * 512) = 0xf8" "(r + F) * 512 + 512 \<le> capacity img" "r + F < 2 ^ 23"
    "bytes_per_sector w = 512" "reserved_sectors w = of_nat r" "sectors_per_fat w = of_nat F" "fat_count w = 2" "fat_mirrored w"
    "active_fat w = 0" "media_descriptor w = 0xf8"
  shows "check_media (image_device img) w"
proof -
  have pos: "uint ((512 :: uint32) * of_nat n) = int (n * 512)" if "n < 2 ^ 23" for n
    using sector_pos_eq [OF that] by (simp add: sector_pos_def mult.commute uint_nat)
  have ok: "media_ok (image_device img) w (of_nat n)" if "contents img (n * 512) = 0xf8" "n * 512 + 512 \<le> capacity img" "n < 2 ^ 23" for n
    using that assms(5,11) by (simp add: media_ok_def image_device_def pos nth_append nat_mult_distrib)
  have "media_ok (image_device img) w (of_nat r)" by (rule ok) (use assms(1,3,4) in simp_all)
  moreover have "media_ok (image_device img) w (of_nat r + of_nat F)" using ok [of "r + F"] assms(2-4) by simp
  ultimately show ?thesis
    using assms(6-10) by (auto simp: check_media_def less_2_cases_iff)
qed

text \<open>The fields of the boot sector as the driver reads them.\<close>

lemma mask16: "n < 65536 \<Longrightarrow> (of_nat n :: uint32) AND 0xffff = of_nat n"
proof -
  assume "n < 65536"
  moreover have "(of_nat n :: uint32) AND 0xffff = take_bit 16 (of_nat n)" by (simp only: mask_numerals take_bit_eq_mask)
  ultimately show ?thesis by (simp add: take_bit_of_nat take_bit_nat_eq_self)
qed

lemma make_bootsector_reads:
  assumes "B = make_bootsector D fatbits spc sz F"
  shows "read16 B 0xb = 512" "B ! 0xd = of_nat spc" "read16 B 0xe = of_nat (reserved_count fatbits)" "B ! 0x10 = 2"
    "B ! 0x15 = 0xf8" "read16 B 0x11 = of_nat (root_entry_count fatbits)"
    "read16 B 0x16 = (if fatbits = 32 then 0 else of_nat F) AND 0xffff" "read16 B 0x13 = total16 fatbits sz AND 0xffff"
    "read32 B 0x20 = total32 fatbits sz"
proof -
  note head = make_bootsector_head [of _ D fatbits spc sz F, folded assms] boot_common_bytes
  show "read16 B 0xb = 512" "B ! 0xd = of_nat spc" "B ! 0x10 = 2" "B ! 0x15 = 0xf8"
    by (simp_all add: read16_def head)
  show "read16 B 0xe = of_nat (reserved_count fatbits)" by (simp add: read16_def head reserved_count_def)
  show "read16 B 0x11 = of_nat (root_entry_count fatbits)"
    by (simp add: read16_def head root_entry_count_def byte_of_def)
  show "read16 B 0x16 = (if fatbits = 32 then 0 else of_nat F) AND 0xffff" "read16 B 0x13 = total16 fatbits sz AND 0xffff"
    by (simp_all add: read16_def head le16_byte_of [symmetric])
  show "read32 B 0x20 = total32 fatbits sz" using le32_byte_of [of "total32 fatbits sz"] by (simp add: read32_def head)
qed

text \<open>The number of sectors is read back; the test for a kind of disk with a wrong count does not apply.\<close>

lemma make_bootsector_hidden:
  "make_bootsector D fatbits spc sz F ! 0x1c = byte_of (boot_hidden D) 0"
  by (subst make_bootsector_head) (simp_all add: boot_common_def bootjmp_def chars_def le16_def le32_def reserved_count_def)

lemma not_bogus:
  assumes "device_size D = Some sz" "(of_nat (sz div 512) :: uint32) = 196576"
  shows "take 20 (drop 0x0b (make_bootsector D fatbits spc sz F)) \<noteq> bogus_zip_data"
proof
  assume eq: "take 20 (drop 0x0b (make_bootsector D fatbits spc sz F)) = bogus_zip_data"
  have "take 20 (drop 0x0b (make_bootsector D fatbits spc sz F)) ! 17 = byte_of (boot_hidden D) 0"
    using make_bootsector_length [of D fatbits spc sz F] by (simp add: make_bootsector_hidden)
  then have "byte_of (boot_hidden D) 0 = 0x20" unfolding eq by (simp add: bogus_zip_data_def)
  moreover have "boot_hidden D = 0 \<or> boot_hidden D = 196576"
    using assms by (auto simp: boot_hidden_def device_size_def split: if_split_asm option.splits)
  ultimately show False by (auto simp: byte_of_def)
qed

lemma total_sectors_read:
  assumes "device_size D = Some sz" "sz div 512 < 2 ^ 32" "0 < sz div 512" "fatbits \<noteq> 32"
  shows "bpb_total_sectors (make_bootsector D fatbits spc sz F) geo = of_nat (sz div 512)"
proof -
  let ?B = "make_bootsector D fatbits spc sz F"
  define d where "d = sz div 512"
  have small: "(of_nat d :: uint32) > 65535 \<longleftrightarrow> 65535 < d" "(of_nat d :: uint32) \<noteq> 0"
    using assms(2,3) by (simp_all add: d_def [symmetric] word_less_nat_alt unat_of_nat word_of_nat_eq_0_iff) (auto dest: nat_dvd_not_less)
  have n: "(if read16 ?B 0x13 = 0 then read32 ?B 0x20 else read16 ?B 0x13) = of_nat d"
    using mask16 [of d] small assms(4)
    by (auto simp: make_bootsector_reads [OF refl] total16_def total32_def simp flip: d_def)
  show ?thesis
    unfolding bpb_total_sectors_def Let_def n d_def [symmetric]
    using not_bogus [OF assms(1), of fatbits spc F] by (auto simp: d_def split: option.split)
qed

text \<open>There is room for the tables, the root directory and three clusters.\<close>

lemma table_fits:
  assumes "format_ok fatbits sz"
  shows "meta_count fatbits + 2 * table_of fatbits sz + 3 * spc_of fatbits sz \<le> sz div 512"
proof -
  define d where "d = sz div 512"
  define F where "F = table_of fatbits sz"
  have "F * table_step fatbits (spc_of fatbits sz) < d - meta_count fatbits + table_step fatbits (spc_of fatbits sz)"
    "meta_count fatbits < d"
    using fat_size_bounds(2) [OF assms] format_range(1) [OF assms] by (simp_all add: F_def d_def)
  then have "meta_count fatbits + 2 * F + 3 * spc_of fatbits sz \<le> d"
    by (cases rule: choose_spc_cases [OF assms d_def]) (auto simp: meta_count_def table_step_def)
  then show ?thesis by (simp add: d_def F_def)
qed

lemma cluster_word:
  assumes "format_ok fatbits sz"
  shows "(of_nat (sz div 512) - of_nat (meta_count fatbits + 2 * table_of fatbits sz)) div of_nat (spc_of fatbits sz) =
      (of_nat (cluster_count fatbits sz) :: uint32)" "3 \<le> cluster_count fatbits sz" "cluster_count fatbits sz < 2 ^ 32"
proof -
  define d m s where dm: "d = sz div 512" "m = meta_count fatbits + 2 * table_of fatbits sz" "s = spc_of fatbits sz"
  have d: "m + 3 * s \<le> d" "d < 2 ^ 32" "0 < s" "s \<le> 64"
    using table_fits [OF assms] format_range [OF assms] by (simp_all add: dm)
  have cc: "cluster_count fatbits sz = (d - m) div s" by (simp add: cluster_count_def dm diff_diff_left)
  have "(of_nat d - of_nat m :: uint32) = of_nat (d - m)" using d by (simp add: of_nat_diff)
  moreover have "unat (of_nat x div of_nat s :: uint32) = x div s" if "x < 2 ^ 32" for x
    using d that by (simp add: unat_div unat_of_nat)
  then have "unat (of_nat (d - m) div of_nat s :: uint32) = (d - m) div s" using d(2) by simp
  then have "(of_nat (d - m) div of_nat s :: uint32) = of_nat ((d - m) div s)" by (metis of_nat_unat ucast_id)
  ultimately show "(of_nat (sz div 512) - of_nat (meta_count fatbits + 2 * table_of fatbits sz)) div of_nat (spc_of fatbits sz) =
      (of_nat (cluster_count fatbits sz) :: uint32)" by (simp only: cc dm)
  show "3 \<le> cluster_count fatbits sz" using d by (simp add: cc less_eq_div_iff_mult_less_eq)
  have "(d - m) div s \<le> d" by (rule le_trans [OF div_le_dividend]) simp
  then show "cluster_count fatbits sz < 2 ^ 32" using d(2) by (simp add: cc)
qed

lemma cluster_limits:
  assumes "format_ok fatbits sz"
  shows "fatbits = 12 \<Longrightarrow> cluster_count fatbits sz \<le> 0xfef" "fatbits = 32 \<Longrightarrow> cluster_count fatbits sz \<le> 0x7fffffe"
proof -
  define d where "d = sz div 512"
  define F where "F = table_of fatbits sz"
  have F: "d - meta_count fatbits \<le> F * table_step fatbits (spc_of fatbits sz)"
    using fat_size_bounds(1) [OF assms] by (simp add: F_def d_def)
  have cc: "cluster_count fatbits sz = (d - meta_count fatbits - 2 * F) div spc_of fatbits sz"
    by (simp add: cluster_count_def d_def F_def)
  show "fatbits = 12 \<Longrightarrow> cluster_count fatbits sz \<le> 0xfef"
    unfolding cc using F by (cases rule: choose_spc_cases [OF assms d_def]) (auto simp: meta_count_def table_step_def)
  show "fatbits = 32 \<Longrightarrow> cluster_count fatbits sz \<le> 0x7fffffe"
    unfolding cc by (cases rule: choose_spc_cases [OF assms d_def]) (auto simp: meta_count_def)
qed

lemma table_small:
  assumes "format_ok fatbits sz" "fatbits \<noteq> 32"
  shows "table_of fatbits sz < 65536"
proof -
  define d where "d = sz div 512"
  define F where "F = table_of fatbits sz"
  have "F * table_step fatbits (spc_of fatbits sz) < d - meta_count fatbits + table_step fatbits (spc_of fatbits sz)"
    using fat_size_bounds(2) [OF assms(1)] by (simp add: F_def d_def)
  then have "F < 65536"
    using assms(2) by (cases rule: choose_spc_cases [OF assms(1) d_def]) (auto simp: meta_count_def table_step_def)
  then show ?thesis by (simp add: F_def)
qed

lemma spc_word:
  assumes "format_ok fatbits sz"
  shows "(ucast (of_nat (spc_of fatbits sz) :: uint8) :: uint32) = of_nat (spc_of fatbits sz)"
    "spc_of fatbits sz \<in> {1, 2, 4, 8, 16, 32, 64}"
  by (cases rule: choose_spc_cases [OF assms refl]; auto)+

lemma formatted_bpb:
  assumes "format_ok fatbits sz" "device_size D = Some sz" "B = make_bootsector D fatbits (spc_of fatbits sz) sz (table_of fatbits sz)"
    "v = bpb_common B u" "mem u = []" "root_sectors u = 0"
  shows "\<exists>w. (if sectors_per_fat v = 0 then bpb_fat32 B v else bpb_fat16 B geo v) = Some w \<and> laid_out fatbits sz w \<and>
    fat_mirrored w \<and> active_fat w = 0 \<and> media_descriptor w = 0xf8 \<and> mem w = []"
proof -
  let ?F = "table_of fatbits sz"
  note r = make_bootsector_reads [OF assms(3)]
  note c = cluster_word [OF assms(1)]
  have v: "bytes_per_sector v = 512" "sectors_per_cluster v = of_nat (spc_of fatbits sz)" "mem v = []" "media_descriptor v = 0xf8"
    "reserved_sectors v = of_nat (reserved_count fatbits)" "fat_count v = 2"
    "sectors_per_fat v = (if fatbits = 32 then 0 else of_nat ?F) AND 0xffff" "root_sectors v = 0"
    using assms(5,6) spc_word(1) [OF assms(1)] by (simp_all add: assms(4) bpb_common_def r)
  have d: "0 < sz div 512" "sz div 512 < 2 ^ 32" using format_range(1,2) [OF assms(1)] by simp_all
  show ?thesis
  proof (cases "fatbits = 32")
    case True
    have start: "(32 + 2 * of_nat ?F :: uint32) = of_nat (meta_count fatbits + 2 * ?F)" by (simp add: meta_count_def True)
    have big: "2 < (of_nat (cluster_count fatbits sz) :: uint32)" using c(2,3) by (simp add: word_less_nat_alt unat_of_nat)
    have t: "read32 B 0x20 = of_nat (sz div 512)" using r(9) True by (simp add: total32_def)
    have "sectors_per_fat v = 0" using v(7) True by simp
    moreover have "read32 B 0x24 = of_nat ?F" "B ! 0x28 = 0" "read32 B 0x2c = 2" "read16 B 0x30 = 1"
      using make_bootsector_32 [of D "spc_of fatbits sz" sz ?F] assms(3) True by simp_all
    ultimately show ?thesis
      using bpb_fat32_some [of B v] v t start c(1) big True
      by (auto simp: laid_out_def reserved_count_def found_bits_def root_dir_sectors_def root_entry_count_def)
  next
    case False
    have F: "sectors_per_fat v = of_nat ?F" "(of_nat ?F :: uint32) \<noteq> 0"
      using v(7) mask16 [OF table_small [OF assms(1) False]] False table_small [OF assms(1) False] fat_size_bounds(3) [OF assms(1)]
      by (simp_all add: word_of_nat_eq_0_iff) (auto dest: nat_dvd_not_less)
    have bits: "fatbits = 12 \<or> fatbits = 16" using assms(1) False by (auto simp: format_ok_def)
    then have start: "of_nat (meta_count fatbits + 2 * ?F) =
        reserved_sectors v + 2 * sectors_per_fat v + read16 B 0x11 * 0x20 div bytes_per_sector v"
      "read16 B 0x11 mod (bytes_per_sector v div 0x20) = 0"
      by (auto simp: F v r meta_count_def reserved_count_def root_entry_count_def)
    have many: "(of_nat (cluster_count fatbits sz) :: uint32) > 0xff1 \<longleftrightarrow> 0xff1 < cluster_count fatbits sz"
      using c(3) by (simp add: word_less_nat_alt unat_of_nat)
    have width: "(if (of_nat (cluster_count fatbits sz) :: uint32) > 0xff1 then 16 else 12) = (of_nat (found_bits fatbits sz) :: uint8)"
      using many bits cluster_limits(1) [OF assms(1)] by (auto simp: found_bits_def)
    have root: "read16 B 0x11 * 0x20 div bytes_per_sector v = of_nat (root_dir_sectors fatbits)"
      using bits by (auto simp: v r root_dir_sectors_def root_entry_count_def)
    have t: "bpb_total_sectors B geo = of_nat (sz div 512)"
      unfolding assms(3) by (rule total_sectors_read [OF assms(2) d(2,1) False])
    show ?thesis
      using bpb_fat16_some [OF v(6) start(2,1), of geo] F v t c(1) False width root by (auto simp: laid_out_def)
  qed
qed

subsection \<open>The properties\<close>

text \<open>The width of the table that formatting chooses.\<close>

definition format_bits :: "format_device \<Rightarrow> uint32 option \<Rightarrow> nat \<Rightarrow> nat" where
  "format_bits D setting sz = choose_fatbits (is_raw_device D) sz (unat (snd (parse_initialize_parameters setting)))"

lemma format_bits_cases: "format_bits D setting sz \<in> {0, 12, 16, 32}"
  by (auto simp: format_bits_def choose_fatbits_def parse_initialize_parameters_def split: option.splits)

lemma write_all_split: "ws \<noteq> [] \<Longrightarrow> write_all ws img = (let (s, i1) = write_all (butlast ws) img in if s = B_OK then write_all [last ws] i1 else (s, i1))"
  by (metis append_butlast_last_id write_all_append)

lemma format_writes_not_Nil: "format_writes D fatbits spc sz F label \<noteq> []"
  by (simp add: format_writes_def Let_def)

lemma dosfs_initialize_ok:
  assumes "dosfs_initialize D name setting img = (Some B_OK, img')" "device_size D = Some sz" "fatbits = format_bits D setting sz"
  obtains label where "fatbits \<noteq> 0" "spc_of fatbits sz \<noteq> 0"
    "write_all (format_writes D fatbits (spc_of fatbits sz) sz (table_of fatbits sz) label) img = (B_OK, img')"
proof -
  obtain label where label: "name = Some label" using assms(1) by (cases name) (auto simp: dosfs_initialize_def B_OK_def B_BAD_VALUE_def)
  obtain st n where p: "parse_initialize_parameters setting = (st, n)" by (cases "parse_initialize_parameters setting")
  have bits: "choose_fatbits (is_raw_device D) sz (unat n) = fatbits" using assms(3) p by (simp add: format_bits_def)
  let ?ws = "format_writes D fatbits (spc_of fatbits sz) sz (table_of fatbits sz) label"
  have ok: "st = B_OK" "fatbits \<noteq> 0" "spc_of fatbits sz \<noteq> 0" "zero_buffer D"
    using assms(1) bits
    by (auto simp: dosfs_initialize_def label p assms(2) Let_def B_OK_def B_ERROR_def split: if_split_asm)
  obtain s1 i1 where w1: "write_all (butlast ?ws) img = (s1, i1)" by (cases "write_all (butlast ?ws) img")
  obtain s2 i2 where w2: "write_all [last ?ws] i1 = (s2, i2)" by (cases "write_all [last ?ws] i1")
  have "s1 = B_OK \<and> s2 = B_OK \<and> i2 = img'"
    using assms(1) ok bits w1 w2
    by (auto simp: dosfs_initialize_def label p assms(2) Let_def simp del: write_all.simps split: if_split_asm)
  then have "write_all ?ws img = (B_OK, img')" using w1 w2 write_all_split [OF format_writes_not_Nil] by (simp del: write_all.simps)
  then show ?thesis using that ok by blast
qed

text \<open>Writes on a device that is large enough and has no errors succeed.\<close>

lemma write_all_succeeds:
  "write_outcomes img = [] \<Longrightarrow> (\<And>w. w \<in> set ws \<Longrightarrow> fst w + length (snd w) \<le> capacity img) \<Longrightarrow>
     \<exists>img'. write_all ws img = (B_OK, img') \<and> write_outcomes img' = [] \<and> capacity img' = capacity img"
proof (induction ws arbitrary: img)
  case (Cons w ws)
  obtain pos bs where w: "w = (pos, bs)" by (cases w)
  have "pos + length bs \<le> capacity img" using Cons.prems(2) [of w] by (simp add: w)
  then have "write_pos img pos bs = (int (length bs), img\<lparr>contents := overlay pos bs (contents img), write_outcomes := []\<rparr>)"
    using Cons.prems(1) by (cases "bs = []") (simp_all add: write_pos_def Let_def min_def)
  then show ?case using Cons.IH [of "img\<lparr>contents := overlay pos bs (contents img), write_outcomes := []\<rparr>"] Cons.prems(2)
    by (simp add: w)
qed simp

text \<open>The device after formatting, mounted.\<close>

lemma formatted_volume:
  assumes "dosfs_initialize D name setting img = (Some B_OK, img')" "device_size D = Some sz" "16 * 512 \<le> sz" "sz < 2 ^ 41"
    "fatbits = format_bits D setting sz"
  obtains v label where "format_ok fatbits sz"
    "write_all (format_writes D fatbits (spc_of fatbits sz) sz (table_of fatbits sz) label) img = (B_OK, img')"
    "volume_init (image_device img') (map (contents img') [0..<512]) vflags fsflags geo [] = Some v"
    "laid_out fatbits sz v" "geometry_ok v" "blk v = blocks (create_cache (image_device img') v)"
    "fatbits = 32 \<Longrightarrow> valid_fsinfo (block_data v 1)"
proof -
  let ?F = "table_of fatbits sz" and ?r = "reserved_count fatbits" and ?s = "spc_of fatbits sz"
  obtain label where l: "fatbits \<noteq> 0" "?s \<noteq> 0" "write_all (format_writes D fatbits ?s sz ?F label) img = (B_OK, img')"
    by (rule dosfs_initialize_ok [OF assms(1,2,5)])
  then have ok: "format_ok fatbits sz"
    using format_bits_cases [of D setting sz] assms(3,4) by (auto simp: format_ok_def assms(5))
  define B where "B = make_bootsector D fatbits ?s sz ?F"
  note c = formatted_contents [OF ok refl refl l(3), folded B_def]
  have valid: "bpb_valid B" unfolding B_def by (rule make_bootsector_valid [OF spc_word(2) [OF ok]])
  let ?u = "(zero_nspace [])\<lparr>flags := vflags, fs_flags := fsflags\<rparr>"
  have "mem ?u = []" "root_sectors ?u = 0" by (simp_all add: zero_nspace_def)
  then obtain w where w: "(if sectors_per_fat (bpb_common B ?u) = 0 then bpb_fat32 B (bpb_common B ?u) else bpb_fat16 B geo (bpb_common B ?u)) = Some w"
    "laid_out fatbits sz w" "fat_mirrored w" "active_fat w = 0" "media_descriptor w = 0xf8" "mem w = []"
    using formatted_bpb [OF ok assms(2) B_def refl] by blast
  have "?r + ?F < 2 ^ 23" using reserved_range(2) [of fatbits] fat_size_bounds(4) [OF ok] by simp
  then have "check_media (image_device img') w"
    by (rule formatted_media [OF c(2-4)]) (use w in \<open>simp_all add: laid_out_def\<close>)
  then obtain v where v: "volume_init (image_device img') B vflags fsflags geo [] = Some v" "laid_out fatbits sz v"
    "blk v = blocks (create_cache (image_device img') w)"
    using volume_init_some [OF valid refl w(1) _ w(6,2)] by blast
  moreover have "create_cache (image_device img') w = create_cache (image_device img') v"
    using v(2) w(2) by (intro create_cache_cong) (simp_all add: laid_out_def)
  moreover have "valid_fsinfo (block_data v 1)" if b: "fatbits = 32"
  proof -
    have "uint (total_sectors v) = int (sz div 512)" "uint (bytes_per_sector v) = 512" "unat (bytes_per_sector v) = 512"
      using v(2) format_range(2) [OF ok] by (simp_all add: laid_out_def uint_nat unat_of_nat)
    moreover have "16 \<le> sz div 512" "1024 \<le> capacity img'" using assms(3) c(4) b by (simp_all add: reserved_count_def)
    ultimately have one: "blocks (create_cache (image_device img') v) 1 = Some (map (contents img') [512..<1024])"
      by (simp add: create_cache_def image_device_def del: upt_rec_numeral)
    have "create_cache (image_device img') w = create_cache (image_device img') v"
      using v(2) w(2) by (intro create_cache_cong) (simp_all add: laid_out_def)
    then show ?thesis
      using v(3) one c(5) [OF b] fsinfosector32_valid by (simp add: block_data_def del: upt_rec_numeral)
  qed
  ultimately show ?thesis using that [OF ok l(3)] volume_init_result [OF v(1)] c(1) by simp
qed

text \<open>
  C40. Formatting makes a volume that can be mounted: after \<^const>\<open>dosfs_initialize\<close> has succeeded on a device of
  8 KB to 2 TB, \<^const>\<open>volume_init\<close> accepts the boot sector and the tables on the device, and finds the sector and
  cluster sizes, the number and the size of the tables and their width, the number of sectors and clusters, the size of the
  root directory, the start of the data, the cluster of the root and the FSInfo sector that formatting chose, which holds a valid FSInfo on
  FAT32; the geometry it computes is consistent. The width is the one exception: a FAT16 volume with
  0xff1 clusters or fewer, which formatting makes when the device is hardly larger than 4182016 bytes, is mounted as a FAT12 volume.
\<close>

theorem formatted_volume_mounts:
  assumes "dosfs_initialize D name setting img = (Some B_OK, img')" "device_size D = Some sz" "16 * 512 \<le> sz" "sz < 2 ^ 41"
  shows "\<exists>v. volume_init (image_device img') (map (contents img') [0..<512]) vflags fsflags geo [] = Some v \<and>
    laid_out (format_bits D setting sz) sz v \<and> geometry_ok v \<and>
    (format_bits D setting sz = 32 \<longrightarrow> valid_fsinfo (block_data v 1))"
  by (rule formatted_volume [OF assms refl, of vflags fsflags geo]) blast

text \<open>A floppy disk of 1.44 MB.\<close>

definition sample_floppy :: format_device where
  "sample_floppy = \<lparr>bios_geometry = None, device_geometry = None, partition_info = None, file_size = Some 1474560,
     bios_drive_id = None, format_time = 0, scan_result = B_OK, zero_buffer = True, cluster_buffer = True\<rparr>"

definition blank_image :: "nat \<Rightarrow> image" where
  "blank_image n = \<lparr>contents = (\<lambda>_. 0), capacity = n, write_outcomes = []\<rparr>"

lemma sample_floppy_sel: "device_size sample_floppy = Some 1474560" "format_bits sample_floppy (Some 0) 1474560 = 12"
  "choose_spc 12 1474560 = 1" "fat_size 12 1 1474560 = 12"
  by (simp_all add: sample_floppy_def device_size_def format_bits_def parse_initialize_parameters_def choose_fatbits_def
      is_raw_device_def FLOPPY_MAX_SIZE_def FAT12_CLUSTER_MAX_SIZE_def FAT12_MAX_CLUSTER_COUNT_def choose_spc_def fat_size_def Let_def
      reserved_count_def root_dir_sectors_def root_entry_count_def)

lemma sample_floppy_formats: "\<exists>img. dosfs_initialize sample_floppy (Some [0x41]) (Some 0) (blank_image 1474560) = (Some B_OK, img)"
proof -
  let ?ws = "format_writes sample_floppy 12 1 1474560 12 [0x41]"
  have "\<exists>img'. write_all ?ws (blank_image 1474560) = (B_OK, img') \<and> write_outcomes img' = [] \<and> capacity img' = capacity (blank_image 1474560)"
    by (rule write_all_succeeds)
      (auto simp: blank_image_def format_writes_def Let_def make_bootsector_length first_fat_sector_start root_dir_write_def CreateVolumeLabel_def
        zero_writes.simps meta_sectors_def reserved_count_def root_dir_sectors_def root_entry_count_def sector_pos_def)
  then obtain img' where "write_all ?ws (blank_image 1474560) = (B_OK, img')" by blast
  then show ?thesis
    using sample_floppy_sel write_all_split [OF format_writes_not_Nil, of sample_floppy 12 1 1474560 12 "[0x41]" "blank_image 1474560"]
    by (auto simp: dosfs_initialize_def parse_initialize_parameters_def check_volume_name_def format_bits_def Let_def sample_floppy_def
        simp del: write_all.simps split: prod.splits if_split_asm)
qed

theorem formatted_volume_mounts_witness:
  "\<exists>img v. dosfs_initialize sample_floppy (Some [0x41]) (Some 0) (blank_image 1474560) = (Some B_OK, img) \<and>
     volume_init (image_device img) (map (contents img) [0..<512]) 0 0 None [] = Some v \<and> laid_out 12 1474560 v \<and> geometry_ok v"
proof -
  obtain img where img: "dosfs_initialize sample_floppy (Some [0x41]) (Some 0) (blank_image 1474560) = (Some B_OK, img)"
    using sample_floppy_formats by blast
  then show ?thesis
    using formatted_volume_mounts [OF img sample_floppy_sel(1), of 0 0 None] by (auto simp: sample_floppy_sel(2))
qed

end
