(* ===== verification/Format_Table.thy ===== *)
theory Format_Table
  imports Mkdos_Properties Fat_Properties
begin

section \<open>The table of a formatted volume\<close>

text \<open>
  What the table holds after formatting, as the driver reads it once the volume is mounted: on volumes with
  entries of 12 and 32 bits the invariant of the table operations holds and every cluster is free but the
  one of the FAT32 root directory. For some sizes the table of a FAT16 volume is too small.
\<close>

subsection \<open>The bytes of the table\<close>

lemma meta_sectors_eq:
  assumes "format_ok fatbits sz"
  shows "unat (meta_sectors fatbits (table_of fatbits sz)) = meta_count fatbits + 2 * table_of fatbits sz"
proof -
  have "fatbits \<in> {12, 16, 32}" using assms by (simp add: format_ok_def)
  then have "meta_sectors fatbits (table_of fatbits sz) = of_nat (meta_count fatbits + 2 * table_of fatbits sz)"
    by (simp add: meta_sectors_def flip: meta_count_eq)
  moreover have "meta_count fatbits + 2 * table_of fatbits sz < 2 ^ 32"
    using table_fits [OF assms] format_range(2) [OF assms] by simp
  ultimately show ?thesis by (simp add: unat_of_nat del: of_nat_add of_nat_mult)
qed

text \<open>The writes behind the zeros, and what they leave of the tables.\<close>

definition table_sector :: "nat \<Rightarrow> nat \<Rightarrow> uint8" where
  "table_sector fatbits k = (if k < 512 then first_fat_sector fatbits ! k else 0)"

lemma formatted_tables:
  assumes "format_ok fatbits sz" "F = table_of fatbits sz" "r = reserved_count fatbits"
    "write_all (format_writes D fatbits spc sz F label) img = (B_OK, img')" "k < F * 512"
  shows "contents img' (r * 512 + k) = table_sector fatbits k" "(r + 2 * F) * 512 \<le> capacity img'"
proof -
  define zeros where "zeros = zero_writes 0 (512 * unat (meta_sectors fatbits F))"
  define sec where "sec = first_fat_sector fatbits"
  define front :: "(nat \<times> bytes) list" where "front = (0, make_bootsector D fatbits spc sz F) #
    (if fatbits = 32 then [(6 * 512, make_bootsector D fatbits spc sz F)] else [])"
  define rest :: "(nat \<times> bytes) list" where "rest = ((r + F) * 512, sec) #
    (if fatbits = 32 then [(512, fsinfosector32 spc sz F)] else []) @ [root_dir_write fatbits spc F label]"
  note pos = format_positions [OF assms(1-3)]
  have ws: "format_writes D fatbits spc sz F label = zeros @ front @ (r * 512, sec) # rest"
    unfolding rest_def pos(1) [symmetric] by (simp add: format_writes_def Let_def sec_def front_def zeros_def assms(3))
  note complete = write_all_complete [OF assms(4), unfolded ws]
  have c: "contents img' = after_writes (zeros @ front @ (r * 512, sec) # rest) (contents img)" using complete by blast
  have cap: "i < capacity img'" if "w \<in> set zeros" "covers i w" for i w
  proof -
    obtain p bs where w: "w = (p, bs)" by (cases w)
    have "w \<in> set (zeros @ front @ (r * 512, sec) # rest)" using that(1) by simp
    then have "bs \<noteq> [] \<longrightarrow> p + length bs \<le> capacity img'" using complete unfolding w by auto
    then show ?thesis using that(2) by (auto simp: w covers_def)
  qed
  have F: "1 \<le> F" using fat_size_bounds(3) [OF assms(1)] assms(2) by simp
  have r: "1 \<le> r" "fatbits = 32 \<Longrightarrow> r = 32" "r \<le> meta_count fatbits" using assms(1,3) by (auto simp: reserved_count_def meta_count_def)
  have m: "512 * unat (meta_sectors fatbits F) = 512 * (meta_count fatbits + 2 * F)"
    using meta_sectors_eq [OF assms(1)] assms(2) by simp
  have cover: "\<exists>w \<in> set zeros. covers i w" if "i < (r + 2 * F) * 512" for i
    unfolding zeros_def m using that r(3) by (intro zero_writes_cover) simp_all
  have "(r + 2 * F) * 512 - 1 < capacity img'" using cover [of "(r + 2 * F) * 512 - 1"] cap F by force
  then show "(r + 2 * F) * 512 \<le> capacity img'" by linarith
  have len: "length sec = 512" by (simp add: sec_def first_fat_sector_start)
  have rest: "\<not> covers (r * 512 + k) w" if "w \<in> set rest" for w
    using that assms(5) pos(2) [of spc label] r(1,2)
    by (auto simp: rest_def covers_def fsinfosector32_length split: if_split_asm)
  show "contents img' (r * 512 + k) = table_sector fatbits k"
  proof (cases "k < 512")
    case True
    have "contents img' (r * 512 + k) = sec ! (r * 512 + k - r * 512)"
      unfolding c by (rule after_writes_last [of _ "zeros @ front" _ sec rest]) (use True len rest in auto)
    then show ?thesis using True by (simp add: table_sector_def sec_def)
  next
    case False
    have "contents img' (r * 512 + k) = after_writes zeros (contents img) (r * 512 + k)"
    proof -
      have "\<not> covers (r * 512 + k) w" if "w \<in> set (front @ (r * 512, sec) # rest)" for w
        using that rest r len False by (auto simp: front_def covers_def make_bootsector_length split: if_split_asm)
      then show ?thesis
        using after_writes_other [of "front @ (r * 512, sec) # rest" "r * 512 + k" "after_writes zeros (contents img)"]
        unfolding c by (simp add: after_writes_def)
    qed
    also have "\<dots> = 0"
      using cover [of "r * 512 + k"] assms(5) by (intro after_writes_zeros) (auto simp: zeros_def dest: zero_writes_zero)
    finally show ?thesis using False by (simp add: table_sector_def)
  qed
qed

subsection \<open>The table as the driver reads it\<close>

definition mounted_image :: "nat \<Rightarrow> nat \<Rightarrow> image \<Rightarrow> nspace \<Rightarrow> bool" where
  "mounted_image fatbits sz img v \<longleftrightarrow> format_ok fatbits sz \<and> laid_out fatbits sz v \<and> geometry_ok v \<and>
     blk v = blocks (create_cache (image_device img) v)"

lemma mounted_words:
  assumes "mounted_image fatbits sz img v"
  shows "bps v = 512" "spf v = table_of fatbits sz" "unat (reserved_sectors v) = reserved_count fatbits" "unat (fat_count v) = 2"
    "unat (total_clusters v) = cluster_count fatbits sz" "unat (total_sectors v) = sz div 512" "unat (active_fat v) = 0"
proof -
  have ok: "format_ok fatbits sz" and l: "laid_out fatbits sz v" using assms by (simp_all add: mounted_image_def)
  note r = format_range [OF ok] fat_size_bounds(4) [OF ok] cluster_word(3) [OF ok]
  show "bps v = 512" "unat (fat_count v) = 2" "unat (active_fat v) = 0" using l by (simp_all add: laid_out_def bps_def)
  show "unat (reserved_sectors v) = reserved_count fatbits" using l by (simp add: laid_out_def reserved_count_def)
  show "spf v = table_of fatbits sz" "unat (total_clusters v) = cluster_count fatbits sz" "unat (total_sectors v) = sz div 512"
    using l r(2,6,7) by (simp_all add: laid_out_def spf_def unat_of_nat)
qed

lemma mounted_block:
  assumes "mounted_image fatbits sz img v" "b < sz div 512"
  shows "blk v (int b) = (if b * 512 + 512 \<le> capacity img then Some (map (contents img) [b * 512..<b * 512 + 512]) else None)"
proof -
  have n: "uint (total_sectors v) = int (sz div 512)" "uint (bytes_per_sector v) = 512" "unat (bytes_per_sector v) = 512"
    using mounted_words(6) [OF assms(1)] assms(1) by (simp_all add: uint_nat mounted_image_def laid_out_def)
  have "nat (int b * 512) = b * 512" by (simp add: nat_mult_distrib)
  moreover have "\<not> int (sz div 512) \<le> int b" using assms(2) by simp
  ultimately show ?thesis
    using assms(1) unfolding mounted_image_def create_cache_def n by (simp add: image_device_def)
qed

lemma mounted_block_length: "mounted_image fatbits sz img v \<Longrightarrow> blk v b = Some bs \<Longrightarrow> length bs = 512"
  by (auto simp: mounted_image_def laid_out_def create_cache_def image_device_def split: if_split_asm sum.splits)

lemma table_below:
  assumes "format_ok fatbits sz" "i < 2" "s < table_of fatbits sz"
  shows "reserved_count fatbits + i * table_of fatbits sz + s < sz div 512"
    "reserved_count fatbits + i * table_of fatbits sz + s < reserved_count fatbits + 2 * table_of fatbits sz"
proof -
  show less: "reserved_count fatbits + i * table_of fatbits sz + s < reserved_count fatbits + 2 * table_of fatbits sz"
    using assms(2,3) by (auto simp: less_2_cases_iff)
  have "reserved_count fatbits \<le> meta_count fatbits" using assms(1) by (auto simp: reserved_count_def meta_count_def)
  then show "reserved_count fatbits + i * table_of fatbits sz + s < sz div 512"
    using less table_fits [OF assms(1)] by linarith
qed

lemma mounted_bits:
  assumes "mounted_image fatbits sz img v" "fatbits \<noteq> 16"
  shows "bits v = fatbits"
  using assms by (auto simp: mounted_image_def laid_out_def found_bits_def bits_def format_ok_def)

lemma mounted_fat_ok:
  assumes "mounted_image fatbits sz img v" "(reserved_count fatbits + 2 * table_of fatbits sz) * 512 \<le> capacity img" "fatbits \<noteq> 16"
  shows "fat_ok v"
proof -
  have ok: "format_ok fatbits sz" using assms(1) by (simp add: mounted_image_def)
  note w = mounted_words [OF assms(1)] and b = mounted_bits [OF assms(1,3)]
  have "fatbits = 12 \<or> fatbits = 32" using ok assms(3) by (auto simp: format_ok_def)
  then have room: "(cluster_count fatbits sz + 2) * fatbits \<le> table_of fatbits sz * 512 * 8"
    using table_entries_32 [of sz] table_entries_1216 [OF ok] fat_size_bounds(3) [OF ok] ok by auto
  have "reserved_count fatbits + 2 * table_of fatbits sz < 2 ^ 32"
    using fat_size_bounds(4) [OF ok] reserved_range(2) [of fatbits] by simp
  then have "wf_fat v"
    unfolding wf_fat_def w b using \<open>fatbits = 12 \<or> fatbits = 32\<close> cluster_limits [OF ok] room mounted_block_length [OF assms(1)] by auto
  moreover have "fat_readable v"
    unfolding fat_readable_def
  proof (intro allI impI)
    fix i s assume "i < unat (fat_count v)" "s < spf v"
    then have lt: "i < 2" "s < table_of fatbits sz" by (simp_all add: w)
    note t = table_below [OF ok lt]
    have "(reserved_count fatbits + i * table_of fatbits sz + s) * 512 + 512 \<le> capacity img"
      using t(2) assms(2) by simp
    then show "blk v (fat_copy v i s) \<noteq> None"
      using mounted_block [OF assms(1) t(1)] by (simp add: fat_copy_def w)
  qed
  ultimately show ?thesis by (simp add: fat_ok_def)
qed

lemma mounted_fat_byte:
  assumes "mounted_image fatbits sz img v" "(reserved_count fatbits + 2 * table_of fatbits sz) * 512 \<le> capacity img"
    "k < table_of fatbits sz * 512"
  shows "fat_byte v k = contents img (reserved_count fatbits * 512 + k)"
proof -
  have ok: "format_ok fatbits sz" using assms(1) by (simp add: mounted_image_def)
  note w = mounted_words [OF assms(1)]
  have s: "k div 512 < table_of fatbits sz" using assms(3) by (simp add: less_mult_imp_div_less)
  note t = table_below [OF ok _ s, of 0, simplified]
  have "blk v (int (reserved_count fatbits + k div 512)) =
      Some (map (contents img) [(reserved_count fatbits + k div 512) * 512..<(reserved_count fatbits + k div 512) * 512 + 512])"
    using mounted_block [OF assms(1) t(1)] t(2) assms(2) by simp
  moreover have "fat_block v k = int (reserved_count fatbits + k div 512)" by (simp add: fat_block_def fat_copy_def w)
  moreover have "(reserved_count fatbits + k div 512) * 512 + k mod 512 = reserved_count fatbits * 512 + k"
    by (simp add: add_mult_distrib)
  ultimately show ?thesis by (simp add: fat_byte_def block_data_def w add.commute del: of_nat_add)
qed

lemma table_sector_zero: "3 \<le> k \<Longrightarrow> table_sector 12 k = 0" "12 \<le> k \<Longrightarrow> table_sector 32 k = 0"
  by (auto simp: table_sector_def first_fat_sector_def nth_append)

lemma table_sector_root: "table_sector 32 8 = 0xff" "table_sector 32 9 = 0xff" "table_sector 32 10 = 0xff" "table_sector 32 11 = 0x0f"
  by (simp_all add: table_sector_def first_fat_sector_def)

lemma mounted_entry:
  assumes "mounted_image fatbits sz img v" "fatbits \<noteq> 16" "IS_DATA_CLUSTER v c"
    "\<And>k. k < table_of fatbits sz * 512 \<Longrightarrow> fat_byte v k = table_sector fatbits k"
  shows "fat_entry v c = (if fatbits = 32 \<and> c = 2 then 0x0fffffff else 0)"
proof -
  have ok: "format_ok fatbits sz" using assms(1) by (simp add: mounted_image_def)
  note b = mounted_bits [OF assms(1,2)]
  have cc: "unat (total_clusters v + 2) = cluster_count fatbits sz + 2"
    using mounted_words(5) [OF assms(1)] cluster_limits [OF ok] ok assms(2)
    by (subst unat_plus_if') (auto simp: format_ok_def)
  then have c: "2 \<le> unat c" "unat c < cluster_count fatbits sz + 2"
    using assms(3) by (simp_all add: IS_DATA_CLUSTER_def word_le_nat_alt word_less_nat_alt)
  show ?thesis
  proof (cases "fatbits = 32")
    case True
    have p: "fat_pos v c = 4 * unat c" using b True by (simp add: fat_pos_def)
    have "unat c < 128 * table_of fatbits sz" using c(2) table_entries_32 [of sz] ok True by simp
    then have byte: "fat_byte v (4 * unat c + j) = table_sector 32 (4 * unat c + j)" if "j < 4" for j
      using assms(4) [of "4 * unat c + j"] that True by simp
    show ?thesis
    proof (cases "c = 2")
      case True
      then show ?thesis using b \<open>fatbits = 32\<close> byte [of 0] byte [of 1] byte [of 2] byte [of 3]
        by (simp add: fat_entry_def fat_pos_def table_sector_root)
    next
      case False
      then have "unat c \<noteq> 2" by (auto simp: word_unat_eq_iff)
      then have "3 \<le> unat c" using c(1) by simp
      then show ?thesis using b True False byte [of 0] byte [of 1] byte [of 2] byte [of 3] p
        by (simp add: fat_entry_def table_sector_zero)
    qed
  next
    case False
    then have 12: "fatbits = 12" using ok assms(2) by (auto simp: format_ok_def)
    have "(unat c + 1) * 12 \<le> table_of fatbits sz * 4096"
      using c(2) table_entries_1216 [OF ok False] fat_size_bounds(3) [OF ok] by simp
    moreover have "fat_pos v c * 8 \<le> unat c * 12" "3 \<le> fat_pos v c" using b 12 c(1) by (simp_all add: fat_pos_def)
    ultimately have "fat_byte v (fat_pos v c) = 0" "fat_byte v (fat_pos v c + 1) = 0"
      using assms(4) [of "fat_pos v c"] assms(4) [of "fat_pos v c + 1"] 12 by (simp_all add: table_sector_zero)
    then show ?thesis using b 12 by (simp add: fat_entry_def ioctl_fat12_value_def)
  qed
qed

subsection \<open>The properties\<close>

text \<open>
  C31. The table of a freshly formatted volume with entries of 12 or 32 bits is sound and empty: once the volume is
  mounted, the invariant of the table operations holds (both copies can be read and have an entry for every
  cluster, and cluster numbers do not collide with the special values), and every cluster is free, except that
  the root directory of a FAT32 volume occupies cluster 2.
\<close>

theorem formatted_table_empty:
  assumes "dosfs_initialize D name setting img = (Some B_OK, img')" "device_size D = Some sz" "16 * 512 \<le> sz" "sz < 2 ^ 41"
    "format_bits D setting sz \<noteq> 16"
  shows "\<exists>v. volume_init (image_device img') (map (contents img') [0..<512]) vflags fsflags geo [] = Some v \<and> fat_ok v \<and>
    (\<forall>c. IS_DATA_CLUSTER v c \<longrightarrow> fat_entry v c = (if format_bits D setting sz = 32 \<and> c = 2 then 0x0fffffff else 0))"
proof -
  let ?fatbits = "format_bits D setting sz"
  obtain v label where v: "format_ok ?fatbits sz"
    "write_all (format_writes D ?fatbits (spc_of ?fatbits sz) sz (table_of ?fatbits sz) label) img = (B_OK, img')"
    "volume_init (image_device img') (map (contents img') [0..<512]) vflags fsflags geo [] = Some v"
    "laid_out ?fatbits sz v" "geometry_ok v" "blk v = blocks (create_cache (image_device img') v)"
    by (rule formatted_volume [OF assms(1-4) refl])
  then have m: "mounted_image ?fatbits sz img' v" by (simp add: mounted_image_def)
  note t = formatted_tables [OF v(1) refl refl v(2)]
  have cap: "(reserved_count ?fatbits + 2 * table_of ?fatbits sz) * 512 \<le> capacity img'"
    using t(2) [of 0] fat_size_bounds(3) [OF v(1)] by simp
  have "fat_byte v k = table_sector ?fatbits k" if "k < table_of ?fatbits sz * 512" for k
    using mounted_fat_byte [OF m cap that] t(1) [OF that] by simp
  then show ?thesis using v(3) mounted_fat_ok [OF m cap assms(5)] mounted_entry [OF m assms(5)] by blast
qed

theorem formatted_table_empty_witness:
  "\<exists>img v. dosfs_initialize sample_floppy (Some [0x41]) (Some 0) (blank_image 1474560) = (Some B_OK, img) \<and>
     volume_init (image_device img) (map (contents img) [0..<512]) 0 0 None [] = Some v \<and> fat_ok v \<and>
     (\<forall>c. IS_DATA_CLUSTER v c \<longrightarrow> fat_entry v c = 0)"
proof -
  obtain img where img: "dosfs_initialize sample_floppy (Some [0x41]) (Some 0) (blank_image 1474560) = (Some B_OK, img)"
    using sample_floppy_formats by blast
  then show ?thesis
    using formatted_table_empty [OF img sample_floppy_sel(1), of 0 0 None] by (auto simp: sample_floppy_sel(2))
qed

text \<open>The sizes for which the sectors of a FAT16 volume are just those that the computed table would allow.\<close>

lemma fat16_minimum:
  assumes "format_ok 16 sz"
  shows "33 + 15 * (256 * spc_of 16 sz + 2) < sz div 512"
proof -
  have div: "a * 512 \<le> sz \<Longrightarrow> a \<le> sz div 512" for a by (simp add: less_eq_div_iff_mult_less_eq)
  note d = div [of 8168] div [of 32768] div [of 262144] div [of 524288] div [of 1048576] div [of 2097152]
  show ?thesis using assms d by (auto simp: format_ok_def choose_spc_def split: if_split_asm)
qed

lemma fat16_exact:
  assumes "format_ok 16 sz" "sz div 512 = 33 + k * (256 * spc_of 16 sz + 2)"
  shows "table_of 16 sz = k" "cluster_count 16 sz = 256 * k" "16 \<le> k"
proof -
  let ?s = "spc_of 16 sz" and ?F = "table_of 16 sz"
  have s: "0 < ?s" by (rule format_range(3) [OF assms(1)])
  have D: "sz div 512 - meta_count 16 = k * (256 * ?s + 2)" using assms(2) by (simp add: meta_count_def)
  have "k * (256 * ?s + 2) \<le> ?F * (256 * ?s + 2)" "?F * (256 * ?s + 2) < (k + 1) * (256 * ?s + 2)"
    using fat_size_bounds(1,2) [OF assms(1)] D by (simp_all add: table_step_def)
  then show F: "?F = k" using mult_le_cancel2 [of k "256 * ?s + 2" ?F] mult_less_cancel2 [of ?F "256 * ?s + 2" "k + 1"] by simp
  have "k * (256 * ?s + 2) - 2 * k = 256 * k * ?s" by (simp add: algebra_simps)
  then show "cluster_count 16 sz = 256 * k" using s by (simp add: cluster_count_def D F)
  show "16 \<le> k"
  proof (rule ccontr)
    assume "\<not> 16 \<le> k"
    then have "k * (256 * ?s + 2) \<le> 15 * (256 * ?s + 2)" by (intro mult_le_mono1) simp
    then have "sz div 512 \<le> 33 + 15 * (256 * ?s + 2)" using assms(2) by simp
    moreover have "33 + 15 * (256 * ?s + 2) < sz div 512" by (rule fat16_minimum [OF assms(1)])
    ultimately show False by simp
  qed
qed

text \<open>
  C35. The computation of the table size forgets the two reserved entries, and a FAT16 table can be too small by two
  entries. This happens when the sectors behind the reserved one and the root directory are a multiple
  \<open>k\<close> of \<open>256 * s + 2\<close>, for clusters of \<open>s\<close> sectors: the volume that is mounted has a data cluster whose entry lies
  at the first byte behind its table, in the second copy, and the invariant of the table operations does not hold.
\<close>

theorem fat16_table_too_small:
  assumes "dosfs_initialize D name setting img = (Some B_OK, img')" "device_size D = Some sz" "16 * 512 \<le> sz" "sz < 2 ^ 41"
    "format_bits D setting sz = 16" "sz div 512 = 33 + k * (256 * choose_spc 16 sz + 2)"
  shows "\<exists>v. volume_init (image_device img') (map (contents img') [0..<512]) vflags fsflags geo [] = Some v \<and>
    fat_bits v = 16 \<and> IS_DATA_CLUSTER v (of_nat (256 * k)) \<and>
    fat_pos v (of_nat (256 * k)) = unat (sectors_per_fat v) * unat (bytes_per_sector v) \<and> \<not> fat_ok v"
proof -
  obtain v label where v: "format_ok 16 sz"
    "volume_init (image_device img') (map (contents img') [0..<512]) vflags fsflags geo [] = Some v"
    "laid_out 16 sz v" "geometry_ok v" "blk v = blocks (create_cache (image_device img') v)"
    by (rule formatted_volume [OF assms(1-4) assms(5) [symmetric]])
  then have m: "mounted_image 16 sz img' v" by (simp add: mounted_image_def)
  note w = mounted_words [OF m]
  have F: "table_of 16 sz = k" and cc: "cluster_count 16 sz = 256 * k" and k16: "16 \<le> k"
    using fat16_exact [OF v(1) assms(6)] by simp_all
  have "k < 65536" using table_small [OF v(1)] F by simp
  then have k: "unat (of_nat (256 * k) :: uint32) = 256 * k" by (simp add: unat_of_nat del: of_nat_mult)
  have tc: "unat (total_clusters v) = 256 * k" using w(5) cc by simp
  have bits: "fat_bits v = 16" using v(3) cc k16 by (simp add: laid_out_def found_bits_def)
  then have pos: "fat_pos v (of_nat (256 * k)) = spf v * bps v" using w(1,2) F k by (simp add: fat_pos_def bits_def del: of_nat_mult)
  have "unat (total_clusters v + 2) = 256 * k + 2" using tc \<open>k < 65536\<close> by (subst unat_plus_if') simp
  then have data: "IS_DATA_CLUSTER v (of_nat (256 * k))"
    using k k16 by (simp add: IS_DATA_CLUSTER_def word_le_nat_alt word_less_nat_alt del: of_nat_mult)
  have "\<not> fat_ok v" using tc w(1,2) F bits by (simp add: fat_ok_def wf_fat_def bits_def)
  then show ?thesis using v(2) bits pos data by (auto simp: spf_def bps_def)
qed

text \<open>A FAT16 volume of 8771 sectors, with a table of 17 sectors and clusters of two sectors.\<close>

definition sample_file :: format_device where
  "sample_file = sample_floppy\<lparr>file_size := Some 4490752\<rparr>"

lemma sample_file_sel: "device_size sample_file = Some 4490752" "format_bits sample_file (Some 16) 4490752 = 16"
  "choose_spc 16 4490752 = 2" "fat_size 16 2 4490752 = 17"
  by (simp_all add: sample_file_def sample_floppy_def device_size_def format_bits_def parse_initialize_parameters_def choose_fatbits_def
      choose_spc_def fat_size_def Let_def reserved_count_def root_dir_sectors_def root_entry_count_def)

lemma sample_file_formats: "\<exists>img. dosfs_initialize sample_file (Some [0x41]) (Some 16) (blank_image 4490752) = (Some B_OK, img)"
proof -
  let ?ws = "format_writes sample_file 16 2 4490752 17 [0x41]"
  have "\<exists>img'. write_all ?ws (blank_image 4490752) = (B_OK, img') \<and> write_outcomes img' = [] \<and> capacity img' = capacity (blank_image 4490752)"
    by (rule write_all_succeeds)
      (auto simp: blank_image_def format_writes_def Let_def make_bootsector_length first_fat_sector_start root_dir_write_def CreateVolumeLabel_def
        zero_writes.simps meta_sectors_def reserved_count_def root_dir_sectors_def root_entry_count_def sector_pos_def)
  then obtain img' where "write_all ?ws (blank_image 4490752) = (B_OK, img')" by blast
  then show ?thesis
    using sample_file_sel write_all_split [OF format_writes_not_Nil, of sample_file 16 2 4490752 17 "[0x41]" "blank_image 4490752"]
    by (auto simp: dosfs_initialize_def parse_initialize_parameters_def check_volume_name_def format_bits_def Let_def sample_file_def sample_floppy_def
        simp del: write_all.simps split: prod.splits if_split_asm)
qed

theorem fat16_table_too_small_witness:
  "\<exists>img v. dosfs_initialize sample_file (Some [0x41]) (Some 16) (blank_image 4490752) = (Some B_OK, img) \<and>
     volume_init (image_device img) (map (contents img) [0..<512]) 0 0 None [] = Some v \<and>
     fat_bits v = 16 \<and> IS_DATA_CLUSTER v 4352 \<and> fat_pos v 4352 = unat (sectors_per_fat v) * unat (bytes_per_sector v) \<and> \<not> fat_ok v"
proof -
  obtain img where img: "dosfs_initialize sample_file (Some [0x41]) (Some 16) (blank_image 4490752) = (Some B_OK, img)"
    using sample_file_formats by blast
  then show ?thesis
    using fat16_table_too_small [OF img sample_file_sel(1) _ _ sample_file_sel(2), of 17 0 0 None] by (auto simp: sample_file_sel(3))
qed

end
