(* ===== verification/Driver_Settings.thy ===== *)
theory Driver_Settings
  imports Volume
begin

section \<open>Driver settings: driver_settings.cpp\<close>

text \<open>
  The settings of a driver are a text: parameters with a name, values, and parameters of their own in braces. The code cuts
  the text up where it stands, writing a zero behind each word and moving escaped characters to the front; nothing
  is read again at or before a place that has been written to, so that a position is the rest of the text here, and a word a
  list of characters. A text ends at its first zero. The outcomes of the next allocations are a list, as those of
  \<open>malloc\<close> in the volume.
\<close>

definition B_BAD_DATA :: status_t where [status]: "B_BAD_DATA = -0x80000000 + 16"
definition B_LINK_LIMIT :: status_t where [status]: "B_LINK_LIMIT = -0x80000000 + 0x6000 + 12"

definition MAX_SETTINGS_SIZE :: nat where "MAX_SETTINGS_SIZE = 32768"
definition MAX_SETTINGS_LEVEL :: nat where "MAX_SETTINGS_LEVEL = 8"
definition CONTINUE_PARAMETER :: status_t where [status]: "CONTINUE_PARAMETER = 1"
definition NO_PARAMETER :: status_t where [status]: "NO_PARAMETER = 2"

datatype assignment_mode = NO_ASSIGNMENT | ALLOW_ASSIGNMENT | IGNORE_ASSIGNMENT

datatype driver_parameter = Driver_Parameter (dp_name: string) (dp_values: "string list") (dp_parameters: "driver_parameter list")

definition allocate :: "bool list \<Rightarrow> bool \<times> bool list" where
  "allocate outcomes = (case outcomes of [] \<Rightarrow> (True, []) | ok # rest \<Rightarrow> (ok, rest))"

subsection \<open>Characters\<close>

abbreviation newline :: char where "newline \<equiv> CHR 0x0A"
abbreviation tab :: char where "tab \<equiv> CHR 0x09"
abbreviation backslash :: char where "backslash \<equiv> CHR 0x5C"
abbreviation double_quote :: char where "double_quote \<equiv> CHR 0x22"
abbreviation single_quote :: char where "single_quote \<equiv> CHR 0x27"

definition isspace :: "char \<Rightarrow> bool" where
  "isspace c \<longleftrightarrow> c \<in> {CHR '' '', CHR 0x09, CHR 0x0A, CHR 0x0B, CHR 0x0C, CHR 0x0D}"

definition is_parameter_separator :: "char \<Rightarrow> bool" where
  "is_parameter_separator c \<longleftrightarrow> c = newline \<or> c = CHR '';''"

definition is_word_break :: "char \<Rightarrow> bool" where
  "is_word_break c \<longleftrightarrow> isspace c \<or> is_parameter_separator c"

subsection \<open>Words\<close>

definition skipped :: "assignment_mode \<Rightarrow> bool \<Rightarrow> char \<Rightarrow> bool" where
  "skipped mode allowNewLine c \<longleftrightarrow>
     allowNewLine \<and> (isspace c \<or> is_parameter_separator c \<or> c = CHR ''#'') \<or>
     \<not> allowNewLine \<and> (c = tab \<or> c = CHR '' '') \<or>
     mode = ALLOW_ASSIGNMENT \<and> c = CHR ''=''"

lemma dropWhile_tl_length: "dropWhile P xs = y # ys \<Longrightarrow> length ys < length xs"
  by (metis Suc_le_lessD length_Cons length_dropWhile_le)

text \<open>\<open>None\<close>: the position moves past the zero at the end of the text, as it does behind a comment that no newline ends.\<close>

function skip_blanks :: "assignment_mode \<Rightarrow> bool \<Rightarrow> string \<Rightarrow> string option" where
  "skip_blanks mode allowNewLine [] = Some []"
| "skip_blanks mode allowNewLine (c # pos) =
     (if skipped mode allowNewLine c then
        if c = CHR ''#'' then
          (case dropWhile (\<lambda>c. c \<noteq> newline) pos of
             [] \<Rightarrow> None
           | _ # pos' \<Rightarrow> skip_blanks mode allowNewLine pos')
        else skip_blanks mode allowNewLine pos
      else Some (c # pos))"
  by pat_completeness auto
termination
  by (relation "measure (\<lambda>(mode, allowNewLine, pos). length pos)")
    (auto dest: dropWhile_tl_length)

text \<open>The loop over a word: what belongs to it, the rest of the text, and whether it ends behind a backslash.\<close>

definition ends_word :: "char option \<Rightarrow> assignment_mode \<Rightarrow> char \<Rightarrow> bool" where
  "ends_word quoted mode c \<longleftrightarrow>
     (case quoted of
        None \<Rightarrow> is_word_break c \<or> mode \<noteq> IGNORE_ASSIGNMENT \<and> c = CHR ''=''
      | Some q \<Rightarrow> c = q)"

fun word_loop :: "char option \<Rightarrow> assignment_mode \<Rightarrow> bool \<Rightarrow> string \<Rightarrow> string \<Rightarrow> string \<times> string \<times> bool" where
  "word_loop quoted mode charEscaped word [] = (word, [], charEscaped)"
| "word_loop quoted mode charEscaped word (c # pos) =
     (if charEscaped then word_loop quoted mode False (word @ [c]) pos
      else if c = backslash then word_loop quoted mode True (word @ [c]) pos
      else if ends_word quoted mode c then (word, c # pos, False)
      else word_loop quoted mode False (word @ [c]) pos)"

fun unescape :: "string \<Rightarrow> string" where
  "unescape [] = []"
| "unescape (c # word) = (if c = backslash then case word of [] \<Rightarrow> [] | d # word' \<Rightarrow> d # unescape word' else c # unescape word)"

text \<open>What follows the word.\<close>

fun scan_next :: "bool \<Rightarrow> string \<Rightarrow> status_t \<times> string" where
  "scan_next newLine [] = (B_OK, [])"
| "scan_next newLine (c # pos) =
     (if is_parameter_separator c then if newLine then (B_OK, c # pos) else scan_next True pos
      else if c = CHR ''{'' \<or> c = CHR ''}'' \<or> c = CHR ''#'' then (B_OK, c # pos)
      else if \<not> isspace c then (if newLine then B_OK else CONTINUE_PARAMETER, c # pos)
      else scan_next newLine pos)"

text \<open>The status, the word if there is one, and the new position.\<close>

definition get_word :: "string \<Rightarrow> assignment_mode \<Rightarrow> bool \<Rightarrow> fault + status_t \<times> string option \<times> string" where
  "get_word pos0 mode allowNewLine =
     (case skip_blanks mode allowNewLine pos0 of
        None \<Rightarrow> Inl Out_of_bounds
      | Some pos \<Rightarrow>
          if pos = [] \<or> hd pos = CHR ''}'' then Inr (NO_PARAMETER, None, pos)
          else
            let quoted = (if hd pos = double_quote \<or> hd pos = single_quote then Some (hd pos) else None);
                (word, pos, charEscaped) = word_loop quoted mode False [] (if quoted = None then pos else tl pos)
            in if quoted \<noteq> None \<and> pos = [] then Inr (B_BAD_DATA, None, pos0)
               else if charEscaped then Inr (B_BAD_DATA, None, pos0)
               else if pos = [] then Inr (B_OK, Some (unescape word), [])
               else
                 let (status, pos) = scan_next (is_parameter_separator (hd pos)) (tl pos)
                 in Inr (status, Some (unescape word), pos))"

subsection \<open>Parameters\<close>

lemma skip_blanks_length: "skip_blanks mode nl pos = Some pos' \<Longrightarrow> length pos' \<le> length pos"
  by (induction mode nl pos rule: skip_blanks.induct) (fastforce split: if_split_asm list.splits dest: dropWhile_tl_length)+

lemma word_loop_length: "word_loop q mode esc word pos = (word', pos', esc') \<Longrightarrow> length pos' \<le> length pos"
  by (induction q mode esc word pos rule: word_loop.induct) (auto split: if_split_asm simp: le_SucI)

lemma scan_next_length: "scan_next nl pos = (st, pos') \<Longrightarrow> length pos' \<le> length pos"
  by (induction nl pos rule: scan_next.induct) (auto split: if_split_asm simp: le_SucI)

text \<open>A word that more follows consumes a character at least.\<close>

lemma get_word_length:
  assumes "get_word pos mode nl = Inr (st, word, pos')"
  shows "length pos' \<le> length pos" "st \<noteq> NO_PARAMETER \<Longrightarrow> 0 \<le> st \<Longrightarrow> pos' \<noteq> [] \<Longrightarrow> length pos' < length pos"
proof -
  consider (none) "length pos' \<le> length pos" "st = NO_PARAMETER \<or> st < 0 \<or> pos' = []"
    | (word) p q w c r where "skip_blanks mode nl pos = Some p" "word_loop q mode False [] (if q = None then p else tl p) = (w, c # r, False)"
        "scan_next (is_parameter_separator c) r = (st, pos')"
    using assms skip_blanks_length [of mode nl pos]
    by (fastforce simp: get_word_def Let_def status neq_Nil_conv split: option.splits prod.splits if_split_asm)
  then have "length pos' \<le> length pos \<and> (st \<noteq> NO_PARAMETER \<longrightarrow> 0 \<le> st \<longrightarrow> pos' \<noteq> [] \<longrightarrow> length pos' < length pos)"
  proof cases
    case none
    then show ?thesis by auto
  next
    case word
    have "length (if q = None then p else tl p) \<le> length p" by simp
    then show ?thesis
      using skip_blanks_length [OF word(1)] word_loop_length [OF word(2)] scan_next_length [OF word(3)] by simp
  qed
  then show "length pos' \<le> length pos" "st \<noteq> NO_PARAMETER \<Longrightarrow> 0 \<le> st \<Longrightarrow> pos' \<noteq> [] \<Longrightarrow> length pos' < length pos" by auto
qed

lemma get_word_continue:
  "get_word pos mode nl = Inr (CONTINUE_PARAMETER, word, pos') \<Longrightarrow> length pos' < length pos"
  using get_word_length [of pos mode nl CONTINUE_PARAMETER word pos']
  by (cases "pos' = []") (auto simp: status get_word_def Let_def split: option.splits prod.splits if_split_asm)

text \<open>
  The values of a parameter. A value that turns out not to be there is stored as \<open>NULL\<close>, an empty word here; the
  parameter is then given up by \<open>parse_parameters\<close>, whatever its values.
\<close>

function parse_values :: "string list \<Rightarrow> string \<Rightarrow> bool list \<Rightarrow> fault + status_t \<times> string list \<times> string \<times> bool list" where
  "parse_values values pos outcomes =
     (case get_word pos (if values = [] then ALLOW_ASSIGNMENT else IGNORE_ASSIGNMENT) False of
        Inl f \<Rightarrow> Inl f
      | Inr (status, value, pos') \<Rightarrow>
          if status < 0 then Inr (status, values, pos', outcomes)
          else
            let (ok, outcomes) = allocate outcomes
            in if \<not> ok then Inr (ENOMEM, values, pos', outcomes)
               else
                 let values = values @ [case value of Some word \<Rightarrow> word | None \<Rightarrow> []]
                 in if status = CONTINUE_PARAMETER then parse_values values pos' outcomes else Inr (status, values, pos', outcomes))"
  by pat_completeness auto
termination
  by (relation "measure (\<lambda>(values, pos, outcomes). length pos)") (auto dest!: sym [of "Inr _"] get_word_continue)

declare parse_values.simps [simp del]

definition parse_parameter :: "string \<Rightarrow> bool list \<Rightarrow> fault + status_t \<times> driver_parameter \<times> string \<times> bool list" where
  "parse_parameter pos outcomes =
     (case get_word pos NO_ASSIGNMENT True of
        Inl f \<Rightarrow> Inl f
      | Inr (status, name, pos) \<Rightarrow>
          let name = (case name of Some word \<Rightarrow> word | None \<Rightarrow> [])
          in if status = CONTINUE_PARAMETER then
               (case parse_values [] pos outcomes of
                  Inl f \<Rightarrow> Inl f
                | Inr (status, values, pos, outcomes) \<Rightarrow> Inr (status, Driver_Parameter name values [], pos, outcomes))
             else Inr (status, Driver_Parameter name [] [], pos, outcomes))"

text \<open>
  The parameters up to the closing brace (or, on the outermost level, to the end), behind those in \<open>ps\<close>. The first argument bounds
  the rounds, of which there cannot be more than characters.
\<close>

fun parse_parameters ::
  "nat \<Rightarrow> nat \<Rightarrow> driver_parameter list \<Rightarrow> string \<Rightarrow> bool list \<Rightarrow> fault + status_t \<times> driver_parameter list \<times> string \<times> bool list" where
  "parse_parameters 0 level ps pos outcomes = Inl Endless_loop"
| "parse_parameters (Suc k) level ps pos outcomes =
     (if level > MAX_SETTINGS_LEVEL then Inr (B_LINK_LIMIT, ps, pos, outcomes)
      else
        case parse_parameter pos outcomes of
          Inl f \<Rightarrow> Inl f
        | Inr (status, p, pos, outcomes) \<Rightarrow>
            if status < 0 then Inr (status, ps, pos, outcomes)
            else
              case (if status = NO_PARAMETER then Inr (B_OK, ps, pos, outcomes)
                    else
                      let (ok, outcomes) = allocate outcomes
                      in if \<not> ok then Inr (ENOMEM, ps, pos, outcomes)
                         else if pos \<noteq> [] \<and> hd pos = CHR ''{'' then
                           (case parse_parameters k (level + 1) [] (tl pos) outcomes of
                              Inl f \<Rightarrow> Inl f
                            | Inr (status, qs, pos, outcomes) \<Rightarrow>
                                Inr (status, ps @ [Driver_Parameter (dp_name p) (dp_values p) qs], pos, outcomes))
                         else Inr (B_OK, ps @ [p], pos, outcomes)) of
                Inl f \<Rightarrow> Inl f
              | Inr (status, ps, pos, outcomes) \<Rightarrow>
                  if status < 0 then Inr (status, ps, pos, outcomes)
                  else if pos \<noteq> [] \<and> hd pos = CHR ''}'' \<and> level > 0 then Inr (B_OK, ps, tl pos, outcomes)
                  else if pos = [] \<and> level = 0 then Inr (B_OK, ps, pos, outcomes)
                  else if pos = [] \<or> hd pos = CHR ''}'' then Inr (B_ERROR, ps, pos, outcomes)
                  else parse_parameters k level ps pos outcomes)"

declare parse_parameters.simps(2) [simp del]

text \<open>The status and the parameters, which are there after an error too.\<close>

definition parse_settings :: "string option \<Rightarrow> bool list \<Rightarrow> fault + status_t \<times> driver_parameter list \<times> bool list" where
  "parse_settings text outcomes =
     (case text of
        None \<Rightarrow> Inr (B_OK, [], outcomes)
      | Some pos \<Rightarrow>
          (case parse_parameters (length pos + 1) 0 [] pos outcomes of
             Inl f \<Rightarrow> Inl f
           | Inr (status, ps, _, outcomes) \<Rightarrow> Inr (status, ps, outcomes)))"

subsection \<open>Printing\<close>

text \<open>The text that has been written and the room that is left, which goes on shrinking when something does not fit.\<close>

type_synonym printed = "string \<times> int"

definition needs_quotes :: "string \<Rightarrow> bool" where
  "needs_quotes s \<longleftrightarrow> (\<exists>c \<in> set s. c = double_quote \<or> is_word_break c)"

definition put_text :: "string \<Rightarrow> printed \<Rightarrow> printed" where
  "put_text t st = (let bufferSize = snd st - int (length t) in if bufferSize \<le> 0 then (fst st, bufferSize) else (fst st @ t, bufferSize))"

definition quoted_string :: "string \<Rightarrow> string" where
  "quoted_string s =
     (let t = concat (map (\<lambda>c. if c = double_quote then [backslash, c] else [c]) s)
      in if needs_quotes s then [double_quote] @ t @ [double_quote] else t)"

definition put_string :: "string \<Rightarrow> printed \<Rightarrow> printed" where
  "put_string s st = put_text (quoted_string s) st"

definition put_chars :: "string \<Rightarrow> printed \<Rightarrow> printed" where
  "put_chars s st = put_text s st"

definition put_char :: "char \<Rightarrow> printed \<Rightarrow> printed" where
  "put_char c st = put_text [c] st"

definition put_level_space :: "nat \<Rightarrow> printed \<Rightarrow> printed" where
  "put_level_space level st = (put_char tab ^^ level) st"

fun put_parameter :: "driver_parameter \<Rightarrow> nat \<Rightarrow> bool \<Rightarrow> printed \<Rightarrow> printed" where
  "put_parameter (Driver_Parameter name values ps) level flat st =
     (let st = (if flat then st else put_level_space level st);
          st = put_string name st;
          st = (if flat \<and> values \<noteq> [] then put_chars '' ='' st else st);
          st = fold (\<lambda>v st. put_string v (put_char CHR '' '' st)) values st
      in if ps = [] then st
         else
           let st = put_chars '' {'' st;
               st = (if flat then st else put_char newline st);
               st = fold (\<lambda>p st.
                      let st = put_parameter p (level + 1) flat st
                      in if dp_parameters p = [] then put_chars (if flat then ''; '' else [newline]) st else st) ps st;
               st = (if flat then st else put_level_space level st)
           in put_chars (if flat then ''}'' else [CHR ''}'', newline]) st)"

text \<open>The status, what is stored as the size, and the text.\<close>

definition get_driver_settings_string :: "driver_parameter list \<Rightarrow> int \<Rightarrow> bool \<Rightarrow> status_t \<times> int \<times> string" where
  "get_driver_settings_string ps bufferSize flat =
     (if bufferSize = 0 then (B_BAD_VALUE, 0, [])
      else
        let (t, left) = fold (\<lambda>p st. put_parameter p 0 flat st) ps ([], bufferSize)
        in (if left \<ge> 0 then B_OK else B_BUFFER_OVERFLOW, bufferSize - left, t))"

subsection \<open>Handles\<close>

text \<open>
  The handles by the number that stands for their address, the list of those that the kernel keeps, and the number of
  the next one. \<open>sh_valid\<close>: the magic number is there, that is, the text has been parsed. The names of the parameters point into the
  text: when \<open>sh_text\<close> is \<open>None\<close> and there are parameters, they point to memory that has been freed.
\<close>

record settings_handle =
  sh_name :: string
  sh_ref_count :: int
  sh_valid :: bool
  sh_parameters :: "driver_parameter list"
  sh_text :: "string option"

record settings_state =
  ss_heap :: "nat \<Rightarrow> settings_handle option"
  ss_list :: "nat list"
  ss_free :: nat
  ss_outcomes :: "bool list"

definition c_text :: "string \<Rightarrow> string" where
  "c_text s = takeWhile (\<lambda>c. c \<noteq> CHR 0x00) s"

definition settings_malloc :: "settings_state \<Rightarrow> bool \<times> settings_state" where
  "settings_malloc st = (let (ok, outcomes) = allocate (ss_outcomes st) in (ok, st\<lparr>ss_outcomes := outcomes\<rparr>))"

definition new_settings :: "string option \<Rightarrow> string option \<Rightarrow> settings_state \<Rightarrow> fault + nat option \<times> settings_state" where
  "new_settings buffer driverName st =
     (let (ok, st) = settings_malloc st
      in if \<not> ok then Inr (None, st)
         else
           case parse_settings buffer (ss_outcomes st) of
             Inl f \<Rightarrow> Inl f
           | Inr (status, ps, outcomes) \<Rightarrow>
               let st = st\<lparr>ss_outcomes := outcomes\<rparr>;
                   h = \<lparr>sh_name = (case driverName of Some s \<Rightarrow> take 31 s | None \<Rightarrow> []),
                        sh_ref_count = (if driverName = None then - 1 else 1), sh_valid = True, sh_parameters = ps, sh_text = buffer\<rparr>
               in if status = B_OK then Inr (Some (ss_free st), st\<lparr>ss_heap := (ss_heap st)(ss_free st \<mapsto> h), ss_free := ss_free st + 1\<rparr>)
                  else Inr (None, st))"

text \<open>\<open>contents\<close>: \<open>None\<close> when \<open>fstat\<close> fails, otherwise what the file holds and whether \<open>read\<close> gets all of it.\<close>

definition load_driver_settings_from_file ::
  "(string \<times> bool) option \<Rightarrow> string option \<Rightarrow> settings_state \<Rightarrow> fault + nat option \<times> settings_state" where
  "load_driver_settings_from_file contents driverName st =
     (case contents of
        None \<Rightarrow> Inr (None, st)
      | Some (text, complete) \<Rightarrow>
          if 0 < length text \<and> length text < MAX_SETTINGS_SIZE then
            let (ok, st) = settings_malloc st
            in if ok \<and> complete then new_settings (Some (c_text text)) driverName st else Inr (None, st)
          else Inr (None, st))"

definition find_driver_settings :: "settings_state \<Rightarrow> string \<Rightarrow> nat option" where
  "find_driver_settings st name = List.find (\<lambda>i. map_option sh_name (ss_heap st i) = Some name) (ss_list st)"

definition free_settings :: "nat \<Rightarrow> settings_state \<Rightarrow> settings_state" where
  "free_settings i st = st\<lparr>ss_heap := (ss_heap st)(i := None)\<rparr>"

definition list_remove_link :: "nat \<Rightarrow> settings_state \<Rightarrow> settings_state" where
  "list_remove_link i st = st\<lparr>ss_list := remove1 i (ss_list st)\<rparr>"

definition B_SAFEMODE_DRIVER_SETTINGS :: string where "B_SAFEMODE_DRIVER_SETTINGS = ''/safemode/''"

text \<open>The files that the boot loader has read: their names and contents.\<close>

fun driver_settings_init :: "(string \<times> string) list \<Rightarrow> settings_state \<Rightarrow> status_t \<times> settings_state" where
  "driver_settings_init [] st = (B_OK, st)"
| "driver_settings_init ((name, contents) # files) st =
     (let (ok, st) = settings_malloc st
      in if \<not> ok then (ENOMEM, st)
         else
           let (ok, st) = (if contents \<noteq> [] then settings_malloc st else (True, st))
           in if \<not> ok then (ENOMEM, st)
              else
                let name = take 31 name;
                    h = \<lparr>sh_name = name, sh_ref_count = (if name = B_SAFEMODE_DRIVER_SETTINGS then 1 else 0), sh_valid = False,
                         sh_parameters = [], sh_text = (if contents \<noteq> [] then Some (c_text contents) else None)\<rparr>
                in driver_settings_init files
                     (st\<lparr>ss_heap := (ss_heap st)(ss_free st \<mapsto> h), ss_list := ss_list st @ [ss_free st], ss_free := ss_free st + 1\<rparr>))"

text \<open>
  \<open>boot\<close>: the boot device is there; \<open>startup\<close>: the kernel is starting; \<open>contents\<close>: the settings file of the driver, \<open>None\<close> also
  when it cannot be opened.
\<close>

definition load_driver_settings ::
  "bool \<Rightarrow> bool \<Rightarrow> (string \<times> bool) option \<Rightarrow> string \<Rightarrow> settings_state \<Rightarrow> fault + nat option \<times> settings_state" where
  "load_driver_settings boot startup contents driverName st =
     (let from_file = (\<lambda>st.
            if startup then Inr (None, st)
            else case load_driver_settings_from_file contents (Some driverName) st of
                   Inl f \<Rightarrow> Inl f
                 | Inr (None, st) \<Rightarrow> Inr (None, st)
                 | Inr (Some i, st) \<Rightarrow> Inr (Some i, st\<lparr>ss_list := ss_list st @ [i]\<rparr>))
      in case find_driver_settings st driverName of
           None \<Rightarrow> from_file st
         | Some i \<Rightarrow>
             (case ss_heap st i of
                None \<Rightarrow> Inl Null_dereference
              | Some h \<Rightarrow>
                  if sh_ref_count h = 0 \<and> boot then from_file (free_settings i (list_remove_link i st))
                  else
                    let h = h\<lparr>sh_ref_count := sh_ref_count h + 1\<rparr>
                    in if sh_valid h then Inr (Some i, st\<lparr>ss_heap := (ss_heap st)(i \<mapsto> h)\<rparr>)
                       else
                         case parse_settings (sh_text h) (ss_outcomes st) of
                           Inl f \<Rightarrow> Inl f
                         | Inr (status, ps, outcomes) \<Rightarrow>
                             let st = st\<lparr>ss_outcomes := outcomes\<rparr>; h = h\<lparr>sh_valid := True, sh_parameters := ps\<rparr>
                             in if status \<noteq> B_OK then Inr (None, st\<lparr>ss_heap := (ss_heap st)(i \<mapsto> h\<lparr>sh_text := None\<rparr>)\<rparr>)
                                else Inr (Some i, st\<lparr>ss_heap := (ss_heap st)(i \<mapsto> h)\<rparr>)))"

definition check_handle :: "nat option \<Rightarrow> settings_state \<Rightarrow> bool" where
  "check_handle handle st = (case handle of None \<Rightarrow> False | Some i \<Rightarrow> (case ss_heap st i of Some h \<Rightarrow> sh_valid h | None \<Rightarrow> False))"

definition unload_driver_settings :: "bool \<Rightarrow> nat option \<Rightarrow> settings_state \<Rightarrow> status_t \<times> settings_state" where
  "unload_driver_settings boot handle st =
     (if \<not> check_handle handle st then (B_BAD_VALUE, st)
      else
        let i = the handle; h = the (ss_heap st i)
        in if sh_ref_count h > 0 then
             let h = h\<lparr>sh_ref_count := sh_ref_count h - 1\<rparr>; st = st\<lparr>ss_heap := (ss_heap st)(i \<mapsto> h)\<rparr>
             in if sh_ref_count h = 0 \<and> boot then (B_OK, free_settings i (list_remove_link i st)) else (B_OK, st)
           else (B_OK, free_settings i st))"

definition delete_driver_settings :: "bool \<Rightarrow> nat option \<Rightarrow> settings_state \<Rightarrow> status_t \<times> settings_state" where
  "delete_driver_settings boot handle st = unload_driver_settings boot handle st"

definition load_driver_settings_file :: "(string \<times> bool) option \<Rightarrow> settings_state \<Rightarrow> fault + nat option \<times> settings_state" where
  "load_driver_settings_file contents st = load_driver_settings_from_file contents None st"

definition parse_driver_settings_string :: "string option \<Rightarrow> settings_state \<Rightarrow> fault + nat option \<times> settings_state" where
  "parse_driver_settings_string settingsString st =
     (let (ok, st) = (if settingsString \<noteq> None then settings_malloc st else (True, st))
      in if \<not> ok then Inr (None, st) else new_settings settingsString None st)"

definition get_driver_settings :: "nat option \<Rightarrow> settings_state \<Rightarrow> driver_parameter list option" where
  "get_driver_settings handle st =
     (if check_handle handle st then map_option sh_parameters (ss_heap st (the handle)) else None)"

subsection \<open>Looking values up\<close>

text \<open>The functions take what \<open>get_driver_settings\<close> finds: \<open>None\<close> for a handle that is not valid. The last parameter of a name counts.\<close>

definition get_parameter :: "driver_parameter list \<Rightarrow> string \<Rightarrow> driver_parameter option" where
  "get_parameter ps name = List.find (\<lambda>p. dp_name p = name) (rev ps)"

definition get_driver_parameter :: "driver_parameter list option \<Rightarrow> string \<Rightarrow> string \<Rightarrow> string \<Rightarrow> string" where
  "get_driver_parameter settings keyName unknownValue noArgValue =
     (case settings of
        None \<Rightarrow> unknownValue
      | Some ps \<Rightarrow>
          (case get_parameter ps keyName of
             None \<Rightarrow> unknownValue
           | Some p \<Rightarrow> (case dp_values p of [] \<Rightarrow> noArgValue | v # _ \<Rightarrow> v)))"

definition small_letter :: "char \<Rightarrow> nat" where
  "small_letter c = (let n = of_char c :: nat in if 65 \<le> n \<and> n \<le> 90 then n + 32 else n)"

definition strcasecmp_eq :: "string \<Rightarrow> string \<Rightarrow> bool" where
  "strcasecmp_eq s t \<longleftrightarrow> map small_letter s = map small_letter t"

definition get_driver_boolean_parameter :: "driver_parameter list option \<Rightarrow> string \<Rightarrow> bool \<Rightarrow> bool \<Rightarrow> bool" where
  "get_driver_boolean_parameter settings keyName unknownValue noArgValue =
     (case settings of
        None \<Rightarrow> unknownValue
      | Some ps \<Rightarrow>
          (case get_parameter ps keyName of
             None \<Rightarrow> unknownValue
           | Some p \<Rightarrow>
               (case dp_values p of
                  [] \<Rightarrow> noArgValue
                | v # _ \<Rightarrow>
                    if v = ''1'' \<or> (\<exists>w \<in> set [''true'', ''yes'', ''on'', ''enable'', ''enabled'']. strcasecmp_eq v w) then True
                    else if v = ''0'' \<or> (\<exists>w \<in> set [''false'', ''no'', ''off'', ''disable'', ''disabled'']. strcasecmp_eq v w) then False
                    else unknownValue)))"

end
