(* ===== verification/Driver.thy ===== *)
theory Driver
  imports Mount_Properties Driver_Settings
begin

section \<open>The entry points of the module: dosfs.c\<close>

text \<open>
  \<open>dosfs_mount\<close> with the driver settings, what becomes of the lock of a removable device, scanning a partition that has been
  identified, and the small hooks. The settings are what \<open>get_driver_settings\<close> finds for the handle that \<open>load_driver_settings\<close>
  returns: \<open>None\<close> when there are none.
\<close>

subsection \<open>Numbers and names in the settings\<close>

text \<open>\<open>strtoul\<close> of the C library with the base 0: white space, a sign, a prefix that gives the base, digits.\<close>

definition digit_value :: "char \<Rightarrow> nat option" where
  "digit_value c =
     (let n = of_char c :: nat
      in if 48 \<le> n \<and> n \<le> 57 then Some (n - 48)
         else if 97 \<le> n \<and> n \<le> 122 then Some (n - 87)
         else if 65 \<le> n \<and> n \<le> 90 then Some (n - 55)
         else None)"

fun number_digits :: "nat \<Rightarrow> nat \<Rightarrow> string \<Rightarrow> nat" where
  "number_digits base n [] = n"
| "number_digits base n (c # cs) =
     (case digit_value c of Some d \<Rightarrow> if d < base then number_digits base (n * base + d) cs else n | None \<Rightarrow> n)"

definition is_digit_of :: "nat \<Rightarrow> string \<Rightarrow> bool" where
  "is_digit_of base s = (case s of [] \<Rightarrow> False | c # _ \<Rightarrow> (case digit_value c of Some d \<Rightarrow> d < base | None \<Rightarrow> False))"

definition unsigned_number :: "string \<Rightarrow> nat" where
  "unsigned_number s =
     (if s \<noteq> [] \<and> hd s = CHR ''0'' then
        if tl s \<noteq> [] \<and> (hd (tl s) = CHR ''x'' \<or> hd (tl s) = CHR ''X'') \<and> is_digit_of 16 (tl (tl s)) then number_digits 16 0 (tl (tl s))
        else number_digits 8 0 s
      else number_digits 10 0 s)"

definition strtoul :: "string \<Rightarrow> 64 word" where
  "strtoul s =
     (let s = dropWhile isspace s;
          negative = (s \<noteq> [] \<and> hd s = CHR ''-'');
          n = unsigned_number (if s \<noteq> [] \<and> (hd s = CHR ''-'' \<or> hd s = CHR ''+'') then tl s else s)
      in if n \<ge> 2 ^ 64 then - 1 else if negative then - of_nat n else of_nat n)"

subsection \<open>Mounting with the settings\<close>

type_synonym settings = "driver_parameter list option"

text \<open>The two settings that reach \<open>mount_fat_disk\<close>: \<open>op_sync_mode\<close> is an \<open>int\<close>, into which the \<open>unsigned long\<close> is cut.\<close>

definition mount_settings :: "settings \<Rightarrow> int \<times> uint32" where
  "mount_settings settings =
     (case settings of
        None \<Rightarrow> (0, 0)
      | Some _ \<Rightarrow>
          let op_sync_mode = sint (ucast (strtoul (get_driver_parameter settings ''op_sync_mode'' ''0'' ''0'')) :: uint32);
              op_sync_mode = (if op_sync_mode < 0 \<or> op_sync_mode > 2 then 0 else op_sync_mode);
              fsflags = (if strcasecmp_eq (get_driver_parameter settings ''lock_device'' ''true'' ''true'') ''false'' then 0 else FS_FLAGS_LOCK_DOOR)
          in (op_sync_mode, fsflags))"

text \<open>\<open>publish\<close> is what \<open>publish_vnode\<close> returns for the root. \<open>Inr\<close> has the id of the root and the volume.\<close>

definition dosfs_mount ::
  "environment \<Rightarrow> disk \<Rightarrow> uint32 \<Rightarrow> settings \<Rightarrow> bool list \<Rightarrow> status_t \<Rightarrow> status_t + ino_t \<times> nspace" where
  "dosfs_mount E dev mflags settings outcomes publish =
     (let (op_sync_mode, fsflags) = mount_settings settings;
          respect = get_driver_boolean_parameter settings ''respect'' True True
      in case mount_fat_disk E dev mflags fsflags op_sync_mode respect outcomes of
           Inl result \<Rightarrow> Inl result
         | Inr vol \<Rightarrow> if publish \<noteq> B_OK then Inl EINVAL else Inr (vn_vnid (root_vnode vol), vol))"

subsection \<open>The lock of a removable device\<close>

text \<open>
  The requests that reach the device, in their order: \<open>True\<close> locks it. The device is locked when it has been opened for
  writing, before the boot sector is read, and unlocked when a cache cannot be set up, and by \<open>dosfs_unmount\<close>.
\<close>

definition unlock_device :: "nspace \<Rightarrow> bool list" where
  "unlock_device vol =
     (if flags vol AND B_FS_IS_READONLY = 0 \<and> flags vol AND B_FS_IS_REMOVABLE \<noteq> 0 \<and> fs_flags vol AND FS_FLAGS_LOCK_DOOR \<noteq> 0 then [False] else [])"

definition mount_locks ::
  "environment \<Rightarrow> disk \<Rightarrow> uint32 \<Rightarrow> uint32 \<Rightarrow> int \<Rightarrow> bool \<Rightarrow> bool list \<Rightarrow> bool list" where
  "mount_locks E dev mflags fsflags op_sync_mode respect outcomes =
     (case find_geometry dev of
        None \<Rightarrow> []
      | Some geo \<Rightarrow>
          let vol_flags = mount_flags geo mflags
          in if open_result dev < 0 \<or> geo_bytes_per_sector geo \<notin> {0x200, 0x400, 0x800, 0x1000} \<or>
                vol_flags AND B_FS_IS_READONLY \<noteq> 0 \<or> reopen_result dev < 0 \<or>
                vol_flags AND B_FS_IS_REMOVABLE = 0 \<or> fsflags AND FS_FLAGS_LOCK_DOOR = 0 then []
             else
               (case disk_read dev 0 512 of
                  Inl _ \<Rightarrow> [True]
                | Inr buf \<Rightarrow>
                    (case volume_init (disk_read dev) buf vol_flags (sync_flags fsflags vol_flags op_sync_mode) (Some geo) outcomes of
                       None \<Rightarrow> [True]
                     | Some vol \<Rightarrow>
                         (case mount_volume E respect vol of
                            Inl _ \<Rightarrow> True # unlock_device vol
                          | Inr _ \<Rightarrow> [True]))))"

subsection \<open>Scanning a partition\<close>

record partition_data =
  pd_status :: uint32
  pd_flags :: uint32
  pd_content_size :: int
  pd_block_size :: uint32
  pd_content_name :: "bytes option"

definition B_PARTITION_VALID :: uint32 where "B_PARTITION_VALID = 0"
definition B_PARTITION_FILE_SYSTEM :: uint32 where "B_PARTITION_FILE_SYSTEM = 2"

text \<open>\<open>dup\<close> is the outcome of \<open>strdup\<close>. The product is one of 32 bits.\<close>

definition dosfs_scan_partition :: "identify_cookie \<Rightarrow> bool \<Rightarrow> partition_data \<Rightarrow> status_t \<times> partition_data" where
  "dosfs_scan_partition cookie dup part =
     (let part = part\<lparr>pd_status := B_PARTITION_VALID, pd_flags := pd_flags part OR B_PARTITION_FILE_SYSTEM,
            pd_content_size := uint (ic_total_sectors cookie * ic_bytes_per_sector cookie), pd_block_size := ic_bytes_per_sector cookie,
            pd_content_name := (if dup then Some (ic_name cookie) else None)\<rparr>
      in (if dup then B_OK else ENOMEM, part))"

subsection \<open>Small hooks\<close>

text \<open>\<open>sync\<close> is what \<open>file_cache_sync\<close> returns, for a vnode with a file cache.\<close>

definition dosfs_fsync :: "status_t option \<Rightarrow> status_t" where
  "dosfs_fsync sync = (case sync of Some err \<Rightarrow> err | None \<Rightarrow> B_OK)"

definition B_DISK_SYSTEM_SUPPORTS_INITIALIZING :: uint32 where "B_DISK_SYSTEM_SUPPORTS_INITIALIZING = 0x80"
definition B_DISK_SYSTEM_SUPPORTS_CONTENT_NAME :: uint32 where "B_DISK_SYSTEM_SUPPORTS_CONTENT_NAME = 0x100"
definition B_DISK_SYSTEM_SUPPORTS_WRITING :: uint32 where "B_DISK_SYSTEM_SUPPORTS_WRITING = 0x100000"

definition dosfs_get_supported_operations :: "uint32 \<Rightarrow> uint32" where
  "dosfs_get_supported_operations operations =
     B_DISK_SYSTEM_SUPPORTS_INITIALIZING OR B_DISK_SYSTEM_SUPPORTS_CONTENT_NAME OR B_DISK_SYSTEM_SUPPORTS_WRITING"

definition B_MODULE_INIT :: int where "B_MODULE_INIT = 1"
definition B_MODULE_UNINIT :: int where "B_MODULE_UNINIT = 2"

definition dos_std_ops :: "int \<Rightarrow> status_t" where
  "dos_std_ops op_code = (if op_code = B_MODULE_INIT \<or> op_code = B_MODULE_UNINIT then B_OK else B_ERROR)"

subsection \<open>What follows\<close>

text \<open>The settings never select a synchronisation mode that does not exist, and lock the door unless they say \<open>false\<close>.\<close>

lemma mount_settings_range: "fst (mount_settings settings) \<in> {0, 1, 2}" "snd (mount_settings settings) \<in> {0, FS_FLAGS_LOCK_DOOR}"
  by (auto simp: mount_settings_def Let_def split: option.splits)

lemma mount_settings_examples:
  "mount_settings (Some [Driver_Parameter ''op_sync_mode'' [''0x2''] [], Driver_Parameter ''lock_device'' [''False''] []]) = (2, 0)"
  "mount_settings (Some [Driver_Parameter ''op_sync_mode'' ['' 4294967297''] []]) = (1, FS_FLAGS_LOCK_DOOR)"
  "mount_settings (Some [Driver_Parameter ''op_sync_mode'' [''+3''] []]) = (0, FS_FLAGS_LOCK_DOOR)"
  by (simp_all add: mount_settings_def get_driver_parameter_def get_parameter_def strtoul_def unsigned_number_def is_digit_of_def
      digit_value_def isspace_def strcasecmp_eq_def small_letter_def Let_def)

text \<open>The size of a partition of 4 GB or more is wrong.\<close>

lemma scan_partition_size:
  "pd_content_size (snd (dosfs_scan_partition cookie dup part)) =
     uint (ic_total_sectors cookie) * uint (ic_bytes_per_sector cookie) mod 2 ^ 32"
  by (simp add: dosfs_scan_partition_def uint_word_ariths)

text \<open>
  A device that is locked is not unlocked again when its volume has become read-only because it extends past the
  end of the device: the flag that says so is set after the lock, and read before the unlocking.
\<close>

lemma read_only_not_unlocked:
  assumes "volume_init dev buf vflags fsflags geo outcomes = Some vol" "past_end vol geo"
  shows "unlock_device vol = []"
proof -
  have "flags vol = vflags OR B_FS_IS_READONLY" using volume_init_result [OF assms(1)] assms(2) by simp
  then have "flags vol AND B_FS_IS_READONLY = B_FS_IS_READONLY" by (simp add: bit_eq_iff bit_simps) blast
  then show ?thesis by (simp add: unlock_device_def B_FS_IS_READONLY_def)
qed

end
