(* ===== verification/Settings_Properties.thy ===== *)
theory Settings_Properties
  imports Driver_Settings "HOL-Library.Sublist"
begin

section \<open>Properties of the driver settings\<close>

subsection \<open>The parser stays inside the text and ends\<close>

text \<open>A text whose comments all end: a newline follows every sign that may start one.\<close>

definition closed_text :: "string \<Rightarrow> bool" where
  "closed_text pos \<longleftrightarrow> (\<forall>pre rest. pos = pre @ CHR ''#'' # rest \<longrightarrow> newline \<in> set rest)"

lemma closed_suffix: "suffix pos' pos \<Longrightarrow> closed_text pos \<Longrightarrow> closed_text pos'"
  unfolding closed_text_def suffix_def by (metis append_assoc)

lemma closed_comment: "closed_text (CHR ''#'' # pos) \<Longrightarrow> newline \<in> set pos"
  unfolding closed_text_def by (metis append_Nil)

lemma skip_blanks_suffix: "skip_blanks mode nl pos = Some pos' \<Longrightarrow> suffix pos' pos"
proof (induction mode nl pos rule: skip_blanks.induct)
  case (2 mode nl c pos)
  have "suffix pos' pos" if "dropWhile (\<lambda>c. c \<noteq> newline) pos = x # ys" "suffix pos' ys" for x ys
    using that suffix_dropWhile [of "\<lambda>c. c \<noteq> newline" pos] by (metis suffix_ConsI suffix_order.trans)
  then show ?case using 2 by (fastforce split: if_split_asm list.splits intro: suffix_ConsI)
qed simp

lemma skip_blanks_closed: "closed_text pos \<Longrightarrow> skip_blanks mode nl pos \<noteq> None"
proof (induction mode nl pos rule: skip_blanks.induct)
  case (2 mode nl c pos)
  have tl: "closed_text pos" by (rule closed_suffix [OF suffix_ConsI [OF suffix_order.refl] "2.prems"])
  show ?case
  proof (cases "skipped mode nl c \<and> c = CHR ''#''")
    case True
    then have "newline \<in> set pos" using "2.prems" closed_comment by blast
    then obtain x ys where d: "dropWhile (\<lambda>c. c \<noteq> newline) pos = x # ys" by (cases "dropWhile (\<lambda>c. c \<noteq> newline) pos") auto
    have "suffix ys pos" using suffix_dropWhile [of "\<lambda>c. c \<noteq> newline" pos] unfolding d by (metis suffix_ConsD)
    then show ?thesis using "2.IH"(1) [OF _ _ d] True d closed_suffix [OF _ tl] by simp
  next
    case False
    then show ?thesis using "2.IH"(2) tl by auto
  qed
qed simp

lemma word_loop_suffix: "word_loop q mode esc word pos = (word', pos', esc') \<Longrightarrow> suffix pos' pos"
  by (induction q mode esc word pos rule: word_loop.induct) (auto split: if_split_asm intro: suffix_ConsI)

lemma scan_next_suffix: "scan_next nl pos = (st, pos') \<Longrightarrow> suffix pos' pos \<and> 0 \<le> st"
  by (induction nl pos rule: scan_next.induct) (auto split: if_split_asm intro: suffix_ConsI simp: status)

lemma scan_next_status: "scan_next nl pos = (st, pos') \<Longrightarrow> st = B_OK \<or> st = CONTINUE_PARAMETER"
  by (induction nl pos rule: scan_next.induct) (auto split: if_split_asm)

lemma get_word_suffix:
  assumes "get_word pos mode nl = Inr (st, word, pos')"
  shows "suffix pos' pos"
proof -
  obtain p where p: "skip_blanks mode nl pos = Some p" using assms by (auto simp: get_word_def split: option.splits)
  note skip = skip_blanks_suffix [OF p]
  let ?q = "if hd p = double_quote \<or> hd p = single_quote then Some (hd p) else None"
  obtain w r e where w: "word_loop ?q mode False [] (if ?q = None then p else tl p) = (w, r, e)" by (cases "word_loop ?q mode False [] (if ?q = None then p else tl p)")
  have "suffix r (if ?q = None then p else tl p)" by (rule word_loop_suffix [OF w])
  moreover have "suffix (if ?q = None then p else tl p) p" by (simp add: suffix_tl)
  ultimately have "suffix r p" by (rule suffix_order.trans)
  then have r: "suffix r pos" by (rule suffix_order.trans [OF _ skip])
  obtain st' p' where s: "scan_next (is_parameter_separator (hd r)) (tl r) = (st', p')" by (cases "scan_next (is_parameter_separator (hd r)) (tl r)")
  have "suffix p' pos" using scan_next_suffix [OF s] r by (meson suffix_order.trans suffix_tl)
  then show ?thesis using assms p skip r s w by (auto simp: get_word_def Let_def split: if_split_asm prod.splits)
qed

lemma get_word_fault: "get_word pos mode nl = Inl f \<longleftrightarrow> f = Out_of_bounds \<and> skip_blanks mode nl pos = None"
  by (auto simp: get_word_def Let_def split: option.splits prod.splits if_splits)

lemma get_word_fault_open: "get_word pos mode nl = Inl f \<Longrightarrow> f = Out_of_bounds \<and> \<not> closed_text pos"
  using skip_blanks_closed unfolding get_word_fault by blast

text \<open>Where the parser stands when there is no parameter.\<close>

definition at_end :: "string \<Rightarrow> bool" where
  "at_end pos \<longleftrightarrow> pos = [] \<or> hd pos = CHR ''}''"

lemma get_word_end: "get_word pos mode nl = Inr (NO_PARAMETER, w, pos') \<Longrightarrow> at_end pos'"
  by (auto simp: get_word_def Let_def at_end_def status split: option.splits prod.splits if_split_asm dest: scan_next_status)

lemma parse_values_sound:
  "case parse_values vs pos outcomes of
     Inl f \<Rightarrow> f = Out_of_bounds \<and> \<not> closed_text pos
   | Inr (st, vs', pos', o') \<Rightarrow> suffix pos' pos \<and> (st = NO_PARAMETER \<longrightarrow> at_end pos')"
proof (induction vs pos outcomes rule: parse_values.induct)
  case (1 vs pos outcomes)
  let ?mode = "if vs = [] then ALLOW_ASSIGNMENT else IGNORE_ASSIGNMENT"
  show ?case
  proof (cases "get_word pos ?mode False")
    case (Inl f)
    then show ?thesis using get_word_fault_open [OF Inl] by (subst parse_values.simps) simp
  next
    case (Inr r)
    obtain st w p where r: "r = (st, w, p)" by (cases r)
    obtain ok o' where a: "allocate outcomes = (ok, o')" by (cases "allocate outcomes")
    note word = Inr [unfolded r]
    have s: "suffix p pos" by (rule get_word_suffix [OF word])
    let ?vs = "vs @ [case w of Some word \<Rightarrow> word | None \<Rightarrow> []]"
    have loop: "parse_values vs pos outcomes =
        (if st < 0 then Inr (st, vs, p, outcomes) else if \<not> ok then Inr (ENOMEM, vs, p, o')
         else if st = CONTINUE_PARAMETER then parse_values ?vs p o' else Inr (st, ?vs, p, o'))"
      by (subst parse_values.simps) (simp add: Inr r a Let_def)
    show ?thesis
    proof (cases "st < 0 \<or> \<not> ok \<or> st \<noteq> CONTINUE_PARAMETER")
      case True
      have "st = NO_PARAMETER \<Longrightarrow> at_end p" using get_word_end word by blast
      then show ?thesis using s True unfolding loop by (auto simp: status)
    next
      case False
      then have "case parse_values ?vs p o' of Inl f \<Rightarrow> f = Out_of_bounds \<and> \<not> closed_text p
          | Inr (st, vs', pos', o') \<Rightarrow> suffix pos' p \<and> (st = NO_PARAMETER \<longrightarrow> at_end pos')"
        using "1.IH" [of r st "(w, p)" w p "(ok, o')" ok o' ?vs] Inr r a by simp
      then show ?thesis
        using False closed_suffix [OF s] suffix_order.trans [OF _ s] unfolding loop by (auto split: sum.splits prod.splits)
    qed
  qed
qed

lemma parse_parameter_sound:
  "case parse_parameter pos outcomes of
     Inl f \<Rightarrow> f = Out_of_bounds \<and> \<not> closed_text pos
   | Inr (st, p, pos', o') \<Rightarrow> suffix pos' pos \<and> (0 \<le> st \<longrightarrow> at_end pos' \<or> length pos' < length pos)"
proof (cases "get_word pos NO_ASSIGNMENT True")
  case (Inl f)
  then show ?thesis using get_word_fault_open [OF Inl] by (simp add: parse_parameter_def)
next
  case (Inr r)
  obtain st w p where r: "r = (st, w, p)" by (cases r)
  note word = Inr [unfolded r]
  have s: "suffix p pos" by (rule get_word_suffix [OF word])
  show ?thesis
  proof (cases "st = CONTINUE_PARAMETER")
    case False
    have "st = NO_PARAMETER \<Longrightarrow> at_end p" using get_word_end word by blast
    moreover have "st \<noteq> NO_PARAMETER \<Longrightarrow> 0 \<le> st \<Longrightarrow> p \<noteq> [] \<Longrightarrow> length p < length pos" using get_word_length(2) [OF word] by blast
    moreover have "p = [] \<Longrightarrow> at_end p" by (simp add: at_end_def)
    ultimately show ?thesis using False s word by (auto simp: parse_parameter_def)
  next
    case True
    have l: "length p < length pos" using get_word_continue word True by blast
    show ?thesis
      using parse_values_sound [of p "[]" outcomes] closed_suffix [OF s] suffix_order.trans [OF _ s] l suffix_length_le True word
      by (fastforce simp: parse_parameter_def split: sum.splits prod.splits)
  qed
qed

lemma parse_parameters_sound:
  "length pos < k \<Longrightarrow>
   case parse_parameters k level ps pos outcomes of Inl f \<Rightarrow> f = Out_of_bounds \<and> \<not> closed_text pos | Inr (st, ps', pos', o') \<Rightarrow> suffix pos' pos"
proof (induction k arbitrary: level ps pos outcomes)
  case (Suc k)
  let ?ok = "\<lambda>pos r. case r of Inl f \<Rightarrow> f = Out_of_bounds \<and> \<not> closed_text pos | Inr (st, ps', pos', o') \<Rightarrow> suffix pos' pos"
  define rest where "rest = (\<lambda>(st :: status_t, ps, pos, outcomes).
      if st < 0 then Inr (st, ps, pos, outcomes)
      else if pos \<noteq> [] \<and> hd pos = CHR ''}'' \<and> level > 0 then Inr (B_OK, ps, tl pos, outcomes)
      else if pos = [] \<and> level = 0 then Inr (B_OK, ps, pos, outcomes)
      else if pos = [] \<or> hd pos = CHR ''}'' then Inr (B_ERROR, ps, pos, outcomes)
      else parse_parameters k level ps pos outcomes)"
  have go: "?ok pos (rest (st, ps, p, outcomes))" if "suffix p pos" "at_end p \<or> length p < length pos" for st ps p outcomes
  proof -
    have "suffix (tl p) pos" using that(1) suffix_order.trans suffix_tl by blast
    moreover have "?ok p (parse_parameters k level ps p outcomes)" if "\<not> at_end p"
      by (rule Suc.IH) (use that \<open>at_end p \<or> length p < length pos\<close> Suc.prems in auto)
    ultimately show ?thesis
      using that(1) closed_suffix [OF that(1)] suffix_order.trans [OF _ that(1)]
      by (auto simp: rest_def at_end_def split: sum.splits prod.splits)
  qed
  show ?case
  proof (cases "level > MAX_SETTINGS_LEVEL")
    case True
    then show ?thesis by (simp add: parse_parameters.simps(2))
  next
    case False
    show ?thesis
    proof (cases "parse_parameter pos outcomes")
      case (Inl f)
      then show ?thesis using parse_parameter_sound [of pos outcomes] False by (simp add: parse_parameters.simps(2))
    next
      case (Inr r)
      obtain st p q o1 where r: "r = (st, p, q, o1)" by (cases r)
      have q: "suffix q pos" "0 \<le> st \<Longrightarrow> at_end q \<or> length q < length pos"
        using parse_parameter_sound [of pos outcomes] by (simp_all add: Inr r)
      obtain ok o2 where a: "allocate o1 = (ok, o2)" by (cases "allocate o1")
      let ?nested = "parse_parameters k (level + 1) [] (tl q) o2"
      have step: "parse_parameters (Suc k) level ps pos outcomes =
          (if st < 0 then Inr (st, ps, q, o1)
           else if st = NO_PARAMETER then rest (B_OK, ps, q, o1)
           else if \<not> ok then rest (ENOMEM, ps, q, o2)
           else if q \<noteq> [] \<and> hd q = CHR ''{'' then
             (case ?nested of Inl f \<Rightarrow> Inl f
              | Inr (status, qs, pos, outcomes) \<Rightarrow> rest (status, ps @ [Driver_Parameter (dp_name p) (dp_values p) qs], pos, outcomes))
           else rest (B_OK, ps @ [p], q, o2))"
        using False by (simp add: parse_parameters.simps(2) Inr r a rest_def Let_def split: sum.splits prod.splits)
      show ?thesis
      proof (cases "0 \<le> st \<and> st \<noteq> NO_PARAMETER \<and> ok \<and> q \<noteq> [] \<and> hd q = CHR ''{''")
        case True
        then have l: "length q < length pos" using q(2) by (auto simp: at_end_def)
        have "?ok (tl q) ?nested" by (rule Suc.IH) (use l Suc.prems in auto)
        moreover have t: "suffix (tl q) pos" using q(1) suffix_order.trans suffix_tl by blast
        moreover have "length (tl q) < length pos" using l by simp
        ultimately show ?thesis
          using True closed_suffix [OF t] suffix_order.trans [OF _ t] go suffix_length_le
          unfolding step by (fastforce split: sum.splits prod.splits)
      next
        case nest: False
        then show ?thesis using go [OF q(1)] q unfolding step by (auto simp: status)
      qed
    qed
  qed
qed simp

text \<open>
  C14. Parsing ends for every text and however many allocations fail, and stays inside the text unless a comment in it is not
  ended: the bound on the rounds is never used up, and the only fault is that the zero at the end of the text is skipped, which
  needs a \<open>#\<close> in the text with no newline anywhere behind it. An empty word, an open quote, an open brace or a final
  backslash never take the parser past the end.
\<close>

theorem parse_settings_ends:
  "(\<exists>r. parse_settings (Some text) outcomes = Inr r) \<or>
   parse_settings (Some text) outcomes = Inl Out_of_bounds \<and>
     (\<exists>pre rest. text = pre @ CHR ''#'' # rest \<and> newline \<notin> set rest)"
proof -
  have "length text < length text + 1" by simp
  note parse_parameters_sound [OF this, of 0 "[]" outcomes]
  then show ?thesis
    by (cases "parse_parameters (length text + 1) 0 [] text outcomes") (auto simp: parse_settings_def closed_text_def)
qed

text \<open>A comment that no newline ends takes the parser past the end of the text.\<close>

lemma comment_past_end:
  assumes "newline \<notin> set t"
  shows "parse_settings (Some (CHR ''#'' # t)) outcomes = Inl Out_of_bounds"
proof -
  have d: "dropWhile (\<lambda>c. c \<noteq> newline) t = []" using assms by (auto simp: dropWhile_eq_Nil_conv)
  have "get_word (CHR ''#'' # t) NO_ASSIGNMENT True = Inl Out_of_bounds" by (simp add: get_word_def skipped_def d)
  then show ?thesis by (simp add: parse_settings_def parse_parameters.simps(2) parse_parameter_def MAX_SETTINGS_LEVEL_def)
qed

subsection \<open>Settings that cannot be parsed\<close>

text \<open>
  C38. When a settings file that the boot loader has read cannot be parsed, the first driver that loads it gets nothing, but its text
  is freed while the parameters that have been read stay in the handle, and the handle stays valid: the next driver
  gets it, with names and values that point to freed memory.
\<close>

theorem settings_used_after_free:
  assumes "find_driver_settings st name = Some i" "ss_heap st i = Some h" "\<not> sh_valid h" "sh_ref_count h \<noteq> 0 \<or> \<not> boot"
    "0 \<le> sh_ref_count h" "parse_settings (sh_text h) (ss_outcomes st) = Inr (status, ps, outcomes)" "status \<noteq> B_OK"
  shows "\<exists>st1 st2 h2. load_driver_settings boot startup contents name st = Inr (None, st1) \<and>
    load_driver_settings boot startup contents name st1 = Inr (Some i, st2) \<and>
    ss_heap st2 i = Some h2 \<and> sh_parameters h2 = ps \<and> sh_text h2 = None \<and> get_driver_settings (Some i) st2 = Some ps"
proof -
  let ?h = "h\<lparr>sh_ref_count := sh_ref_count h + 1, sh_valid := True, sh_parameters := ps, sh_text := None\<rparr>"
  define st1 where "st1 = st\<lparr>ss_outcomes := outcomes, ss_heap := (ss_heap st)(i \<mapsto> ?h)\<rparr>"
  have one: "load_driver_settings boot startup contents name st = Inr (None, st1)"
    using assms by (auto simp: load_driver_settings_def Let_def st1_def)
  have name: "(map_option sh_name (ss_heap st1 j) = Some name) = (map_option sh_name (ss_heap st j) = Some name)" for j
    using assms(2) by (simp add: st1_def)
  have "find_driver_settings st1 name = Some i"
    using assms(1) unfolding find_driver_settings_def name by (simp add: st1_def)
  then have two: "load_driver_settings boot startup contents name st1 =
      Inr (Some i, st1\<lparr>ss_heap := (ss_heap st1)(i \<mapsto> ?h\<lparr>sh_ref_count := sh_ref_count h + 2\<rparr>)\<rparr>)"
    using assms(5) by (simp add: load_driver_settings_def Let_def st1_def add.commute)
  show ?thesis using one two by (fastforce simp: get_driver_settings_def check_handle_def)
qed

definition boot_settings :: settings_state where
  "boot_settings = snd (driver_settings_init [(''fat'', [CHR ''a'', CHR '' '', CHR ''1'', newline, CHR ''}''])]
     \<lparr>ss_heap = (\<lambda>_. None), ss_list = [], ss_free = 0, ss_outcomes = []\<rparr>)"

theorem settings_used_after_free_witness:
  "\<exists>st1 st2 h2. load_driver_settings False True None ''fat'' boot_settings = Inr (None, st1) \<and>
    load_driver_settings False True None ''fat'' st1 = Inr (Some 0, st2) \<and>
    ss_heap st2 0 = Some h2 \<and> sh_parameters h2 = [Driver_Parameter ''a'' [''1''] []] \<and> sh_text h2 = None \<and>
    get_driver_settings (Some 0) st2 = Some [Driver_Parameter ''a'' [''1''] []]"
proof -
  let ?text = "[CHR ''a'', CHR '' '', CHR ''1'', newline, CHR ''}'']"
  let ?h = "\<lparr>sh_name = ''fat'', sh_ref_count = 0, sh_valid = False, sh_parameters = [], sh_text = Some ?text\<rparr>"
  have st: "boot_settings = \<lparr>ss_heap = [0 \<mapsto> ?h], ss_list = [0], ss_free = 1, ss_outcomes = []\<rparr>"
    by (simp add: boot_settings_def settings_malloc_def allocate_def c_text_def B_SAFEMODE_DRIVER_SETTINGS_def)
  have a: "get_word ?text NO_ASSIGNMENT True = Inr (CONTINUE_PARAMETER, Some ''a'', [CHR ''1'', newline, CHR ''}''])"
    by (simp add: get_word_def skipped_def ends_word_def is_word_break_def isspace_def is_parameter_separator_def)
  have b: "get_word [CHR ''1'', newline, CHR ''}''] ALLOW_ASSIGNMENT False = Inr (B_OK, Some ''1'', ''}'')"
    by (simp add: get_word_def skipped_def ends_word_def is_word_break_def isspace_def is_parameter_separator_def)
  have "parse_values [] [CHR ''1'', newline, CHR ''}''] [] = Inr (B_OK, [''1''], ''}'', [])"
    by (subst parse_values.simps) (simp add: b allocate_def status)
  then have "parse_parameter ?text [] = Inr (B_OK, Driver_Parameter ''a'' [''1''] [], ''}'', [])"
    by (simp add: parse_parameter_def a)
  then have "parse_settings (Some ?text) [] = Inr (B_ERROR, [Driver_Parameter ''a'' [''1''] []], [])"
    by (simp add: parse_settings_def parse_parameters.simps(2) allocate_def MAX_SETTINGS_LEVEL_def status)
  then show ?thesis
    using settings_used_after_free [of boot_settings "''fat''" 0 ?h False B_ERROR "[Driver_Parameter ''a'' [''1''] []]" "[]" True None]
    by (simp add: st find_driver_settings_def status)
qed

end
