(* ===== verification/Settings_Text.thy ===== *)
theory Settings_Text
  imports Settings_Properties
begin

section \<open>Printed settings are read back\<close>

text \<open>The words that the printer keeps apart from each other: not empty, no backslash, and quoted or without a special character.\<close>

definition good_word :: "string \<Rightarrow> bool" where
  "good_word w \<longleftrightarrow> w \<noteq> [] \<and> backslash \<notin> set w \<and>
     (needs_quotes w \<or> hd w \<notin> {single_quote, CHR ''{'', CHR ''}'', CHR ''#''} \<and> CHR ''='' \<notin> set w)"

text \<open>Settings that can be printed: good words, and braces that are not nested too deeply.\<close>

fun printable :: "nat \<Rightarrow> driver_parameter \<Rightarrow> bool" where
  "printable level (Driver_Parameter name vs ps) \<longleftrightarrow>
     level \<le> MAX_SETTINGS_LEVEL \<and> good_word name \<and> (\<forall>v \<in> set vs. good_word v) \<and> (\<forall>p \<in> set ps. printable (level + 1) p)"

subsection \<open>One word\<close>

definition plain :: "char \<Rightarrow> bool" where
  "plain c \<longleftrightarrow> \<not> is_word_break c \<and> c \<notin> {CHR ''{'', CHR ''}'', CHR ''#''}"

text \<open>What follows a word: the end of the text or a character that ends words.\<close>

definition breaks :: "string \<Rightarrow> bool" where
  "breaks r \<longleftrightarrow> r = [] \<or> is_word_break (hd r)"

definition follow :: "string \<Rightarrow> status_t \<times> string" where
  "follow r = (if r = [] then (B_OK, []) else scan_next (is_parameter_separator (hd r)) (tl r))"

lemma follow_scan: "breaks r \<Longrightarrow> scan_next False r = follow r"
  by (cases r) (auto simp: breaks_def follow_def is_word_break_def isspace_def is_parameter_separator_def)

lemma quoted_head:
  assumes "good_word w"
  obtains c s where "quoted_string w = c # s" "plain c" "c \<noteq> CHR ''=''"
proof (cases "needs_quotes w")
  case True
  then show ?thesis using that by (simp add: quoted_string_def Let_def plain_def is_word_break_def isspace_def is_parameter_separator_def)
next
  case False
  obtain c v where w: "w = c # v" using assms by (cases w) (auto simp: good_word_def)
  have "concat (map (\<lambda>c. if c = double_quote then [backslash, c] else [c]) w) = w"
    using False by (induction w) (auto simp: needs_quotes_def)
  then have "quoted_string w = c # v" using False w by (simp add: quoted_string_def)
  moreover have "plain c" "c \<noteq> CHR ''=''" using assms False by (auto simp: good_word_def w plain_def needs_quotes_def)
  ultimately show ?thesis using that by blast
qed

lemma word_loop_plain:
  "\<forall>c \<in> set w. c \<noteq> backslash \<and> \<not> ends_word q mode c \<Longrightarrow> r = [] \<or> ends_word q mode (hd r) \<and> hd r \<noteq> backslash \<Longrightarrow>
   word_loop q mode False acc (w @ r) = (acc @ w, r, False)"
proof (induction w arbitrary: acc)
  case Nil
  then show ?case by (cases r) auto
qed auto

lemma word_loop_escaped:
  "backslash \<notin> set w \<Longrightarrow>
   word_loop (Some double_quote) mode False acc (concat (map (\<lambda>c. if c = double_quote then [backslash, c] else [c]) w) @ double_quote # r) =
     (acc @ concat (map (\<lambda>c. if c = double_quote then [backslash, c] else [c]) w), double_quote # r, False)"
  by (induction w arbitrary: acc) (auto simp: ends_word_def)

lemma unescape_escaped: "backslash \<notin> set w \<Longrightarrow> unescape (concat (map (\<lambda>c. if c = double_quote then [backslash, c] else [c]) w)) = w"
  by (induction w) auto

lemma unescape_plain: "backslash \<notin> set w \<Longrightarrow> unescape w = w"
  by (induction w) auto

lemma skip_nothing: "\<not> skipped mode nl c \<Longrightarrow> skip_blanks mode nl (c # s) = Some (c # s)"
  by simp

lemma plain_not_skipped: "plain c \<Longrightarrow> c \<noteq> CHR ''='' \<Longrightarrow> \<not> skipped mode nl c"
  by (auto simp: skipped_def plain_def is_word_break_def isspace_def)

text \<open>A printed word is read back, and what follows it decides how the parser goes on.\<close>

lemma get_word_quoted:
  assumes "good_word w" "breaks r"
  shows "get_word (quoted_string w @ r) mode nl = Inr (fst (follow r), Some w, snd (follow r))"
proof -
  obtain c s where c: "quoted_string w = c # s" "plain c" "c \<noteq> CHR ''=''" by (rule quoted_head [OF assms(1)])
  have skip: "skip_blanks mode nl (quoted_string w @ r) = Some (c # s @ r)"
    using plain_not_skipped [OF c(2,3)] by (simp add: c(1) skip_nothing)
  have b: "backslash \<notin> set w" using assms(1) by (simp add: good_word_def)
  show ?thesis
  proof (cases "needs_quotes w")
    case True
    let ?e = "concat (map (\<lambda>c. if c = double_quote then [backslash, c] else [c]) w)"
    have "quoted_string w = double_quote # ?e @ [double_quote]" using True by (simp add: quoted_string_def Let_def)
    then have e: "c = double_quote" "s = ?e @ [double_quote]" unfolding c(1) list.inject by blast+
    have "word_loop (Some double_quote) mode False [] (s @ r) = (?e, double_quote # r, False)"
      using word_loop_escaped [OF b, of mode "[]" r] by (simp add: e)
    then show ?thesis
      using unescape_escaped [OF b] follow_scan [OF assms(2)]
      by (simp add: get_word_def skip e(1) is_parameter_separator_def split: prod.splits)
  next
    case False
    have "concat (map (\<lambda>c. if c = double_quote then [backslash, c] else [c]) w) = w"
      using False by (induction w) (auto simp: needs_quotes_def)
    then have q: "c # s = w" using c(1) False by (simp add: quoted_string_def)
    have n: "c \<noteq> single_quote" "c \<noteq> double_quote" "c \<noteq> CHR ''}''"
      using assms(1) False by (auto simp: good_word_def needs_quotes_def simp flip: q)
    have "word_loop None mode False [] (w @ r) = ([] @ w, r, False)"
    proof (rule word_loop_plain)
      show "\<forall>c \<in> set w. c \<noteq> backslash \<and> \<not> ends_word None mode c"
        using assms(1) False b by (auto simp: good_word_def needs_quotes_def ends_word_def)
      show "r = [] \<or> ends_word None mode (hd r) \<and> hd r \<noteq> backslash"
        using assms(2) by (auto simp: breaks_def ends_word_def is_word_break_def isspace_def is_parameter_separator_def)
    qed
    then have "word_loop None mode False [] (c # s @ r) = (w, r, False)" using q by (metis append_Cons append_Nil)
    then show ?thesis
      using n unescape_plain [OF b] by (simp add: get_word_def skip follow_def split: prod.splits)
  qed
qed

subsection \<open>Blanks\<close>

definition blank :: "string \<Rightarrow> bool" where
  "blank b \<longleftrightarrow> (\<forall>c \<in> set b. is_word_break c)"

lemma blank_simps [simp]: "blank []" "blank (c # b) \<longleftrightarrow> is_word_break c \<and> blank b" "blank (a @ b) \<longleftrightarrow> blank a \<and> blank b"
  "blank (replicate n tab)" "is_word_break newline" "is_word_break CHR '' ''" "is_word_break CHR '';''"
  by (auto simp: blank_def is_word_break_def isspace_def is_parameter_separator_def)

lemma skip_blank: "blank b \<Longrightarrow> skip_blanks NO_ASSIGNMENT True (b @ s) = skip_blanks NO_ASSIGNMENT True s"
proof (induction b)
  case (Cons c b)
  then have "skipped NO_ASSIGNMENT True c" "c \<noteq> CHR ''#''"
    by (auto simp: skipped_def is_word_break_def isspace_def is_parameter_separator_def)
  then show ?case using Cons by simp
qed simp

lemma get_word_same:
  assumes "skip_blanks mode nl t = skip_blanks mode nl s" "get_word s mode nl = Inr (st, w, p)" "0 \<le> st"
  shows "get_word t mode nl = Inr (st, w, p)"
proof -
  obtain p0 where p0: "skip_blanks mode nl s = Some p0" using assms(2) by (auto simp: get_word_def split: option.splits)
  then have skip: "skip_blanks mode nl t = Some p0" by (simp only: assms(1))
  define q where "q = (if hd p0 = double_quote \<or> hd p0 = single_quote then Some (hd p0) else None)"
  obtain v r e where w: "word_loop q mode False [] (if q = None then p0 else tl p0) = (v, r, e)"
    by (cases "word_loop q mode False [] (if q = None then p0 else tl p0)")
  have g: "get_word u mode nl =
      (if p0 = [] \<or> hd p0 = CHR ''}'' then Inr (NO_PARAMETER, None, p0)
       else if q \<noteq> None \<and> r = [] then Inr (B_BAD_DATA, None, u)
       else if e then Inr (B_BAD_DATA, None, u)
       else if r = [] then Inr (B_OK, Some (unescape v), [])
       else case scan_next (is_parameter_separator (hd r)) (tl r) of (status, pos) \<Rightarrow> Inr (status, Some (unescape v), pos))"
    if "skip_blanks mode nl u = Some p0" for u
    unfolding get_word_def that option.case q_def [symmetric] Let_def w prod.case ..
  show ?thesis using assms(2,3) unfolding g [OF p0] g [OF skip] by (auto simp: status split: if_split_asm)
qed

text \<open>A place where the parser stands still: the end, or a character that is not a blank.\<close>

definition solid :: "string \<Rightarrow> bool" where
  "solid s \<longleftrightarrow> s = [] \<or> \<not> is_word_break (hd s)"

lemma scan_blank:
  "blank b \<Longrightarrow> solid s \<Longrightarrow> \<exists>b'. blank b' \<and> length b' \<le> length b \<and> scan_next True (b @ s) = (B_OK, b' @ s)"
proof (induction b)
  case Nil
  then show ?case by (cases s) (auto simp: solid_def is_word_break_def)
next
  case (Cons c b)
  show ?case
  proof (cases "is_parameter_separator c")
    case True
    then show ?thesis using Cons.prems by (intro exI [of _ "c # b"]) simp
  next
    case False
    then have "isspace c" "c \<noteq> CHR ''{''" "c \<noteq> CHR ''}''" "c \<noteq> CHR ''#''"
      using Cons.prems(1) by (auto simp: is_word_break_def isspace_def)
    then show ?thesis using Cons False by (auto intro: le_SucI)
  qed
qed

subsection \<open>One parameter\<close>

definition values_text :: "string list \<Rightarrow> string" where
  "values_text vs = concat (map (\<lambda>v. CHR '' '' # quoted_string v) vs)"

definition equals_text :: "bool \<Rightarrow> string list \<Rightarrow> string" where
  "equals_text flat vs = (if flat \<and> vs \<noteq> [] then '' ='' else [])"

lemma follow_word:
  assumes "good_word w"
  shows "follow (CHR '' '' # quoted_string w @ r) = (CONTINUE_PARAMETER, quoted_string w @ r)"
proof -
  obtain c s where "quoted_string w = c # s" "plain c" "c \<noteq> CHR ''=''" by (rule quoted_head [OF assms])
  then show ?thesis by (simp add: follow_def plain_def is_word_break_def is_parameter_separator_def)
qed

lemma parse_values_text:
  assumes "breaks r" "fst (follow r) = B_OK"
  shows "\<forall>v \<in> set (v # vs). good_word v \<Longrightarrow> pre = [] \<or> pre = ''= '' \<and> acc = [] \<Longrightarrow>
    parse_values acc (pre @ quoted_string v @ values_text vs @ r) [] = Inr (B_OK, acc @ v # vs, snd (follow r), [])"
proof (induction vs arbitrary: acc pre v)
  case Nil
  let ?mode = "if acc = [] then ALLOW_ASSIGNMENT else IGNORE_ASSIGNMENT"
  have g: "get_word (quoted_string v @ r) ?mode False = Inr (B_OK, Some v, snd (follow r))"
    using get_word_quoted [of v r ?mode False] Nil.prems(1) assms by simp
  have sk: "skip_blanks ?mode False (pre @ quoted_string v @ r) = skip_blanks ?mode False (quoted_string v @ r)"
    using Nil.prems(2) by (auto simp: skipped_def)
  have "get_word (pre @ quoted_string v @ r) ?mode False = Inr (B_OK, Some v, snd (follow r))"
    by (rule get_word_same [OF sk g]) (simp add: status)
  then show ?case by (subst parse_values.simps) (simp add: values_text_def allocate_def status)
next
  case (Cons v2 vs)
  let ?mode = "if acc = [] then ALLOW_ASSIGNMENT else IGNORE_ASSIGNMENT" and ?r = "quoted_string v2 @ values_text vs @ r"
  have t: "values_text (v2 # vs) @ r = CHR '' '' # ?r" by (simp add: values_text_def)
  have g: "get_word (quoted_string v @ CHR '' '' # ?r) ?mode False = Inr (CONTINUE_PARAMETER, Some v, ?r)"
    using get_word_quoted [of v "CHR '' '' # ?r" ?mode False] follow_word [of v2 "values_text vs @ r"] Cons.prems(1) by (simp add: breaks_def)
  have sk: "skip_blanks ?mode False (pre @ quoted_string v @ CHR '' '' # ?r) = skip_blanks ?mode False (quoted_string v @ CHR '' '' # ?r)"
    using Cons.prems(2) by (auto simp: skipped_def)
  have "get_word (pre @ quoted_string v @ CHR '' '' # ?r) ?mode False = Inr (CONTINUE_PARAMETER, Some v, ?r)"
    by (rule get_word_same [OF sk g]) (simp add: status)
  then have "parse_values acc (pre @ quoted_string v @ CHR '' '' # ?r) [] = parse_values (acc @ [v]) ?r []"
    by (subst parse_values.simps) (simp add: allocate_def status)
  then show ?case using Cons.IH [of v2 "[]" "acc @ [v]"] Cons.prems(1) unfolding t by simp
qed

lemma parse_parameter_text:
  assumes "good_word name" "\<forall>v \<in> set vs. good_word v" "breaks r" "fst (follow r) = B_OK" "blank b"
  shows "parse_parameter (b @ quoted_string name @ equals_text flat vs @ values_text vs @ r) [] =
    Inr (B_OK, Driver_Parameter name vs [], snd (follow r), [])"
proof (cases vs)
  case Nil
  have "get_word (quoted_string name @ r) NO_ASSIGNMENT True = Inr (B_OK, Some name, snd (follow r))"
    using get_word_quoted [OF assms(1,3), of NO_ASSIGNMENT True] assms(4) by simp
  then have "get_word (b @ quoted_string name @ r) NO_ASSIGNMENT True = Inr (B_OK, Some name, snd (follow r))"
    by (rule get_word_same [OF skip_blank [OF assms(5)]]) (simp add: status)
  then show ?thesis by (simp add: parse_parameter_def Nil equals_text_def values_text_def status)
next
  case (Cons v us)
  let ?pre = "if flat then ''= '' else []" and ?v = "quoted_string v @ values_text us @ r"
  have t: "equals_text flat vs @ values_text vs @ r = CHR '' '' # ?pre @ ?v" by (simp add: equals_text_def values_text_def Cons)
  have v: "good_word v" using assms(2) Cons by simp
  have "follow (CHR '' '' # ?pre @ ?v) = (CONTINUE_PARAMETER, ?pre @ ?v)"
    using follow_word [OF v, of "values_text us @ r"] by (simp add: follow_def is_parameter_separator_def isspace_def)
  then have "get_word (quoted_string name @ CHR '' '' # ?pre @ ?v) NO_ASSIGNMENT True = Inr (CONTINUE_PARAMETER, Some name, ?pre @ ?v)"
    using get_word_quoted [OF assms(1), of "CHR '' '' # ?pre @ ?v" NO_ASSIGNMENT True] by (simp add: breaks_def)
  then have "get_word (b @ quoted_string name @ CHR '' '' # ?pre @ ?v) NO_ASSIGNMENT True = Inr (CONTINUE_PARAMETER, Some name, ?pre @ ?v)"
    by (rule get_word_same [OF skip_blank [OF assms(5)]]) (simp add: status)
  moreover have "parse_values [] (?pre @ ?v) [] = Inr (B_OK, [] @ v # us, snd (follow r), [])"
    by (rule parse_values_text [OF assms(3,4)]) (use assms(2) Cons in auto)
  ultimately show ?thesis unfolding t by (simp add: parse_parameter_def Cons)
qed

subsection \<open>What is printed\<close>

definition indent_text :: "nat \<Rightarrow> bool \<Rightarrow> string" where
  "indent_text level flat = (if flat then [] else replicate level tab)"

definition end_text :: "bool \<Rightarrow> driver_parameter \<Rightarrow> string" where
  "end_text flat p = (if dp_parameters p \<noteq> [] then [] else if flat then ''; '' else [newline])"

fun core_text :: "driver_parameter \<Rightarrow> nat \<Rightarrow> bool \<Rightarrow> string" where
  "core_text (Driver_Parameter name vs ps) level flat =
     quoted_string name @ equals_text flat vs @ values_text vs @
     (if ps = [] then []
      else '' {'' @ (if flat then [] else [newline]) @
        concat (map (\<lambda>p. indent_text (level + 1) flat @ core_text p (level + 1) flat @ end_text flat p) ps) @
        indent_text level flat @ CHR ''}'' # (if flat then [] else [newline]))"

definition settings_text :: "driver_parameter list \<Rightarrow> bool \<Rightarrow> string" where
  "settings_text ps flat = concat (map (\<lambda>p. core_text p 0 flat) ps)"

text \<open>An operation of the printer that adds a text when there is room for it.\<close>

definition writes :: "string \<Rightarrow> (printed \<Rightarrow> printed) \<Rightarrow> bool" where
  "writes u f \<longleftrightarrow> (\<forall>t n. int (length u) < n \<longrightarrow> f (t, n) = (t @ u, n - int (length u)))"

lemma writes_nothing: "writes [] (\<lambda>st. st)"
  by (simp add: writes_def)

lemma writes_text: "writes u (put_text u)"
  by (simp add: writes_def put_text_def Let_def)

lemma writes_then: "writes u f \<Longrightarrow> writes v g \<Longrightarrow> writes (u @ v) (\<lambda>st. g (f st))"
  by (simp add: writes_def)

lemma writes_cong: "writes u f \<Longrightarrow> u = u' \<Longrightarrow> (\<And>st. f st = g st) \<Longrightarrow> writes u' g"
  by (simp add: writes_def)

lemma writes_if: "writes u f \<Longrightarrow> writes (if c then u else []) (\<lambda>st. if c then f st else st)"
  by (simp add: writes_def)

lemma writes_unless: "writes u f \<Longrightarrow> writes (if c then [] else u) (\<lambda>st. if c then st else f st)"
  by (simp add: writes_def)

lemma writes_fold: "(\<And>x. x \<in> set xs \<Longrightarrow> writes (u x) (f x)) \<Longrightarrow> writes (concat (map u xs)) (fold f xs)"
proof (induction xs)
  case (Cons x xs)
  have "writes (u x @ concat (map u xs)) (\<lambda>st. fold f xs (f x st))" using Cons by (intro writes_then) auto
  then show ?case by (simp add: comp_def)
qed (simp add: writes_def)

lemma writes_indent: "writes (indent_text level flat) (\<lambda>st. if flat then st else put_level_space level st)"
proof -
  have "writes (replicate n tab) (put_char tab ^^ n)" for n
  proof (induction n)
    case (Suc n)
    have "writes (replicate n tab @ [tab]) (\<lambda>st. put_char tab ((put_char tab ^^ n) st))"
      unfolding put_char_def by (rule writes_then [OF Suc [unfolded put_char_def] writes_text])
    then show ?case by (simp add: replicate_append_same comp_def)
  qed (simp add: writes_def)
  then show ?thesis by (simp add: indent_text_def put_level_space_def writes_def)
qed

lemma writes_values: "writes (values_text vs) (fold (\<lambda>v st. put_string v (put_char CHR '' '' st)) vs)"
proof -
  have "writes ([CHR '' ''] @ quoted_string v) (\<lambda>st. put_string v (put_char CHR '' '' st))" for v
    unfolding put_string_def put_char_def by (intro writes_then writes_text)
  then show ?thesis unfolding values_text_def by (intro writes_fold) simp
qed

lemma writes_parameter: "writes (indent_text level flat @ core_text p level flat) (put_parameter p level flat)"
proof (induction p arbitrary: level)
  case (Driver_Parameter name vs ps)
  let ?child = "\<lambda>p. (indent_text (level + 1) flat @ core_text p (level + 1) flat) @ end_text flat p"
  let ?put = "\<lambda>p st. if dp_parameters p = [] then put_chars (if flat then ''; '' else [newline]) (put_parameter p (level + 1) flat st)
    else put_parameter p (level + 1) flat st"
  have head: "writes (((indent_text level flat @ quoted_string name) @ equals_text flat vs) @ values_text vs)
      (\<lambda>st. fold (\<lambda>v st. put_string v (put_char CHR '' '' st)) vs
        ((\<lambda>st. if flat \<and> vs \<noteq> [] then put_chars '' ='' st else st) (put_string name (if flat then st else put_level_space level st))))"
    unfolding equals_text_def put_string_def [of name] put_chars_def
    by (intro writes_then writes_values writes_if writes_text writes_indent)
  have "writes (?child p) (?put p)" if "p \<in> set ps" for p
  proof -
    have "writes (?child p) (\<lambda>st. (\<lambda>st. if dp_parameters p \<noteq> [] then st else put_chars (if flat then ''; '' else [newline]) st) (put_parameter p (level + 1) flat st))"
      unfolding end_text_def put_chars_def by (intro writes_then writes_unless writes_text Driver_Parameter.IH that)
    then show ?thesis by (cases "dp_parameters p = []") simp_all
  qed
  then have kids: "writes (concat (map ?child ps)) (fold ?put ps)" by (rule writes_fold)
  let ?close = "if flat then ''}'' else [CHR ''}'', newline]"
  note body = writes_then [OF writes_then [OF writes_then [OF writes_then [OF writes_text [of "'' {''"]
      writes_unless [OF writes_text [of "[newline]"], of flat]] kids] writes_indent [of level flat]] writes_text [of ?close]]
  show ?case
  proof (cases "ps = []")
    case True
    then show ?thesis using head by (simp add: Let_def)
  next
    case False
    then show ?thesis
      by (intro writes_cong [OF writes_then [OF head body]]) (simp_all add: Let_def put_chars_def put_char_def cong: if_cong)
  qed
qed

lemma get_settings_string:
  assumes "int (length (settings_text ps flat)) < n"
  shows "get_driver_settings_string ps n flat = (B_OK, int (length (settings_text ps flat)), settings_text ps flat)"
proof -
  have "writes (core_text p 0 flat) (put_parameter p 0 flat)" for p
    using writes_parameter [of 0 flat p] by (cases flat) (simp_all add: indent_text_def)
  then have "writes (settings_text ps flat) (fold (\<lambda>p. put_parameter p 0 flat) ps)"
    unfolding settings_text_def by (intro writes_fold)
  then show ?thesis using assms by (simp add: writes_def get_driver_settings_string_def)
qed

subsection \<open>What is read\<close>

text \<open>What a round of the parser does behind a parameter.\<close>

type_synonym parsed = "fault + status_t \<times> driver_parameter list \<times> string \<times> bool list"

definition finish :: "nat \<Rightarrow> nat \<Rightarrow> driver_parameter list \<Rightarrow> string \<Rightarrow> parsed" where
  "finish k level ps pos =
     (if pos \<noteq> [] \<and> hd pos = CHR ''}'' \<and> level > 0 then Inr (B_OK, ps, tl pos, [])
      else if pos = [] \<and> level = 0 then Inr (B_OK, ps, pos, [])
      else if pos = [] \<or> hd pos = CHR ''}'' then Inr (B_ERROR, ps, pos, [])
      else parse_parameters k level ps pos [])"

lemma finish_goes_on: "\<not> at_end pos \<Longrightarrow> finish k level ps pos = parse_parameters k level ps pos []"
  by (auto simp: finish_def at_end_def)

lemma parse_leaf:
  assumes "level \<le> MAX_SETTINGS_LEVEL" "parse_parameter pos [] = Inr (B_OK, p, q, [])" "q = [] \<or> hd q \<noteq> CHR ''{''"
  shows "parse_parameters (Suc k) level ps pos [] = finish k level (ps @ [p]) q"
  using assms by (auto simp: parse_parameters.simps(2) finish_def allocate_def status)

lemma parse_node:
  assumes "level \<le> MAX_SETTINGS_LEVEL" "parse_parameter pos [] = Inr (B_OK, p, CHR ''{'' # q, [])"
    "parse_parameters k (level + 1) [] q [] = Inr (B_OK, qs, r, [])"
  shows "parse_parameters (Suc k) level ps pos [] = finish k level (ps @ [Driver_Parameter (dp_name p) (dp_values p) qs]) r"
  using assms by (auto simp: parse_parameters.simps(2) finish_def allocate_def status)

lemma parse_none:
  assumes "level \<le> MAX_SETTINGS_LEVEL" "parse_parameter pos [] = Inr (NO_PARAMETER, p, q, [])"
  shows "parse_parameters (Suc k) level ps pos [] = finish k level ps q"
  using assms by (auto simp: parse_parameters.simps(2) finish_def status)

declare core_text.simps [simp del]

text \<open>A solid text from which the parser, started before it with any blanks, gets the result \<open>res\<close>.\<close>

definition reads :: "nat \<Rightarrow> string \<Rightarrow> (driver_parameter list \<Rightarrow> parsed) \<Rightarrow> bool" where
  "reads level t res \<longleftrightarrow> solid t \<and> (t = [] \<or> hd t \<noteq> CHR ''{'') \<and>
     (\<forall>k ps b. blank b \<longrightarrow> length (b @ t) < k \<longrightarrow> finish k level ps (b @ t) = res ps)"

lemma readsD: "reads level t res \<Longrightarrow> blank b \<Longrightarrow> length (b @ t) < k \<Longrightarrow> finish k level ps (b @ t) = res ps"
  by (auto simp: reads_def)

lemma parse_blank_end:
  assumes "blank b" "at_end t" "level \<le> MAX_SETTINGS_LEVEL"
  shows "parse_parameters (Suc k) level ps (b @ t) [] = finish k level ps t"
proof (rule parse_none [OF assms(3)])
  have "skip_blanks NO_ASSIGNMENT True t = Some t"
    using assms(2) by (cases t) (auto simp: at_end_def skipped_def isspace_def is_parameter_separator_def)
  then show "parse_parameter (b @ t) [] = Inr (NO_PARAMETER, Driver_Parameter [] [] [], t, [])"
    using assms(2) by (auto simp: parse_parameter_def get_word_def skip_blank [OF assms(1)] at_end_def status)
qed

lemma reads_end:
  assumes "level \<le> MAX_SETTINGS_LEVEL" "at_end t" "\<And>k ps. finish k level ps t = res ps"
  shows "reads level t res"
proof -
  have "solid t" "t = [] \<or> hd t \<noteq> CHR ''{''"
    using assms(2) by (auto simp: at_end_def solid_def is_word_break_def isspace_def is_parameter_separator_def)
  moreover have "finish k level ps (b @ t) = res ps" if b: "blank b" and l: "length (b @ t) < k" for k ps b
  proof (cases b)
    case (Cons c b')
    obtain k' where k: "k = Suc k'" using l by (cases k) auto
    have "\<not> at_end (b @ t)" using b by (auto simp: Cons at_end_def is_word_break_def isspace_def is_parameter_separator_def)
    then show ?thesis using parse_blank_end [OF b assms(2,1)] assms(3) by (simp add: finish_goes_on k)
  qed (use assms(3) in simp)
  ultimately show ?thesis by (simp add: reads_def)
qed

lemma core_head:
  assumes "printable level p"
  obtains c s where "core_text p level' flat = c # s" "plain c"
proof -
  obtain name vs ps where p: "p = Driver_Parameter name vs ps" by (cases p)
  obtain c s where "quoted_string name = c # s" "plain c" by (rule quoted_head [of name]) (use assms p in auto)
  then show ?thesis using that by (simp add: p core_text.simps)
qed

lemma plain_not_end: "plain c \<Longrightarrow> blank b \<Longrightarrow> \<not> at_end (b @ c # s)"
  by (cases b) (auto simp: at_end_def plain_def is_word_break_def isspace_def is_parameter_separator_def)

text \<open>What may stand between a parameter and what follows it.\<close>

definition between :: "driver_parameter \<Rightarrow> string \<Rightarrow> string \<Rightarrow> bool" where
  "between p e t \<longleftrightarrow> blank e \<and> (dp_parameters p = [] \<longrightarrow> e = [] \<and> t = [] \<or> e \<noteq> [] \<and> is_parameter_separator (hd e))"

lemma reads_parameter:
  "printable level p \<Longrightarrow> reads level t res \<Longrightarrow> between p e t \<Longrightarrow>
   reads level (core_text p level flat @ e @ t) (\<lambda>ps. res (ps @ [p]))"
proof (induction p arbitrary: level t res e)
  case (Driver_Parameter name vs qs)
  let ?p = "Driver_Parameter name vs qs"
  have level: "level \<le> MAX_SETTINGS_LEVEL" and name: "good_word name" and vs: "\<forall>v \<in> set vs. good_word v"
    and qs: "\<forall>q \<in> set qs. printable (level + 1) q" using Driver_Parameter.prems(1) by auto
  obtain c s where c: "core_text ?p level flat = c # s" "plain c" by (rule core_head [OF Driver_Parameter.prems(1)])
  have solid: "solid (core_text ?p level flat @ e @ t)" "hd (core_text ?p level flat @ e @ t) \<noteq> CHR ''{''"
    using c(2) by (auto simp: c(1) solid_def plain_def)
  have "finish k level ps (b @ core_text ?p level flat @ e @ t) = res (ps @ [?p])"
    if b: "blank b" and k: "length (b @ core_text ?p level flat @ e @ t) < k" for k ps b
  proof -
    obtain k' where k': "k = Suc k'" using k by (cases k) auto
    have go: "finish k level ps (b @ core_text ?p level flat @ e @ t) = parse_parameters (Suc k') level ps (b @ core_text ?p level flat @ e @ t) []"
      unfolding k' by (rule finish_goes_on) (simp only: c(1) append_Cons plain_not_end [OF c(2) b] not_False_eq_True)
    show ?thesis
    proof (cases "qs = []")
      case True
      have t: "core_text ?p level flat @ e @ t = quoted_string name @ equals_text flat vs @ values_text vs @ (e @ t)" by (simp add: True core_text.simps)
      obtain b' where b': "blank b'" "length b' \<le> length e" "follow (e @ t) = (B_OK, b' @ t)" "breaks (e @ t)"
      proof (cases e)
        case Nil
        then have "t = []" using Driver_Parameter.prems(3) True by (simp add: between_def)
        then show ?thesis using that [of "[]"] Nil by (simp add: follow_def breaks_def)
      next
        case (Cons x e')
        then have e: "is_parameter_separator x" "blank e'" "is_word_break x" using Driver_Parameter.prems(3) True by (auto simp: between_def)
        obtain b' where "blank b'" "length b' \<le> length e'" "scan_next True (e' @ t) = (B_OK, b' @ t)"
          using scan_blank [OF e(2)] Driver_Parameter.prems(2) unfolding reads_def by blast
        then show ?thesis using that [of b'] e Cons by (simp add: follow_def breaks_def)
      qed
      have "parse_parameter (b @ core_text ?p level flat @ e @ t) [] = Inr (B_OK, ?p, b' @ t, [])"
        unfolding t using parse_parameter_text [OF name vs b'(4) _ b, of flat] b'(3) True by simp
      moreover have "b' @ t = [] \<or> hd (b' @ t) \<noteq> CHR ''{''"
        using b'(1) Driver_Parameter.prems(2) by (cases b') (auto simp: reads_def is_word_break_def isspace_def is_parameter_separator_def)
      moreover have "length (b' @ t) < k'" using b'(2) k k' by (simp add: c(1))
      ultimately show ?thesis
        unfolding go using parse_leaf [OF level, of _ ?p "b' @ t"] readsD [OF Driver_Parameter.prems(2) b'(1)] by simp
    next
      case False
      let ?nl = "if flat then [] else [newline]"
      let ?rest = "?nl @ e @ t"
      let ?kids = "\<lambda>qs. concat (map (\<lambda>p. indent_text (level + 1) flat @ core_text p (level + 1) flat @ end_text flat p) qs)"
      let ?close = "indent_text level flat @ CHR ''}'' # ?rest"
      let ?inner = "?nl @ ?kids qs @ ?close"
      have t: "core_text ?p level flat @ e @ t = quoted_string name @ equals_text flat vs @ values_text vs @ ('' {'' @ ?inner)" by (simp add: False core_text.simps)
      have "parse_parameter (b @ core_text ?p level flat @ e @ t) [] = Inr (B_OK, Driver_Parameter name vs [], CHR ''{'' # ?inner, [])"
        unfolding t using parse_parameter_text [OF name vs _ _ b, of "'' {'' @ ?inner" flat]
        by (simp add: breaks_def follow_def is_parameter_separator_def)
      have "\<exists>q. q \<in> set qs" using False by (cases qs) auto
      then obtain q0 where q0: "q0 \<in> set qs" by blast
      then have "printable (level + 1) q0" using qs by blast
      then have level1: "level + 1 \<le> MAX_SETTINGS_LEVEL" by (cases q0) simp
      have blanks: "blank (indent_text l flat)" for l by (simp add: indent_text_def)
      have sep: "between q (end_text flat q @ x) y" if "blank x" for q x y
        using that by (auto simp: between_def end_text_def is_parameter_separator_def)
      have kids: "us \<noteq> [] \<Longrightarrow> set us \<subseteq> set qs \<Longrightarrow> \<exists>x y. ?kids us @ ?close = x @ y \<and> blank x \<and> y \<noteq> [] \<and> plain (hd y) \<and>
          reads (level + 1) y (\<lambda>ps. Inr (B_OK, ps @ us, ?rest, []))" for us
      proof (induction us)
        case (Cons q us)
        have q: "q \<in> set qs" "printable (level + 1) q" using Cons.prems qs by auto
        have "\<exists>x y. ?kids us @ ?close = x @ y \<and> blank x \<and> reads (level + 1) y (\<lambda>ps. Inr (B_OK, ps @ us, ?rest, []))"
        proof (cases "us = []")
          case True
          have "reads (level + 1) (CHR ''}'' # ?rest) (\<lambda>ps. Inr (B_OK, ps, ?rest, []))"
            by (rule reads_end [OF level1]) (simp_all add: at_end_def finish_def)
          then show ?thesis using True blanks by (intro exI [of _ "indent_text level flat"] exI [of _ "CHR ''}'' # ?rest"]) simp
        next
          case False
          then show ?thesis using Cons.IH Cons.prems(2) by fastforce
        qed
        then obtain x y where xy: "?kids us @ ?close = x @ y" "blank x" "reads (level + 1) y (\<lambda>ps. Inr (B_OK, ps @ us, ?rest, []))" by blast
        let ?y = "core_text q (level + 1) flat @ (end_text flat q @ x) @ y"
        have "reads (level + 1) ?y (\<lambda>ps. Inr (B_OK, (ps @ [q]) @ us, ?rest, []))"
          by (rule Driver_Parameter.IH [OF q xy(3) sep [OF xy(2)]])
        moreover obtain c' s' where "core_text q (level + 1) flat = c' # s'" "plain c'" by (rule core_head [OF q(2)])
        moreover have "?kids (q # us) @ ?close = indent_text (level + 1) flat @ ?y" using xy(1) by simp
        ultimately show ?case using blanks by (intro exI [of _ "indent_text (level + 1) flat"] exI [of _ ?y]) simp
      qed simp
      obtain x y where xy: "?kids qs @ ?close = x @ y" "blank x" "y \<noteq> []" "plain (hd y)"
        "reads (level + 1) y (\<lambda>ps. Inr (B_OK, ps @ qs, ?rest, []))" using kids [OF False] by blast
      have y: "\<not> at_end ((?nl @ x) @ y)" using plain_not_end [OF xy(4), of "?nl @ x" "tl y"] xy(2,3) by simp
      have len: "length ((?nl @ x) @ y) < k'"
      proof -
        have "length ?inner < length (core_text ?p level flat @ e @ t)" unfolding t by simp
        then show ?thesis using k k' unfolding xy(1) by simp
      qed
      have nl: "blank (?nl @ x)" using xy(2) by simp
      have "parse_parameters k' (level + 1) [] ?inner [] = Inr (B_OK, qs, ?rest, [])"
        using readsD [OF xy(5) nl len, of "[]"] finish_goes_on [OF y, of k' "level + 1" "[]"] unfolding xy(1) by simp
      then have "parse_parameters (Suc k') level ps (b @ core_text ?p level flat @ e @ t) [] =
          finish k' level (ps @ [?p]) ?rest"
        using parse_node [OF level \<open>parse_parameter _ _ = _\<close>] by simp
      moreover have "blank (?nl @ e)" using Driver_Parameter.prems(3) by (simp add: between_def)
      moreover have "length ((?nl @ e) @ t) < k'" using k k' unfolding t by (simp split: if_split_asm)
      ultimately show ?thesis unfolding go using readsD [OF Driver_Parameter.prems(2), of "?nl @ e" k' "ps @ [?p]"] by simp
    qed
  qed
  then show ?case using solid unfolding reads_def by blast
qed

subsection \<open>All parameters\<close>

lemma reads_settings:
  "\<forall>p \<in> set ps. printable 0 p \<Longrightarrow> \<forall>p \<in> set (butlast ps). dp_parameters p \<noteq> [] \<Longrightarrow>
   reads 0 (settings_text ps flat) (\<lambda>qs. Inr (B_OK, qs @ ps, [], []))"
proof (induction ps)
  case Nil
  have "reads 0 [] (\<lambda>qs. Inr (B_OK, qs, [], []))" by (rule reads_end) (simp_all add: at_end_def finish_def)
  then show ?case by (simp add: settings_text_def)
next
  case (Cons p ps)
  have "between p [] (settings_text ps flat)"
    using Cons.prems(2) by (cases "ps = []") (auto simp: between_def settings_text_def)
  moreover have "\<forall>p \<in> set (butlast ps). dp_parameters p \<noteq> []" using Cons.prems(2) by (cases ps) auto
  ultimately have "reads 0 (core_text p 0 flat @ [] @ settings_text ps flat) (\<lambda>qs. Inr (B_OK, (qs @ [p]) @ ps, [], []))"
    using Cons.prems(1) by (intro reads_parameter Cons.IH) auto
  then show ?case by (simp add: settings_text_def)
qed

lemma parse_settings_text:
  assumes "\<forall>p \<in> set ps. printable 0 p" "\<forall>p \<in> set (butlast ps). dp_parameters p \<noteq> []"
  shows "parse_settings (Some (settings_text ps flat)) [] = Inr (B_OK, ps, [])"
proof (cases ps)
  case Nil
  have "parse_parameters (Suc 0) 0 [] ([] @ []) [] = finish 0 0 [] []" by (rule parse_blank_end) (simp_all add: at_end_def)
  then show ?thesis by (simp add: Nil settings_text_def parse_settings_def finish_def)
next
  case (Cons p qs)
  let ?t = "settings_text ps flat"
  obtain c s where c: "core_text p 0 flat = c # s" "plain c" by (rule core_head [of 0 p]) (use assms(1) Cons in auto)
  then have t: "?t = [] @ c # (s @ settings_text qs flat)" by (simp add: Cons settings_text_def)
  have "\<not> at_end ?t" unfolding t by (rule plain_not_end [OF c(2)]) simp
  then have "parse_parameters (length ?t + 1) 0 [] ?t [] = finish (length ?t + 1) 0 [] ([] @ ?t)" by (simp add: finish_goes_on)
  also have "\<dots> = Inr (B_OK, [] @ ps, [], [])" by (rule readsD [OF reads_settings [OF assms]]) simp_all
  finally show ?thesis by (simp add: parse_settings_def)
qed

text \<open>
  C20. Settings that are printed into a buffer with room for them, over several lines or on one, are the same settings when
  they are parsed again: names and values, quotes and spaces in them included, and parameters of parameters. The words must not be
  empty and not have backslashes, which the printer does not escape; a word that is printed without quotes must not have an equals
  sign, nor start with a brace, a \<open>#\<close> or a single quote; parameters are nested eight deep below the outermost ones at most;
  and only the last of the outermost parameters may be without parameters of its own, since nothing is printed between them
  (see \<open>printed_parameters_merge\<close> for two such ones).
\<close>

theorem settings_roundtrip:
  assumes "\<forall>p \<in> set ps. printable 0 p" "\<forall>p \<in> set (butlast ps). dp_parameters p \<noteq> []" "int (length (settings_text ps flat)) < n"
  shows "\<exists>t. get_driver_settings_string ps n flat = (B_OK, int (length t), t) \<and> parse_settings (Some t) [] = Inr (B_OK, ps, [])"
  using get_settings_string [OF assms(3)] parse_settings_text [OF assms(1,2)] by blast

definition sample_settings :: "driver_parameter list" where
  "sample_settings = [Driver_Parameter ''disk'' [''master'', ''my disk''] [Driver_Parameter ''lock'' [] [], Driver_Parameter ''say'' [[double_quote, CHR ''a'']] []],
     Driver_Parameter ''mode'' [''2''] []]"

theorem settings_roundtrip_witness:
  "\<exists>t. get_driver_settings_string sample_settings 1000 True = (B_OK, int (length t), t) \<and>
    parse_settings (Some t) [] = Inr (B_OK, sample_settings, [])"
proof (rule settings_roundtrip)
  show "\<forall>p \<in> set sample_settings. printable 0 p"
    by (simp add: sample_settings_def good_word_def needs_quotes_def MAX_SETTINGS_LEVEL_def is_word_break_def isspace_def is_parameter_separator_def)
  show "\<forall>p \<in> set (butlast sample_settings). dp_parameters p \<noteq> []" by (simp add: sample_settings_def)
  show "int (length (settings_text sample_settings True)) < 1000"
    by (simp add: sample_settings_def settings_text_def core_text.simps quoted_string_def needs_quotes_def values_text_def equals_text_def
        indent_text_def end_text_def is_word_break_def isspace_def is_parameter_separator_def Let_def)
qed

text \<open>
  Without a parameter of its own the first of two parameters runs into the second one when they are printed, and a buffer that
  is as long as the text, without its final zero, is taken for long enough.
\<close>

lemma printed_parameters_merge:
  "get_driver_settings_string [Driver_Parameter ''a'' [''1''] [], Driver_Parameter ''b'' [''2''] []] 100 False = (B_OK, 6, ''a 1b 2'')"
  by (simp add: get_driver_settings_string_def put_level_space_def put_string_def put_char_def put_text_def quoted_string_def needs_quotes_def
      is_word_break_def isspace_def is_parameter_separator_def Let_def)

lemma printed_text_missing: "get_driver_settings_string [Driver_Parameter ''ab'' [] []] 2 False = (B_OK, 2, [])"
  by (simp add: get_driver_settings_string_def put_level_space_def put_string_def put_text_def quoted_string_def needs_quotes_def
      is_word_break_def isspace_def is_parameter_separator_def Let_def)

end
