(* ===== verification/Spec2Isabelle.thy ===== *)
theory Spec2Isabelle
  imports Fat_Properties Store_Properties Util_Properties Safety Long_Names Page_Properties Short_Names Format_Table Driver Settings_Text
begin

text \<open>
  A verification library for the FAT file system driver, \<open>src/src/add-ons/kernel/file_systems/fat\<close>.

  \<^bold>\<open>The program.\<close> The driver gives the kernel access to volumes with a FAT12, FAT16 or FAT32 file
  system. Its parts are layered: \<open>fat.c\<close> reads and changes the file allocation table, a table of
  12-, 16- or 28-bit numbers packed into the sectors at the start of the volume, of which there may
  be several copies; every file and directory is a chain of clusters linked through that table.
  \<open>iter.c\<close> walks along such a chain sector by sector and entry by entry. \<open>dir.c\<close> reads and changes
  directories, \<open>file.c\<close> has the operations on files and on the name space, \<open>dosfs.c\<close> mounts volumes
  and keeps the information about them, and \<open>attr.c\<close> serves the MIME type of a file as an attribute.
  Vnode ids have to stay the same while a file moves about; \<open>vcache.c\<close> maps the ids to the places of
  files and back, and \<open>dlist.c\<close> lists the ids of the directories that are known. \<open>util.c\<close> converts
  dates, \<open>encodings.cpp\<close> names between UTF-8, the 16-bit units of long names and code pages, and
  \<open>mkdos.cpp\<close> formats volumes.

  The kernel reads and writes the contents of files page by page: its file cache calls \<open>dosfs_read_pages\<close> and
  \<open>dosfs_write_pages\<close>, which ask the kernel's file map (\<open>src/src/system/kernel/cache/file_map.cpp\<close>) where the bytes are on the
  device and let the virtual file system (\<open>common_file_io_vec_pages\<close> of \<open>src/src/system/kernel/fs/vfs.cpp\<close>) move them. The file
  map in turn asks the driver, with \<open>dosfs_get_file_map\<close>, for what it does not know yet. These two pieces of the
  kernel are part of the model, and so is the parser of driver settings (\<open>src/src/system/libroot/os/driver_settings.cpp\<close>), whose results
  \<open>dosfs_mount\<close> uses.

  \<^bold>\<open>The model.\<close> All state is in one record, \<open>nspace\<close> (theory Volume), the C structure of the same
  name with the kernel's block cache and vnode table in it; every operation takes it and returns it.
  Integers have the width they have in C (\<open>uint32\<close> and so on are words); statuses and offsets, which
  never come near their limits, are integers. A pointer to a cached block is the number of the
  block, a pointer into one the number and an offset, a pointer to a vnode the id of the vnode. The
  field \<open>fault\<close> records that the C code would use \<open>NULL\<close> or an unset pointer, leave an array or never
  return; the field \<open>mem\<close> says which of the next allocations fail.

  \<^item> \<open>Fat_Prelude\<close>: types, status codes, little-endian numbers and facts about them.
  \<^item> \<open>Volume\<close>: the structures and macros of \<open>dosfs.h\<close>; the contract of the block cache.
  \<^item> \<open>Fat_Table\<close>: \<open>fat.c\<close>. \<open>_fat_ioctl_\<close> is cut into the parts of its loop body: \<open>ioctl_fat12\<close>,
    \<open>ioctl_fat16\<close>, \<open>ioctl_fat32\<close> (access to an entry), \<open>ioctl_dispatch\<close> (the action), \<open>ioctl_advance\<close>
    (the next cluster), \<open>ioctl_finish\<close> (from the label \<open>bi\<close>).
  \<^item> \<open>Fat_Spec\<close>, \<open>Fat_Entry\<close>, \<open>Fat_Ioctl\<close>: the table as a map from clusters to numbers, and what each
    of those parts does to it. \<open>Link_Table\<close>: chains over an abstract table of links, as a locale.
    \<open>Fat_Chain\<close>, \<open>Fat_Alloc\<close>, \<open>Fat_Mirror\<close>: the locale interpreted on the table of the volume, the
    allocator, the copies of the table. \<open>Sample_Volume\<close>: a volume for the witnesses.
    \<open>Fat_Properties\<close>: the properties of \<open>fat.c\<close>.
  \<^item> \<open>Vcache\<close>, \<open>Vcache_Properties\<close>: \<open>vcache.c\<close>, its invariant, and its refinement of a map in two
    directions, stated as a locale and interpreted on the model.
  \<^item> \<open>Dir_List\<close>: \<open>dlist.c\<close> and its refinement to lists. \<open>Dos_Util\<close>: \<open>util.c\<close>. \<open>Iter\<close>: \<open>iter.c\<close>.
  \<^item> \<open>Code_Pages\<close>, \<open>Encodings\<close>: the tables and the functions of \<open>encodings.cpp\<close>.
  \<^item> \<open>Environment\<close>: what the driver gets from elsewhere (MIME table, time zone, clock), as a parameter; \<open>write_vnode_entry\<close> and \<open>set_fat_chain_length\<close>.
  \<^item> \<open>Directory\<close>, \<open>Dir_Update\<close>, \<open>Dir_Ops\<close>: \<open>dir.c\<close>. \<open>File_Ops\<close>, \<open>Name_Ops\<close>: \<open>file.c\<close>.
    \<open>Fs_Info\<close>, \<open>Mount\<close>: \<open>dosfs.c\<close>. \<open>Attributes\<close>: \<open>attr.c\<close>.
  \<^item> \<open>Store_Properties\<close>, \<open>Util_Properties\<close>: the directory list as a list, the FSInfo sector, the vnode ids,
    the dates.
  \<^item> \<open>Reader\<close>: a locale for the operations that only read, from the table up to the name lookup,
    interpreted on what is on the disk and on the record of faults. \<open>Safety\<close>: the driver as a state
    machine over the requests of the kernel, those on pages, which reach the device, and unmounting included; a read-only volume
    and its device never change, reading changes nothing.
  \<^item> \<open>Dir_Entry\<close>, \<open>Long_Names\<close>: directory entries as bytes. What is written for a file is read back, the
    short entry and the entries of a long name; where the assembly of a long name stays within its
    array and where it does not.
  \<^item> \<open>Chain_Length\<close>: changing the length of a file's chain. \<open>File_Map\<close>: where the bytes of a file are on the
    device. \<open>Mount_Properties\<close>: which geometries are accepted at mount time
    (not only sane ones: the data area may start behind the end of the volume), and what becomes of the label.
  \<^item> \<open>Encoding_Properties\<close>, \<open>Short_Names\<close>: names survive the conversion to the units of a long name and back,
    and names for which a short name is enough are read back from it.
  \<^item> \<open>Mkdos\<close>: \<open>mkdos.cpp\<close>; a device is an \<open>image\<close>, and formatting is the list of its writes.
    \<open>Mkdos_Properties\<close>: a formatted volume of 8 KB to 2 TB can be mounted with the layout that was chosen. \<open>Format_Table\<close>: its table is sound and empty, except that
    a FAT16 table can be too small.

  \<^item> \<open>Extent_Map\<close>: \<open>file_map.cpp\<close>, the class \<open>FileMap\<close> with its array of extents and the functions that file systems call; the
    operation \<open>get_file_map\<close> of the file system is a parameter. \<open>Extent_Properties\<close>: the array as a list without gaps,
    the binary search, and the locale \<open>map_provider\<close>, the contract between a file map and a file system.
  \<^item> \<open>Page_IO\<close>: \<open>common_file_io_vec_pages\<close> and its callers in \<open>vfs.cpp\<close>, and the page operations of \<open>file.c\<close>; memory and device are
    functions from addresses to bytes. \<open>Page_Moves\<close>: what the loops move when no transfer fails. \<open>Page_Properties\<close>: the
    interpretation of \<open>map_provider\<close> on \<open>dosfs_get_file_map\<close>, the whole path of a page write and a page read, and two errors.
  \<^item> \<open>Driver_Settings\<close>: \<open>driver_settings.cpp\<close>, the parser and the printer of settings, the handles that the kernel keeps, and the lookup
    of values. \<open>Settings_Properties\<close>: parsing ends and stays inside the text; what becomes of settings that cannot be parsed.
    \<open>Settings_Text\<close>: printed settings are parsed to the same settings.
  \<^item> \<open>Driver\<close>: the entry points of \<open>dosfs.c\<close> around mounting: the driver settings, the lock of a removable device, scanning a
    partition, the module operations.

  \<^bold>\<open>Bounds.\<close> A loop of the code that ends for reasons outside the loop itself carries a bound as its
  first argument and records \<open>Endless_loop\<close> when the bound is used up: \<open>clear_fat_chain\<close> runs at most
  \<open>total_clusters + 2\<close> tests (shown to suffice on every table, cyclic ones included), \<open>count_clusters\<close>
  at most \<open>total_clusters\<close> rounds, and a scan of a directory at most as many rounds as the volume can
  hold directory entries (\<open>dir_fuel\<close>), so that only a cyclic chain of a directory, on which the C
  code does not return, uses the bound up. \<open>cache_loop\<close> and \<open>pages_loop\<close> carry as many rounds as there are bytes; each
  round that a sound file system answers takes one byte at least, so they never use the bound up. \<open>parse_parameters\<close>
  has one round more than the text has characters, which is shown to suffice for every text.

  The properties of file maps and pages are about files whose chain has less than 4 GB: the driver computes the length of a
  run of sectors in 32 bits (\<open>vector_length_wraps\<close> in \<open>File_Map\<close>). A file has less than 4 GB on every FAT volume, but its
  chain can have 4 GB exactly.

  \<^bold>\<open>Not modelled.\<close> Locks (every entry point holds the lock of the volume), debugging output, commands
  and assertions, notifications of node monitors, the contents
  of the kernel's file cache, where a settings file is found. The rest of the operating system is outside this library.
\<close>

end
